(* ===== verification/Prelude.thy ===== *)
theory Prelude
  imports Main "HOL-Library.List_Lexorder" "HOL-Library.Char_ord"
begin

section \<open>Prelude: exceptions, fallible computations, Python containers\<close>

text \<open>
  Shared by every component. A Python function that may raise is a HOL function into
  \<open>'a res = exn + 'a\<close>; a statement sequence is a chain of \<open>bindr\<close>, a list
  comprehension whose body may raise is \<open>mapr\<close>. An f-string message is kept with
  the strings and numbers it interpolates; where it interpolates an arbitrary document or a type, only
  its literal text is kept. Python's own \<open>TypeError\<close> is
  \<open>PyTypeError\<close>; \<open>Unmodelled\<close> marks an input outside the model (a number with a fraction,
  a character above 255); the class \<open>TypeError\<close> of \<open>kernel/typecheck.py\<close>, which shadows
  it there, is \<open>KernelTypeError\<close>, the name \<open>ledger/verifier.py\<close> imports it under.
\<close>

datatype exn =
    ValueError string
  | PyTypeError string
  | AttributeError string
  | KeyError string
  | ZeroDivisionError
  | InvalidOperation string
  | EvalError string
  | KernelTypeError string
  | TerminationError string
  | ProofError string
  | SpecError string
  | MutualRecursionError string
  | AuditError string
  | IntegrityError string
  | OverflowError string
  | FileNotFoundError string
  | ConstraintError string
  | AssertionError string
  | RuntimeError string
  | ValidationError string
  | Unmodelled string
  | OutOfFuel

type_synonym 'a res = "exn + 'a"

fun bindr :: "'e + 'a \<Rightarrow> ('a \<Rightarrow> 'e + 'b) \<Rightarrow> 'e + 'b" where
  "bindr (Inl e) f = Inl e"
| "bindr (Inr x) f = f x"

fun mapr :: "('a \<Rightarrow> 'b res) \<Rightarrow> 'a list \<Rightarrow> 'b list res" where
  "mapr f [] = Inr []"
| "mapr f (x # xs) = bindr (f x) (\<lambda>y. bindr (mapr f xs) (\<lambda>ys. Inr (y # ys)))"

definition guardr :: "bool \<Rightarrow> exn \<Rightarrow> unit res" where
  "guardr b e = (if b then Inr () else Inl e)"

text \<open>Facts about results: the simplification rules of a successful computation.\<close>

named_theorems res_simps

named_theorems inv_intros

lemma bindr_cong [fundef_cong]:
  "m = m' \<Longrightarrow> (\<And>x. m' = Inr x \<Longrightarrow> f x = g x) \<Longrightarrow> bindr m f = bindr m' g"
  by (cases m') auto

lemma mapr_cong [fundef_cong]:
  "xs = ys \<Longrightarrow> (\<And>x. x \<in> set ys \<Longrightarrow> f x = g x) \<Longrightarrow> mapr f xs = mapr g ys"
  by (induction ys arbitrary: xs) auto

lemma bindr_Inr_iff [simp, res_simps]: "bindr m f = Inr y \<longleftrightarrow> (\<exists>x. m = Inr x \<and> f x = Inr y)"
  by (cases m) auto

lemma bindrE: "bindr m f = Inr y \<Longrightarrow> (\<And>x. m = Inr x \<Longrightarrow> f x = Inr y \<Longrightarrow> P) \<Longrightarrow> P"
  by auto

lemma bindr_InlE:
  "bindr m f = Inl e \<Longrightarrow> (m = Inl e \<Longrightarrow> P) \<Longrightarrow> (\<And>x. m = Inr x \<Longrightarrow> f x = Inl e \<Longrightarrow> P) \<Longrightarrow> P"
  by (cases m) auto

lemma bindr_Inl_iff: "bindr m f = Inl e \<longleftrightarrow> m = Inl e \<or> (\<exists>x. m = Inr x \<and> f x = Inl e)"
  by (cases m) auto

lemma bindr_assoc: "bindr (bindr m f) g = bindr m (\<lambda>x. bindr (f x) g)"
  by (cases m) auto

lemma bindr_Inr_right [simp]: "bindr m Inr = m"
  by (cases m) auto

lemma guardr_Inr_iff [simp, res_simps]: "guardr b e = Inr u \<longleftrightarrow> b"
  by (simp add: guardr_def)

lemma guardr_Inl_iff [simp]: "guardr b e = Inl e' \<longleftrightarrow> \<not> b \<and> e' = e"
  by (auto simp: guardr_def)

lemma guardr_True [simp]: "guardr True e = Inr ()"
  by (simp add: guardr_def)

lemma guardr_False [simp]: "guardr False e = Inl e"
  by (simp add: guardr_def)

lemma mapr_Inr_iff: "mapr f xs = Inr ys \<longleftrightarrow> list_all2 (\<lambda>x y. f x = Inr y) xs ys"
  by (induction xs arbitrary: ys) (auto simp: list_all2_Cons1)

lemma mapr_Inr_length: "mapr f xs = Inr ys \<Longrightarrow> length ys = length xs"
  by (simp add: mapr_Inr_iff list_all2_lengthD)

lemma mapr_Inr_ex: "mapr f xs = Inr ys \<Longrightarrow> y \<in> set ys \<Longrightarrow> \<exists>x \<in> set xs. f x = Inr y"
  by (induction xs arbitrary: ys) auto

lemma mapr_Inl_iff:
  "mapr f xs = Inl e \<longleftrightarrow> (\<exists>i < length xs. f (xs ! i) = Inl e \<and> (\<forall>j < i. \<exists>y. f (xs ! j) = Inr y))"
proof (induction xs)
  case Nil
  then show ?case by simp
next
  case (Cons x xs)
  show ?case
  proof (cases "f x")
    case (Inl e')
    then show ?thesis by (force simp: nth_Cons' bindr_Inl_iff)
  next
    case (Inr y)
    then have "mapr f (x # xs) = Inl e \<longleftrightarrow> mapr f xs = Inl e"
      by (auto simp: bindr_Inl_iff)
    also have "\<dots> \<longleftrightarrow> (\<exists>i < length xs. f (xs ! i) = Inl e \<and> (\<forall>j < i. \<exists>y. f (xs ! j) = Inr y))"
      by (rule Cons.IH)
    also have "\<dots> \<longleftrightarrow> (\<exists>i < length (x # xs). f ((x # xs) ! i) = Inl e
        \<and> (\<forall>j < i. \<exists>y. f ((x # xs) ! j) = Inr y))"
    proof
      assume "\<exists>i < length xs. f (xs ! i) = Inl e \<and> (\<forall>j < i. \<exists>y. f (xs ! j) = Inr y)"
      then obtain i where "i < length xs" "f (xs ! i) = Inl e" "\<forall>j < i. \<exists>y. f (xs ! j) = Inr y"
        by blast
      with Inr show "\<exists>i < length (x # xs). f ((x # xs) ! i) = Inl e
          \<and> (\<forall>j < i. \<exists>y. f ((x # xs) ! j) = Inr y)"
        by (intro exI [of _ "Suc i"]) (auto simp: nth_Cons' less_Suc_eq_0_disj)
    next
      assume "\<exists>i < length (x # xs). f ((x # xs) ! i) = Inl e
          \<and> (\<forall>j < i. \<exists>y. f ((x # xs) ! j) = Inr y)"
      then obtain i where i: "i < length (x # xs)" "f ((x # xs) ! i) = Inl e"
        "\<forall>j < i. \<exists>y. f ((x # xs) ! j) = Inr y" by blast
      with Inr obtain k where "i = Suc k" by (cases i) auto
      with i show "\<exists>i < length xs. f (xs ! i) = Inl e \<and> (\<forall>j < i. \<exists>y. f (xs ! j) = Inr y)"
        by (intro exI [of _ k]) (auto dest: spec [of _ "Suc _"])
    qed
    finally show ?thesis .
  qed
qed

lemma mapr_Inl_ex: "mapr f xs = Inl e \<Longrightarrow> \<exists>x \<in> set xs. f x = Inl e"
  by (auto simp: mapr_Inl_iff)

lemma mapr_all_Inr: "(\<And>x. x \<in> set xs \<Longrightarrow> f x = Inr (g x)) \<Longrightarrow> mapr f xs = Inr (map g xs)"
  by (induction xs) auto

subsection \<open>Triples over fallible computations\<close>

text \<open>
  \<open>sat E P m\<close>: the computation either raises an exception of \<open>E\<close> or returns a value
  that satisfies \<open>P\<close>. The rules below are used backwards, along the source's sequence of
  statements.
\<close>

definition sat :: "exn set \<Rightarrow> ('a \<Rightarrow> bool) \<Rightarrow> 'a res \<Rightarrow> bool" where
  "sat E P m = (case m of Inl e \<Rightarrow> e \<in> E | Inr x \<Rightarrow> P x)"

lemma sat_Inl [simp]: "sat E P (Inl e) \<longleftrightarrow> e \<in> E"
  by (simp add: sat_def)

lemma sat_Inr [simp]: "sat E P (Inr x) \<longleftrightarrow> P x"
  by (simp add: sat_def)

lemma sat_bindI:
  "sat E Q m \<Longrightarrow> (\<And>x. m = Inr x \<Longrightarrow> Q x \<Longrightarrow> sat E P (f x)) \<Longrightarrow> sat E P (bindr m f)"
  by (cases m) auto

lemma sat_bind2I:
  "sat E Q m \<Longrightarrow> (\<And>x y. m = Inr (x, y) \<Longrightarrow> Q (x, y) \<Longrightarrow> sat E P (f (x, y)))
    \<Longrightarrow> sat E P (bindr m f)"
  by (cases m) auto

lemma sat_guard_bind [simp]:
  "sat E P (bindr (guardr b e) f) \<longleftrightarrow> (if b then sat E P (f ()) else e \<in> E)"
  by (simp add: guardr_def)

lemma sat_mono: "sat E P m \<Longrightarrow> E \<subseteq> E' \<Longrightarrow> (\<And>x. P x \<Longrightarrow> P' x) \<Longrightarrow> sat E' P' m"
  by (cases m) auto

lemma sat_InrD: "sat E P m \<Longrightarrow> m = Inr x \<Longrightarrow> P x"
  by simp

lemma sat_InlD: "sat E P m \<Longrightarrow> m = Inl e \<Longrightarrow> e \<in> E"
  by simp

subsection \<open>Python sequences\<close>

text \<open>\<open>xs[i]\<close>, with negative indices counted from the end; \<open>None\<close> is \<open>IndexError\<close>.\<close>

definition py_index :: "'a list \<Rightarrow> int \<Rightarrow> 'a option" where
  "py_index xs i =
     (let j = (if i < 0 then int (length xs) + i else i)
      in if 0 \<le> j \<and> j < int (length xs) then Some (xs ! nat j) else None)"

text \<open>\<open>xs.index(x)\<close>: the position of the first occurrence, \<open>None\<close> for \<open>ValueError\<close>.\<close>

fun list_index :: "'a list \<Rightarrow> 'a \<Rightarrow> nat option" where
  "list_index [] x = None"
| "list_index (y # ys) x = (if y = x then Some 0 else map_option Suc (list_index ys x))"

text \<open>The loop that inserts each element at the front of an empty list.\<close>

definition push_front_all :: "'a list \<Rightarrow> 'a list" where
  "push_front_all xs = fold (\<lambda>x env. x # env) xs []"

lemma push_front_all_rev [simp]: "push_front_all xs = rev xs"
proof -
  have "fold (\<lambda>x env. x # env) xs ys = rev xs @ ys" for ys
    by (induction xs arbitrary: ys) auto
  then show ?thesis by (simp add: push_front_all_def)
qed

text \<open>\<open>sep.join(parts)\<close>.\<close>

fun join :: "string \<Rightarrow> string list \<Rightarrow> string" where
  "join sep [] = []"
| "join sep [p] = p"
| "join sep (p # q # ps) = p @ sep @ join sep (q # ps)"

lemma join_Cons: "join sep (p # ps) = p @ (if ps = [] then [] else sep @ join sep ps)"
  by (cases ps) auto

lemma list_index_Some:
  "list_index xs x = Some i \<Longrightarrow> i < length xs \<and> xs ! i = x \<and> (\<forall>j < i. xs ! j \<noteq> x)"
proof (induction xs arbitrary: i)
  case Nil
  then show ?case by simp
next
  case (Cons y ys)
  show ?case
  proof (cases "y = x")
    case True
    with Cons.prems show ?thesis by simp
  next
    case False
    with Cons.prems obtain k where k: "list_index ys x = Some k" "i = Suc k" by auto
    from Cons.IH [OF k(1)] k(2) False show ?thesis
      by (auto simp: nth_Cons' less_Suc_eq_0_disj)
  qed
qed

lemma list_index_None: "list_index xs x = None \<longleftrightarrow> x \<notin> set xs"
  by (induction xs) auto

lemma list_index_nth: "distinct xs \<Longrightarrow> i < length xs \<Longrightarrow> list_index xs (xs ! i) = Some i"
proof (induction xs arbitrary: i)
  case Nil
  then show ?case by simp
next
  case (Cons y ys)
  then show ?case by (cases i) auto
qed

lemma py_index_of_nat [simp]:
  "py_index xs (int i) = (if i < length xs then Some (xs ! i) else None)"
  by (simp add: py_index_def)

lemma py_index_list_all2:
  assumes "list_all2 P xs ys" and "py_index ys i = Some y"
  shows "\<exists>x. py_index xs i = Some x \<and> P x y"
  using assms by (auto simp: py_index_def Let_def list_all2_lengthD list_all2_nthD split: if_splits)

lemma py_index_list_all2_None:
  "list_all2 P xs ys \<Longrightarrow> py_index xs i = None \<longleftrightarrow> py_index ys i = None"
  by (auto simp: py_index_def Let_def list_all2_lengthD split: if_splits)

end
