(* ===== verification/Json.thy ===== *)
theory Json
  imports Prelude
begin

section \<open>JSON documents as Python sees them\<close>

text \<open>
  The payloads, definitions and specs the ledger handles are \<open>json.loads\<close> results:
  \<open>None\<close>, \<open>bool\<close>, \<open>int\<close>, \<open>str\<close>, \<open>list\<close> and \<open>dict\<close>. A \<open>dict\<close> is an
  association list in insertion order with distinct keys. Numbers with a fraction or an
  exponent are outside the model: there is no constructor for them. A Python
  string is a list of characters with code points below 256.
\<close>

datatype json =
    JNull
  | JBool bool
  | JInt int
  | JStr string
  | JList "json list"
  | JObj "(string \<times> json) list"

subsection \<open>Reading a document\<close>

text \<open>\<open>d.get(k)\<close> where \<open>d\<close> is known to be a dict (a missing key reads as \<open>None\<close>).\<close>

fun jget :: "json \<Rightarrow> string \<Rightarrow> json" where
  "jget (JObj kvs) k = (case map_of kvs k of None \<Rightarrow> JNull | Some v \<Rightarrow> v)"
| "jget _ k = JNull"

fun is_obj :: "json \<Rightarrow> bool" where
  "is_obj (JObj kvs) = True"
| "is_obj _ = False"

fun is_str :: "json \<Rightarrow> bool" where
  "is_str (JStr s) = True"
| "is_str _ = False"

fun is_list :: "json \<Rightarrow> bool" where
  "is_list (JList xs) = True"
| "is_list _ = False"

fun is_bool :: "json \<Rightarrow> bool" where
  "is_bool (JBool b) = True"
| "is_bool _ = False"

text \<open>\<open>isinstance(v, int) and not isinstance(v, bool)\<close>.\<close>

fun is_int :: "json \<Rightarrow> bool" where
  "is_int (JInt i) = True"
| "is_int _ = False"

text \<open>\<open>isinstance(v, int)\<close> holds of booleans.\<close>

fun is_number :: "json \<Rightarrow> bool" where
  "is_number (JInt i) = True"
| "is_number (JBool b) = True"
| "is_number _ = False"

fun number_value :: "json \<Rightarrow> int" where
  "number_value (JInt i) = i"
| "number_value (JBool b) = (if b then 1 else 0)"
| "number_value _ = 0"

text \<open>\<open>d.get(k)\<close> where \<open>d\<close> may be anything: only a dict has the attribute.\<close>

definition jgetr :: "json \<Rightarrow> string \<Rightarrow> json res" where
  "jgetr j k = (if is_obj j then Inr (jget j k) else Inl (AttributeError ''get''))"

text \<open>\<open>bool(v)\<close>.\<close>

fun truthy :: "json \<Rightarrow> bool" where
  "truthy JNull = False"
| "truthy (JBool b) = b"
| "truthy (JInt i) = (i \<noteq> 0)"
| "truthy (JStr s) = (s \<noteq> [])"
| "truthy (JList xs) = (xs \<noteq> [])"
| "truthy (JObj kvs) = (kvs \<noteq> [])"

text \<open>\<open>v or d\<close>.\<close>

definition jor :: "json \<Rightarrow> json \<Rightarrow> json" where
  "jor v d = (if truthy v then v else d)"

text \<open>\<open>v == n\<close> for an int literal \<open>n\<close>: Python's \<open>True == 1\<close> and \<open>False == 0\<close>.\<close>

fun eq_int :: "json \<Rightarrow> int \<Rightarrow> bool" where
  "eq_int (JInt i) n = (i = n)"
| "eq_int (JBool b) n = ((if b then 1 else 0) = n)"
| "eq_int _ n = False"

text \<open>
  \<open>v in {...}\<close> for a set of strings, and every other use of a value as a dict key or
  set element: a list or a dict is unhashable.
\<close>

fun hashable :: "json \<Rightarrow> bool" where
  "hashable (JList xs) = False"
| "hashable (JObj kvs) = False"
| "hashable _ = True"

definition in_strs :: "json \<Rightarrow> string list \<Rightarrow> bool res" where
  "in_strs v ss =
     (if hashable v then Inr (\<exists>s \<in> set ss. v = JStr s) else Inl (PyTypeError ''unhashable type''))"

fun the_list :: "json \<Rightarrow> json list" where
  "the_list (JList xs) = xs"
| "the_list _ = []"

fun the_str :: "json \<Rightarrow> string" where
  "the_str (JStr s) = s"
| "the_str _ = []"

fun the_int :: "json \<Rightarrow> int" where
  "the_int (JInt i) = i"
| "the_int _ = 0"

text \<open>
  Iterating a value that is expected to be a list (\<open>for x in v\<close>): a dict iterates over
  its keys and a string over its characters; other values are not iterable.
\<close>

fun iter_json :: "json \<Rightarrow> json list res" where
  "iter_json (JList xs) = Inr xs"
| "iter_json (JObj kvs) = Inr (map (\<lambda>(k, v). JStr k) kvs)"
| "iter_json (JStr s) = Inr (map (\<lambda>c. JStr [c]) s)"
| "iter_json _ = Inl (PyTypeError ''object is not iterable'')"

subsection \<open>Facts for recursion over documents\<close>

lemma map_of_size:
  "map_of kvs k = Some v \<Longrightarrow> size v < Suc (size_list (size_prod (\<lambda>_. 0) size) kvs)"
  by (induction kvs) (auto split: if_splits)

lemma jget_size: "is_obj j \<Longrightarrow> size (jget j k) < size j"
proof (cases j)
  case (JObj kvs)
  show ?thesis
  proof (cases "map_of kvs k")
    case None
    with JObj show ?thesis by simp
  next
    case (Some v)
    with JObj map_of_size [OF Some] show ?thesis by simp
  qed
qed auto

lemma the_list_size: "x \<in> set (the_list j) \<Longrightarrow> size x < size j"
  by (cases j) (auto simp: less_Suc_eq_le size_list_estimation')

lemma jget_size_le: "size (jget j k) \<le> size j"
  by (cases "is_obj j") (auto intro: less_imp_le jget_size, cases j, auto)

lemma jget_jget_size: "is_obj j \<Longrightarrow> size (jget (jget j k) l) < size j"
  using jget_size_le [of "jget j k" l] jget_size [of j k] by simp

lemma jget_list_size: "is_obj j \<Longrightarrow> x \<in> set (the_list (jget j k)) \<Longrightarrow> size x < size j"
  using the_list_size [of x "jget j k"] jget_size [of j k] by simp

lemmas json_sizes [termination_simp] = jget_size jget_jget_size jget_list_size

lemma is_obj_iff: "is_obj j \<longleftrightarrow> (\<exists>kvs. j = JObj kvs)"
  by (cases j) auto

lemma is_str_iff: "is_str j \<longleftrightarrow> (\<exists>s. j = JStr s)"
  by (cases j) auto

lemma is_list_iff: "is_list j \<longleftrightarrow> (\<exists>xs. j = JList xs)"
  by (cases j) auto

lemma is_int_iff: "is_int j \<longleftrightarrow> (\<exists>i. j = JInt i)"
  by (cases j) auto

lemma is_bool_iff: "is_bool j \<longleftrightarrow> (\<exists>b. j = JBool b)"
  by (cases j) auto

lemmas is_json_iffs = is_obj_iff is_str_iff is_list_iff is_int_iff is_bool_iff

lemma jgetr_JObj [simp]: "jgetr (JObj kvs) k = Inr (jget (JObj kvs) k)"
  by (simp add: jgetr_def)

end
