(* ===== verification/Kernel_Types.thy ===== *)
theory Kernel_Types
  imports Json
begin

section \<open>Types of the kernel language (kernel/types.py)\<close>

text \<open>
  The type syntax, its JSON form, and the printed form \<open>type_norm\<close> that the ledger's
  type index is keyed by. Proved: parsing a printed JSON type gives the type back;
  \<open>type_norm\<close> tells types apart as long as no function type returns a function.
\<close>

datatype ktype =
    IntType
  | BoolType
  | ListType ktype
  | OptionType ktype
  | PairType ktype ktype
  | FunType "ktype list" ktype

fun type_from_json :: "json \<Rightarrow> ktype res" where
  "type_from_json obj =
     (if \<not> is_obj obj then Inl (ValueError ''type must be an object'')
      else let tag = jget obj ''tag'' in
        if tag = JStr ''int'' then Inr IntType
        else if tag = JStr ''bool'' then Inr BoolType
        else if tag = JStr ''list'' then
          bindr (type_from_json (jget obj ''of'')) (\<lambda>t. Inr (ListType t))
        else if tag = JStr ''option'' then
          bindr (type_from_json (jget obj ''of'')) (\<lambda>t. Inr (OptionType t))
        else if tag = JStr ''pair'' then
          bindr (type_from_json (jget obj ''left'')) (\<lambda>l.
          bindr (type_from_json (jget obj ''right'')) (\<lambda>r. Inr (PairType l r)))
        else if tag = JStr ''fun'' then
          let args = jget obj ''args'' in
            if \<not> is_list args \<or> the_list args = []
            then Inl (ValueError ''fun args must be a non-empty list'')
            else
              bindr (mapr type_from_json (the_list args)) (\<lambda>ts.
              bindr (type_from_json (jget obj ''ret'')) (\<lambda>r. Inr (FunType ts r)))
        else Inl (ValueError ''unknown type tag: ''))"

declare type_from_json.simps [simp del]

fun type_to_json :: "ktype \<Rightarrow> json" where
  "type_to_json IntType = JObj [(''tag'', JStr ''int'')]"
| "type_to_json BoolType = JObj [(''tag'', JStr ''bool'')]"
| "type_to_json (ListType t) = JObj [(''tag'', JStr ''list''), (''of'', type_to_json t)]"
| "type_to_json (OptionType t) = JObj [(''tag'', JStr ''option''), (''of'', type_to_json t)]"
| "type_to_json (PairType l r) =
     JObj [(''tag'', JStr ''pair''), (''left'', type_to_json l), (''right'', type_to_json r)]"
| "type_to_json (FunType ts r) =
     JObj [(''tag'', JStr ''fun''), (''args'', JList (map type_to_json ts)),
           (''ret'', type_to_json r)]"

fun type_norm_prec :: "ktype \<Rightarrow> nat \<Rightarrow> string" where
  "type_norm_prec IntType prec = ''Int''"
| "type_norm_prec BoolType prec = ''Bool''"
| "type_norm_prec (ListType t) prec = ''List['' @ type_norm_prec t 0 @ '']''"
| "type_norm_prec (OptionType t) prec = ''Option['' @ type_norm_prec t 0 @ '']''"
| "type_norm_prec (PairType l r) prec =
     ''Pair['' @ type_norm_prec l 0 @ '','' @ type_norm_prec r 0 @ '']''"
| "type_norm_prec (FunType ts r) prec =
     (let parts = map (\<lambda>t. type_norm_prec t 1) ts;
          ret = type_norm_prec r 0;
          text = join '' -> '' (parts @ [ret])
      in if prec > 0 then ''('' @ text @ '')'' else text)"

definition type_norm :: "ktype \<Rightarrow> string" where
  "type_norm t = type_norm_prec t 0"

definition ensure_type :: "ktype \<Rightarrow> ktype \<Rightarrow> unit res" where
  "ensure_type t expected = guardr (t = expected) (PyTypeError ''type mismatch in '')"

fun is_fun_type :: "ktype \<Rightarrow> bool" where
  "is_fun_type (FunType ts r) = True"
| "is_fun_type _ = False"

definition fun_type_from_params :: "ktype list \<Rightarrow> ktype \<Rightarrow> ktype" where
  "fun_type_from_params ps r = (if ps = [] then FunType [] r else FunType ps r)"

subsection \<open>JSON round trip\<close>

text \<open>The types \<open>type_from_json\<close> can produce: every function type takes an argument.\<close>

fun wf_type :: "ktype \<Rightarrow> bool" where
  "wf_type IntType = True"
| "wf_type BoolType = True"
| "wf_type (ListType t) = wf_type t"
| "wf_type (OptionType t) = wf_type t"
| "wf_type (PairType l r) = (wf_type l \<and> wf_type r)"
| "wf_type (FunType ts r) = (ts \<noteq> [] \<and> (\<forall>t \<in> set ts. wf_type t) \<and> wf_type r)"

lemma type_from_to_json: "wf_type t \<Longrightarrow> type_from_json (type_to_json t) = Inr t"
proof (induction t)
  case (FunType ts r)
  then have "mapr type_from_json (map type_to_json ts) = Inr ts"
    by (simp add: mapr_Inr_iff list_all2_conv_all_nth)
  with FunType show ?case by (simp add: type_from_json.simps [of "JObj kvs" for kvs])
qed (simp_all add: type_from_json.simps [of "JObj kvs" for kvs])

lemma type_from_json_ListD:
  "type_from_json j = Inr (ListType t) \<Longrightarrow> type_from_json (jget j ''of'') = Inr t"
  by (simp add: type_from_json.simps [of j] Let_def split: if_splits)

lemma type_from_json_OptionD:
  "type_from_json j = Inr (OptionType t) \<Longrightarrow> type_from_json (jget j ''of'') = Inr t"
  by (simp add: type_from_json.simps [of j] Let_def split: if_splits)

lemma type_from_json_PairD:
  "type_from_json j = Inr (PairType l r) \<Longrightarrow>
     type_from_json (jget j ''left'') = Inr l \<and> type_from_json (jget j ''right'') = Inr r"
  by (simp add: type_from_json.simps [of j] Let_def split: if_splits)

lemma type_from_json_FunD:
  "type_from_json j = Inr (FunType ts r) \<Longrightarrow>
     the_list (jget j ''args'') \<noteq> [] \<and> mapr type_from_json (the_list (jget j ''args'')) = Inr ts
     \<and> type_from_json (jget j ''ret'') = Inr r"
  by (simp add: type_from_json.simps [of j] Let_def split: if_splits)

lemma type_from_json_wf: "type_from_json j = Inr t \<Longrightarrow> wf_type t"
proof (induction t arbitrary: j)
  case (FunType ts r)
  note D = type_from_json_FunD [OF FunType.prems]
  then have "ts \<noteq> []" by (auto simp: mapr_Inr_iff)
  moreover have "wf_type t" if "t \<in> set ts" for t
    using mapr_Inr_ex [OF _ that] D FunType.IH(1) [OF that] by blast
  ultimately show ?case using D FunType.IH(2) by auto
next
  case (ListType t)
  then show ?case by (auto dest: type_from_json_ListD)
next
  case (OptionType t)
  then show ?case by (auto dest: type_from_json_OptionD)
next
  case (PairType l r)
  from type_from_json_PairD [OF PairType.prems] PairType.IH show ?case by auto
qed simp_all

lemma type_to_json_idem: "type_from_json j = Inr t \<Longrightarrow> type_from_json (type_to_json t) = Inr t"
  by (blast intro: type_from_to_json type_from_json_wf)

subsection \<open>The printed form as an index key\<close>

text \<open>
  No function type returns a function, and none is without arguments. On such types the
  printed form determines the type; \<open>type_norm_curried\<close> shows why the restriction is needed.
\<close>

fun flat_type :: "ktype \<Rightarrow> bool" where
  "flat_type IntType = True"
| "flat_type BoolType = True"
| "flat_type (ListType t) = flat_type t"
| "flat_type (OptionType t) = flat_type t"
| "flat_type (PairType l r) = (flat_type l \<and> flat_type r)"
| "flat_type (FunType ts r) =
     (ts \<noteq> [] \<and> (\<forall>t \<in> set ts. flat_type t) \<and> flat_type r \<and> \<not> is_fun_type r)"

lemma type_norm_curried:
  "type_norm (FunType [a] (FunType [b] c)) = type_norm (FunType [a, b] c)"
  by (simp add: type_norm_def)

text \<open>What may follow a printed type: at the outer level a closing character or a comma,
  at argument level also the arrow.\<close>

definition delim0 :: "string \<Rightarrow> bool" where
  "delim0 s \<longleftrightarrow> s = [] \<or> hd s \<in> {CHR '']'', CHR '','', CHR '')''}"

definition delim1 :: "string \<Rightarrow> bool" where
  "delim1 s \<longleftrightarrow> delim0 s \<or> hd s = CHR '' ''"

lemma delim0_Cons [simp]: "delim0 (c # s) \<longleftrightarrow> c \<in> {CHR '']'', CHR '','', CHR '')''}"
  by (simp add: delim0_def)

lemma delim1_Cons [simp]:
  "delim1 (c # s) \<longleftrightarrow> c \<in> {CHR '']'', CHR '','', CHR '')'', CHR '' ''}"
  by (auto simp: delim1_def)

lemma delim1_if_delim0: "delim0 s \<Longrightarrow> delim1 s"
  by (simp add: delim1_def)

lemma type_norm_prec_nonfun: "\<not> is_fun_type t \<Longrightarrow> type_norm_prec t p = type_norm_prec t 1"
  by (cases t) auto

lemma type_norm_prec_fun0:
  "\<not> is_fun_type r \<Longrightarrow>
     type_norm_prec (FunType ts r) 0
     = join '' -> '' (map (\<lambda>t. type_norm_prec t 1) (ts @ [r]))"
  by (simp add: type_norm_prec_nonfun [of r 0])

lemma type_norm_prec_fun1:
  "type_norm_prec (FunType ts r) (Suc 0) = ''('' @ type_norm_prec (FunType ts r) 0 @ '')''"
  by (simp add: Let_def)

definition decodes0 :: "ktype \<Rightarrow> bool" where
  "decodes0 t \<longleftrightarrow> (\<forall>u r s. flat_type u \<longrightarrow> delim0 r \<longrightarrow> delim0 s \<longrightarrow>
     type_norm_prec t 0 @ r = type_norm_prec u 0 @ s \<longrightarrow> t = u \<and> r = s)"

definition decodes1 :: "ktype \<Rightarrow> bool" where
  "decodes1 t \<longleftrightarrow> (\<forall>u r s. flat_type u \<longrightarrow> delim1 r \<longrightarrow> delim1 s \<longrightarrow>
     type_norm_prec t 1 @ r = type_norm_prec u 1 @ s \<longrightarrow> t = u \<and> r = s)"

lemma decodes0D:
  "decodes0 t \<Longrightarrow> flat_type u \<Longrightarrow> type_norm_prec t 0 @ r = type_norm_prec u 0 @ s \<Longrightarrow>
     delim0 r \<Longrightarrow> delim0 s \<Longrightarrow> t = u \<and> r = s"
  unfolding decodes0_def by blast

lemma decodes1D:
  "decodes1 t \<Longrightarrow> flat_type u \<Longrightarrow> type_norm_prec t 1 @ r = type_norm_prec u 1 @ s \<Longrightarrow>
     delim1 r \<Longrightarrow> delim1 s \<Longrightarrow> t = u \<and> r = s"
  unfolding decodes1_def by blast

lemma join_decodes:
  assumes "\<forall>x \<in> set xs. decodes1 x" "\<forall>y \<in> set ys. flat_type y" "xs \<noteq> []" "ys \<noteq> []"
    and "join '' -> '' (map (\<lambda>t. type_norm_prec t 1) xs) @ r
       = join '' -> '' (map (\<lambda>t. type_norm_prec t 1) ys) @ s"
    and "delim0 r" "delim0 s"
  shows "xs = ys \<and> r = s"
  using assms
proof (induction xs arbitrary: ys)
  case Nil
  then show ?case by simp
next
  case (Cons x xs)
  then obtain y zs where ys: "ys = y # zs" by (cases ys) auto
  let ?j = "\<lambda>us. if us = [] then [] else '' -> '' @ join '' -> '' (map (\<lambda>t. type_norm_prec t 1) us)"
  have eq: "type_norm_prec x 1 @ (?j xs @ r) = type_norm_prec y 1 @ (?j zs @ s)"
    using Cons.prems(5) by (simp add: ys join_Cons split: if_splits)
  have "delim1 (?j xs @ r)" "delim1 (?j zs @ s)"
    using Cons.prems(6,7) by (auto intro: delim1_if_delim0)
  with eq Cons.prems ys have xy: "x = y" and rest: "?j xs @ r = ?j zs @ s"
    using decodes1D [OF _ _ eq] by auto
  show ?case
  proof (cases "xs = [] \<or> zs = []")
    case True
    with rest Cons.prems(6,7) xy ys show ?thesis by (auto split: if_splits)
  next
    case False
    with rest Cons.prems xy ys show ?thesis
      using Cons.IH [of zs] by auto
  qed
qed

lemma decodes_nonfun:
  assumes "\<not> is_fun_type t" and "decodes1 t"
  shows "decodes0 t"
  unfolding decodes0_def
proof (intro allI impI)
  fix u r s
  assume u: "flat_type u" and r: "delim0 r" and s: "delim0 s"
    and eq: "type_norm_prec t 0 @ r = type_norm_prec u 0 @ s"
  have t1: "type_norm_prec t 0 = type_norm_prec t 1"
    using assms(1) by (rule type_norm_prec_nonfun)
  show "t = u \<and> r = s"
  proof (cases "is_fun_type u")
    case True
    then obtain ts v where FunType: "u = FunType ts v" by (cases u) auto
    with u obtain a as where ts: "ts = a # as" by (cases ts) auto
    from u FunType have "type_norm_prec u 0
        = type_norm_prec a 1 @ '' -> '' @ join '' -> '' (map (\<lambda>t. type_norm_prec t 1) (as @ [v]))"
      by (simp add: type_norm_prec_fun0 ts join_Cons del: type_norm_prec.simps)
    with eq t1 have "type_norm_prec t 1 @ r = type_norm_prec a 1
        @ ('' -> '' @ join '' -> '' (map (\<lambda>t. type_norm_prec t 1) (as @ [v])) @ s)"
      by (simp del: type_norm_prec.simps)
    from decodes1D [OF assms(2) _ this] u FunType ts r have "r = '' -> ''
        @ join '' -> '' (map (\<lambda>t. type_norm_prec t 1) (as @ [v])) @ s"
      by (simp add: delim1_if_delim0 del: type_norm_prec.simps)
    with r show ?thesis by simp
  next
    case False
    then have "type_norm_prec u 0 = type_norm_prec u 1" by (rule type_norm_prec_nonfun)
    with eq t1 have "type_norm_prec t 1 @ r = type_norm_prec u 1 @ s" by simp
    from decodes1D [OF assms(2) u this] r s show ?thesis by (simp add: delim1_if_delim0)
  qed
qed

lemma decodes0_fun:
  assumes ts: "\<forall>t \<in> set ts. decodes1 t" "ts \<noteq> []" and v: "decodes1 v" "\<not> is_fun_type v"
  shows "decodes0 (FunType ts v)"
  unfolding decodes0_def
proof (intro allI impI)
  fix u r s
  assume u: "flat_type u" and r: "delim0 r" and s: "delim0 s"
    and eq: "type_norm_prec (FunType ts v) 0 @ r = type_norm_prec u 0 @ s"
  let ?J = "\<lambda>us. join '' -> '' (map (\<lambda>t. type_norm_prec t 1) us)"
  have eq1: "?J (ts @ [v]) @ r = type_norm_prec u 0 @ s"
    using eq type_norm_prec_fun0 [OF v(2)] by simp
  obtain a as where a: "ts = a # as" using ts(2) by (cases ts) auto
  show "FunType ts v = u \<and> r = s"
  proof (cases "is_fun_type u")
    case True
    then obtain us w where U: "u = FunType us w" by (cases u) auto
    with u have "type_norm_prec u 0 = ?J (us @ [w])" using type_norm_prec_fun0 [of w us] by simp
    with eq1 have "?J (ts @ [v]) @ r = ?J (us @ [w]) @ s" by simp
    from join_decodes [OF _ _ _ _ this r s] ts v u U show ?thesis by auto
  next
    case False
    then have "type_norm_prec u 0 = type_norm_prec u 1" by (rule type_norm_prec_nonfun)
    with eq1 a have "type_norm_prec a 1 @ ('' -> '' @ ?J (as @ [v]) @ r)
        = type_norm_prec u 1 @ s"
      by (simp add: join_Cons)
    from decodes1D [OF _ u this] ts(1) a s have "s = '' -> '' @ ?J (as @ [v]) @ r"
      by (simp add: delim1_if_delim0)
    with s show ?thesis by simp
  qed
qed

lemma decodes1_fun:
  assumes "decodes0 (FunType ts v)"
  shows "decodes1 (FunType ts v)"
  unfolding decodes1_def
proof (intro allI impI)
  fix u r s
  assume u: "flat_type u"
    and eq: "type_norm_prec (FunType ts v) 1 @ r = type_norm_prec u 1 @ s"
  from eq obtain us w where U: "u = FunType us w"
    by (cases u) (auto simp: type_norm_prec_fun1 simp del: type_norm_prec.simps(6))
  from eq have "type_norm_prec (FunType ts v) 0 @ ('')'' @ r) = type_norm_prec u 0 @ ('')'' @ s)"
    unfolding U One_nat_def type_norm_prec_fun1 by simp
  from decodes0D [OF assms u this] show "FunType ts v = u \<and> r = s" by simp
qed

lemma flat_decodes: "flat_type t \<Longrightarrow> decodes0 t \<and> decodes1 t"
proof (induction t)
  case (ListType t)
  have "decodes1 (ListType t)"
    unfolding decodes1_def
  proof (intro allI impI)
    fix u r s
    assume u: "flat_type u" and eq: "type_norm_prec (ListType t) 1 @ r = type_norm_prec u 1 @ s"
    then obtain t' where U: "u = ListType t'" by (cases u) (simp_all add: Let_def)
    from eq have "type_norm_prec t 0 @ ('']'' @ r) = type_norm_prec t' 0 @ ('']'' @ s)"
      unfolding U by simp
    from decodes0D [OF _ _ this] ListType u U show "ListType t = u \<and> r = s" by simp
  qed
  then show ?case using decodes_nonfun by simp
next
  case (OptionType t)
  have "decodes1 (OptionType t)"
    unfolding decodes1_def
  proof (intro allI impI)
    fix u r s
    assume u: "flat_type u" and eq: "type_norm_prec (OptionType t) 1 @ r = type_norm_prec u 1 @ s"
    then obtain t' where U: "u = OptionType t'" by (cases u) (simp_all add: Let_def)
    from eq have "type_norm_prec t 0 @ ('']'' @ r) = type_norm_prec t' 0 @ ('']'' @ s)"
      unfolding U by simp
    from decodes0D [OF _ _ this] OptionType u U show "OptionType t = u \<and> r = s" by simp
  qed
  then show ?case using decodes_nonfun by simp
next
  case (PairType a b)
  have "decodes1 (PairType a b)"
    unfolding decodes1_def
  proof (intro allI impI)
    fix u r s
    assume u: "flat_type u" and eq: "type_norm_prec (PairType a b) 1 @ r = type_norm_prec u 1 @ s"
    then obtain c d where U: "u = PairType c d" by (cases u) (simp_all add: Let_def)
    from eq have "type_norm_prec a 0 @ ('','' @ type_norm_prec b 0 @ '']'' @ r)
        = type_norm_prec c 0 @ ('','' @ type_norm_prec d 0 @ '']'' @ s)"
      unfolding U by simp
    from decodes0D [OF _ _ this] PairType u U have "a = c"
      and "type_norm_prec b 0 @ ('']'' @ r) = type_norm_prec d 0 @ ('']'' @ s)" by auto
    moreover from decodes0D [OF _ _ this(2)] PairType u U have "b = d \<and> r = s" by auto
    ultimately show "PairType a b = u \<and> r = s" using U by simp
  qed
  then show ?case using decodes_nonfun by simp
next
  case (FunType ts v)
  then show ?case using decodes0_fun decodes1_fun by simp
next
  case IntType
  have "decodes1 IntType"
    unfolding decodes1_def
    by (intro allI impI, case_tac u) (simp_all add: Let_def)
  then show ?case using decodes_nonfun by simp
next
  case BoolType
  have "decodes1 BoolType"
    unfolding decodes1_def
    by (intro allI impI, case_tac u) (simp_all add: Let_def)
  then show ?case using decodes_nonfun by simp
qed

lemma type_norm_inj_on_flat: "flat_type t \<Longrightarrow> flat_type u \<Longrightarrow> type_norm t = type_norm u \<Longrightarrow> t = u"
  using decodes0D [of t u "[]" "[]"] flat_decodes [of t] by (simp add: type_norm_def delim0_def)

end
