(* ===== verification/Kernel_Ast.thy ===== *)
theory Kernel_Ast
  imports Kernel_Types
begin

section \<open>Terms and definitions (kernel/ast.py, kernel/cost.py)\<close>

text \<open>
  The abstract syntax the parser builds and the node counts the ledger charges for. A
  \<open>Var\<close> holds a de Bruijn index, an \<open>int\<close> as in the source; \<open>Prim\<close> holds whatever
  JSON value stood under \<open>op\<close>, since the parser does not check it. Constructors whose
  names are HOL's own carry a \<open>T\<close>.
\<close>

datatype kterm =
    Var int
  | Sym string
  | IntLit int
  | BoolLit bool
  | NilT
  | ConsT kterm kterm
  | OptionNone
  | OptionSome kterm
  | MatchOption kterm kterm kterm
  | PairT kterm kterm
  | Fst kterm
  | Snd kterm
  | IfT kterm kterm kterm
  | App kterm "kterm list"
  | Prim json "kterm list"
  | MatchList kterm kterm kterm

record param =
  p_name :: string
  p_typ :: ktype

record termination_info =
  t_kind :: json
  t_decreases :: json

record kdef =
  d_name :: string
  d_params :: "param list"
  d_ret :: ktype
  d_body :: kterm
  d_term :: termination_info

subsection \<open>Cost\<close>

fun count_term_nodes :: "kterm \<Rightarrow> int" where
  "count_term_nodes (OptionSome v) = 1 + count_term_nodes v"
| "count_term_nodes (ConsT h t) = 1 + count_term_nodes h + count_term_nodes t"
| "count_term_nodes (PairT l r) = 1 + count_term_nodes l + count_term_nodes r"
| "count_term_nodes (Fst p) = 1 + count_term_nodes p"
| "count_term_nodes (Snd p) = 1 + count_term_nodes p"
| "count_term_nodes (IfT c t e) =
     1 + count_term_nodes c + count_term_nodes t + count_term_nodes e"
| "count_term_nodes (App f args) = 1 + count_term_nodes f + sum_list (map count_term_nodes args)"
| "count_term_nodes (Prim op args) = 1 + sum_list (map count_term_nodes args)"
| "count_term_nodes (MatchList s n c) =
     1 + count_term_nodes s + count_term_nodes n + count_term_nodes c"
| "count_term_nodes (MatchOption s n b) =
     1 + count_term_nodes s + count_term_nodes n + count_term_nodes b"
| "count_term_nodes _ = 1"

fun count_type_nodes :: "ktype \<Rightarrow> int" where
  "count_type_nodes IntType = 1"
| "count_type_nodes BoolType = 1"
| "count_type_nodes (ListType t) = 1 + count_type_nodes t"
| "count_type_nodes (OptionType t) = 1 + count_type_nodes t"
| "count_type_nodes (PairType l r) = 1 + count_type_nodes l + count_type_nodes r"
| "count_type_nodes (FunType ts r) =
     1 + sum_list (map count_type_nodes ts) + count_type_nodes r"

lemma count_term_nodes_pos: "0 < count_term_nodes t"
proof (induction t rule: count_term_nodes.induct)
  case (7 f args)
  then have "0 \<le> sum_list (map count_term_nodes args)"
    by (intro sum_list_nonneg) (auto intro: less_imp_le)
  with 7 show ?case by simp
next
  case (8 op args)
  then have "0 \<le> sum_list (map count_term_nodes args)"
    by (intro sum_list_nonneg) (auto intro: less_imp_le)
  then show ?case by simp
qed auto

subsection \<open>Scoping\<close>

text \<open>Every variable of the term is bound: \<open>n\<close> entries of the environment are in scope.\<close>

fun scoped :: "nat \<Rightarrow> kterm \<Rightarrow> bool" where
  "scoped n (Var i) = (0 \<le> i \<and> i < int n)"
| "scoped n (ConsT h t) = (scoped n h \<and> scoped n t)"
| "scoped n (OptionSome v) = scoped n v"
| "scoped n (MatchOption s e b) = (scoped n s \<and> scoped n e \<and> scoped (Suc n) b)"
| "scoped n (PairT l r) = (scoped n l \<and> scoped n r)"
| "scoped n (Fst p) = scoped n p"
| "scoped n (Snd p) = scoped n p"
| "scoped n (IfT c t e) = (scoped n c \<and> scoped n t \<and> scoped n e)"
| "scoped n (App f args) = (scoped n f \<and> (\<forall>a \<in> set args. scoped n a))"
| "scoped n (Prim op args) = (\<forall>a \<in> set args. scoped n a)"
| "scoped n (MatchList s e c) = (scoped n s \<and> scoped n e \<and> scoped (Suc (Suc n)) c)"
| "scoped n _ = True"

end
