(* ===== verification/Kernel_Parse.thy ===== *)
theory Kernel_Parse
  imports Kernel_Ast
begin

section \<open>From JSON to terms (kernel/parse.py)\<close>

text \<open>
  \<open>parse_term\<close> resolves names against the environment, innermost binder first, to de
  Bruijn indices. The environment holds the names as they stood in the document: only
  strings when \<open>parse_definition\<close> built it, anything hashable when \<open>kernel/canon.py\<close> did.
  Proved here: what it returns is well scoped, and so is the body of
  every parsed definition, whose parameter names are distinct.
\<close>

fun parse_term :: "json \<Rightarrow> json list \<Rightarrow> kterm res" where
  "parse_term node env =
     (if \<not> is_obj node then Inl (ValueError ''term must be an object'')
      else let tag = jget node ''tag'' in
        if tag = JStr ''var'' then
          let name = jget node ''name'' in
            if \<not> is_str name then Inl (ValueError ''var name must be a string'')
            else (case list_index env name of
                None \<Rightarrow> Inl (ValueError (''unbound var: '' @ the_str name))
              | Some i \<Rightarrow> Inr (Var (int i)))
        else if tag = JStr ''sym'' then
          let name = jget node ''name'' in
            if \<not> is_str name then Inl (ValueError ''sym name must be a string'')
            else Inr (Sym (the_str name))
        else if tag = JStr ''int'' then
          let value = jget node ''value'' in
            if \<not> is_int value then Inl (ValueError ''int literal must be an int'')
            else Inr (IntLit (the_int value))
        else if tag = JStr ''bool'' then
          let value = jget node ''value'' in
            if \<not> is_bool value then Inl (ValueError ''bool literal must be a bool'')
            else Inr (BoolLit (truthy value))
        else if tag = JStr ''nil'' then Inr NilT
        else if tag = JStr ''none'' then Inr OptionNone
        else if tag = JStr ''some'' then
          bindr (parse_term (jget node ''value'') env) (\<lambda>v. Inr (OptionSome v))
        else if tag = JStr ''cons'' then
          bindr (parse_term (jget node ''head'') env) (\<lambda>h.
          bindr (parse_term (jget node ''tail'') env) (\<lambda>t. Inr (ConsT h t)))
        else if tag = JStr ''if'' then
          bindr (parse_term (jget node ''cond'') env) (\<lambda>c.
          bindr (parse_term (jget node ''then'') env) (\<lambda>t.
          bindr (parse_term (jget node ''else'') env) (\<lambda>e. Inr (IfT c t e))))
        else if tag = JStr ''app'' then
          let args = jget node ''args'' in
            if \<not> is_list args then Inl (ValueError ''app args must be a list'')
            else
              bindr (parse_term (jget node ''fn'') env) (\<lambda>f.
              bindr (mapr (\<lambda>arg. parse_term arg env) (the_list args)) (\<lambda>as. Inr (App f as)))
        else if tag = JStr ''prim'' then
          let args = jget node ''args'' in
            if \<not> is_list args then Inl (ValueError ''prim args must be a list'')
            else
              bindr (mapr (\<lambda>arg. parse_term arg env) (the_list args)) (\<lambda>as.
                Inr (Prim (jget node ''op'') as))
        else if tag = JStr ''pair'' then
          bindr (parse_term (jget node ''left'') env) (\<lambda>l.
          bindr (parse_term (jget node ''right'') env) (\<lambda>r. Inr (PairT l r)))
        else if tag = JStr ''fst'' then
          bindr (parse_term (jget node ''pair'') env) (\<lambda>p. Inr (Fst p))
        else if tag = JStr ''snd'' then
          bindr (parse_term (jget node ''pair'') env) (\<lambda>p. Inr (Snd p))
        else if tag = JStr ''match_list'' then
          let cons_case = jget node ''cons_case'' in
            if \<not> is_obj cons_case then Inl (ValueError ''cons_case must be an object'')
            else let head_var = jget cons_case ''head_var''; tail_var = jget cons_case ''tail_var'' in
              if \<not> is_str head_var \<or> \<not> is_str tail_var
              then Inl (ValueError ''cons_case head_var/tail_var must be strings'')
              else if the_str head_var = the_str tail_var
              then Inl (ValueError ''cons_case head_var/tail_var must differ'')
              else
                bindr (parse_term (jget node ''scrutinee'') env) (\<lambda>s.
                bindr (parse_term (jget node ''nil_case'') env) (\<lambda>n.
                bindr (parse_term (jget (jget node ''cons_case'') ''body'')
                         ([tail_var, head_var] @ env)) (\<lambda>c.
                Inr (MatchList s n c))))
        else if tag = JStr ''match_option'' then
          let some_case = jget node ''some_case'' in
            if \<not> is_obj some_case then Inl (ValueError ''some_case must be an object'')
            else let some_var = jget some_case ''var'' in
              if \<not> is_str some_var then Inl (ValueError ''some_case var must be a string'')
              else
                bindr (parse_term (jget node ''scrutinee'') env) (\<lambda>s.
                bindr (parse_term (jget node ''none_case'') env) (\<lambda>n.
                bindr (parse_term (jget (jget node ''some_case'') ''body'') ([some_var] @ env)) (\<lambda>b.
                Inr (MatchOption s n b))))
        else Inl (ValueError ''unknown term tag: ''))"

declare parse_term.simps [simp del]

fun parse_params :: "json list \<Rightarrow> param list \<Rightarrow> json list \<Rightarrow> json list
    \<Rightarrow> (param list \<times> json list) res" where
  "parse_params [] params env seen = Inr (params, env)"
| "parse_params (p # ps) params env seen =
     bindr (jgetr p ''name'') (\<lambda>pname.
       if \<not> is_str pname then Inl (ValueError ''param name must be a string'')
       else if pname \<in> set seen then Inl (ValueError ''duplicate param name'')
       else
         bindr (type_from_json (jget p ''type'')) (\<lambda>ptype.
           parse_params ps (params @ [\<lparr>p_name = the_str pname, p_typ = ptype\<rparr>])
             (pname # env) (pname # seen)))"

definition parse_definition :: "json \<Rightarrow> kdef res" where
  "parse_definition defn =
     bindr (jgetr defn ''name'') (\<lambda>name.
     if \<not> is_str name then Inl (ValueError ''definition name must be a string'')
     else let params_raw = jor (jget defn ''params'') (JList []) in
       if \<not> is_list params_raw then Inl (ValueError ''params must be a list'')
       else
         bindr (parse_params (the_list params_raw) [] [] []) (\<lambda>(params, env).
         bindr (type_from_json (jget defn ''ret_type'')) (\<lambda>ret_type.
         bindr (parse_term (jget defn ''body'') env) (\<lambda>body.
         let term_raw = jor (jget defn ''termination'') (JObj []) in
         bindr (jgetr term_raw ''kind'') (\<lambda>kind.
         bindr (jgetr term_raw ''decreases_param'') (\<lambda>dec.
           Inr \<lparr>d_name = the_str name, d_params = params, d_ret = ret_type, d_body = body,
                d_term = \<lparr>t_kind = kind, t_decreases = dec\<rparr>\<rparr>))))))"

fun parse_vars :: "json list \<Rightarrow> json list \<Rightarrow> ktype list \<Rightarrow> json list
    \<Rightarrow> (json list \<times> ktype list) res" where
  "parse_vars [] env types seen = Inr (env, types)"
| "parse_vars (v # vs) env types seen =
     bindr (jgetr v ''name'') (\<lambda>name.
       if \<not> is_str name then Inl (ValueError ''spec var name must be a string'')
       else if name \<in> set seen then Inl (ValueError ''duplicate spec var name'')
       else
         bindr (type_from_json (jget v ''type'')) (\<lambda>t.
           parse_vars vs (name # env) (types @ [t]) (name # seen)))"

definition parse_specs_vars :: "json list \<Rightarrow> (json list \<times> ktype list) res" where
  "parse_specs_vars vars_list = parse_vars vars_list [] [] []"

subsection \<open>Scoping of the result\<close>

lemma parse_term_scoped: "parse_term node env = Inr t \<Longrightarrow> scoped (length env) t"
proof (induction t arbitrary: node env)
  case (Var i)
  then show ?case
    by (auto simp: parse_term.simps [of node] Let_def dest: list_index_Some
      split: if_splits option.splits)
next
  case (App f as)
  from App.prems have "parse_term (jget node ''fn'') env = Inr f"
    and as: "mapr (\<lambda>a. parse_term a env) (the_list (jget node ''args'')) = Inr as"
    by (simp_all add: parse_term.simps [of node] Let_def split: if_splits option.splits)
  moreover from App.IH(2) mapr_Inr_ex [OF as] have "\<forall>a \<in> set as. scoped (length env) a" by blast
  ultimately show ?case using App.IH(1) by auto
next
  case (Prim op as)
  from Prim.prems have as: "mapr (\<lambda>a. parse_term a env) (the_list (jget node ''args'')) = Inr as"
    by (simp add: parse_term.simps [of node] Let_def split: if_splits option.splits)
  from Prim.IH mapr_Inr_ex [OF as] have "\<forall>a \<in> set as. scoped (length env) a" by blast
  then show ?case by simp
next
  case (MatchList s n c)
  from MatchList.prems obtain h t where "parse_term (jget node ''scrutinee'') env = Inr s"
    "parse_term (jget node ''nil_case'') env = Inr n"
    "parse_term (jget (jget node ''cons_case'') ''body'') ([t, h] @ env) = Inr c"
    by (simp add: parse_term.simps [of node] Let_def split: if_splits option.splits) blast
  from MatchList.IH(1) [OF this(1)] MatchList.IH(2) [OF this(2)] MatchList.IH(3) [OF this(3)]
  show ?case by simp
next
  case (MatchOption s n b)
  from MatchOption.prems obtain v where "parse_term (jget node ''scrutinee'') env = Inr s"
    "parse_term (jget node ''none_case'') env = Inr n"
    "parse_term (jget (jget node ''some_case'') ''body'') ([v] @ env) = Inr b"
    by (simp add: parse_term.simps [of node] Let_def split: if_splits option.splits) blast
  from MatchOption.IH(1) [OF this(1)] MatchOption.IH(2) [OF this(2)] MatchOption.IH(3) [OF this(3)]
  show ?case by simp
next
  case (ConsT h t)
  from ConsT.prems have "parse_term (jget node ''head'') env = Inr h"
    "parse_term (jget node ''tail'') env = Inr t"
    by (simp_all add: parse_term.simps [of node] Let_def split: if_splits option.splits)
  with ConsT.IH show ?case by auto
next
  case (PairT l r)
  from PairT.prems have "parse_term (jget node ''left'') env = Inr l"
    "parse_term (jget node ''right'') env = Inr r"
    by (simp_all add: parse_term.simps [of node] Let_def split: if_splits option.splits)
  with PairT.IH show ?case by auto
next
  case (IfT c t e)
  from IfT.prems have "parse_term (jget node ''cond'') env = Inr c"
    "parse_term (jget node ''then'') env = Inr t" "parse_term (jget node ''else'') env = Inr e"
    by (simp_all add: parse_term.simps [of node] Let_def split: if_splits option.splits)
  with IfT.IH show ?case by auto
next
  case (OptionSome v)
  from OptionSome.prems have "parse_term (jget node ''value'') env = Inr v"
    by (simp add: parse_term.simps [of node] Let_def split: if_splits option.splits)
  with OptionSome.IH show ?case by auto
next
  case (Fst p)
  from Fst.prems have "parse_term (jget node ''pair'') env = Inr p"
    by (simp add: parse_term.simps [of node] Let_def split: if_splits option.splits)
  with Fst.IH show ?case by auto
next
  case (Snd p)
  from Snd.prems have "parse_term (jget node ''pair'') env = Inr p"
    by (simp add: parse_term.simps [of node] Let_def split: if_splits option.splits)
  with Snd.IH show ?case by auto
qed simp_all

lemma parse_params_env:
  assumes "parse_params ps params env seen = Inr (params', env')"
    and "map (\<lambda>p. JStr (p_name p)) params = rev env" and "set seen = set env" and "distinct env"
  shows "map (\<lambda>p. JStr (p_name p)) params' = rev env' \<and> distinct env'
    \<and> length env' = length env + length ps"
  using assms
proof (induction ps arbitrary: params env seen)
  case Nil
  then show ?case by simp
next
  case (Cons p ps)
  from Cons.prems(1) obtain n t where n: "JStr n \<notin> set seen"
    and rest: "parse_params ps (params @ [\<lparr>p_name = n, p_typ = t\<rparr>]) (JStr n # env) (JStr n # seen)
      = Inr (params', env')"
    by (auto simp: is_str_iff split: if_splits)
  from Cons.IH [OF rest] Cons.prems n show ?case by simp
qed

lemma parse_definition_wf:
  assumes "parse_definition j = Inr d"
  shows "distinct (map p_name (d_params d)) \<and> scoped (length (d_params d)) (d_body d)
    \<and> wf_type (d_ret d)"
proof -
  from assms obtain ps env ret body where
    pp: "parse_params (the_list (jor (jget j ''params'') (JList []))) [] [] [] = Inr (ps, env)"
    and ret: "type_from_json (jget j ''ret_type'') = Inr ret"
    and body: "parse_term (jget j ''body'') env = Inr body"
    and d: "d_params d = ps" "d_ret d = ret" "d_body d = body"
    by (auto simp: parse_definition_def Let_def split: if_splits)
  from parse_params_env [OF pp] have env: "map (\<lambda>p. JStr (p_name p)) ps = rev env" "distinct env"
    by auto
  then have "length env = length ps" by (metis length_map length_rev)
  moreover from env have "distinct (map (\<lambda>p. JStr (p_name p)) ps)" by simp
  then have "distinct (map p_name ps)" by (auto simp: distinct_map inj_on_def)
  ultimately show ?thesis
    using parse_term_scoped [OF body] type_from_json_wf [OF ret] d by simp
qed

end
