(* ===== verification/Kernel_Typecheck.thy ===== *)
theory Kernel_Typecheck
  imports Kernel_Parse
begin

section \<open>The type checker (kernel/typecheck.py)\<close>

text \<open>
  \<open>typecheck_term\<close> infers a type, pushing an optional expected type inwards. The value
  it returns need not be the expected type: a variable, a symbol, a literal and a
  primitive report their own type, and it is for the caller to compare the two.
  \<open>typecheck_definition\<close> hands that value to its callers, which discard it; see
  \<open>typecheck_ignores_ret_type\<close>.
\<close>

type_synonym sym_types = "string \<Rightarrow> ktype option"

definition tc_ensure :: "ktype \<Rightarrow> ktype \<Rightarrow> unit res" where
  "tc_ensure actual expected = guardr (actual = expected) (KernelTypeError ''type mismatch in '')"

text \<open>The signature table of \<open>_typecheck_prim\<close>: argument types and result.\<close>

definition prim_sig :: "json \<Rightarrow> (ktype list \<times> ktype) option" where
  "prim_sig op =
     (if op \<in> {JStr ''add'', JStr ''sub'', JStr ''mul'', JStr ''mod''}
      then Some ([IntType, IntType], IntType)
      else if op \<in> {JStr ''eq_int'', JStr ''lt_int'', JStr ''le_int''}
      then Some ([IntType, IntType], BoolType)
      else if op \<in> {JStr ''and'', JStr ''or''} then Some ([BoolType, BoolType], BoolType)
      else if op = JStr ''not'' then Some ([BoolType], BoolType)
      else None)"

fun typecheck_term :: "kterm \<Rightarrow> ktype list \<Rightarrow> sym_types \<Rightarrow> ktype option \<Rightarrow> ktype res"
and typecheck_args :: "kterm list \<Rightarrow> ktype list \<Rightarrow> ktype list \<Rightarrow> sym_types \<Rightarrow> unit res" where
  "typecheck_term (Var i) env ST ex =
     (case py_index env i of
        None \<Rightarrow> Inl (KernelTypeError ''var index out of range'')
      | Some t \<Rightarrow> Inr t)"
| "typecheck_term (Sym name) env ST ex =
     (case ST name of None \<Rightarrow> Inl (KernelTypeError (''unknown symbol: '' @ name)) | Some t \<Rightarrow> Inr t)"
| "typecheck_term (IntLit v) env ST ex = Inr IntType"
| "typecheck_term (BoolLit v) env ST ex = Inr BoolType"
| "typecheck_term NilT env ST ex =
     (case ex of
        None \<Rightarrow> Inl (KernelTypeError ''cannot infer type for nil'')
      | Some (ListType e) \<Rightarrow> Inr (ListType e)
      | Some _ \<Rightarrow> Inl (KernelTypeError ''nil must be a list''))"
| "typecheck_term OptionNone env ST ex =
     (case ex of
        None \<Rightarrow> Inl (KernelTypeError ''cannot infer type for none'')
      | Some (OptionType e) \<Rightarrow> Inr (OptionType e)
      | Some _ \<Rightarrow> Inl (KernelTypeError ''none must be an option''))"
| "typecheck_term (OptionSome v) env ST ex =
     (case ex of
        Some (OptionType e) \<Rightarrow>
          bindr (typecheck_term v env ST (Some e)) (\<lambda>t.
          bindr (tc_ensure t e) (\<lambda>_. Inr (OptionType e)))
      | _ \<Rightarrow> bindr (typecheck_term v env ST None) (\<lambda>t. Inr (OptionType t)))"
| "typecheck_term (ConsT h t) env ST ex =
     (case ex of
        Some (ListType e) \<Rightarrow>
          bindr (typecheck_term h env ST (Some e)) (\<lambda>th.
          bindr (typecheck_term t env ST (Some (ListType e))) (\<lambda>tt.
          bindr (tc_ensure th e) (\<lambda>_.
          bindr (tc_ensure tt (ListType e)) (\<lambda>_. Inr (ListType e)))))
      | _ \<Rightarrow>
          bindr (typecheck_term h env ST None) (\<lambda>th.
          bindr (typecheck_term t env ST (Some (ListType th))) (\<lambda>tt.
          bindr (tc_ensure tt (ListType th)) (\<lambda>_. Inr (ListType th)))))"
| "typecheck_term (IfT c t e) env ST ex =
     bindr (typecheck_term c env ST None) (\<lambda>tc.
     bindr (tc_ensure tc BoolType) (\<lambda>_.
     case ex of
       Some x \<Rightarrow>
         bindr (typecheck_term t env ST (Some x)) (\<lambda>tt.
         bindr (typecheck_term e env ST (Some x)) (\<lambda>te.
         bindr (tc_ensure tt x) (\<lambda>_.
         bindr (tc_ensure te x) (\<lambda>_. Inr x))))
     | None \<Rightarrow>
         bindr (typecheck_term t env ST None) (\<lambda>tt.
         bindr (typecheck_term e env ST (Some tt)) (\<lambda>te.
         bindr (tc_ensure te tt) (\<lambda>_. Inr tt)))))"
| "typecheck_term (Prim op args) env ST ex =
     (if \<not> hashable op then Inl (PyTypeError ''unhashable type'')
      else case prim_sig op of
        None \<Rightarrow> Inl (KernelTypeError ''unknown prim op: '')
      | Some (ts, r) \<Rightarrow>
          if length args \<noteq> length ts then Inl (KernelTypeError ''prim arity mismatch'')
          else bindr (typecheck_args args ts env ST) (\<lambda>_. Inr r))"
| "typecheck_term (PairT l r) env ST ex =
     (case ex of
        Some (PairType el er) \<Rightarrow>
          bindr (typecheck_term l env ST (Some el)) (\<lambda>tl.
          bindr (typecheck_term r env ST (Some er)) (\<lambda>tr.
          bindr (tc_ensure tl el) (\<lambda>_.
          bindr (tc_ensure tr er) (\<lambda>_. Inr (PairType el er)))))
      | _ \<Rightarrow>
          bindr (typecheck_term l env ST None) (\<lambda>tl.
          bindr (typecheck_term r env ST None) (\<lambda>tr. Inr (PairType tl tr))))"
| "typecheck_term (Fst p) env ST ex =
     bindr (typecheck_term p env ST None) (\<lambda>tp.
     case tp of
       PairType l r \<Rightarrow>
         (case ex of
            Some x \<Rightarrow> bindr (tc_ensure l x) (\<lambda>_. Inr x)
          | None \<Rightarrow> Inr l)
     | _ \<Rightarrow> Inl (KernelTypeError ''fst expects a pair''))"
| "typecheck_term (Snd p) env ST ex =
     bindr (typecheck_term p env ST None) (\<lambda>tp.
     case tp of
       PairType l r \<Rightarrow>
         (case ex of
            Some x \<Rightarrow> bindr (tc_ensure r x) (\<lambda>_. Inr x)
          | None \<Rightarrow> Inr r)
     | _ \<Rightarrow> Inl (KernelTypeError ''snd expects a pair''))"
| "typecheck_term (App f args) env ST ex =
     bindr (typecheck_term f env ST None) (\<lambda>tf.
     case tf of
       FunType ts r \<Rightarrow>
         if length ts \<noteq> length args then Inl (KernelTypeError ''arity mismatch'')
         else bindr (typecheck_args args ts env ST) (\<lambda>_.
           case ex of
             Some x \<Rightarrow> bindr (tc_ensure r x) (\<lambda>_. Inr x)
           | None \<Rightarrow> Inr r)
     | _ \<Rightarrow> Inl (KernelTypeError ''attempt to apply non-function''))"
| "typecheck_term (MatchList s n c) env ST ex =
     bindr (typecheck_term s env ST None) (\<lambda>ts.
     case ts of
       ListType e \<Rightarrow>
         (case ex of
            Some x \<Rightarrow>
              bindr (typecheck_term n env ST (Some x)) (\<lambda>tn.
              bindr (typecheck_term c ([ListType e, e] @ env) ST (Some x)) (\<lambda>tc.
              bindr (tc_ensure tn x) (\<lambda>_.
              bindr (tc_ensure tc x) (\<lambda>_. Inr x))))
          | None \<Rightarrow>
              bindr (typecheck_term n env ST None) (\<lambda>tn.
              bindr (typecheck_term c ([ListType e, e] @ env) ST (Some tn)) (\<lambda>tc.
              bindr (tc_ensure tc tn) (\<lambda>_. Inr tn))))
     | _ \<Rightarrow> Inl (KernelTypeError ''match_list scrutinee must be list''))"
| "typecheck_term (MatchOption s n b) env ST ex =
     bindr (typecheck_term s env ST None) (\<lambda>ts.
     case ts of
       OptionType e \<Rightarrow>
         (case ex of
            Some x \<Rightarrow>
              bindr (typecheck_term n env ST (Some x)) (\<lambda>tn.
              bindr (typecheck_term b ([e] @ env) ST (Some x)) (\<lambda>tb.
              bindr (tc_ensure tn x) (\<lambda>_.
              bindr (tc_ensure tb x) (\<lambda>_. Inr x))))
          | None \<Rightarrow>
              bindr (typecheck_term n env ST None) (\<lambda>tn.
              bindr (typecheck_term b ([e] @ env) ST (Some tn)) (\<lambda>tb.
              bindr (tc_ensure tb tn) (\<lambda>_. Inr tn))))
     | _ \<Rightarrow> Inl (KernelTypeError ''match_option scrutinee must be option''))"
| "typecheck_args [] ts env ST = Inr ()"
| "typecheck_args (a # as) [] env ST = Inr ()"
| "typecheck_args (a # as) (t # ts) env ST =
     bindr (typecheck_term a env ST (Some t)) (\<lambda>ta.
     bindr (tc_ensure ta t) (\<lambda>_. typecheck_args as ts env ST))"

definition typecheck_definition :: "kdef \<Rightarrow> sym_types \<Rightarrow> ktype res" where
  "typecheck_definition d ST =
     typecheck_term (d_body d) (push_front_all (map p_typ (d_params d))) ST (Some (d_ret d))"

lemma tc_ensure_Inr [simp]: "tc_ensure a e = Inr u \<longleftrightarrow> a = e"
  by (simp add: tc_ensure_def)

subsection \<open>The expected type only guides inference\<close>

text \<open>
  Against an expected type the checker either returns exactly it, or the term is one of
  those whose type does not depend on it.
\<close>

fun reports_own_type :: "kterm \<Rightarrow> bool" where
  "reports_own_type (Var i) = True"
| "reports_own_type (Sym n) = True"
| "reports_own_type (IntLit v) = True"
| "reports_own_type (BoolLit v) = True"
| "reports_own_type (Prim op args) = True"
| "reports_own_type (OptionSome v) = True"
| "reports_own_type (ConsT h t) = True"
| "reports_own_type (PairT l r) = True"
| "reports_own_type _ = False"

lemma typecheck_expected:
  "typecheck_term t env ST (Some x) = Inr y \<Longrightarrow> \<not> reports_own_type t \<Longrightarrow> y = x"
  by (cases t) (auto elim!: bindrE split: ktype.split_asm if_split_asm simp del: bindr_Inr_iff)

text \<open>A definition that promises a \<open>Bool\<close> and returns an \<open>Int\<close> passes the checker.\<close>

lemma typecheck_ignores_ret_type:
  "d_body d = IntLit v \<Longrightarrow> typecheck_definition d ST = Inr IntType"
  by (simp add: typecheck_definition_def)

end
