(* ===== verification/Kernel_Eval_Props.thy ===== *)
theory Kernel_Eval_Props
  imports Kernel_Eval
begin

section \<open>The step counter, fuel and determinism of the evaluator\<close>

text \<open>
  The counter only grows and never passes the limit; one unit of fuel more than the
  steps left is enough; a result does not depend on the fuel, nor on the limit as long
  as the limit covers the steps taken.
\<close>

lemmas eval_splits = val.split_asm list.split_asm option.split_asm if_split_asm prod.split_asm

text \<open>
  Every fact below is an induction on the fuel alone: with the fact for \<open>eval_term\<close> at
  fuel \<open>n\<close>, the other three functions at fuel \<open>n\<close> follow, then \<open>eval_term\<close> at \<open>Suc n\<close>.
  \<open>counts_up\<close> is the fact about the counter and the fuel.
\<close>

abbreviation no_fuel_error :: "exn set" where
  "no_fuel_error \<equiv> - {OutOfFuel}"

definition counts_up :: "int \<Rightarrow> int \<Rightarrow> ('a \<times> int) res \<Rightarrow> bool" where
  "counts_up L s m = sat no_fuel_error (\<lambda>(v, s'). s \<le> s' \<and> s' \<le> L) m"

lemma counts_up_bind:
  "counts_up L s m \<Longrightarrow> (\<And>v s'. m = Inr (v, s') \<Longrightarrow> s \<le> s' \<Longrightarrow> s' \<le> L \<Longrightarrow> counts_up L s' (f (v, s')))
    \<Longrightarrow> counts_up L s (bindr m f)"
  unfolding counts_up_def
  by (cases m) (auto elim!: sat_mono)

lemma counts_up_Inr [simp]: "counts_up L s (Inr (v, s')) \<longleftrightarrow> s \<le> s' \<and> s' \<le> L"
  by (simp add: counts_up_def)

lemma counts_up_Inl [simp]: "counts_up L s (Inl e) \<longleftrightarrow> e \<noteq> OutOfFuel"
  by (simp add: counts_up_def)

lemma eval_prim_no_fuel: "counts_up L s (bindr (eval_prim op vs) (\<lambda>v. Inr (v, s)))
    \<longleftrightarrow> s \<le> L \<or> (\<exists>e. eval_prim op vs = Inl e)"
proof -
  have int: "get_int v \<noteq> Inl OutOfFuel" and bool: "get_bool v \<noteq> Inl OutOfFuel" for v
    by (cases v; simp)+
  have "eval_prim op vs \<noteq> Inl OutOfFuel"
    by (simp add: eval_prim_def two_ints_def require_arity_def bindr_Inl_iff int bool)
  then show ?thesis by (cases "eval_prim op vs") auto
qed

lemma eval_args_counts_up:
  assumes "\<And>t env s. L - s < int n \<Longrightarrow> s \<le> L \<Longrightarrow> counts_up L s (eval_term n L D t env s)"
    and "L - s < int n" "s \<le> L"
  shows "counts_up L s (eval_args n L D ts env s)"
  using assms(2,3)
  by (induction ts arbitrary: s) (auto intro!: counts_up_bind assms(1))

lemma eval_apply_counts_up:
  assumes "\<And>t env s. L - s < int n \<Longrightarrow> s \<le> L \<Longrightarrow> counts_up L s (eval_term n L D t env s)"
    and "L - s < int n" "s \<le> L"
  shows "counts_up L s (eval_apply n L D f args s)"
  using assms(2,3) by (cases f) (auto intro!: assms(1) split: option.split)

lemma eval_body_counts_up:
  assumes IH: "\<And>t env s. L - s < int n \<Longrightarrow> s \<le> L \<Longrightarrow> counts_up L s (eval_term n L D t env s)"
    and "L - s < int n" "s \<le> L"
  shows "counts_up L s (eval_body n L D t env s)"
  using assms(2,3)
  by (cases t) (auto intro!: counts_up_bind IH eval_args_counts_up [OF IH] eval_apply_counts_up [OF IH]
      simp: eval_prim_no_fuel split: val.split list.split option.split)

lemma eval_term_counts_up:
  "L - s < int n \<Longrightarrow> s \<le> L \<Longrightarrow> counts_up L s (eval_term n L D t env s)"
proof (induction n arbitrary: t env s)
  case 0
  then show ?case by simp
next
  case (Suc n)
  have "counts_up L (s + 1) (eval_body n L D t env (s + 1))" if "s + 1 \<le> L"
    using that Suc.prems by (intro eval_body_counts_up Suc.IH) auto
  then have "counts_up L s (eval_body n L D t env (s + 1))" if "s + 1 \<le> L"
    using that sat_mono unfolding counts_up_def by fastforce
  then show ?case by simp
qed

text \<open>Fuel beyond the steps left is never used up.\<close>

lemma eval_enough_fuel:
  assumes "L - s < int n" "0 < n"
  shows "eval_term n L D t env s \<noteq> Inl OutOfFuel"
proof (cases "s \<le> L")
  case True
  from eval_term_counts_up [OF assms(1) this, of D t env] show ?thesis by auto
next
  case False
  with assms(2) show ?thesis by (cases n) auto
qed

lemma eval_counter:
  "eval_term n L D t env s = Inr (v, s') \<Longrightarrow> s < s' \<and> s' \<le> L"
  "eval_body n L D t env s = Inr (v, s') \<Longrightarrow> s \<le> L \<Longrightarrow> s \<le> s' \<and> s' \<le> L"
  "eval_args n L D ts env s = Inr (vs, s') \<Longrightarrow> s \<le> L \<Longrightarrow> s \<le> s' \<and> s' \<le> L"
  "eval_apply n L D f args s = Inr (v, s') \<Longrightarrow> s \<le> L \<Longrightarrow> s \<le> s' \<and> s' \<le> L"
proof (induction n L D t env s and n L D t env s and n L D ts env s and n L D f args s
    arbitrary: v s' and v s' and vs s' and v s'
    rule: eval_term_eval_body_eval_args_eval_apply.induct)
qed (fastforce elim!: bindrE split: eval_splits simp del: bindr_Inr_iff)+

text \<open>A result stays the same with more fuel and with any limit that covers its steps.\<close>

lemma eval_args_stable:
  assumes IH: "\<And>t env s v s'. eval_term n L D t env s = Inr (v, s') \<Longrightarrow> s' \<le> L' \<Longrightarrow>
      eval_term m L' D t env s = Inr (v, s')"
  shows "eval_args n L D ts env s = Inr (vs, s') \<Longrightarrow> s \<le> L \<Longrightarrow> s' \<le> L' \<Longrightarrow>
    eval_args m L' D ts env s = Inr (vs, s')"
proof (induction ts arbitrary: s vs)
  case Nil
  then show ?case by simp
next
  case (Cons t ts)
  from Cons.prems(1) obtain v s1 us where
    1: "eval_term n L D t env s = Inr (v, s1)" "eval_args n L D ts env s1 = Inr (us, s')" "vs = v # us"
    by auto
  from eval_counter(1) [OF 1(1)] have s1: "s1 \<le> L" by simp
  from eval_counter(3) [OF 1(2) s1] Cons.prems(3) have "s1 \<le> L'" by simp
  from IH [OF 1(1) this] Cons.IH [OF 1(2) s1 Cons.prems(3)] 1(3) show ?case by simp
qed

lemma eval_body_stable:
  assumes IH: "\<And>t env s v s'. eval_term n L D t env s = Inr (v, s') \<Longrightarrow> s' \<le> L' \<Longrightarrow>
      eval_term m L' D t env s = Inr (v, s')"
    and ev: "eval_body n L D t env s = Inr (v, s')" and s: "s \<le> L" "s' \<le> L'"
  shows "eval_body m L' D t env s = Inr (v, s')"
proof -
  have apply_ok: "eval_apply m L' D f args s1 = Inr (v, s')"
    if "eval_apply n L D f args s1 = Inr (v, s')" for f args s1
    using that s(2) by (cases f) (auto intro!: IH split: option.splits if_splits)
  have le: "s1 \<le> L' \<and> s1 \<le> L" if "eval_term n L D t1 env1 s0 = Inr (v1, s1)" "s1 \<le> s'" for t1 env1 s0 v1 s1
    using eval_counter(1) [OF that(1)] that(2) s(2) by simp
  have IH': "eval_term m L' D t1 env1 s0 = Inr (v1, s1)"
    if "eval_term n L D t1 env1 s0 = Inr (v1, s1)" "s1 \<le> s'" for t1 env1 s0 v1 s1
    using IH [OF that(1)] le [OF that] by simp
  have two: "eval_term m L' D t1 env1 s0 = Inr (v1, s1) \<and> eval_term m L' D t2 env2 s1 = Inr (v2, s')"
    if "eval_term n L D t1 env1 s0 = Inr (v1, s1)" "eval_term n L D t2 env2 s1 = Inr (v2, s')"
    for t1 env1 s0 v1 s1 t2 env2 v2
    using IH' [OF that(1)] IH' [OF that(2)] eval_counter(1) [OF that(2)] by simp
  have one: "eval_term m L' D t1 env1 s0 = Inr (v1, s')"
    if "eval_term n L D t1 env1 s0 = Inr (v1, s')" for t1 env1 s0 v1
    using IH' [OF that] by simp
  have args_ok: "eval_args m L' D ts env1 s0 = Inr (vs, s1)"
    if "eval_args n L D ts env1 s0 = Inr (vs, s1)" "s0 \<le> L" "s1 \<le> s'" for ts env1 s0 vs s1
    using eval_args_stable [OF IH that(1,2)] that(3) s(2) by simp
  show ?thesis
  proof (cases t)
    case (App f args)
    with ev obtain vf s1 vs s2 where 1: "eval_term n L D f env s = Inr (vf, s1)"
      "eval_args n L D args env s1 = Inr (vs, s2)" "eval_apply n L D vf vs s2 = Inr (v, s')"
      by auto
    from eval_counter(1) [OF 1(1)] have "s1 \<le> L" by simp
    from eval_counter(3) [OF 1(2) this] eval_counter(4) [OF 1(3)] \<open>s1 \<le> L\<close>
    have "s1 \<le> s'" "s2 \<le> s'" by auto
    with IH' [OF 1(1)] args_ok [OF 1(2) \<open>s1 \<le> L\<close>] apply_ok [OF 1(3)] App show ?thesis by simp
  next
    case (Prim op args)
    with ev s args_ok show ?thesis by fastforce
  qed (use ev in \<open>fastforce elim!: bindrE dest: one two split: eval_splits simp del: bindr_Inr_iff\<close>)+
qed

lemma eval_term_stable:
  "eval_term n L D t env s = Inr (v, s') \<Longrightarrow> n \<le> m \<Longrightarrow> s' \<le> L' \<Longrightarrow>
    eval_term m L' D t env s = Inr (v, s')"
proof (induction n arbitrary: m t env s v s')
  case 0
  then show ?case by simp
next
  case (Suc n)
  then obtain k where m: "m = Suc k" and k: "n \<le> k" by (cases m) auto
  from Suc.prems(1) have L: "s + 1 \<le> L" and b: "eval_body n L D t env (s + 1) = Inr (v, s')"
    by (auto split: if_splits)
  have IH: "eval_term k L' D t env s = Inr (v, s')"
    if "eval_term n L D t env s = Inr (v, s')" "s' \<le> L'" for t env s v s'
    using Suc.IH [OF that(1) k that(2)] .
  from eval_body_stable [OF IH b L Suc.prems(3)] have "eval_body k L' D t env (s + 1) = Inr (v, s')" .
  moreover from eval_counter(2) [OF b L] Suc.prems(3) have "s + 1 \<le> L'" by simp
  ultimately show ?case using m by simp
qed

subsection \<open>The public entry point\<close>

lemma run_eval_total: "run_eval L D t env \<noteq> Inl OutOfFuel"
proof -
  have "eval_term (Suc (nat L)) L D t env 0 \<noteq> Inl OutOfFuel"
    by (rule eval_enough_fuel) auto
  then show ?thesis by (auto simp: run_eval_def bindr_Inl_iff split: prod.splits)
qed

text \<open>Enlarging the step limit never changes an answer, it can only turn the step-limit
  exception into one.\<close>

lemma run_eval_mono:
  assumes "run_eval L D t env = Inr v" and "L \<le> L'"
  shows "run_eval L' D t env = Inr v"
proof -
  from assms(1) obtain s where s: "eval_term (Suc (nat L)) L D t env 0 = Inr (v, s)"
    by (auto simp: run_eval_def)
  from eval_counter(1) [OF s] assms(2) have "s \<le> L'" by simp
  from eval_term_stable [OF s _ this, of "Suc (nat L')"] assms(2) show ?thesis
    by (simp add: run_eval_def)
qed

lemma run_eval_nonpos: "L \<le> 0 \<Longrightarrow> run_eval L D t env = Inl (EvalError ''evaluation exceeded step limit'')"
  by (simp add: run_eval_def)

end
