(* ===== verification/Kernel_Terminate.thy ===== *)
theory Kernel_Terminate
  imports Kernel_Eval_Props
begin

section \<open>The structural recursion checker (kernel/terminate.py)\<close>

text \<open>
  \<open>check_termination\<close> with its two local functions \<open>walk\<close>. The walk of the recursive case
  threads the nonlocal flag \<open>found_recursive\<close>. As in the source, it does not visit the
  scrutinee of a \<open>MatchList\<close>.
\<close>

fun has_rec_walk :: "string \<Rightarrow> kterm \<Rightarrow> bool" where
  "has_rec_walk name (App f args) =
     (if f = Sym name then True
      else has_rec_walk name f \<or> (\<exists>a \<in> set args. has_rec_walk name a))"
| "has_rec_walk name (MatchList s n c) =
     (has_rec_walk name n \<or> has_rec_walk name c \<or> has_rec_walk name s)"
| "has_rec_walk name (MatchOption s n b) =
     (has_rec_walk name s \<or> has_rec_walk name n \<or> has_rec_walk name b)"
| "has_rec_walk name (IfT c t e) =
     (has_rec_walk name c \<or> has_rec_walk name t \<or> has_rec_walk name e)"
| "has_rec_walk name (ConsT h t) = (has_rec_walk name h \<or> has_rec_walk name t)"
| "has_rec_walk name (OptionSome v) = has_rec_walk name v"
| "has_rec_walk name (PairT l r) = (has_rec_walk name l \<or> has_rec_walk name r)"
| "has_rec_walk name (Fst p) = has_rec_walk name p"
| "has_rec_walk name (Snd p) = has_rec_walk name p"
| "has_rec_walk name (Prim op args) = (\<exists>a \<in> set args. has_rec_walk name a)"
| "has_rec_walk name _ = False"

definition has_recursive_call :: "kdef \<Rightarrow> bool" where
  "has_recursive_call d = has_rec_walk (d_name d) (d_body d)"

definition shift :: "int option \<Rightarrow> int \<Rightarrow> int option" where
  "shift idx delta = map_option (\<lambda>i. i + delta) idx"

text \<open>The test at the head of \<open>walk\<close> for a call of the definition itself.\<close>

definition check_self_call :: "nat \<Rightarrow> kterm list \<Rightarrow> int option \<Rightarrow> bool res" where
  "check_self_call dec_pos args allowed =
     (case allowed of
        None \<Rightarrow> Inl (TerminationError ''recursive call must be under structural match'')
      | Some k \<Rightarrow>
          if dec_pos \<ge> length args then Inl (TerminationError ''recursive call arity mismatch'')
          else if args ! dec_pos \<noteq> Var k
          then Inl (TerminationError ''recursive call does not use structural tail'')
          else Inr True)"

fun term_walk :: "string \<Rightarrow> nat \<Rightarrow> kterm \<Rightarrow> int \<Rightarrow> int option \<Rightarrow> bool \<Rightarrow> bool res"
and term_walk_list :: "string \<Rightarrow> nat \<Rightarrow> kterm list \<Rightarrow> int \<Rightarrow> int option \<Rightarrow> bool \<Rightarrow> bool res" where
  "term_walk name pos (App f args) dec allowed found =
     bindr (if f = Sym name then check_self_call pos args allowed else Inr found) (\<lambda>found.
     bindr (term_walk name pos f dec allowed found) (\<lambda>found.
       term_walk_list name pos args dec allowed found))"
| "term_walk name pos (MatchList s n c) dec allowed found =
     bindr (term_walk name pos n dec allowed found) (\<lambda>found.
       if s = Var dec then term_walk name pos c (dec + 2) (Some 0) found
       else term_walk name pos c (dec + 2) (shift allowed 2) found)"
| "term_walk name pos (MatchOption s n b) dec allowed found =
     bindr (term_walk name pos s dec allowed found) (\<lambda>found.
     bindr (term_walk name pos n dec allowed found) (\<lambda>found.
       term_walk name pos b (dec + 1) (shift allowed 1) found))"
| "term_walk name pos (IfT c t e) dec allowed found =
     bindr (term_walk name pos c dec allowed found) (\<lambda>found.
     bindr (term_walk name pos t dec allowed found) (\<lambda>found.
       term_walk name pos e dec allowed found))"
| "term_walk name pos (ConsT h t) dec allowed found =
     bindr (term_walk name pos h dec allowed found) (\<lambda>found.
       term_walk name pos t dec allowed found)"
| "term_walk name pos (OptionSome v) dec allowed found = term_walk name pos v dec allowed found"
| "term_walk name pos (PairT l r) dec allowed found =
     bindr (term_walk name pos l dec allowed found) (\<lambda>found.
       term_walk name pos r dec allowed found)"
| "term_walk name pos (Fst p) dec allowed found = term_walk name pos p dec allowed found"
| "term_walk name pos (Snd p) dec allowed found = term_walk name pos p dec allowed found"
| "term_walk name pos (Prim op args) dec allowed found =
     term_walk_list name pos args dec allowed found"
| "term_walk name pos _ dec allowed found = Inr found"
| "term_walk_list name pos [] dec allowed found = Inr found"
| "term_walk_list name pos (a # as) dec allowed found =
     bindr (term_walk name pos a dec allowed found) (\<lambda>found.
       term_walk_list name pos as dec allowed found)"

definition check_termination :: "kdef \<Rightarrow> unit res" where
  "check_termination d =
     (let dec_param = t_decreases (d_term d); kind = t_kind (d_term d) in
      if dec_param = JNull then
        if has_recursive_call d
        then Inl (TerminationError ''recursive definition missing decreases_param'')
        else Inr ()
      else if kind \<noteq> JStr ''structural''
      then Inl (TerminationError ''only structural termination is supported'')
      else
        case list_index (map (\<lambda>p. JStr (p_name p)) (d_params d)) dec_param of
          None \<Rightarrow> Inl (TerminationError ''decreases_param is not a parameter'')
        | Some dec_pos \<Rightarrow>
            bindr (term_walk (d_name d) dec_pos (d_body d)
                     (int (length (d_params d)) - 1 - int dec_pos) None False) (\<lambda>found.
              if found \<and> kind \<noteq> JStr ''structural''
              then Inl (TerminationError ''recursive definition missing structural termination'')
              else Inr ()))"

subsection \<open>Computations that settle\<close>

text \<open>
  A counted computation settles when, from some limit and fuel on, it has one outcome
  that does not depend on them and is not the step limit.
\<close>

type_synonym 'a counted = "nat \<Rightarrow> int \<Rightarrow> int \<Rightarrow> ('a \<times> int) res"

definition step_limit_error :: exn where
  "step_limit_error = EvalError ''evaluation exceeded step limit''"

definition add_steps :: "int \<Rightarrow> 'a res \<Rightarrow> ('a \<times> int) res" where
  "add_steps s r = (case r of Inl e \<Rightarrow> Inl e | Inr v \<Rightarrow> Inr (v, s))"

definition settles_to :: "'a counted \<Rightarrow> nat \<Rightarrow> 'a res \<Rightarrow> bool" where
  "settles_to c k r \<longleftrightarrow> r \<noteq> Inl step_limit_error \<and> r \<noteq> Inl OutOfFuel \<and>
     (\<forall>n L s. s + int k \<le> L \<longrightarrow> k < n \<longrightarrow> c n L s = add_steps (s + int k) r)"

definition settles :: "'a counted \<Rightarrow> bool" where
  "settles c \<longleftrightarrow> (\<exists>k r. settles_to c k r)"

lemma settles_toI_Inr: "(\<And>n L s. c n L s = Inr (v, s)) \<Longrightarrow> settles_to c 0 (Inr v)"
  by (simp add: settles_to_def add_steps_def)

lemma settles_Inr: "settles (\<lambda>n L s. Inr (v, s))"
  using settles_toI_Inr [of "\<lambda>n L s. Inr (v, s)" v] by (auto simp: settles_def)

lemma settles_Inl: "e \<noteq> step_limit_error \<Longrightarrow> e \<noteq> OutOfFuel \<Longrightarrow> settles (\<lambda>n L s. Inl e)"
  unfolding settles_def settles_to_def
  by (intro exI [of _ 0] exI [of _ "Inl e"]) (simp add: add_steps_def)

lemma settles_bind:
  assumes c: "settles c" and f: "\<And>k v. settles_to c k (Inr v) \<Longrightarrow> settles (f v)"
  shows "settles (\<lambda>n L s. bindr (c n L s) (\<lambda>(v, s'). f v n L s'))"
proof -
  from c obtain k r where cr: "settles_to c k r" by (auto simp: settles_def)
  show ?thesis
  proof (cases r)
    case (Inl e)
    with cr have "settles_to (\<lambda>n L s. bindr (c n L s) (\<lambda>(v, s'). f v n L s')) k (Inl e)"
      by (auto simp: settles_to_def add_steps_def)
    then show ?thesis by (auto simp: settles_def)
  next
    case (Inr v)
    with cr f have "settles (f v)" by simp
    then obtain k' r' where f': "settles_to (f v) k' r'" by (auto simp: settles_def)
    have "settles_to (\<lambda>n L s. bindr (c n L s) (\<lambda>(v, s'). f v n L s')) (k + k') r'"
      using cr f' Inr by (cases r') (auto simp: settles_to_def add_steps_def algebra_simps)
    then show ?thesis by (auto simp: settles_def)
  qed
qed

definition halts :: "defs \<Rightarrow> kterm \<Rightarrow> val list \<Rightarrow> bool" where
  "halts D t env \<longleftrightarrow> settles (\<lambda>n L s. eval_term n L D t env s)"

lemma settles_tick:
  assumes "settles (\<lambda>n L s. eval_body n L D t env s)"
  shows "halts D t env"
proof -
  from assms obtain k r where kr: "settles_to (\<lambda>n L s. eval_body n L D t env s) k r"
    by (auto simp: settles_def)
  have "settles_to (\<lambda>n L s. eval_term n L D t env s) (Suc k) r"
    unfolding settles_to_def
  proof (intro conjI allI impI)
    fix n :: nat and L s :: int
    assume "s + int (Suc k) \<le> L" "Suc k < n"
    then obtain m where "n = Suc m" "k < m" "s + 1 + int k \<le> L" by (cases n) auto
    with kr show "eval_term n L D t env s = add_steps (s + int (Suc k)) r"
      by (auto simp: settles_to_def add_steps_def ac_simps split: sum.splits)
  qed (use kr in \<open>auto simp: settles_to_def\<close>)
  then show ?thesis by (auto simp: halts_def settles_def)
qed

lemma eval_Var_Inr: "eval_term n L D (Var i) env s = Inr (w, s') \<Longrightarrow> py_index env i = Some w"
  by (cases n) (auto split: if_splits option.splits)

lemma eval_args_nth:
  "eval_args n L D ts env s = Inr (vs, s') \<Longrightarrow> length vs = length ts \<and>
     (\<forall>i < length ts. \<exists>s1 s2. eval_term n L D (ts ! i) env s1 = Inr (vs ! i, s2))"
proof (induction ts arbitrary: s vs)
  case Nil
  then show ?case by simp
next
  case (Cons t ts)
  from Cons.prems obtain v s1 us where 1: "eval_term n L D t env s = Inr (v, s1)"
    "eval_args n L D ts env s1 = Inr (us, s')" "vs = v # us" by auto
  from Cons.IH [OF 1(2)] 1(1,3) show ?case by (auto simp: nth_Cons' less_Suc_eq_0_disj)
qed

lemma settles_to_run: "settles_to c k (Inr v) \<Longrightarrow> \<exists>n L s s'. c n L s = Inr (v, s')"
proof -
  assume "settles_to c k (Inr v)"
  then have "c (Suc k) (int k) 0 = Inr (v, int k)" by (simp add: settles_to_def add_steps_def)
  then show ?thesis by blast
qed

lemma halts_Var_value:
  "settles_to (\<lambda>n L s. eval_term n L D (Var i) env s) k (Inr w) \<Longrightarrow> py_index env i = Some w"
  by (auto dest: settles_to_run eval_Var_Inr)

lemma settles_args_value:
  assumes "settles_to (\<lambda>n L s. eval_args n L D ts env s) k (Inr vs)"
  shows "length vs = length ts"
    "i < length ts \<Longrightarrow> ts ! i = Var j \<Longrightarrow> py_index env j = Some (vs ! i)"
proof -
  from settles_to_run [OF assms] obtain n L s s' where
    "eval_args n L D ts env s = Inr (vs, s')" by blast
  note nth = eval_args_nth [OF this]
  then show "length vs = length ts" by blast
  assume "i < length ts" "ts ! i = Var j"
  with nth show "py_index env j = Some (vs ! i)" by (metis eval_Var_Inr)
qed

subsection \<open>When evaluation of a term halts\<close>

abbreviation eval_counted :: "defs \<Rightarrow> kterm \<Rightarrow> val list \<Rightarrow> val counted" where
  "eval_counted D t env \<equiv> (\<lambda>n L s. eval_term n L D t env s)"

definition apply_halts :: "defs \<Rightarrow> string \<Rightarrow> val list \<Rightarrow> bool" where
  "apply_halts D g vs \<longleftrightarrow> settles (\<lambda>n L s. eval_apply n L D (FunVal g) vs s)"

lemma settles_error [simp]:
  "m \<noteq> ''evaluation exceeded step limit'' \<Longrightarrow> settles (\<lambda>n L s. Inl (EvalError m))"
  by (auto intro: settles_Inl simp: step_limit_error_def)

lemma settles_return [simp]: "settles (\<lambda>n L s. Inr (v, s))"
  by (rule settles_Inr)

lemma eval_prim_settles: "settles (\<lambda>n L s. bindr (eval_prim op vs) (\<lambda>v. Inr (v, s)))"
proof (cases "eval_prim op vs")
  case (Inl e)
  have int: "get_int v = Inl e' \<Longrightarrow> e' = EvalError ''expected int''"
    and bool: "get_bool v = Inl e' \<Longrightarrow> e' = EvalError ''expected bool''" for v e'
    by (cases v; simp)+
  from Inl have "e \<noteq> step_limit_error" "e \<noteq> OutOfFuel"
    by (auto simp: eval_prim_def two_ints_def require_arity_def bindr_Inl_iff step_limit_error_def
        dest!: int bool split: if_splits)
  with Inl show ?thesis by (simp add: settles_Inl)
next
  case (Inr v)
  then show ?thesis by simp
qed

lemma settles_args:
  "(\<And>t. t \<in> set ts \<Longrightarrow> halts D t env) \<Longrightarrow> settles (\<lambda>n L s. eval_args n L D ts env s)"
proof (induction ts)
  case Nil
  then show ?case by simp
next
  case (Cons t ts)
  then have "settles (eval_counted D t env)" and "settles (\<lambda>n L s. eval_args n L D ts env s)"
    by (auto simp: halts_def)
  then show ?case unfolding eval_args.simps
    by (intro settles_bind) auto
qed

text \<open>A case analysis on a value that is already known.\<close>

lemma settles_case_val:
  assumes "\<And>i. v = IntVal i \<Longrightarrow> settles (f1 i)" "\<And>b. v = BoolVal b \<Longrightarrow> settles (f2 b)"
    "\<And>vs. v = ListVal vs \<Longrightarrow> settles (f3 vs)" "\<And>w. v = OptionVal w \<Longrightarrow> settles (f4 w)"
    "\<And>l r. v = PairVal l r \<Longrightarrow> settles (f5 l r)" "\<And>g. v = FunVal g \<Longrightarrow> settles (f6 g)"
  shows "settles (\<lambda>n L s. case v of IntVal i \<Rightarrow> f1 i n L s | BoolVal b \<Rightarrow> f2 b n L s
    | ListVal vs \<Rightarrow> f3 vs n L s | OptionVal w \<Rightarrow> f4 w n L s | PairVal l r \<Rightarrow> f5 l r n L s
    | FunVal g \<Rightarrow> f6 g n L s)"
  using assms by (cases v) simp_all

lemma halts_simple_cases:
"halts D (Sym g) env" "halts D (IntLit i) env" "halts D (BoolLit b) env"
  "halts D NilT env" "halts D OptionNone env"
  by (rule settles_tick, auto)+

lemma halts_Var: "halts D (Var i) env"
  by (cases "py_index env i") (rule settles_tick, simp)+

lemma halts_OptionSome: "halts D t env \<Longrightarrow> halts D (OptionSome t) env"
  by (rule settles_tick, unfold eval_body.simps) (intro settles_bind, auto simp: halts_def)

lemma halts_ConsT: "halts D h env \<Longrightarrow> halts D t env \<Longrightarrow> halts D (ConsT h t) env"
  by (rule settles_tick, unfold eval_body.simps)
    (intro settles_bind settles_case_val, auto simp: halts_def)

lemma halts_PairT: "halts D l env \<Longrightarrow> halts D r env \<Longrightarrow> halts D (PairT l r) env"
  by (rule settles_tick, unfold eval_body.simps) (intro settles_bind, auto simp: halts_def)

lemma halts_Fst: "halts D p env \<Longrightarrow> halts D (Fst p) env"
  by (rule settles_tick, unfold eval_body.simps)
    (intro settles_bind settles_case_val, auto simp: halts_def)

lemma halts_Snd: "halts D p env \<Longrightarrow> halts D (Snd p) env"
  by (rule settles_tick, unfold eval_body.simps)
    (intro settles_bind settles_case_val, auto simp: halts_def)

lemma halts_IfT: "halts D c env \<Longrightarrow> halts D t env \<Longrightarrow> halts D e env \<Longrightarrow> halts D (IfT c t e) env"
  by (rule settles_tick, unfold eval_body.simps)
    (intro settles_bind settles_case_val, auto simp: halts_def)

lemma halts_Prim: "(\<And>a. a \<in> set args \<Longrightarrow> halts D a env) \<Longrightarrow> halts D (Prim op args) env"
  by (rule settles_tick, unfold eval_body.simps)
    (intro settles_bind settles_args eval_prim_settles)

lemma halts_App:
  assumes args: "\<And>a. a \<in> set args \<Longrightarrow> halts D a env"
    and app: "\<And>k vs. settles_to (\<lambda>n L s. eval_args n L D args env s) k (Inr vs) \<Longrightarrow> apply_halts D g vs"
  shows "halts D (App (Sym g) args) env"
proof (rule settles_tick, unfold eval_body.simps, rule settles_bind)
  show "settles (eval_counted D (Sym g) env)"
    using halts_simple_cases(1) [of D g env] by (simp add: halts_def)
  fix k v
  assume "settles_to (eval_counted D (Sym g) env) k (Inr v)"
  from settles_to_run [OF this] obtain n L s s' where "eval_term n L D (Sym g) env s = Inr (v, s')"
    by blast
  then have "v = FunVal g" by (cases n) (auto split: if_splits)
  then show "settles (\<lambda>n L s. bindr (eval_args n L D args env s)
      (\<lambda>(vs, s). eval_apply n L D v vs s))"
    using settles_bind [OF settles_args [OF args], where f = "\<lambda>vs n L s. eval_apply n L D v vs s"]
      app by (auto simp: apply_halts_def)
qed

lemma halts_MatchList:
  assumes "halts D sc env" "halts D nc env"
    and "\<And>k x xs. settles_to (eval_counted D sc env) k (Inr (ListVal (x # xs))) \<Longrightarrow>
      halts D cc ([ListVal xs, x] @ env)"
  shows "halts D (MatchList sc nc cc) env"
proof (rule settles_tick, unfold eval_body.simps, rule settles_bind)
  show "settles (eval_counted D sc env)" using assms(1) by (simp add: halts_def)
  fix k v
  assume v: "settles_to (eval_counted D sc env) k (Inr v)"
  show "settles (\<lambda>n L s. case v of ListVal [] \<Rightarrow> eval_term n L D nc env s
      | ListVal (x # xs) \<Rightarrow> eval_term n L D cc ([ListVal xs, x] @ env) s
      | _ \<Rightarrow> Inl (EvalError ''match_list scrutinee must be list''))"
  proof (intro settles_case_val)
    fix vs
    assume "v = ListVal vs"
    with assms(2,3) v show "settles (\<lambda>n L s. case vs of [] \<Rightarrow> eval_term n L D nc env s
        | x # xs \<Rightarrow> eval_term n L D cc ([ListVal xs, x] @ env) s)"
      by (cases vs) (auto simp: halts_def)
  qed simp_all
qed

lemma halts_MatchOption:
  assumes "halts D sc env" "halts D nc env" and "\<And>x. halts D sb ([x] @ env)"
  shows "halts D (MatchOption sc nc sb) env"
proof (rule settles_tick, unfold eval_body.simps, rule settles_bind)
  show "settles (eval_counted D sc env)" using assms(1) by (simp add: halts_def)
  fix k v
  show "settles (\<lambda>n L s. case v of OptionVal None \<Rightarrow> eval_term n L D nc env s
      | OptionVal (Some x) \<Rightarrow> eval_term n L D sb ([x] @ env) s
      | _ \<Rightarrow> Inl (EvalError ''match_option scrutinee must be option''))"
  proof (intro settles_case_val)
    fix ov
    from assms(2,3) show "settles (\<lambda>n L s. case ov of None \<Rightarrow> eval_term n L D nc env s
        | Some x \<Rightarrow> eval_term n L D sb ([x] @ env) s)"
      by (cases ov) (auto simp: halts_def)
  qed simp_all
qed

end
