(* ===== verification/Kernel_Halting.thy ===== *)
theory Kernel_Halting
  imports Kernel_Terminate
begin

section \<open>What the structural recursion checker guarantees\<close>

text \<open>
  A definition accepted by \<open>check_termination\<close> halts on every argument list, provided it
  calls only named functions (\<open>first_order\<close>), makes no call to itself in the scrutinee of a
  \<open>MatchList\<close> (\<open>guarded\<close>), and everything else it calls halts. The two examples at the end
  show that neither proviso can be dropped: the checker does not enforce them.
\<close>

fun first_order :: "kterm \<Rightarrow> bool" where
  "first_order (App f args) =
     ((case f of Sym g \<Rightarrow> True | _ \<Rightarrow> False) \<and> (\<forall>a \<in> set args. first_order a))"
| "first_order (MatchList s n c) = (first_order s \<and> first_order n \<and> first_order c)"
| "first_order (MatchOption s n b) = (first_order s \<and> first_order n \<and> first_order b)"
| "first_order (IfT c t e) = (first_order c \<and> first_order t \<and> first_order e)"
| "first_order (ConsT h t) = (first_order h \<and> first_order t)"
| "first_order (OptionSome v) = first_order v"
| "first_order (PairT l r) = (first_order l \<and> first_order r)"
| "first_order (Fst p) = first_order p"
| "first_order (Snd p) = first_order p"
| "first_order (Prim op args) = (\<forall>a \<in> set args. first_order a)"
| "first_order _ = True"

text \<open>The functions a first-order term calls.\<close>

fun call_heads :: "kterm \<Rightarrow> string set" where
  "call_heads (App f args) =
     (case f of Sym g \<Rightarrow> {g} | _ \<Rightarrow> {}) \<union> (\<Union>a \<in> set args. call_heads a)"
| "call_heads (MatchList s n c) = call_heads s \<union> call_heads n \<union> call_heads c"
| "call_heads (MatchOption s n b) = call_heads s \<union> call_heads n \<union> call_heads b"
| "call_heads (IfT c t e) = call_heads c \<union> call_heads t \<union> call_heads e"
| "call_heads (ConsT h t) = call_heads h \<union> call_heads t"
| "call_heads (OptionSome v) = call_heads v"
| "call_heads (PairT l r) = call_heads l \<union> call_heads r"
| "call_heads (Fst p) = call_heads p"
| "call_heads (Snd p) = call_heads p"
| "call_heads (Prim op args) = (\<Union>a \<in> set args. call_heads a)"
| "call_heads _ = {}"

text \<open>No call of \<open>f\<close> in the scrutinee of a \<open>MatchList\<close>.\<close>

fun guarded :: "string \<Rightarrow> kterm \<Rightarrow> bool" where
  "guarded f (App g args) = (guarded f g \<and> (\<forall>a \<in> set args. guarded f a))"
| "guarded f (MatchList s n c) = (f \<notin> call_heads s \<and> guarded f n \<and> guarded f c)"
| "guarded f (MatchOption s n b) = (guarded f s \<and> guarded f n \<and> guarded f b)"
| "guarded f (IfT c t e) = (guarded f c \<and> guarded f t \<and> guarded f e)"
| "guarded f (ConsT h t) = (guarded f h \<and> guarded f t)"
| "guarded f (OptionSome v) = guarded f v"
| "guarded f (PairT l r) = (guarded f l \<and> guarded f r)"
| "guarded f (Fst p) = guarded f p"
| "guarded f (Snd p) = guarded f p"
| "guarded f (Prim op args) = (\<forall>a \<in> set args. guarded f a)"
| "guarded f _ = True"

text \<open>The sizes the recursion goes down on.\<close>

fun vlen :: "val \<Rightarrow> nat" where
  "vlen (ListVal vs) = length vs"
| "vlen _ = 0"

lemma first_order_AppD: "first_order (App f args) \<Longrightarrow> \<exists>g. f = Sym g"
  by (auto split: kterm.split_asm)

lemma calls_halt:
  "first_order t \<Longrightarrow> (\<forall>g \<in> call_heads t. \<forall>vs. apply_halts D g vs) \<Longrightarrow> halts D t env"
proof (induction t arbitrary: env)
  case (App f args)
  from first_order_AppD [OF App.prems(1)] obtain g where "f = Sym g" by blast
  have "halts D a e" if "a \<in> set args" for a e
    by (rule App.IH(2) [OF that]) (use App.prems that \<open>f = Sym g\<close> in auto)
  with App.prems(2) \<open>f = Sym g\<close> show ?case by (auto intro!: halts_App)
qed (auto intro!: halts_simple_cases halts_Var halts_OptionSome halts_ConsT halts_PairT halts_Fst
    halts_Snd halts_IfT halts_Prim halts_MatchList halts_MatchOption simp: ball_Un)

text \<open>What the walk keeps true of the environment: \<open>v\<close> is the recursion argument, and the
  variable allowed as the argument of a recursive call is a shorter list.\<close>

definition walk_env :: "val \<Rightarrow> int \<Rightarrow> int option \<Rightarrow> val list \<Rightarrow> bool" where
  "walk_env v dec allowed env \<longleftrightarrow> 0 \<le> dec \<and> py_index env dec = Some v \<and>
     (case allowed of None \<Rightarrow> True
      | Some k \<Rightarrow> 0 \<le> k \<and> (\<exists>w. py_index env k = Some w \<and> vlen w < vlen v))"

lemma py_index_push [simp]:
  "py_index (x # env) 0 = Some x"
  "0 \<le> i \<Longrightarrow> py_index (x # env) (i + 1) = py_index env i"
  "0 \<le> i \<Longrightarrow> py_index (x # y # env) (i + 2) = py_index env i"
  by (auto simp: py_index_def nat_add_distrib)

lemma walk_env_push1: "walk_env v dec allowed env \<Longrightarrow> walk_env v (dec + 1) (shift allowed 1) (x # env)"
  by (auto simp: walk_env_def shift_def split: option.splits)

lemma walk_env_push2:
  "walk_env v dec allowed env \<Longrightarrow> walk_env v (dec + 2) (shift allowed 2) (x # y # env)"
  by (auto simp: walk_env_def shift_def split: option.splits)

lemma walk_env_tail:
  "walk_env (ListVal (x # xs)) dec allowed env \<Longrightarrow>
     walk_env (ListVal (x # xs)) (dec + 2) (Some 0) (ListVal xs # y # env)"
  by (auto simp: walk_env_def)

lemma term_walk_list_mem:
  "term_walk_list f pos as dec allowed found = Inr b \<Longrightarrow> a \<in> set as \<Longrightarrow>
     \<exists>fd b'. term_walk f pos a dec allowed fd = Inr b'"
  by (induction as arbitrary: found) auto

lemma term_walk_halts:
  assumes "first_order t" "guarded f t" "term_walk f pos t dec allowed found = Inr b"
    and "walk_env v dec allowed env"
    and others: "\<forall>g \<in> call_heads t. g \<noteq> f \<longrightarrow> (\<forall>vs. apply_halts D g vs)"
    and self: "\<And>vs. pos < length vs \<Longrightarrow> vlen (vs ! pos) < vlen v \<Longrightarrow> apply_halts D f vs"
  shows "halts D t env"
  using assms(1-5)
proof (induction t arbitrary: env dec allowed found b)
  case (App h args)
  from first_order_AppD [OF App.prems(1)] obtain g where g: "h = Sym g" by blast
  from App.prems(3) g obtain fd where walk: "term_walk_list f pos args dec allowed fd = Inr b" by auto
  have args: "halts D a env" if "a \<in> set args" for a
  proof -
    from term_walk_list_mem [OF walk that] obtain fd' b' where
      "term_walk f pos a dec allowed fd' = Inr b'" by blast
    from App.IH(2) [OF that _ _ this App.prems(4)] App.prems(1,2,5) that show ?thesis by auto
  qed
  show ?case unfolding g
  proof (rule halts_App [OF args])
    fix k vs
    assume vs: "settles_to (\<lambda>n L s. eval_args n L D args env s) k (Inr vs)"
    show "apply_halts D g vs"
    proof (cases "g = f")
      case False
      with App.prems(5) g show ?thesis by simp
    next
      case True
      with App.prems(3) g obtain i where i: "allowed = Some i" "pos < length args" "args ! pos = Var i"
        by (auto simp: check_self_call_def split: if_splits option.splits)
      with App.prems(4) settles_args_value [OF vs] have "pos < length vs" "vlen (vs ! pos) < vlen v"
        by (auto simp: walk_env_def)
      with self True show ?thesis by blast
    qed
  qed
next
  case (MatchList sc nc cc)
  from MatchList.prems(3) obtain fd where nc: "term_walk f pos nc dec allowed found = Inr fd"
    and cc: "(if sc = Var dec then term_walk f pos cc (dec + 2) (Some 0) fd
      else term_walk f pos cc (dec + 2) (shift allowed 2) fd) = Inr b" by auto
  show ?case
  proof (rule halts_MatchList)
    show "halts D sc env"
      using MatchList.prems(1,2,5) by (intro calls_halt) (auto simp: ball_Un)
    show "halts D nc env"
      using MatchList.prems nc by (intro MatchList.IH(2)) (auto simp: ball_Un)
    fix k x xs
    assume sc: "settles_to (eval_counted D sc env) k (Inr (ListVal (x # xs)))"
    show "halts D cc ([ListVal xs, x] @ env)"
    proof (cases "sc = Var dec")
      case True
      with sc MatchList.prems(4) have "v = ListVal (x # xs)"
        by (auto dest: halts_Var_value simp: walk_env_def)
      with MatchList.prems cc True show ?thesis
        by (intro MatchList.IH(3)) (auto intro: walk_env_tail simp: ball_Un)
    next
      case False
      with MatchList.prems cc show ?thesis
        by (intro MatchList.IH(3)) (auto intro: walk_env_push2 simp: ball_Un)
    qed
  qed
next
  case (MatchOption sc nc sb)
  then obtain f1 f2 where w: "term_walk f pos sc dec allowed found = Inr f1"
    "term_walk f pos nc dec allowed f1 = Inr f2"
    "term_walk f pos sb (dec + 1) (shift allowed 1) f2 = Inr b" by auto
  show ?case
  proof (rule halts_MatchOption)
    show "halts D sc env" using MatchOption.prems w(1) by (intro MatchOption.IH(1)) (auto simp: ball_Un)
    show "halts D nc env" using MatchOption.prems w(2) by (intro MatchOption.IH(2)) (auto simp: ball_Un)
    show "halts D sb ([x] @ env)" for x
      using MatchOption.prems w(3) by (intro MatchOption.IH(3)) (auto intro: walk_env_push1 simp: ball_Un)
  qed
next
  case (IfT c t e)
  then obtain f1 f2 where w: "term_walk f pos c dec allowed found = Inr f1"
    "term_walk f pos t dec allowed f1 = Inr f2" "term_walk f pos e dec allowed f2 = Inr b" by auto
  show ?case
    using IfT.prems w by (intro halts_IfT IfT.IH) (auto simp: ball_Un)
next
  case (ConsT h t)
  then obtain f1 where w: "term_walk f pos h dec allowed found = Inr f1"
    "term_walk f pos t dec allowed f1 = Inr b" by auto
  show ?case
    using ConsT.prems w by (intro halts_ConsT ConsT.IH) (auto simp: ball_Un)
next
  case (PairT l r)
  then obtain f1 where w: "term_walk f pos l dec allowed found = Inr f1"
    "term_walk f pos r dec allowed f1 = Inr b" by auto
  show ?case
    using PairT.prems w by (intro halts_PairT PairT.IH) (auto simp: ball_Un)
next
  case (Prim op args)
  then have walk: "term_walk_list f pos args dec allowed found = Inr b" by simp
  show ?case
  proof (rule halts_Prim)
    fix a
    assume a: "a \<in> set args"
    from term_walk_list_mem [OF walk this] obtain fd' b' where
      "term_walk f pos a dec allowed fd' = Inr b'" by blast
    from Prim.IH [OF a _ _ this Prim.prems(4)] Prim.prems(1,2,5) a show "halts D a env" by auto
  qed
next
  case (OptionSome t)
  then show ?case by (intro halts_OptionSome) auto
next
  case (Fst t)
  then show ?case by (intro halts_Fst) auto
next
  case (Snd t)
  then show ?case by (intro halts_Snd) auto
qed (auto intro: halts_simple_cases halts_Var)

lemma no_recursive_call: "first_order t \<Longrightarrow> \<not> has_rec_walk f t \<Longrightarrow> f \<notin> call_heads t"
proof (induction t)
  case (App g args)
  from first_order_AppD [OF App.prems(1)] obtain h where "g = Sym h" by blast
  with App show ?case by (auto split: if_splits)
qed (auto split: if_splits)

lemma apply_halts_unfold:
  "(\<And>d. D g = Some d \<Longrightarrow> length vs = length (d_params d) \<Longrightarrow> halts D (d_body d) (rev vs))
    \<Longrightarrow> apply_halts D g vs"
  unfolding apply_halts_def eval_apply.simps
  by (cases "D g"; cases "length vs = length (d_params (the (D g)))") (auto simp: halts_def)

lemma check_termination_halts:
  assumes d: "D f = Some d" "d_name d = f" and ok: "check_termination d = Inr ()"
    and fo: "first_order (d_body d)" "guarded f (d_body d)"
    and others: "\<forall>g \<in> call_heads (d_body d). g \<noteq> f \<longrightarrow> (\<forall>vs. apply_halts D g vs)"
  shows "apply_halts D f vs"
proof (cases "t_decreases (d_term d) = JNull")
  case True
  with ok have "f \<notin> call_heads (d_body d)"
    using no_recursive_call [OF fo(1)] d(2)
    by (auto simp: check_termination_def has_recursive_call_def split: if_splits)
  with others have "halts D (d_body d) env" for env
    by (intro calls_halt [OF fo(1)]) metis
  with d show ?thesis by (intro apply_halts_unfold) simp
next
  case False
  with ok obtain pos b where pos:
    "list_index (map (\<lambda>p. JStr (p_name p)) (d_params d)) (t_decreases (d_term d)) = Some pos"
    and walk: "term_walk f pos (d_body d) (int (length (d_params d)) - 1 - int pos) None False = Inr b"
    using d(2) by (auto simp: check_termination_def Let_def split: if_splits option.splits)
  from list_index_Some [OF pos] have lt: "pos < length (d_params d)" by simp
  have "vlen (vs ! pos) = m \<Longrightarrow> length vs = length (d_params d) \<Longrightarrow> apply_halts D f vs" for m vs
  proof (induction m arbitrary: vs rule: less_induct)
    case (less m)
    have env: "walk_env (vs ! pos) (int (length (d_params d)) - 1 - int pos) None (rev vs)"
    proof -
      have "int (length (d_params d)) - 1 - int pos = int (length vs - Suc pos)"
        using lt less.prems(2) by simp
      then show ?thesis
        using lt less.prems(2) by (simp add: walk_env_def rev_nth del: of_nat_diff)
    qed
    have self: "apply_halts D f us" if "vlen (us ! pos) < vlen (vs ! pos)" for us
    proof (cases "length us = length (d_params d)")
      case True
      with that less show ?thesis by blast
    next
      case False
      with d show ?thesis by (intro apply_halts_unfold) simp
    qed
    have "halts D (d_body d) (rev vs)"
      using term_walk_halts [OF fo walk env] others self by blast
    with d show ?case by (intro apply_halts_unfold) simp
  qed
  moreover have "apply_halts D f vs" if "length vs \<noteq> length (d_params d)"
    using that d by (intro apply_halts_unfold) simp
  ultimately show ?thesis by blast
qed

subsection \<open>A whole program\<close>

definition calls :: "defs \<Rightarrow> (string \<times> string) set" where
  "calls D = {(g, f). \<exists>d. D f = Some d \<and> g \<in> call_heads (d_body d) \<and> g \<noteq> f}"

definition recursion_checked :: "defs \<Rightarrow> bool" where
  "recursion_checked D \<longleftrightarrow> (\<forall>f d. D f = Some d \<longrightarrow>
     d_name d = f \<and> check_termination d = Inr () \<and> first_order (d_body d) \<and> guarded f (d_body d))"

lemma program_halts:
  assumes "recursion_checked D" "wf (calls D)"
  shows "apply_halts D f vs"
proof -
  from assms(2) have "\<forall>vs. apply_halts D f vs"
  proof (induction f rule: wf_induct_rule)
    case (less f)
    show ?case
    proof
      fix vs
      show "apply_halts D f vs"
      proof (cases "D f")
        case None
        then show ?thesis by (intro apply_halts_unfold) simp
      next
        case (Some d)
        with assms(1) less show ?thesis
          by (intro check_termination_halts [of D f d]) (auto simp: recursion_checked_def calls_def)
      qed
    qed
  qed
  then show ?thesis by blast
qed

lemma halts_run_eval:
  assumes "halts D t env"
  shows "\<exists>L0 r. r \<noteq> Inl step_limit_error \<and> (\<forall>L \<ge> L0. run_eval L D t env = r)"
proof -
  from assms obtain k r where kr: "settles_to (eval_counted D t env) k r"
    by (auto simp: halts_def settles_def)
  have "run_eval L D t env = r" if "int (Suc k) \<le> L" for L
  proof -
    have "0 + int k \<le> L" "k < Suc (nat L)" using that by auto
    with kr have "eval_term (Suc (nat L)) L D t env 0 = add_steps (0 + int k) r"
      unfolding settles_to_def by blast
    then show ?thesis by (cases r) (simp_all add: run_eval_def add_steps_def del: eval_term.simps)
  qed
  with kr show ?thesis by (auto simp: settles_to_def)
qed

subsection \<open>Accepted definitions that do not halt\<close>

text \<open>
  \<open>f(xs) = match_list f(xs) with nil => nil | cons h t => nil\<close>: the recursive call stands in
  the scrutinee, which the walk skips.
\<close>

definition list_in :: "string \<Rightarrow> param" where
  "list_in x = \<lparr>p_name = x, p_typ = ListType IntType\<rparr>"

definition loop_scrutinee :: kdef where
  "loop_scrutinee = \<lparr>d_name = ''f'', d_params = [list_in ''xs''], d_ret = ListType IntType,
     d_body = MatchList (App (Sym ''f'') [Var 0]) NilT NilT,
     d_term = \<lparr>t_kind = JStr ''structural'', t_decreases = JStr ''xs''\<rparr>\<rparr>"

text \<open>\<open>f(xs) = (if true then f else f)(xs)\<close>: the head of the call is not a symbol.\<close>

definition loop_first_class :: kdef where
  "loop_first_class = \<lparr>d_name = ''f'', d_params = [list_in ''xs''], d_ret = ListType IntType,
     d_body = App (IfT (BoolLit True) (Sym ''f'') (Sym ''f'')) [Var 0],
     d_term = \<lparr>t_kind = JStr ''structural'', t_decreases = JStr ''xs''\<rparr>\<rparr>"

definition out_of_steps :: "('a \<times> int) res \<Rightarrow> bool" where
  "out_of_steps r \<longleftrightarrow> r = Inl step_limit_error \<or> r = Inl OutOfFuel"

lemma out_of_steps_bind: "out_of_steps m \<Longrightarrow> out_of_steps (bindr m f)"
  by (auto simp: out_of_steps_def)

lemma out_of_steps_err [simp]: "out_of_steps (Inl step_limit_error)" "out_of_steps (Inl OutOfFuel)"
  "out_of_steps (Inl (EvalError ''evaluation exceeded step limit''))"
  by (simp_all add: out_of_steps_def step_limit_error_def)

lemma out_of_steps_run:
  "(\<And>n. out_of_steps (eval_term n L D t env 0)) \<Longrightarrow> run_eval L D t env = Inl step_limit_error"
  using run_eval_total [of L D t env] unfolding run_eval_def out_of_steps_def
  by (metis bindr.simps(1))

text \<open>A body whose evaluation always calls the definition again never gets past the limit.\<close>

lemma always_recalls:
  assumes D: "D f = Some d" "length (d_params d) = 1"
    and body: "\<And>m L env s v. env = [v] \<Longrightarrow>
      (\<And>k s. k \<le> m \<Longrightarrow> out_of_steps (eval_apply k L D (FunVal f) [v] s)) \<Longrightarrow>
      out_of_steps (eval_body m L D (d_body d) env s)"
  shows "out_of_steps (eval_apply n L D (FunVal f) [v] s)"
proof (induction n arbitrary: s rule: less_induct)
  case (less n)
  show ?case
  proof (cases n)
    case 0
    with D show ?thesis by simp
  next
    case (Suc m)
    with less D body [of "[v]" v m L] show ?thesis by (simp add: less_Suc_eq_le)
  qed
qed

lemma eval_Var0: "eval_args k L D [Var 0] [v] s = (case eval_term k L D (Var 0) [v] s of
   Inl e \<Rightarrow> Inl e | Inr (w, s') \<Rightarrow> Inr ([v], s'))"
  by (cases k) (auto split: if_splits)

lemma out_of_steps_args:
  "(\<And>s. out_of_steps (g [v] s)) \<Longrightarrow>
     out_of_steps (bindr (eval_args k L D [Var 0] [v] s) (\<lambda>(vs, s). g vs s))"
  by (cases k) (auto split: if_splits)

lemma loop_scrutinee_accepted: "check_termination loop_scrutinee = Inr ()"
  by (simp add: check_termination_def loop_scrutinee_def list_in_def Let_def)

lemma loop_first_class_accepted: "check_termination loop_first_class = Inr ()"
  by (simp add: check_termination_def loop_first_class_def list_in_def Let_def)

lemma loop_scrutinee_loops:
  assumes D: "D ''f'' = Some loop_scrutinee"
  shows "run_eval L D (App (Sym ''f'') [NilT]) [] = Inl step_limit_error"
proof (rule out_of_steps_run)
  have app: "out_of_steps (eval_apply n L D (FunVal ''f'') [v] s)" for n v s
  proof (rule always_recalls [where D = D and f = "''f''", OF D])
    fix m and L :: int and env s v
    assume env: "env = [v]"
      and rec: "\<And>k s. k \<le> m \<Longrightarrow> out_of_steps (eval_apply k L D (FunVal ''f'') [v] s)"
    have "out_of_steps (eval_term m L D (App (Sym ''f'') [Var 0]) env s)"
    proof (cases m)
      case (Suc k)
      have "out_of_steps (eval_body k L D (App (Sym ''f'') [Var 0]) env s')" for s'
        using out_of_steps_args [of "eval_apply k L D (FunVal ''f'')" v] rec [of k] Suc env
        by (cases k) simp_all
      with Suc show ?thesis by simp
    qed simp
    then show "out_of_steps (eval_body m L D (d_body loop_scrutinee) env s)"
      by (simp add: loop_scrutinee_def out_of_steps_bind)
  qed (simp add: loop_scrutinee_def)
  fix n
  show "out_of_steps (eval_term n L D (App (Sym ''f'') [NilT]) [] 0)"
  proof (cases n)
    case (Suc k)
    with app [of k] show ?thesis by (cases k) (auto split: if_splits simp del: eval_apply.simps)
  qed simp
qed

lemma loop_first_class_loops:
  assumes D: "D ''f'' = Some loop_first_class"
  shows "run_eval L D (App (Sym ''f'') [NilT]) [] = Inl step_limit_error"
proof (rule out_of_steps_run)
  have app: "out_of_steps (eval_apply n L D (FunVal ''f'') [v] s)" for n v s
  proof (rule always_recalls [where D = D and f = "''f''", OF D])
    fix m and L :: int and env s v
    assume env: "env = [v]"
      and rec: "\<And>k s. k \<le> m \<Longrightarrow> out_of_steps (eval_apply k L D (FunVal ''f'') [v] s)"
    have head: "eval_term m L D (IfT (BoolLit True) (Sym ''f'') (Sym ''f'')) env s = Inr (w, s') \<Longrightarrow>
        w = FunVal ''f''" for w s'
      by (cases m; cases "m - 1") (auto split: if_splits)
    have head_err: "eval_term m L D (IfT (BoolLit True) (Sym ''f'') (Sym ''f'')) env s = Inl e \<Longrightarrow>
        out_of_steps (Inl e)" for e
      by (cases m; cases "m - 1") (auto simp: bindr_Inl_iff split: if_splits)
    show "out_of_steps (eval_body m L D (d_body loop_first_class) env s)"
      using out_of_steps_args [of "eval_apply m L D (FunVal ''f'')" v m L D] rec [of m] env head head_err
      by (cases "eval_term m L D (IfT (BoolLit True) (Sym ''f'') (Sym ''f'')) env s")
        (auto simp: loop_first_class_def simp del: eval_args.simps eval_apply.simps)
  qed (simp add: loop_first_class_def)
  fix n
  show "out_of_steps (eval_term n L D (App (Sym ''f'') [NilT]) [] 0)"
  proof (cases n)
    case (Suc k)
    with app [of k] show ?thesis by (cases k) (auto split: if_splits simp del: eval_apply.simps)
  qed simp
qed

end
