(* ===== verification/Kernel_Sound.thy ===== *)
theory Kernel_Sound
  imports Kernel_Eval_Props
begin

section \<open>Type soundness\<close>

text \<open>
  Values carry types: a function value has the type its symbol is declared with. When
  every declared symbol has a definition whose body checks at its return type
  (\<open>defs_ok\<close>), a term that checks at a type evaluates to a value of that type, and the
  only exceptions are the step limit and a \<open>mod\<close> by zero. \<open>defs_ok\<close> asks for
  \<open>typecheck_definition d ST = Inr (d_ret d)\<close>: the checks of the ledger only ask that the
  call does not raise.
\<close>

fun has_type :: "sym_types \<Rightarrow> val \<Rightarrow> ktype \<Rightarrow> bool" where
  "has_type ST (FunVal name) T = (ST name = Some T)"
| "has_type ST (IntVal i) IntType = True"
| "has_type ST (BoolVal b) BoolType = True"
| "has_type ST (ListVal vs) (ListType T) = (\<forall>v \<in> set vs. has_type ST v T)"
| "has_type ST (OptionVal ov) (OptionType T) = (case ov of None \<Rightarrow> True | Some v \<Rightarrow> has_type ST v T)"
| "has_type ST (PairVal l r) (PairType A B) = (has_type ST l A \<and> has_type ST r B)"
| "has_type ST _ _ = False"

definition def_type :: "kdef \<Rightarrow> ktype" where
  "def_type d = FunType (map p_typ (d_params d)) (d_ret d)"

definition defs_ok :: "sym_types \<Rightarrow> defs \<Rightarrow> bool" where
  "defs_ok ST D \<longleftrightarrow> (\<forall>name T. ST name = Some T \<longrightarrow>
     (\<exists>d. D name = Some d \<and> T = def_type d \<and> typecheck_definition d ST = Inr (d_ret d)))"

definition runtime_errors :: "exn set" where
  "runtime_errors = {EvalError ''evaluation exceeded step limit'', ZeroDivisionError, OutOfFuel}"

lemma runtime_errors_mem [simp]:
  "EvalError ''evaluation exceeded step limit'' \<in> runtime_errors"
  "ZeroDivisionError \<in> runtime_errors" "OutOfFuel \<in> runtime_errors"
  by (simp_all add: runtime_errors_def)

text \<open>Canonical forms.\<close>

lemma defs_ok_fun: "defs_ok ST D \<Longrightarrow> ST name = Some T \<Longrightarrow> \<exists>ts r. T = FunType ts r"
  unfolding defs_ok_def def_type_def by blast

lemma canon_int: "defs_ok ST D \<Longrightarrow> has_type ST v IntType \<Longrightarrow> \<exists>i. v = IntVal i"
  by (cases v) (auto dest: defs_ok_fun)

lemma canon_bool: "defs_ok ST D \<Longrightarrow> has_type ST v BoolType \<Longrightarrow> \<exists>b. v = BoolVal b"
  by (cases v) (auto dest: defs_ok_fun)

lemma canon_list:
  "defs_ok ST D \<Longrightarrow> has_type ST v (ListType T) \<Longrightarrow> \<exists>vs. v = ListVal vs \<and> (\<forall>x \<in> set vs. has_type ST x T)"
  by (cases v) (auto dest: defs_ok_fun)

lemma canon_option:
  "defs_ok ST D \<Longrightarrow> has_type ST v (OptionType T) \<Longrightarrow>
     v = OptionVal None \<or> (\<exists>x. v = OptionVal (Some x) \<and> has_type ST x T)"
  by (cases v) (auto dest: defs_ok_fun split: option.splits)

lemma canon_pair:
  "defs_ok ST D \<Longrightarrow> has_type ST v (PairType A B) \<Longrightarrow>
     \<exists>l r. v = PairVal l r \<and> has_type ST l A \<and> has_type ST r B"
  by (cases v) (auto dest: defs_ok_fun)

lemma canon_fun:
  "defs_ok ST D \<Longrightarrow> has_type ST v (FunType ts r) \<Longrightarrow>
     \<exists>name d. v = FunVal name \<and> D name = Some d \<and> def_type d = FunType ts r
       \<and> typecheck_definition d ST = Inr r"
  by (cases v) (auto simp: defs_ok_def def_type_def)

lemmas canonical_forms = canon_int canon_bool canon_list canon_option canon_pair canon_fun

text \<open>The step of the induction over the fuel, function by function.\<close>

definition term_sound :: "sym_types \<Rightarrow> defs \<Rightarrow> int \<Rightarrow> nat \<Rightarrow> bool" where
  "term_sound ST D L n \<longleftrightarrow> (\<forall>t \<Gamma> ex T env s.
     typecheck_term t \<Gamma> ST ex = Inr T \<longrightarrow> list_all2 (has_type ST) env \<Gamma> \<longrightarrow>
     sat runtime_errors (\<lambda>(v, s'). has_type ST v T) (eval_term n L D t env s))"

lemma term_soundD:
  "term_sound ST D L n \<Longrightarrow> typecheck_term t \<Gamma> ST ex = Inr T \<Longrightarrow> list_all2 (has_type ST) env \<Gamma> \<Longrightarrow>
     sat runtime_errors (\<lambda>(v, s'). has_type ST v T) (eval_term n L D t env s)"
  unfolding term_sound_def by blast

lemma eval_args_sound:
  assumes "term_sound ST D L n" "typecheck_args ts Ts \<Gamma> ST = Inr ()" "length ts = length Ts"
    "list_all2 (has_type ST) env \<Gamma>"
  shows "sat runtime_errors (\<lambda>(vs, s'). list_all2 (has_type ST) vs Ts) (eval_args n L D ts env s)"
  using assms
proof (induction ts arbitrary: Ts s)
  case Nil
  then show ?case by simp
next
  case (Cons t ts)
  then obtain T Ts' where Ts: "Ts = T # Ts'" by (cases Ts) auto
  with Cons.prems have "typecheck_term t \<Gamma> ST (Some T) = Inr T" "typecheck_args ts Ts' \<Gamma> ST = Inr ()"
    by auto
  then show ?case using Cons.prems Ts
    by (auto intro!: sat_bind2I [OF term_soundD] sat_bind2I [OF Cons.IH])
qed

lemma eval_apply_sound:
  assumes IH: "term_sound ST D L n" and D: "defs_ok ST D"
    and f: "has_type ST f (FunType Ts r)" and args: "list_all2 (has_type ST) args Ts"
  shows "sat runtime_errors (\<lambda>(v, s'). has_type ST v r) (eval_apply n L D f args s)"
proof -
  from canon_fun [OF D f] obtain name d where d: "f = FunVal name" "D name = Some d"
    "def_type d = FunType Ts r" "typecheck_definition d ST = Inr r" by blast
  from d(3) have Ts: "Ts = map p_typ (d_params d)" "d_ret d = r" by (auto simp: def_type_def)
  from args have len: "length args = length (d_params d)" by (auto dest: list_all2_lengthD simp: Ts)
  from d(4) have "typecheck_term (d_body d) (rev Ts) ST (Some r) = Inr r"
    by (simp add: typecheck_definition_def Ts)
  from term_soundD [OF IH this] args d len show ?thesis by simp
qed

lemma prim_sig_cases:
  assumes "prim_sig op = Some (Ts, r)"
  obtains
    (arith) "Ts = [IntType, IntType]" "r = IntType"
      "op \<in> {JStr ''add'', JStr ''sub'', JStr ''mul'', JStr ''mod''}"
  | (compare) "Ts = [IntType, IntType]" "r = BoolType"
      "op \<in> {JStr ''eq_int'', JStr ''lt_int'', JStr ''le_int''}"
  | (logic) "Ts = [BoolType, BoolType]" "r = BoolType" "op \<in> {JStr ''and'', JStr ''or''}"
  | (neg) "Ts = [BoolType]" "r = BoolType" "op = JStr ''not''"
  using assms unfolding prim_sig_def by (simp split: if_split_asm)

lemma eval_prim_sound:
  assumes D: "defs_ok ST D" and sig: "prim_sig op = Some (Ts, r)"
    and vs: "list_all2 (has_type ST) vs Ts"
  shows "sat runtime_errors (\<lambda>v. has_type ST v r) (eval_prim op vs)"
  using sig
proof (cases rule: prim_sig_cases)
  case arith
  with vs obtain v w where vw: "vs = [v, w]" "has_type ST v IntType" "has_type ST w IntType"
    by (auto simp: list_all2_Cons2)
  from canon_int [OF D vw(2)] canon_int [OF D vw(3)] vw(1) obtain a b
    where vs: "vs = [IntVal a, IntVal b]" by blast
  have "eval_prim op vs \<in> {Inr (IntVal (a + b)), Inr (IntVal (a - b)), Inr (IntVal (a * b)),
      Inl ZeroDivisionError, Inr (IntVal (a mod b))}"
    using arith(3) unfolding insert_iff empty_iff
    by (elim disjE FalseE) (simp_all add: vs eval_prim_def two_ints_def require_arity_def)
  then show ?thesis using arith(2) by auto
next
  case compare
  with vs obtain v w where vw: "vs = [v, w]" "has_type ST v IntType" "has_type ST w IntType"
    by (auto simp: list_all2_Cons2)
  from canon_int [OF D vw(2)] canon_int [OF D vw(3)] vw(1) obtain a b
    where vs: "vs = [IntVal a, IntVal b]" by blast
  have "\<exists>c. eval_prim op vs = Inr (BoolVal c)"
    using compare(3) unfolding insert_iff empty_iff
    by (elim disjE FalseE) (simp_all add: vs eval_prim_def two_ints_def require_arity_def)
  then show ?thesis using compare(2) by auto
next
  case logic
  with vs obtain v w where vw: "vs = [v, w]" "has_type ST v BoolType" "has_type ST w BoolType"
    by (auto simp: list_all2_Cons2)
  from canon_bool [OF D vw(2)] canon_bool [OF D vw(3)] vw(1) obtain a b
    where vs: "vs = [BoolVal a, BoolVal b]" by blast
  have "\<exists>c. eval_prim op vs = Inr (BoolVal c)"
    using logic(3) unfolding insert_iff empty_iff
    by (elim disjE FalseE) (auto simp: vs eval_prim_def require_arity_def)
  then show ?thesis using logic(2) by auto
next
  case neg
  with vs obtain v where v: "vs = [v]" "has_type ST v BoolType" by (auto simp: list_all2_Cons2)
  from canon_bool [OF D v(2)] v(1) obtain a where "vs = [BoolVal a]" by blast
  with neg show ?thesis by (simp add: eval_prim_def require_arity_def)
qed

lemma eval_body_sound:
  assumes IH: "term_sound ST D L n" and D: "defs_ok ST D"
    and tc: "typecheck_term t \<Gamma> ST ex = Inr T" and env: "list_all2 (has_type ST) env \<Gamma>"
  shows "sat runtime_errors (\<lambda>(v, s'). has_type ST v T) (eval_body n L D t env s)"
proof (cases t)
  case (Var i)
  with tc obtain "py_index \<Gamma> i = Some T" by (auto split: option.splits)
  from py_index_list_all2 [OF env this] Var show ?thesis by auto
next
  case (Prim op args)
  with tc obtain Ts where "prim_sig op = Some (Ts, T)" "length args = length Ts"
    "typecheck_args args Ts \<Gamma> ST = Inr ()"
    by (auto split: if_splits option.splits)
  then show ?thesis using Prim
    by (auto intro!: sat_bind2I [OF eval_args_sound [OF IH _ _ env]] sat_bindI [OF eval_prim_sound [OF D]])
next
  case (App f args)
  with tc obtain Ts where f: "typecheck_term f \<Gamma> ST None = Inr (FunType Ts T)"
    and as: "length args = length Ts" "typecheck_args args Ts \<Gamma> ST = Inr ()"
    by (auto elim!: bindrE split: ktype.split_asm if_split_asm option.split_asm simp del: bindr_Inr_iff)
  then show ?thesis using App
    by (auto intro!: sat_bind2I [OF term_soundD [OF IH f env]]
        sat_bind2I [OF eval_args_sound [OF IH as(2,1) env]] eval_apply_sound [OF IH D])
next
  case (MatchList sc nc cc)
  with tc obtain e exn exc where sc: "typecheck_term sc \<Gamma> ST None = Inr (ListType e)"
    and nc: "typecheck_term nc \<Gamma> ST exn = Inr T"
    and cc: "typecheck_term cc ([ListType e, e] @ \<Gamma>) ST exc = Inr T"
    by (auto elim!: bindrE split: ktype.split_asm if_split_asm option.split_asm simp del: bindr_Inr_iff)
  show ?thesis
    unfolding MatchList eval_body.simps
  proof (rule sat_bind2I [OF term_soundD [OF IH sc env]], clarify)
    fix v s1
    assume "has_type ST v (ListType e)"
    with canon_list [OF D] obtain vs where v: "v = ListVal vs" "\<forall>x \<in> set vs. has_type ST x e"
      by blast
    show "sat runtime_errors (\<lambda>(v, s'). has_type ST v T) (case v of
        ListVal [] \<Rightarrow> eval_term n L D nc env s1
      | ListVal (x # xs) \<Rightarrow> eval_term n L D cc ([ListVal xs, x] @ env) s1
      | _ \<Rightarrow> Inl (EvalError ''match_list scrutinee must be list''))"
      using v env by (cases vs) (auto intro!: term_soundD [OF IH nc] term_soundD [OF IH cc])
  qed
next
  case (MatchOption sc nc sb)
  with tc obtain e exn exc where sc: "typecheck_term sc \<Gamma> ST None = Inr (OptionType e)"
    and nc: "typecheck_term nc \<Gamma> ST exn = Inr T"
    and sb: "typecheck_term sb ([e] @ \<Gamma>) ST exc = Inr T"
    by (auto elim!: bindrE split: ktype.split_asm if_split_asm option.split_asm simp del: bindr_Inr_iff)
  show ?thesis
    unfolding MatchOption eval_body.simps
  proof (rule sat_bind2I [OF term_soundD [OF IH sc env]], clarify)
    fix v s1
    assume "has_type ST v (OptionType e)"
    from canon_option [OF D this] show "sat runtime_errors (\<lambda>(v, s'). has_type ST v T) (case v of
        OptionVal None \<Rightarrow> eval_term n L D nc env s1
      | OptionVal (Some x) \<Rightarrow> eval_term n L D sb ([x] @ env) s1
      | _ \<Rightarrow> Inl (EvalError ''match_option scrutinee must be option''))"
      using env by (auto intro!: term_soundD [OF IH nc] term_soundD [OF IH sb])
  qed
next
  case (IfT c a b)
  with tc obtain exa exb where c: "typecheck_term c \<Gamma> ST None = Inr BoolType"
    and a: "typecheck_term a \<Gamma> ST exa = Inr T" and b: "typecheck_term b \<Gamma> ST exb = Inr T"
    by (auto split: option.split_asm)
  then show ?thesis using IfT env
    by (auto intro!: sat_bind2I [OF term_soundD [OF IH c env]] term_soundD [OF IH]
        dest!: canon_bool [OF D])
next
  case (ConsT h tl)
  with tc obtain e exh ext where T: "T = ListType e" and h: "typecheck_term h \<Gamma> ST exh = Inr e"
    and tl: "typecheck_term tl \<Gamma> ST ext = Inr (ListType e)"
    by (auto elim!: bindrE split: ktype.split_asm option.split_asm simp del: bindr_Inr_iff)
  then show ?thesis using ConsT
    by (auto intro!: sat_bind2I [OF term_soundD [OF IH h env]] sat_bind2I [OF term_soundD [OF IH tl env]]
        dest!: canon_list [OF D])
next
  case (PairT l r)
  with tc obtain A B exl exr where T: "T = PairType A B" and l: "typecheck_term l \<Gamma> ST exl = Inr A"
    and r: "typecheck_term r \<Gamma> ST exr = Inr B"
    by (auto elim!: bindrE split: ktype.split_asm option.split_asm simp del: bindr_Inr_iff)
  then show ?thesis using PairT
    by (auto intro!: sat_bind2I [OF term_soundD [OF IH l env]] sat_bind2I [OF term_soundD [OF IH r env]])
next
  case (Fst p)
  with tc obtain B where p: "typecheck_term p \<Gamma> ST None = Inr (PairType T B)"
    by (auto elim!: bindrE split: ktype.split_asm option.split_asm simp del: bindr_Inr_iff)
  then show ?thesis using Fst
    by (auto intro!: sat_bind2I [OF term_soundD [OF IH p env]] dest!: canon_pair [OF D])
next
  case (Snd p)
  with tc obtain A where p: "typecheck_term p \<Gamma> ST None = Inr (PairType A T)"
    by (auto elim!: bindrE split: ktype.split_asm option.split_asm simp del: bindr_Inr_iff)
  then show ?thesis using Snd
    by (auto intro!: sat_bind2I [OF term_soundD [OF IH p env]] dest!: canon_pair [OF D])
next
  case (OptionSome w)
  with tc obtain e exw where T: "T = OptionType e" and w: "typecheck_term w \<Gamma> ST exw = Inr e"
    by (auto elim!: bindrE split: ktype.split_asm option.split_asm simp del: bindr_Inr_iff)
  then show ?thesis using OptionSome
    by (auto intro!: sat_bind2I [OF term_soundD [OF IH w env]])
qed (use tc in \<open>auto split: option.split_asm ktype.split_asm\<close>)

lemma eval_term_sound: "defs_ok ST D \<Longrightarrow> term_sound ST D L n"
proof (induction n)
  case 0
  then show ?case by (simp add: term_sound_def)
next
  case (Suc n)
  with eval_body_sound [OF Suc.IH [OF Suc.prems] Suc.prems] show ?case
    by (auto simp: term_sound_def)
qed

lemma run_eval_sound:
  assumes D: "defs_ok ST D" and tc: "typecheck_term t \<Gamma> ST ex = Inr T"
    and env: "list_all2 (has_type ST) env \<Gamma>"
  shows "sat {EvalError ''evaluation exceeded step limit'', ZeroDivisionError}
    (\<lambda>v. has_type ST v T) (run_eval L D t env)"
proof -
  have "sat runtime_errors (\<lambda>(v, s'). has_type ST v T) (eval_term (Suc (nat L)) L D t env 0)"
    by (rule term_soundD [OF eval_term_sound [OF D] tc env])
  then have "sat runtime_errors (\<lambda>v. has_type ST v T) (run_eval L D t env)"
    by (auto simp: run_eval_def intro!: sat_bind2I)
  with run_eval_total [of L D t env] show ?thesis
    by (cases "run_eval L D t env") (auto simp: runtime_errors_def)
qed

end
