(* ===== verification/Kernel_Deps.thy ===== *)
theory Kernel_Deps
  imports Kernel_Parse
begin

section \<open>Symbol references (kernel/deps.py)\<close>

text \<open>
  The references of a definition are read off its JSON form, before it is parsed. A Python
  set of names is a list without duplicates. Proved: on every document the parser accepts,
  the references found are exactly the symbols of the parsed term.
\<close>

lemma jor_obj_size [termination_simp]:
  "is_obj j \<Longrightarrow> size (jget (jor (jget j k) (JObj [])) l) < size j"
  by (auto simp: jor_def jget_jget_size is_obj_iff)

lemma jor_list_size [termination_simp]:
  "is_obj j \<Longrightarrow> x \<in> set (the_list (jor (jget j k) (JList []))) \<Longrightarrow> size x < size j"
  by (auto simp: jor_def jget_list_size split: if_splits)

text \<open>The nested function \<open>visit\<close>: the references in the order they are met.\<close>

fun visit_refs :: "json \<Rightarrow> string list res" where
  "visit_refs node =
     (if \<not> is_obj node then Inr []
      else let tag = jget node ''tag'' in
        if tag = JStr ''sym'' then
          let name = jget node ''name'' in Inr (if is_str name then [the_str name] else [])
        else if tag = JStr ''var'' then Inr []
        else if \<not> hashable tag then Inl (PyTypeError ''unhashable type'')
        else if tag \<in> {JStr ''int'', JStr ''bool'', JStr ''nil'', JStr ''none''} then Inr []
        else if tag = JStr ''some'' then visit_refs (jget node ''value'')
        else if tag = JStr ''cons'' then
          bindr (visit_refs (jget node ''head'')) (\<lambda>h.
          bindr (visit_refs (jget node ''tail'')) (\<lambda>t. Inr (h @ t)))
        else if tag = JStr ''if'' then
          bindr (visit_refs (jget node ''cond'')) (\<lambda>c.
          bindr (visit_refs (jget node ''then'')) (\<lambda>t.
          bindr (visit_refs (jget node ''else'')) (\<lambda>e. Inr (c @ t @ e))))
        else if tag = JStr ''app'' then
          bindr (visit_refs (jget node ''fn'')) (\<lambda>f.
          bindr (mapr visit_refs (the_list (jor (jget node ''args'') (JList [])))) (\<lambda>rs.
            Inr (f @ concat rs)))
        else if tag = JStr ''prim'' then
          bindr (mapr visit_refs (the_list (jor (jget node ''args'') (JList [])))) (\<lambda>rs.
            Inr (concat rs))
        else if tag = JStr ''pair'' then
          bindr (visit_refs (jget node ''left'')) (\<lambda>l.
          bindr (visit_refs (jget node ''right'')) (\<lambda>r. Inr (l @ r)))
        else if tag \<in> {JStr ''fst'', JStr ''snd''} then visit_refs (jget node ''pair'')
        else if tag = JStr ''match_list'' then
          bindr (visit_refs (jget node ''scrutinee'')) (\<lambda>s.
          bindr (visit_refs (jget node ''nil_case'')) (\<lambda>n.
          bindr (visit_refs (jget (jor (jget node ''cons_case'') (JObj [])) ''body'')) (\<lambda>c.
            Inr (s @ n @ c))))
        else if tag = JStr ''match_option'' then
          bindr (visit_refs (jget node ''scrutinee'')) (\<lambda>s.
          bindr (visit_refs (jget node ''none_case'')) (\<lambda>n.
          bindr (visit_refs (jget (jor (jget node ''some_case'') (JObj [])) ''body'')) (\<lambda>b.
            Inr (s @ n @ b))))
        else Inl (ValueError ''unknown term tag: ''))"

declare visit_refs.simps [simp del]

definition collect_sym_refs :: "json \<Rightarrow> string list res" where
  "collect_sym_refs term = bindr (visit_refs term) (\<lambda>rs. Inr (remdups rs))"

text \<open>Set union on duplicate-free lists, the result of \<open>refs.update\<close>.\<close>

definition set_update :: "string list \<Rightarrow> string list \<Rightarrow> string list" where
  "set_update xs ys = xs @ filter (\<lambda>y. y \<notin> set xs) (remdups ys)"

lemma set_set_update [simp]: "set (set_update xs ys) = set xs \<union> set ys"
  by (auto simp: set_update_def)

lemma distinct_set_update [simp]: "distinct xs \<Longrightarrow> distinct (set_update xs ys)"
  by (auto simp: set_update_def)

fun refs_in_defs :: "json list \<Rightarrow> string list \<Rightarrow> string list res" where
  "refs_in_defs [] refs = Inr refs"
| "refs_in_defs (d # ds) refs =
     bindr (jgetr d ''body'') (\<lambda>body.
       if body = JNull then refs_in_defs ds refs
       else bindr (collect_sym_refs body) (\<lambda>rs. refs_in_defs ds (set_update refs rs)))"

definition collect_sym_refs_in_defs :: "json list \<Rightarrow> string list res" where
  "collect_sym_refs_in_defs ds = refs_in_defs ds []"

text \<open>The string elements of a list, as the two \<open>isinstance(name, str)\<close> loops keep them.\<close>

definition str_names :: "json list \<Rightarrow> string list" where
  "str_names xs = map the_str (filter is_str xs)"

definition spec_refs :: "json \<Rightarrow> string list \<Rightarrow> string list res" where
  "spec_refs spec refs =
     bindr (jgetr spec ''kind'') (\<lambda>kind.
     if kind = JStr ''forall'' then
       let refs1 = set_update refs (str_names (the_list
             (jor (jget (jor (jget spec ''domain'') (JObj [])) ''fun_symbols'') (JList []))));
           term = jget spec ''assert''
       in if term = JNull then Inr refs1
          else bindr (collect_sym_refs term) (\<lambda>rs. Inr (set_update refs1 rs))
     else if kind = JStr ''stat_cert'' then
       let oracle = jget (jor (jget spec ''eval'') (JObj [])) ''oracle_symbol'' in
         Inr (set_update refs
           (str_names [jget spec ''baseline_symbol'', jget spec ''candidate_symbol'', oracle]))
     else bindr (in_strs kind [''proof'', ''proof_unbounded'']) (\<lambda>is_proof.
       if is_proof then
         let goal = jor (jget spec ''goal'') (JObj []) in
           bindr (jgetr goal ''lhs'') (\<lambda>lhs.
           bindr (collect_sym_refs (jor lhs (JObj []))) (\<lambda>ls.
           bindr (jgetr goal ''rhs'') (\<lambda>rhs.
           bindr (collect_sym_refs (jor rhs (JObj []))) (\<lambda>rs.
             Inr (set_update (set_update refs ls) rs)))))
       else let term = jget spec ''assert'' in
         if term = JNull then Inr refs
         else bindr (collect_sym_refs term) (\<lambda>rs. Inr (set_update refs rs))))"

fun refs_in_specs :: "json list \<Rightarrow> string list \<Rightarrow> string list res" where
  "refs_in_specs [] refs = Inr refs"
| "refs_in_specs (s # ss) refs = bindr (spec_refs s refs) (refs_in_specs ss)"

definition collect_sym_refs_in_specs :: "json list \<Rightarrow> string list res" where
  "collect_sym_refs_in_specs ss = refs_in_specs ss []"

subsection \<open>The references are the symbols of the parsed term\<close>

fun term_syms :: "kterm \<Rightarrow> string set" where
  "term_syms (Sym n) = {n}"
| "term_syms (ConsT h t) = term_syms h \<union> term_syms t"
| "term_syms (OptionSome v) = term_syms v"
| "term_syms (MatchOption s n b) = term_syms s \<union> term_syms n \<union> term_syms b"
| "term_syms (PairT l r) = term_syms l \<union> term_syms r"
| "term_syms (Fst p) = term_syms p"
| "term_syms (Snd p) = term_syms p"
| "term_syms (IfT c t e) = term_syms c \<union> term_syms t \<union> term_syms e"
| "term_syms (App f args) = term_syms f \<union> (\<Union>a \<in> set args. term_syms a)"
| "term_syms (Prim op args) = (\<Union>a \<in> set args. term_syms a)"
| "term_syms (MatchList s n c) = term_syms s \<union> term_syms n \<union> term_syms c"
| "term_syms _ = {}"

lemma the_list_jor [simp]: "is_list v \<Longrightarrow> the_list (jor v (JList [])) = the_list v"
  by (auto simp: jor_def is_list_iff)

lemma jget_jor [simp]: "is_obj v \<Longrightarrow> jget (jor v (JObj [])) k = jget v k"
  by (auto simp: jor_def is_obj_iff)

lemma visit_list:
  assumes "\<forall>a \<in> set as. \<forall>x env. parse_term x env = Inr a \<longrightarrow>
      (\<exists>rs. visit_refs x = Inr rs \<and> set rs = term_syms a)"
    and "mapr (\<lambda>a. parse_term a env) xs = Inr as"
  shows "\<exists>rss. mapr visit_refs xs = Inr rss \<and> set (concat rss) = (\<Union>a \<in> set as. term_syms a)"
  using assms
proof (induction xs arbitrary: as)
  case Nil
  then show ?case by simp
next
  case (Cons x xs)
  from Cons.prems(2) obtain a as' where a: "as = a # as'" "parse_term x env = Inr a"
    "mapr (\<lambda>a. parse_term a env) xs = Inr as'" by auto
  from Cons.prems(1) a(1,2) obtain r where "visit_refs x = Inr r" "set r = term_syms a"
    by (meson list.set_intros(1))
  moreover from Cons.IH [OF _ a(3)] Cons.prems(1) a(1) obtain rss where
    "mapr visit_refs xs = Inr rss" "set (concat rss) = (\<Union>a \<in> set as'. term_syms a)" by auto
  ultimately show ?case using a(1) by simp
qed

lemma parse_term_App: "parse_term j env = Inr (App f as) \<Longrightarrow>
   is_obj j \<and> jget j ''tag'' = JStr ''app'' \<and> is_list (jget j ''args'') \<and>
   parse_term (jget j ''fn'') env = Inr f \<and>
   mapr (\<lambda>a. parse_term a env) (the_list (jget j ''args'')) = Inr as"
  by (simp add: parse_term.simps [of j] Let_def split: if_splits option.splits)

lemma parse_term_Prim: "parse_term j env = Inr (Prim op as) \<Longrightarrow>
   is_obj j \<and> jget j ''tag'' = JStr ''prim'' \<and> is_list (jget j ''args'') \<and> jget j ''op'' = op \<and>
   mapr (\<lambda>a. parse_term a env) (the_list (jget j ''args'')) = Inr as"
  by (simp add: parse_term.simps [of j] Let_def split: if_splits option.splits)

lemma parse_term_ConsT: "parse_term j env = Inr (ConsT h t) \<Longrightarrow>
   is_obj j \<and> jget j ''tag'' = JStr ''cons'' \<and>
   parse_term (jget j ''head'') env = Inr h \<and> parse_term (jget j ''tail'') env = Inr t"
  by (simp add: parse_term.simps [of j] Let_def split: if_splits option.splits)

lemma parse_term_PairT: "parse_term j env = Inr (PairT l r) \<Longrightarrow>
   is_obj j \<and> jget j ''tag'' = JStr ''pair'' \<and>
   parse_term (jget j ''left'') env = Inr l \<and> parse_term (jget j ''right'') env = Inr r"
  by (simp add: parse_term.simps [of j] Let_def split: if_splits option.splits)

lemma parse_term_IfT: "parse_term j env = Inr (IfT c t e) \<Longrightarrow>
   is_obj j \<and> jget j ''tag'' = JStr ''if'' \<and> parse_term (jget j ''cond'') env = Inr c \<and>
   parse_term (jget j ''then'') env = Inr t \<and> parse_term (jget j ''else'') env = Inr e"
  by (simp add: parse_term.simps [of j] Let_def split: if_splits option.splits)

lemma parse_term_OptionSome: "parse_term j env = Inr (OptionSome v) \<Longrightarrow>
   is_obj j \<and> jget j ''tag'' = JStr ''some'' \<and> parse_term (jget j ''value'') env = Inr v"
  by (simp add: parse_term.simps [of j] Let_def split: if_splits option.splits)

lemma parse_term_Fst: "parse_term j env = Inr (Fst p) \<Longrightarrow>
   is_obj j \<and> jget j ''tag'' = JStr ''fst'' \<and> parse_term (jget j ''pair'') env = Inr p"
  by (simp add: parse_term.simps [of j] Let_def split: if_splits option.splits)

lemma parse_term_Snd: "parse_term j env = Inr (Snd p) \<Longrightarrow>
   is_obj j \<and> jget j ''tag'' = JStr ''snd'' \<and> parse_term (jget j ''pair'') env = Inr p"
  by (simp add: parse_term.simps [of j] Let_def split: if_splits option.splits)

lemma parse_term_MatchList: "parse_term j env = Inr (MatchList s n c) \<Longrightarrow>
   is_obj j \<and> jget j ''tag'' = JStr ''match_list'' \<and> is_obj (jget j ''cons_case'') \<and>
   parse_term (jget j ''scrutinee'') env = Inr s \<and> parse_term (jget j ''nil_case'') env = Inr n \<and>
   parse_term (jget (jget j ''cons_case'') ''body'')
     ([jget (jget j ''cons_case'') ''tail_var'', jget (jget j ''cons_case'') ''head_var''] @ env) = Inr c"
  by (simp add: parse_term.simps [of j] Let_def split: if_splits option.splits)

lemma parse_term_MatchOption: "parse_term j env = Inr (MatchOption s n b) \<Longrightarrow>
   is_obj j \<and> jget j ''tag'' = JStr ''match_option'' \<and> is_obj (jget j ''some_case'') \<and>
   parse_term (jget j ''scrutinee'') env = Inr s \<and> parse_term (jget j ''none_case'') env = Inr n \<and>
   parse_term (jget (jget j ''some_case'') ''body'') ([jget (jget j ''some_case'') ''var''] @ env) = Inr b"
  by (simp add: parse_term.simps [of j] Let_def split: if_splits option.splits)

lemma parse_term_leaves:
  "parse_term j env = Inr (Var i) \<Longrightarrow> is_obj j \<and> jget j ''tag'' = JStr ''var''"
  "parse_term j env = Inr (Sym n) \<Longrightarrow>
     is_obj j \<and> jget j ''tag'' = JStr ''sym'' \<and> jget j ''name'' = JStr n"
  "parse_term j env = Inr (IntLit k) \<Longrightarrow> is_obj j \<and> jget j ''tag'' = JStr ''int''"
  "parse_term j env = Inr (BoolLit b) \<Longrightarrow> is_obj j \<and> jget j ''tag'' = JStr ''bool''"
  "parse_term j env = Inr NilT \<Longrightarrow> is_obj j \<and> jget j ''tag'' = JStr ''nil''"
  "parse_term j env = Inr OptionNone \<Longrightarrow> is_obj j \<and> jget j ''tag'' = JStr ''none''"
  by (auto simp: parse_term.simps [of j] Let_def is_str_iff split: if_splits option.splits)

lemmas parse_term_elims = parse_term_App parse_term_Prim parse_term_ConsT parse_term_PairT
  parse_term_IfT parse_term_OptionSome parse_term_Fst parse_term_Snd parse_term_MatchList
  parse_term_MatchOption

lemma visit_refs_parsed:
  "parse_term j env = Inr t \<Longrightarrow> \<exists>rs. visit_refs j = Inr rs \<and> set rs = term_syms t"
proof (induction t arbitrary: j env)
  case (App f as)
  note P = parse_term_App [OF App.prems]
  from App.IH(1) P obtain rf where rf: "visit_refs (jget j ''fn'') = Inr rf" "set rf = term_syms f"
    by blast
  from visit_list [of as env "the_list (jget j ''args'')"] App.IH(2) P obtain rss where
    "mapr visit_refs (the_list (jget j ''args'')) = Inr rss"
    "set (concat rss) = (\<Union>a \<in> set as. term_syms a)" by blast
  with rf P show ?case by (simp add: visit_refs.simps [of j] Let_def Un_assoc)
next
  case (Prim op as)
  note P = parse_term_Prim [OF Prim.prems]
  from visit_list [of as env "the_list (jget j ''args'')"] Prim.IH P obtain rss where
    "mapr visit_refs (the_list (jget j ''args'')) = Inr rss"
    "set (concat rss) = (\<Union>a \<in> set as. term_syms a)" by blast
  with P show ?case by (simp add: visit_refs.simps [of j] Let_def Un_assoc)
next
  case (MatchList s n c)
  note P = parse_term_MatchList [OF MatchList.prems]
  with MatchList.IH obtain r1 r2 r3 where
    "visit_refs (jget j ''scrutinee'') = Inr r1" "set r1 = term_syms s"
    "visit_refs (jget j ''nil_case'') = Inr r2" "set r2 = term_syms n"
    "visit_refs (jget (jget j ''cons_case'') ''body'') = Inr r3" "set r3 = term_syms c" by metis
  with P show ?case by (simp add: visit_refs.simps [of j] Let_def Un_assoc)
next
  case (MatchOption s n b)
  note P = parse_term_MatchOption [OF MatchOption.prems]
  with MatchOption.IH obtain r1 r2 r3 where
    "visit_refs (jget j ''scrutinee'') = Inr r1" "set r1 = term_syms s"
    "visit_refs (jget j ''none_case'') = Inr r2" "set r2 = term_syms n"
    "visit_refs (jget (jget j ''some_case'') ''body'') = Inr r3" "set r3 = term_syms b" by metis
  with P show ?case by (simp add: visit_refs.simps [of j] Let_def Un_assoc)
next
  case (ConsT h t)
  note P = parse_term_ConsT [OF ConsT.prems]
  with ConsT.IH obtain r1 r2 where "visit_refs (jget j ''head'') = Inr r1" "set r1 = term_syms h"
    "visit_refs (jget j ''tail'') = Inr r2" "set r2 = term_syms t" by metis
  with P show ?case by (simp add: visit_refs.simps [of j] Let_def Un_assoc)
next
  case (PairT l r)
  note P = parse_term_PairT [OF PairT.prems]
  with PairT.IH obtain r1 r2 where "visit_refs (jget j ''left'') = Inr r1" "set r1 = term_syms l"
    "visit_refs (jget j ''right'') = Inr r2" "set r2 = term_syms r" by metis
  with P show ?case by (simp add: visit_refs.simps [of j] Let_def Un_assoc)
next
  case (IfT c t e)
  note P = parse_term_IfT [OF IfT.prems]
  with IfT.IH obtain r1 r2 r3 where "visit_refs (jget j ''cond'') = Inr r1" "set r1 = term_syms c"
    "visit_refs (jget j ''then'') = Inr r2" "set r2 = term_syms t"
    "visit_refs (jget j ''else'') = Inr r3" "set r3 = term_syms e" by metis
  with P show ?case by (simp add: visit_refs.simps [of j] Let_def Un_assoc)
next
  case (OptionSome v)
  note P = parse_term_OptionSome [OF OptionSome.prems]
  with OptionSome.IH show ?case by (auto simp: visit_refs.simps [of j] Let_def)
next
  case (Fst p)
  note P = parse_term_Fst [OF Fst.prems]
  with Fst.IH show ?case by (auto simp: visit_refs.simps [of j] Let_def)
next
  case (Snd p)
  note P = parse_term_Snd [OF Snd.prems]
  with Snd.IH show ?case by (auto simp: visit_refs.simps [of j] Let_def)
next
  case (Var i)
  from parse_term_leaves(1) [OF Var.prems] show ?case by (simp add: visit_refs.simps [of j] Let_def)
next
  case (Sym n)
  from parse_term_leaves(2) [OF Sym.prems] show ?case by (simp add: visit_refs.simps [of j] Let_def)
next
  case (IntLit k)
  from parse_term_leaves(3) [OF IntLit.prems] show ?case by (simp add: visit_refs.simps [of j] Let_def)
next
  case (BoolLit b)
  from parse_term_leaves(4) [OF BoolLit.prems] show ?case by (simp add: visit_refs.simps [of j] Let_def)
next
  case NilT
  from parse_term_leaves(5) [OF NilT.prems] show ?case by (simp add: visit_refs.simps [of j] Let_def)
next
  case OptionNone
  from parse_term_leaves(6) [OF OptionNone.prems] show ?case by (simp add: visit_refs.simps [of j] Let_def)
qed

lemma collect_sym_refs_parsed:
  "parse_term j env = Inr t \<Longrightarrow> \<exists>rs. collect_sym_refs j = Inr rs \<and> distinct rs \<and> set rs = term_syms t"
  using visit_refs_parsed [of j env t] by (auto simp: collect_sym_refs_def)

lemma refs_in_defs_parsed:
  assumes "list_all2 (\<lambda>j d. is_obj j \<and> (\<exists>env. parse_term (jget j ''body'') env = Inr (d_body d))) js ds"
    and "distinct refs"
  shows "\<exists>rs. refs_in_defs js refs = Inr rs \<and> distinct rs
    \<and> set rs = set refs \<union> (\<Union>d \<in> set ds. term_syms (d_body d))"
  using assms
proof (induction js ds arbitrary: refs rule: list_all2_induct)
  case Nil
  then show ?case by simp
next
  case (Cons j js d ds)
  then obtain env where env: "parse_term (jget j ''body'') env = Inr (d_body d)" and "is_obj j" by auto
  from collect_sym_refs_parsed [OF env] obtain rs where
    "collect_sym_refs (jget j ''body'') = Inr rs" "set rs = term_syms (d_body d)" by blast
  moreover from env have "jget j ''body'' \<noteq> JNull"
    by (auto simp: parse_term.simps [of JNull])
  ultimately show ?case
    using Cons.IH [of "set_update refs rs"] Cons.prems \<open>is_obj j\<close>
    by (auto simp: jgetr_def)
qed

end
