(* ===== verification/Json_Text.thy ===== *)
theory Json_Text
  imports Json
begin

section \<open>JSON text: json.dumps and json.loads\<close>

text \<open>
  The two functions of Python's \<open>json\<close> module the ledger rests on: \<open>dumps\<close> with
  \<open>sort_keys=True\<close>, and \<open>loads\<close>. A byte string is a list of characters. Proved: reading
  a written document gives it back with the keys of every object sorted; hence the
  canonical bytes determine the document up to the order of keys.
\<close>

subsection \<open>Writing\<close>

definition digit :: "nat \<Rightarrow> char" where
  "digit d = (if d < 10 then char_of (48 + d) else char_of (87 + d))"

fun nat_str :: "nat \<Rightarrow> string" where
  "nat_str n = (if n < 10 then [digit n] else nat_str (n div 10) @ [digit (n mod 10)])"

declare nat_str.simps [simp del]

definition int_str :: "int \<Rightarrow> string" where
  "int_str i = (if i < 0 then ''-'' @ nat_str (nat (- i)) else nat_str (nat i))"

text \<open>\<open>ensure_ascii\<close>: every character outside \<open>' '..'~'\<close> is escaped, else only the control
  characters are.\<close>

definition esc_char :: "bool \<Rightarrow> char \<Rightarrow> string" where
  "esc_char ascii c =
     (if c = CHR 0x22 then [CHR 0x5C, CHR 0x22]
      else if c = CHR 0x5C then [CHR 0x5C, CHR 0x5C]
      else if c = CHR 0x0A then [CHR 0x5C, CHR ''n'']
      else if c = CHR 0x0D then [CHR 0x5C, CHR ''r'']
      else if c = CHR 0x09 then [CHR 0x5C, CHR ''t'']
      else if c = CHR 0x0C then [CHR 0x5C, CHR ''f'']
      else if c = CHR 0x08 then [CHR 0x5C, CHR ''b'']
      else if of_char c < (32 :: nat) \<or> ascii \<and> 126 < (of_char c :: nat)
      then [CHR 0x5C, CHR ''u'', CHR ''0'', CHR ''0'', digit (of_char c div 16), digit (of_char c mod 16)]
      else [c])"

definition dumps_str :: "bool \<Rightarrow> string \<Rightarrow> string" where
  "dumps_str ascii s = CHR 0x22 # concat (map (esc_char ascii) s) @ [CHR 0x22]"

text \<open>\<open>json.dumps(obj, sort_keys=True, separators=(isep, ksep), ensure_ascii=ascii)\<close>.\<close>

fun dumps :: "string \<Rightarrow> string \<Rightarrow> bool \<Rightarrow> json \<Rightarrow> string" where
  "dumps isep ksep ascii JNull = ''null''"
| "dumps isep ksep ascii (JBool b) = (if b then ''true'' else ''false'')"
| "dumps isep ksep ascii (JInt i) = int_str i"
| "dumps isep ksep ascii (JStr s) = dumps_str ascii s"
| "dumps isep ksep ascii (JList xs) = ''['' @ join isep (map (dumps isep ksep ascii) xs) @ '']''"
| "dumps isep ksep ascii (JObj kvs) =
     ''{'' @ join isep (map (\<lambda>(k, t). dumps_str ascii k @ ksep @ t)
       (sort_key fst (map (\<lambda>(k, v). (k, dumps isep ksep ascii v)) kvs))) @ ''}''"

text \<open>Encoding characters below 256 in UTF-8.\<close>

definition utf8 :: "string \<Rightarrow> string" where
  "utf8 s = concat (map (\<lambda>c. let n = of_char c :: nat in
     if n < 128 then [c] else [char_of (192 + n div 64), char_of (128 + n mod 64)]) s)"

subsection \<open>Reading\<close>

definition is_ws :: "char \<Rightarrow> bool" where
  "is_ws c \<longleftrightarrow> c \<in> {CHR '' '', CHR 0x09, CHR 0x0A, CHR 0x0D}"

definition skip_ws :: "string \<Rightarrow> string" where
  "skip_ws s = dropWhile is_ws s"

definition is_digit :: "char \<Rightarrow> bool" where
  "is_digit c \<longleftrightarrow> 48 \<le> (of_char c :: nat) \<and> (of_char c :: nat) \<le> 57"

definition json_error :: "'a res" where
  "json_error = Inl (ValueError ''JSONDecodeError'')"

fun hex_val :: "char \<Rightarrow> nat option" where
  "hex_val c = (let n = of_char c :: nat in
     if 48 \<le> n \<and> n \<le> 57 then Some (n - 48)
     else if 97 \<le> n \<and> n \<le> 102 then Some (n - 87)
     else if 65 \<le> n \<and> n \<le> 70 then Some (n - 55)
     else None)"

text \<open>The escape after a backslash: the character and the rest.\<close>

definition read_escape :: "string \<Rightarrow> (char \<times> string) res" where
  "read_escape s =
     (case s of
        [] \<Rightarrow> json_error
      | e # s1 \<Rightarrow>
          if e = CHR 0x22 \<or> e = CHR 0x5C \<or> e = CHR ''/'' then Inr (e, s1)
          else if e = CHR ''b'' then Inr (CHR 0x08, s1)
          else if e = CHR ''f'' then Inr (CHR 0x0C, s1)
          else if e = CHR ''n'' then Inr (CHR 0x0A, s1)
          else if e = CHR ''r'' then Inr (CHR 0x0D, s1)
          else if e = CHR ''t'' then Inr (CHR 0x09, s1)
          else if e = CHR ''u'' then
            (case map hex_val (take 4 s1) of
               [Some a, Some b, Some c, Some d] \<Rightarrow>
                 if a = 0 \<and> b = 0 then Inr (char_of (16 * c + d), drop 4 s1)
                 else Inl (Unmodelled ''character above 255'')
             | _ \<Rightarrow> json_error)
          else json_error)"

lemma read_escape_length: "read_escape s = Inr (c, r) \<Longrightarrow> length r < length s"
  by (cases s) (auto simp: read_escape_def json_error_def
      split: if_split_asm list.split_asm option.split_asm)

text \<open>The body of a string literal, after the opening quote: the value and the rest.\<close>

function read_string :: "string \<Rightarrow> string \<Rightarrow> (string \<times> string) res" where
  "read_string [] acc = json_error"
| "read_string (c # s) acc =
     (if c = CHR 0x22 then Inr (acc, s)
      else if c = CHR 0x5C then
        bindr (read_escape s) (\<lambda>(x, s1). read_string s1 (acc @ [x]))
      else if of_char c < (32 :: nat) then json_error
      else read_string s (acc @ [c]))"
  by pat_completeness auto
termination
  by (relation "measure (\<lambda>(s, acc). length s)") (auto dest: read_escape_length)

definition digits_val :: "string \<Rightarrow> nat" where
  "digits_val ds = foldl (\<lambda>n c. 10 * n + (of_char c - 48)) 0 ds"

text \<open>The fraction or exponent that makes a number a float: \<open>(\.\d+)?([eE][-+]?\d+)?\<close>.\<close>

fun float_tail :: "string \<Rightarrow> bool" where
  "float_tail (c # d # s) =
     ((c = CHR ''.'' \<and> is_digit d)
      \<or> ((c = CHR ''e'' \<or> c = CHR ''E'') \<and>
          (is_digit d \<or> (d = CHR ''-'' \<or> d = CHR ''+'') \<and> s \<noteq> [] \<and> is_digit (hd s))))"
| "float_tail s = False"

text \<open>A number after its sign.\<close>

definition read_nat :: "string \<Rightarrow> (nat \<times> string) res" where
  "read_nat s =
     (case s of
        [] \<Rightarrow> json_error
      | c # s1 \<Rightarrow>
          if \<not> is_digit c then json_error
          else let ds = (if c = CHR ''0'' then [c] else takeWhile is_digit s);
                   rest = (if c = CHR ''0'' then s1 else dropWhile is_digit s)
            in if float_tail rest then Inl (Unmodelled ''float'') else Inr (digits_val ds, rest))"

text \<open>\<open>d[k] = v\<close>: a key already present keeps its place.\<close>

fun dict_set :: "('k \<times> 'v) list \<Rightarrow> 'k \<Rightarrow> 'v \<Rightarrow> ('k \<times> 'v) list" where
  "dict_set [] k v = [(k, v)]"
| "dict_set ((k', v') # kvs) k v =
     (if k' = k then (k, v) # kvs else (k', v') # dict_set kvs k v)"

lemma map_of_dict_set: "map_of (dict_set d k v) = (map_of d)(k \<mapsto> v)"
  by (induction d k v rule: dict_set.induct) (auto simp: fun_upd_twist)

lemma keys_dict_set: "fst ` set (dict_set d k v) = insert k (fst ` set d)"
  by (induction d k v rule: dict_set.induct) auto

lemma distinct_dict_set: "distinct (map fst d) \<Longrightarrow> distinct (map fst (dict_set d k v))"
  by (induction d k v rule: dict_set.induct) (auto simp: keys_dict_set simp del: image_iff)

text \<open>\<open>d.update(other)\<close>.\<close>

definition dict_update :: "('k \<times> 'v) list \<Rightarrow> ('k \<times> 'v) list \<Rightarrow> ('k \<times> 'v) list" where
  "dict_update d other = fold (\<lambda>(k, v) d. dict_set d k v) other d"

lemma dict_update_Cons: "dict_update d ((k, v) # kvs) = dict_update (dict_set d k v) kvs"
  by (simp add: dict_update_def)

lemma dict_update_Nil [simp]: "dict_update d [] = d"
  by (simp add: dict_update_def)

lemma map_of_dict_update: "distinct (map fst kvs) \<Longrightarrow> map_of (dict_update d kvs) = map_of d ++ map_of kvs"
  by (induction kvs arbitrary: d)
    (auto simp: dict_update_Cons map_of_dict_set map_add_upd_left dom_map_of_conv_image_fst simp del: map_of_eq_None_iff)

text \<open>\<open>d[k] = v\<close> on an object.\<close>

fun obj_set :: "json \<Rightarrow> string \<Rightarrow> json \<Rightarrow> json" where
  "obj_set (JObj kvs) k v = JObj (dict_set kvs k v)"
| "obj_set j k v = j"

definition starts :: "string \<Rightarrow> string \<Rightarrow> bool" where
  "starts p s \<longleftrightarrow> take (length p) s = p"

text \<open>The rest after an expected character.\<close>

definition eat :: "char \<Rightarrow> string \<Rightarrow> string option" where
  "eat c s = (case s of [] \<Rightarrow> None | x # r \<Rightarrow> if x = c then Some r else None)"

lemma eat_Some [simp]: "eat c s = Some r \<longleftrightarrow> s = c # r"
  by (auto simp: eat_def split: list.splits)

lemma eat_Cons [simp]: "eat c (x # r) = (if x = c then Some r else None)"
  by (simp add: eat_def)

text \<open>The fuel bounds the number of nested and consecutive calls.\<close>

fun read_value :: "nat \<Rightarrow> string \<Rightarrow> (json \<times> string) res"
and read_elems :: "nat \<Rightarrow> string \<Rightarrow> json list \<Rightarrow> (json \<times> string) res"
and read_members :: "nat \<Rightarrow> string \<Rightarrow> (string \<times> json) list \<Rightarrow> (json \<times> string) res" where
  "read_value 0 s = Inl OutOfFuel"
| "read_value (Suc n) s =
     (if starts [CHR 0x22] s then
        bindr (read_string (drop 1 s) []) (\<lambda>(x, r). Inr (JStr x, r))
      else if starts ''['' s then
        let s2 = skip_ws (drop 1 s) in
          (case eat (CHR '']'') s2 of Some r \<Rightarrow> Inr (JList [], r) | None \<Rightarrow> read_elems n s2 [])
      else if starts ''{'' s then
        let s2 = skip_ws (drop 1 s) in
          (case eat (CHR ''}'') s2 of Some r \<Rightarrow> Inr (JObj [], r) | None \<Rightarrow> read_members n s2 [])
      else if starts ''null'' s then Inr (JNull, drop 4 s)
      else if starts ''true'' s then Inr (JBool True, drop 4 s)
      else if starts ''false'' s then Inr (JBool False, drop 5 s)
      else if starts ''NaN'' s \<or> starts ''Infinity'' s \<or> starts ''-Infinity'' s
      then Inl (Unmodelled ''float'')
      else if starts ''-'' s then
        bindr (read_nat (drop 1 s)) (\<lambda>(k, r). Inr (JInt (- int k), r))
      else bindr (read_nat s) (\<lambda>(k, r). Inr (JInt (int k), r)))"
| "read_elems 0 s acc = Inl OutOfFuel"
| "read_elems (Suc n) s acc =
     bindr (read_value n s) (\<lambda>(v, s1).
     let s2 = skip_ws s1 in
     case eat (CHR '']'') s2 of
       Some r \<Rightarrow> Inr (JList (acc @ [v]), r)
     | None \<Rightarrow>
         (case eat (CHR '','') s2 of
            Some r \<Rightarrow> read_elems n (skip_ws r) (acc @ [v])
          | None \<Rightarrow> json_error))"
| "read_members 0 s acc = Inl OutOfFuel"
| "read_members (Suc n) s acc =
     (case eat (CHR 0x22) s of
        None \<Rightarrow> json_error
      | Some s0 \<Rightarrow>
          bindr (read_string s0 []) (\<lambda>(k, s1).
          case eat (CHR '':'') (skip_ws s1) of
            None \<Rightarrow> json_error
          | Some s2 \<Rightarrow>
              bindr (read_value n (skip_ws s2)) (\<lambda>(v, s3).
              let s4 = skip_ws s3; acc = dict_set acc k v in
              case eat (CHR ''}'') s4 of
                Some r \<Rightarrow> Inr (JObj acc, r)
              | None \<Rightarrow>
                  (case eat (CHR '','') s4 of
                     Some r \<Rightarrow> read_members n (skip_ws r) acc
                   | None \<Rightarrow> json_error))))"

text \<open>\<open>json.loads(text)\<close>.\<close>

definition loads :: "string \<Rightarrow> json res" where
  "loads s = bindr (read_value (2 * length s + 1) (skip_ws s)) (\<lambda>(v, r).
     if skip_ws r = [] then Inr v else json_error)"

subsection \<open>The reader always answers\<close>

lemma skip_ws_length: "length (skip_ws s) \<le> length s"
  by (simp add: skip_ws_def length_dropWhile_le)

lemma read_string_length: "read_string s acc = Inr (x, r) \<Longrightarrow> length r < length s"
proof (induction s acc rule: read_string.induct)
  case (2 c s acc)
  show ?case
  proof (cases "c = CHR 0x5C")
    case True
    with "2.prems" obtain y s1 where "read_escape s = Inr (y, s1)" "read_string s1 (acc @ [y]) = Inr (x, r)"
      by auto
    with "2.IH"(1) [of "(y, s1)" y s1] True read_escape_length show ?thesis by fastforce
  next
    case False
    with "2.prems" "2.IH"(2) show ?thesis by (fastforce simp: json_error_def split: if_split_asm)
  qed
qed (simp add: json_error_def)

lemma json_error_no_fuel [simp]: "json_error \<noteq> Inl OutOfFuel" "json_error \<noteq> Inr x"
  by (simp_all add: json_error_def)

lemma read_escape_no_fuel: "read_escape s \<noteq> Inl OutOfFuel"
  by (cases s) (auto simp: read_escape_def split: if_split_asm list.split_asm option.split_asm)

lemma read_string_no_fuel: "read_string s acc \<noteq> Inl OutOfFuel"
proof (induction s acc rule: read_string.induct)
  case (2 c s acc)
  then show ?case
    using read_escape_no_fuel [of s] by (auto simp: bindr_Inl_iff)
qed simp

lemma read_nat_length: "read_nat s = Inr (k, r) \<Longrightarrow> length r < length s"
  by (cases s) (auto simp: read_nat_def Let_def length_dropWhile_le less_Suc_eq_le split: if_split_asm)

lemma read_nat_no_fuel: "read_nat s \<noteq> Inl OutOfFuel"
  by (cases s) (auto simp: read_nat_def Let_def split: if_split_asm)

text \<open>What a reader does with enough fuel: it answers, and a success consumes input.\<close>

definition reads :: "nat \<Rightarrow> (json \<times> string) res \<Rightarrow> bool" where
  "reads k m \<longleftrightarrow> m \<noteq> Inl OutOfFuel \<and> (\<forall>v r. m = Inr (v, r) \<longrightarrow> length r < k)"

lemma reads_simps [simp]:
  "reads k (Inl e) \<longleftrightarrow> e \<noteq> OutOfFuel" "reads k (Inr (v, r)) \<longleftrightarrow> length r < k" "reads k json_error"
  by (auto simp: reads_def)

lemma reads_bind:
  "reads k' m \<Longrightarrow> (\<And>v r. m = Inr (v, r) \<Longrightarrow> length r < k' \<Longrightarrow> reads k (f (v, r))) \<Longrightarrow> reads k (bindr m f)"
  by (cases m) (auto simp: reads_def)

lemma reads_string_bind:
  "(\<And>v r. read_string s acc = Inr (v, r) \<Longrightarrow> length r < length s \<Longrightarrow> reads k (f (v, r))) \<Longrightarrow>
     reads k (bindr (read_string s acc) f)"
  using read_string_no_fuel [of s acc]
  by (cases "read_string s acc") (auto simp: reads_def dest: read_string_length)

lemma reads_nat_bind:
  "(\<And>v r. read_nat s = Inr (v, r) \<Longrightarrow> length r < length s \<Longrightarrow> reads k (f (v, r))) \<Longrightarrow>
     reads k (bindr (read_nat s) f)"
  using read_nat_no_fuel [of s]
  by (cases "read_nat s") (auto simp: reads_def dest: read_nat_length)

lemma reads_mono: "reads k m \<Longrightarrow> k \<le> k' \<Longrightarrow> reads k' m"
  by (auto simp: reads_def)

lemma skip_ws_Cons_length: "skip_ws s = c # r \<Longrightarrow> Suc (length r) \<le> length s"
  using skip_ws_length [of s] by simp

lemma starts_length: "starts p s \<Longrightarrow> p \<noteq> [] \<Longrightarrow> length (drop (length p) s) < length s"
  by (cases s) (auto simp: starts_def)

lemma starts_Cons: "starts [c] s \<longleftrightarrow> (\<exists>t. s = c # t)"
  by (cases s) (auto simp: starts_def)

lemma reads_if: "(b \<Longrightarrow> reads k x) \<Longrightarrow> (\<not> b \<Longrightarrow> reads k y) \<Longrightarrow> reads k (if b then x else y)"
  by simp

lemma reads_starts1:
  "(length s = Suc (length (drop 1 s)) \<Longrightarrow> reads k x) \<Longrightarrow> reads k y \<Longrightarrow>
     reads k (if starts [c] s then x else y)"
  by (auto simp: starts_Cons)

lemma reads_starts:
  "(length (drop (length p) s) < length s \<Longrightarrow> reads k x) \<Longrightarrow> p \<noteq> [] \<Longrightarrow> reads k y \<Longrightarrow>
     reads k (if starts p s then x else y)"
  using starts_length [of p s] by simp

lemma reads_eat:
  "(\<And>r. skip_ws t = c # r \<Longrightarrow> Suc (length r) \<le> length t \<Longrightarrow> reads k (f r)) \<Longrightarrow> reads k g \<Longrightarrow>
     reads k (case eat c (skip_ws t) of None \<Rightarrow> g | Some r \<Rightarrow> f r)"
  using skip_ws_length [of t] by (auto split: option.split)

lemma reads_eat_None:
  "reads k g \<Longrightarrow> (\<And>r. skip_ws t = c # r \<Longrightarrow> Suc (length r) \<le> length t \<Longrightarrow> reads k (f r)) \<Longrightarrow>
     reads k (case eat c (skip_ws t) of None \<Rightarrow> g | Some r \<Rightarrow> f r)"
  by (rule reads_eat)

lemma reads_read_value:
  assumes e: "\<And>s. 2 * length s + 1 < n \<Longrightarrow> reads (length s) (read_elems n s [])"
    and m: "\<And>s. 2 * length s + 1 < n \<Longrightarrow> reads (length s) (read_members n s [])"
    and n: "2 * length s < Suc n"
  shows "reads (length s) (read_value (Suc n) s)"
proof -
  have e': "reads (length s) (read_elems n (skip_ws t) [])"
    and m': "reads (length s) (read_members n (skip_ws t) [])" if "length s = Suc (length t)" for t
    using that n skip_ws_length [of t] by (auto intro!: reads_mono [OF e] reads_mono [OF m])
  show ?thesis
    unfolding read_value.simps Let_def
    apply (rule reads_starts1, rule reads_string_bind, simp)
    apply (rule reads_starts1, rule reads_eat, simp only: reads_simps, erule e')
    apply (rule reads_starts1, rule reads_eat, simp only: reads_simps, erule m')
    apply (rule reads_starts, simp, simp)
    apply (rule reads_starts, simp, simp)
    apply (rule reads_starts, simp, simp)
    apply (rule reads_if, simp)
    apply (rule reads_starts1, rule reads_nat_bind, simp)
    apply (rule reads_nat_bind, simp)
    done
qed

lemma reads_read_elems:
  assumes v: "\<And>s. 2 * length s < n \<Longrightarrow> reads (length s) (read_value n s)"
    and e: "\<And>s acc. 2 * length s + 1 < n \<Longrightarrow> reads (length s) (read_elems n s acc)"
    and n: "2 * length s + 1 < Suc n"
  shows "reads (length s) (read_elems (Suc n) s acc)"
proof -
  have e': "reads (length s) (read_elems n (skip_ws t) acc)" if "Suc (length t) < length s" for t acc
    using that n skip_ws_length [of t] by (auto intro!: reads_mono [OF e])
  show ?thesis
    unfolding read_elems.simps Let_def
    apply (rule reads_bind [OF v], use n in simp)
    apply (simp only: prod.case)
    apply (rule reads_eat, simp)
    apply (rule reads_eat, rule e', auto)
    done
qed

lemma reads_read_members:
  assumes v: "\<And>s. 2 * length s < n \<Longrightarrow> reads (length s) (read_value n s)"
    and m: "\<And>s acc. 2 * length s + 1 < n \<Longrightarrow> reads (length s) (read_members n s acc)"
    and n: "2 * length s + 1 < Suc n"
  shows "reads (length s) (read_members (Suc n) s acc)"
proof (cases "eat (CHR 0x22) s")
  case (Some s0)
  then have s: "length s = Suc (length s0)" by simp
  have v': "reads (length s0) (read_value n (skip_ws t))" if "length t < length s0" for t
    using that n s skip_ws_length [of t] by (intro reads_mono [OF v]) auto
  have m': "reads (length s) (read_members n (skip_ws t) acc)" if "length t < length s0" for t acc
    using that n s skip_ws_length [of t] by (intro reads_mono [OF m]) auto
  show ?thesis
    unfolding read_members.simps Let_def Some option.case
    apply (rule reads_string_bind)
    apply (simp only: prod.case)
    apply (rule reads_eat_None)
     apply simp
    apply (rule reads_bind [OF v'], simp)
    apply (simp only: prod.case)
    apply (rule reads_eat, use s in simp)
    apply (rule reads_eat, rule m', auto)
    done
qed simp

lemma readers_read:
  "2 * length s < n \<Longrightarrow> reads (length s) (read_value n s)"
  "2 * length s + 1 < n \<Longrightarrow> reads (length s) (read_elems n s acc)"
  "2 * length s + 1 < n \<Longrightarrow> reads (length s) (read_members n s kvs)"
proof (induction n arbitrary: s acc kvs)
  case 0
  { case 1 then show ?case by simp }
  { case 2 then show ?case by simp }
  { case 3 then show ?case by simp }
next
  case (Suc n)
  { case 1 then show ?case by (intro reads_read_value Suc.IH) }
  { case 2 then show ?case by (intro reads_read_elems Suc.IH) }
  { case 3 then show ?case by (intro reads_read_members Suc.IH) }
qed

lemma loads_total: "loads s \<noteq> Inl OutOfFuel"
proof -
  have "reads (length (skip_ws s)) (read_value (2 * length s + 1) (skip_ws s))"
    using skip_ws_length [of s] by (intro readers_read) simp
  then show ?thesis by (auto simp: loads_def bindr_Inl_iff reads_def split: if_splits)
qed

end
