(* ===== verification/Json_Roundtrip.thy ===== *)
theory Json_Roundtrip
  imports Json_Text
begin

section \<open>Reading back a written document\<close>

text \<open>
  \<open>loads (dumps j)\<close> is \<open>j\<close> with the keys of every object sorted, for every separator pair
  made of a comma or a colon and white space, with or without \<open>ensure_ascii\<close>.
\<close>

fun sort_keys :: "json \<Rightarrow> json" where
  "sort_keys (JList xs) = JList (map sort_keys xs)"
| "sort_keys (JObj kvs) = JObj (sort_key fst (map (\<lambda>(k, v). (k, sort_keys v)) kvs))"
| "sort_keys j = j"

text \<open>A dict has distinct keys.\<close>

fun wf_json :: "json \<Rightarrow> bool" where
  "wf_json (JList xs) = (\<forall>x \<in> set xs. wf_json x)"
| "wf_json (JObj kvs) = (distinct (map fst kvs) \<and> (\<forall>(k, v) \<in> set kvs. wf_json v))"
| "wf_json j = True"

subsection \<open>Numbers\<close>

lemma digit_is_digit: "d < 10 \<Longrightarrow> is_digit (digit d)"
  by (simp add: is_digit_def digit_def)

lemma digit_val: "d < 10 \<Longrightarrow> of_char (digit d) - (48 :: nat) = d"
  by (simp add: digit_def)

lemma nat_str_digits: "\<forall>c \<in> set (nat_str n). is_digit c"
proof (induction n rule: nat_str.induct)
  case (1 n)
  then show ?case by (simp add: nat_str.simps [of n] digit_is_digit)
qed

lemma nat_str_val: "digits_val (nat_str n) = n"
proof (induction n rule: nat_str.induct)
  case (1 n)
  show ?case
  proof (cases "n < 10")
    case True
    then show ?thesis by (simp add: nat_str.simps [of n] digits_val_def digit_val)
  next
    case False
    then show ?thesis using 1
      by (simp add: nat_str.simps [of n] digits_val_def digit_val)
  qed
qed

lemma nat_str_ne [simp]: "nat_str n \<noteq> []"
  by (simp add: nat_str.simps [of n])

lemma nat_str_hd: "hd (nat_str n) = CHR ''0'' \<Longrightarrow> nat_str n = ''0''"
proof (induction n rule: nat_str.induct)
  case (1 n)
  show ?case
  proof (cases "n < 10")
    case True
    with 1 show ?thesis by (simp add: nat_str.simps [of n])
  next
    case False
    then have "nat_str (n div 10) = ''0''" using 1 by (simp add: nat_str.simps [of n])
    then have "n div 10 = 0" using nat_str_val [of "n div 10"] by (simp add: digits_val_def)
    with False show ?thesis by simp
  qed
qed

lemma nat_str_inj: "nat_str m = nat_str n \<Longrightarrow> m = n"
  by (metis nat_str_val)

text \<open>What follows a value: nothing, or a character that ends a number.\<close>

definition ends :: "string \<Rightarrow> bool" where
  "ends r \<longleftrightarrow> r = [] \<or> hd r \<in> {CHR '','', CHR '']'', CHR ''}'', CHR '' '', CHR 0x09, CHR 0x0A, CHR 0x0D}"

lemma ends_not_digit: "ends (c # r) \<Longrightarrow> \<not> is_digit c"
  by (auto simp: ends_def is_digit_def)

lemma ends_not_float: "ends r \<Longrightarrow> \<not> float_tail r"
  by (cases r rule: float_tail.cases) (auto simp: ends_def)

lemma read_nat_str: "ends r \<Longrightarrow> read_nat (nat_str n @ r) = Inr (n, r)"
proof -
  assume r: "ends r"
  obtain c ds where n: "nat_str n = c # ds" by (cases "nat_str n") auto
  have dig: "is_digit c" "\<forall>d \<in> set ds. is_digit d" using nat_str_digits [of n] n by auto
  have stop: "takeWhile is_digit r = []" "dropWhile is_digit r = r"
    using r by (cases r; auto dest: ends_not_digit)+
  have tw: "takeWhile is_digit (ds @ r) = ds" "dropWhile is_digit (ds @ r) = r"
    using dig(2) stop by (auto simp: takeWhile_append dropWhile_append)
  show ?thesis
  proof (cases "c = CHR ''0''")
    case True
    with n nat_str_hd [of n] have ds: "ds = []" by simp
    with True n nat_str_val [of n] have "n = 0" by (simp add: digits_val_def)
    with True n ds dig(1) ends_not_float [OF r] show ?thesis
      by (simp add: read_nat_def Let_def digits_val_def)
  next
    case False
    with n tw dig(1) ends_not_float [OF r] nat_str_val [of n] show ?thesis
      by (simp add: read_nat_def Let_def)
  qed
qed

subsection \<open>Strings\<close>

lemma hex_val_digit: "d < 16 \<Longrightarrow> hex_val (digit d) = Some d"
  by (auto simp: digit_def Let_def)

lemma read_esc_char:
  "read_string (esc_char a c @ s) acc = read_string s (acc @ [c])"
proof -
  have lt: "of_char c < (256 :: nat)" by simp
  then have "of_char c div 16 < (16 :: nat)" by (simp add: less_mult_imp_div_less)
  then have hex: "hex_val (digit (of_char c div 16)) = Some (of_char c div 16)"
    "hex_val (digit (of_char c mod 16)) = Some (of_char c mod 16)"
    by (intro hex_val_digit; simp)+
  have z: "hex_val (CHR ''0'') = Some 0" by simp
  have c: "char_of (16 * (of_char c div 16) + of_char c mod 16 :: nat) = c"
    by (simp only: mult_div_mod_eq char_of_char)
  have take: "take 4 (CHR ''0'' # CHR ''0'' # x # y # s) = [CHR ''0'', CHR ''0'', x, y]"
    "drop 4 (CHR ''0'' # CHR ''0'' # x # y # s) = s" for x y by (simp_all add: numeral_eq_Suc)
  show ?thesis
    by (cases "c = CHR 0x22"; cases "c = CHR 0x5C"; cases "c = CHR 0x0A"; cases "c = CHR 0x0D";
        cases "c = CHR 0x09"; cases "c = CHR 0x0C"; cases "c = CHR 0x08")
      (simp_all add: esc_char_def read_escape_def take hex z c del: hex_val.simps)
qed

lemma read_dumps_str:
  "read_string (concat (map (esc_char a) s) @ CHR 0x22 # r) acc = Inr (acc @ s, r)"
  by (induction s arbitrary: acc) (simp_all add: read_esc_char)

lemma read_dumps_str0: "read_string (drop 1 (dumps_str a s @ r)) [] = Inr (s, r)"
  by (simp add: dumps_str_def read_dumps_str)

lemma dumps_str_starts: "dumps_str a s @ r = CHR 0x22 # concat (map (esc_char a) s) @ CHR 0x22 # r"
  by (simp add: dumps_str_def)

subsection \<open>Values\<close>

definition is_sep :: "char \<Rightarrow> string \<Rightarrow> bool" where
  "is_sep c s \<longleftrightarrow> (\<exists>w. s = c # w \<and> (\<forall>x \<in> set w. is_ws x))"

text \<open>No written value starts with white space, a comma or a closing bracket.\<close>

lemma skip_ws_append: "(\<forall>x \<in> set w. is_ws x) \<Longrightarrow> skip_ws (w @ s) = skip_ws s"
  by (simp add: skip_ws_def dropWhile_append2)

lemma starts_Cons_Cons [simp]: "starts (p # ps) (c # s) \<longleftrightarrow> p = c \<and> starts ps s"
  by (auto simp: starts_def)

lemma starts_Nil [simp]: "starts [] s"
  by (simp add: starts_def)

lemma nat_str_start: "\<exists>c ds. nat_str n = c # ds \<and> is_digit c"
  using nat_str_digits [of n] by (cases "nat_str n") auto

lemma is_digit_neq: "is_digit c \<Longrightarrow> \<not> is_ws c"
  "is_digit c \<Longrightarrow> c \<noteq> CHR 0x22" "is_digit c \<Longrightarrow> c \<noteq> CHR ''[''" "is_digit c \<Longrightarrow> c \<noteq> CHR ''{''"
  "is_digit c \<Longrightarrow> c \<noteq> CHR '']''" "is_digit c \<Longrightarrow> c \<noteq> CHR ''}''" "is_digit c \<Longrightarrow> c \<noteq> CHR ''-''"
  "is_digit c \<Longrightarrow> c \<noteq> CHR ''n''" "is_digit c \<Longrightarrow> c \<noteq> CHR ''t''" "is_digit c \<Longrightarrow> c \<noteq> CHR ''f''"
  "is_digit c \<Longrightarrow> c \<noteq> CHR ''N''" "is_digit c \<Longrightarrow> c \<noteq> CHR ''I''"
  by (auto simp: is_digit_def is_ws_def)

lemma dumps_start:
  "\<exists>c s. dumps i k a j = c # s \<and> \<not> is_ws c \<and> c \<noteq> CHR '']'' \<and> c \<noteq> CHR ''}''"
proof (cases j)
  case (JInt x)
  then show ?thesis using nat_str_start [of "nat x"]
    by (auto simp: int_str_def is_ws_def is_digit_def)
qed (auto simp: dumps_str_def is_ws_def)

lemma skip_ws_dumps [simp]: "skip_ws (dumps i k a j @ s) = dumps i k a j @ s"
  using dumps_start [of i k a j] by (auto simp: skip_ws_def)

lemma eat_dumps [simp]: "eat (CHR '']'') (dumps i k a j @ s) = None"
  using dumps_start [of i k a j] by (auto simp: eat_def)

lemma read_int_str:
  assumes "ends r"
  shows "read_value (Suc n) (int_str i @ r) = Inr (JInt i, r)"
proof -
  obtain c ds where c: "nat_str (nat \<bar>i\<bar>) = c # ds" "is_digit c"
    using nat_str_start by blast
  note neq = is_digit_neq [OF c(2)]
  have read: "read_nat (c # ds @ r) = Inr (nat \<bar>i\<bar>, r)"
    using read_nat_str [OF assms, of "nat \<bar>i\<bar>"] c by simp
  show ?thesis
  proof (cases "i < 0")
    case True
    with c have str: "int_str i @ r = CHR ''-'' # c # ds @ r" by (simp add: int_str_def)
    from True neq read show ?thesis unfolding str by simp
  next
    case False
    with c have str: "int_str i @ r = c # ds @ r" by (simp add: int_str_def)
    from neq False read show ?thesis unfolding str by simp
  qed
qed

lemma length_dumps_pos: "0 < length (dumps i k a j)"
  using dumps_start [of i k a j] by auto

lemma sort_key_map_comm: "sort_key f (map g xs) = map g (sort_key (\<lambda>x. f (g x)) xs)"
proof -
  have ins: "insort_key f (g x) (map g ys) = map g (insort_key (\<lambda>x. f (g x)) x ys)" for x ys
    by (induction ys) auto
  show ?thesis by (induction xs) (auto simp: ins)
qed

lemma dumps_JObj: "dumps i k a (JObj kvs) =
   ''{'' @ join i (map (\<lambda>(key, v). dumps_str a key @ k @ dumps i k a v) (sort_key fst kvs)) @ ''}''"
  by (simp add: sort_key_map_comm case_prod_unfold comp_def)

lemma sort_keys_JObj: "sort_keys (JObj kvs) = JObj (map (\<lambda>(k, v). (k, sort_keys v)) (sort_key fst kvs))"
  by (simp add: sort_key_map_comm case_prod_unfold)

lemma dict_set_new: "k \<notin> fst ` set acc \<Longrightarrow> dict_set acc k v = acc @ [(k, v)]"
  by (induction acc) auto

definition reads_back :: "string \<Rightarrow> string \<Rightarrow> bool \<Rightarrow> json \<Rightarrow> bool" where
  "reads_back i k a j \<longleftrightarrow> (\<forall>n r. ends r \<longrightarrow> 2 * length (dumps i k a j @ r) < n \<longrightarrow>
     read_value n (dumps i k a j @ r) = Inr (sort_keys j, r))"

lemma reads_backD: "reads_back i k a j \<Longrightarrow> ends r \<Longrightarrow> 2 * length (dumps i k a j @ r) < n \<Longrightarrow>
  read_value n (dumps i k a j @ r) = Inr (sort_keys j, r)"
  by (simp add: reads_back_def)

lemma ends_close [simp]: "ends (CHR '']'' # r)" "ends (CHR ''}'' # r)" "ends (CHR '','' # r)"
  by (simp_all add: ends_def)

lemma skip_ws_close [simp]: "skip_ws (CHR '']'' # r) = CHR '']'' # r"
  "skip_ws (CHR ''}'' # r) = CHR ''}'' # r" "skip_ws (CHR '','' # r) = CHR '','' # r"
  "skip_ws (CHR '':'' # r) = CHR '':'' # r" "skip_ws (CHR 0x22 # r) = CHR 0x22 # r"
  by (simp_all add: skip_ws_def is_ws_def)

lemma read_elems_join:
  assumes sep: "is_sep (CHR '','') i"
    and "xs \<noteq> []" "\<forall>x \<in> set xs. reads_back i k a x"
    and "2 * length (join i (map (dumps i k a) xs) @ CHR '']'' # r) + 1 < n"
  shows "read_elems n (join i (map (dumps i k a) xs) @ CHR '']'' # r) acc
    = Inr (JList (acc @ map sort_keys xs), r)"
  using assms(2-)
proof (induction xs arbitrary: n acc)
  case Nil
  then show ?case by simp
next
  case (Cons x xs)
  from Cons.prems(3) obtain m where n: "n = Suc m" by (cases n) auto
  show ?case
  proof (cases "xs = []")
    case True
    have "read_value m (dumps i k a x @ CHR '']'' # r) = Inr (sort_keys x, CHR '']'' # r)"
      using Cons.prems n True by (intro reads_backD) auto
    with True n show ?thesis by simp
  next
    case False
    from sep obtain w where w: "i = CHR '','' # w" "\<forall>c \<in> set w. is_ws c" by (auto simp: is_sep_def)
    let ?rest = "join i (map (dumps i k a) xs) @ CHR '']'' # r"
    have split: "join i (map (dumps i k a) (x # xs)) @ CHR '']'' # r
        = dumps i k a x @ CHR '','' # w @ ?rest"
      using False w(1) by (simp add: join_Cons)
    have "read_value m (dumps i k a x @ CHR '','' # w @ ?rest) = Inr (sort_keys x, CHR '','' # w @ ?rest)"
      using Cons.prems(2,3) n unfolding split by (intro reads_backD) auto
    moreover have "skip_ws (w @ ?rest) = ?rest"
      using False w(2) by (cases xs) (simp_all add: join_Cons skip_ws_append)
    moreover have "read_elems m ?rest (acc @ [sort_keys x])
        = Inr (JList ((acc @ [sort_keys x]) @ map sort_keys xs), r)"
      using Cons.prems(2,3) n False unfolding split by (intro Cons.IH) auto
    ultimately show ?thesis
      unfolding split n read_elems.simps by (simp add: Let_def)
  qed
qed

abbreviation member_text :: "string \<Rightarrow> string \<Rightarrow> bool \<Rightarrow> string \<times> json \<Rightarrow> string" where
  "member_text i k a \<equiv> (\<lambda>(key, v). dumps_str a key @ k @ dumps i k a v)"

lemma skip_ws_dumps_str [simp]: "skip_ws (dumps_str a s @ r) = dumps_str a s @ r"
  by (simp add: dumps_str_def)

lemma read_members_join:
  assumes sep: "is_sep (CHR '','') i" "is_sep (CHR '':'') k"
    and "kvs \<noteq> []" "\<forall>(key, v) \<in> set kvs. reads_back i k a v" "distinct (map fst (acc @ kvs))"
    and "2 * length (join i (map (member_text i k a) kvs) @ CHR ''}'' # r) + 1 < n"
  shows "read_members n (join i (map (member_text i k a) kvs) @ CHR ''}'' # r) acc
    = Inr (JObj (acc @ map (\<lambda>(key, v). (key, sort_keys v)) kvs), r)"
  using assms(3-)
proof (induction kvs arbitrary: n acc)
  case Nil
  then show ?case by simp
next
  case (Cons kv kvs)
  obtain key v where kv: "kv = (key, v)" by fastforce
  from Cons.prems(4) obtain m where n: "n = Suc m" by (cases n) auto
  from sep obtain w u where w: "i = CHR '','' # w" "\<forall>c \<in> set w. is_ws c"
    and u: "k = CHR '':'' # u" "\<forall>c \<in> set u. is_ws c" by (auto simp: is_sep_def)
  have new: "key \<notin> fst ` set acc" using Cons.prems(3) kv by auto
  let ?tail = "if kvs = [] then CHR ''}'' # r
    else CHR '','' # w @ join i (map (member_text i k a) kvs) @ CHR ''}'' # r"
  have split: "join i (map (member_text i k a) (kv # kvs)) @ CHR ''}'' # r
      = CHR 0x22 # concat (map (esc_char a) key) @ CHR 0x22 # CHR '':'' # u @ dumps i k a v @ ?tail"
    using kv w(1) u(1) by (simp add: join_Cons dumps_str_def)
  have val: "read_value m (dumps i k a v @ ?tail) = Inr (sort_keys v, ?tail)"
    using Cons.prems(2,4) n kv unfolding split by (intro reads_backD) auto
  have step: "read_members n (join i (map (member_text i k a) (kv # kvs)) @ CHR ''}'' # r) acc
    = (if kvs = [] then Inr (JObj (acc @ [(key, sort_keys v)]), r)
       else read_members m (skip_ws (w @ join i (map (member_text i k a) kvs) @ CHR ''}'' # r))
         (acc @ [(key, sort_keys v)]))"
    unfolding split n read_members.simps using val u(2)
    by (simp add: Let_def read_dumps_str skip_ws_append dict_set_new [OF new])
  show ?case
  proof (cases "kvs = []")
    case True
    with step kv show ?thesis by simp
  next
    case False
    have "skip_ws (w @ join i (map (member_text i k a) kvs) @ CHR ''}'' # r)
        = join i (map (member_text i k a) kvs) @ CHR ''}'' # r"
      using False w(2) by (cases kvs) (auto simp: join_Cons skip_ws_append)
    moreover have "read_members m (join i (map (member_text i k a) kvs) @ CHR ''}'' # r)
        (acc @ [(key, sort_keys v)])
      = Inr (JObj ((acc @ [(key, sort_keys v)]) @ map (\<lambda>(key, v). (key, sort_keys v)) kvs), r)"
      using Cons.prems n False kv unfolding split by (intro Cons.IH) auto
    ultimately show ?thesis using step False kv by simp
  qed
qed

lemma dumps_reads_back:
  assumes sep: "is_sep (CHR '','') i" "is_sep (CHR '':'') k"
  shows "wf_json j \<Longrightarrow> reads_back i k a j"
proof (induction j)
  case (JList xs)
  show ?case unfolding reads_back_def
  proof (intro allI impI)
    fix n r
    assume n: "2 * length (dumps i k a (JList xs) @ r) < n"
    then obtain m where m: "n = Suc m" by (cases n) auto
    show "read_value n (dumps i k a (JList xs) @ r) = Inr (sort_keys (JList xs), r)"
    proof (cases "xs = []")
      case True
      with m show ?thesis by simp
    next
      case False
      then obtain y ys where xs: "xs = y # ys" by (cases xs) auto
      have "read_elems m (join i (map (dumps i k a) xs) @ CHR '']'' # r) []
          = Inr (JList ([] @ map sort_keys xs), r)"
        using JList False n m by (intro read_elems_join [OF sep(1)]) auto
      moreover have "skip_ws (join i (map (dumps i k a) xs) @ CHR '']'' # r)
          = join i (map (dumps i k a) xs) @ CHR '']'' # r"
        "eat (CHR '']'') (join i (map (dumps i k a) xs) @ CHR '']'' # r) = None"
        by (simp_all add: xs join_Cons)
      ultimately show ?thesis using m by simp
    qed
  qed
next
  case (JObj kvs)
  let ?s = "sort_key fst kvs"
  have IH: "\<forall>(key, v) \<in> set ?s. reads_back i k a v"
  proof (clarify, unfold set_sort)
    fix key v
    assume m: "(key, v) \<in> set kvs"
    from JObj.IH [OF m, of v] JObj.prems m show "reads_back i k a v" by auto
  qed
  have dist: "distinct (map fst ([] @ ?s))"
    using JObj.prems by (simp add: distinct_map)
  show ?case unfolding reads_back_def
  proof (intro allI impI)
    fix n r
    assume n: "2 * length (dumps i k a (JObj kvs) @ r) < n"
    then obtain m where m: "n = Suc m" by (cases n) auto
    show "read_value n (dumps i k a (JObj kvs) @ r) = Inr (sort_keys (JObj kvs), r)"
    proof (cases "?s = []")
      case True
      with m show ?thesis unfolding dumps_JObj sort_keys_JObj by simp
    next
      case False
      then obtain y ys where ys: "?s = y # ys" by (cases ?s) auto
      have "read_members m (join i (map (member_text i k a) ?s) @ CHR ''}'' # r) []
          = Inr (JObj ([] @ map (\<lambda>(key, v). (key, sort_keys v)) ?s), r)"
        using IH dist False n m unfolding dumps_JObj
        by (intro read_members_join [OF sep]) auto
      moreover have "skip_ws (join i (map (member_text i k a) ?s) @ CHR ''}'' # r)
          = join i (map (member_text i k a) ?s) @ CHR ''}'' # r"
        "eat (CHR ''}'') (join i (map (member_text i k a) ?s) @ CHR ''}'' # r) = None"
        by (cases y; simp add: ys join_Cons dumps_str_def)+
      ultimately show ?thesis using m unfolding dumps_JObj sort_keys_JObj by simp
    qed
  qed
next
  case (JInt x)
  show ?case unfolding reads_back_def
  proof (intro allI impI)
    fix n r
    assume "ends r" "2 * length (dumps i k a (JInt x) @ r) < n"
    then show "read_value n (dumps i k a (JInt x) @ r) = Inr (sort_keys (JInt x), r)"
      using read_int_str [of r] by (cases n) simp_all
  qed
next
  case (JStr s)
  show ?case unfolding reads_back_def
  proof (intro allI impI)
    fix n r
    assume "2 * length (dumps i k a (JStr s) @ r) < n"
    then show "read_value n (dumps i k a (JStr s) @ r) = Inr (sort_keys (JStr s), r)"
      by (cases n) (simp_all add: dumps_str_starts read_dumps_str)
  qed
next
  case JNull
  show ?case unfolding reads_back_def
    by (intro allI impI, case_tac n) simp_all
next
  case (JBool b)
  show ?case unfolding reads_back_def
    by (intro allI impI, case_tac n) simp_all
qed

lemma loads_dumps:
  assumes "is_sep (CHR '','') i" "is_sep (CHR '':'') k" "wf_json j"
  shows "loads (dumps i k a j) = Inr (sort_keys j)"
proof -
  have "read_value (2 * length (dumps i k a j) + 1) (dumps i k a j @ []) = Inr (sort_keys j, [])"
    by (rule reads_backD [OF dumps_reads_back [OF assms]]) (simp_all add: ends_def)
  moreover have "skip_ws (dumps i k a j) = dumps i k a j" "skip_ws [] = []"
    using skip_ws_dumps [of i k a j "[]"] by (simp_all add: skip_ws_def)
  ultimately show ?thesis by (simp add: loads_def del: read_value.simps)
qed

end
