(* ===== verification/Kernel_Canon.thy ===== *)
theory Kernel_Canon
  imports Kernel_Deps Json_Roundtrip
begin

section \<open>Canonical documents and hashes (kernel/canon.py)\<close>

text \<open>
  A payload is brought to a canonical document, whose bytes are what the ledger stores and
  hashes. Binders are renamed by position: parameters \<open>p0, p1, ...\<close>, spec variables
  \<open>v0, v1, ...\<close>, match binders after the depth they stand at. \<open>blake3\<close> is not under
  \<open>src/\<close>: the hash functions take it as the argument \<open>H\<close>.
\<close>

type_synonym hash_fn = "string \<Rightarrow> string"

definition canonical_json_bytes :: "json \<Rightarrow> string" where
  "canonical_json_bytes obj = dumps '','' '':'' True obj"

definition payload_hash_hex :: "hash_fn \<Rightarrow> json \<Rightarrow> string" where
  "payload_hash_hex H payload = H (canonical_json_bytes payload)"

text \<open>An f-string \<open>f"{prefix}{i}"\<close>.\<close>

definition numbered :: "string \<Rightarrow> nat \<Rightarrow> string" where
  "numbered prefix i = prefix @ nat_str i"

subsection \<open>Terms\<close>

fun term_to_canon_json :: "kterm \<Rightarrow> string list \<Rightarrow> json res" where
  "term_to_canon_json (Var i) env =
     (if i \<ge> int (length env) then Inl (ValueError ''var index out of range'')
      else case py_index env i of
          None \<Rightarrow> Inl (ValueError ''var index out of range'')
        | Some n \<Rightarrow> Inr (JObj [(''tag'', JStr ''var''), (''name'', JStr n)]))"
| "term_to_canon_json (Sym n) env = Inr (JObj [(''tag'', JStr ''sym''), (''name'', JStr n)])"
| "term_to_canon_json (IntLit v) env = Inr (JObj [(''tag'', JStr ''int''), (''value'', JInt v)])"
| "term_to_canon_json (BoolLit v) env = Inr (JObj [(''tag'', JStr ''bool''), (''value'', JBool v)])"
| "term_to_canon_json NilT env = Inr (JObj [(''tag'', JStr ''nil'')])"
| "term_to_canon_json OptionNone env = Inr (JObj [(''tag'', JStr ''none'')])"
| "term_to_canon_json (OptionSome v) env =
     bindr (term_to_canon_json v env) (\<lambda>v. Inr (JObj [(''tag'', JStr ''some''), (''value'', v)]))"
| "term_to_canon_json (ConsT h t) env =
     bindr (term_to_canon_json h env) (\<lambda>h.
     bindr (term_to_canon_json t env) (\<lambda>t.
       Inr (JObj [(''tag'', JStr ''cons''), (''head'', h), (''tail'', t)])))"
| "term_to_canon_json (PairT l r) env =
     bindr (term_to_canon_json l env) (\<lambda>l.
     bindr (term_to_canon_json r env) (\<lambda>r.
       Inr (JObj [(''tag'', JStr ''pair''), (''left'', l), (''right'', r)])))"
| "term_to_canon_json (Fst p) env =
     bindr (term_to_canon_json p env) (\<lambda>p. Inr (JObj [(''tag'', JStr ''fst''), (''pair'', p)]))"
| "term_to_canon_json (Snd p) env =
     bindr (term_to_canon_json p env) (\<lambda>p. Inr (JObj [(''tag'', JStr ''snd''), (''pair'', p)]))"
| "term_to_canon_json (IfT c t e) env =
     bindr (term_to_canon_json c env) (\<lambda>c.
     bindr (term_to_canon_json t env) (\<lambda>t.
     bindr (term_to_canon_json e env) (\<lambda>e.
       Inr (JObj [(''tag'', JStr ''if''), (''cond'', c), (''then'', t), (''else'', e)]))))"
| "term_to_canon_json (App f args) env =
     bindr (term_to_canon_json f env) (\<lambda>f.
     bindr (mapr (\<lambda>a. term_to_canon_json a env) args) (\<lambda>as.
       Inr (JObj [(''tag'', JStr ''app''), (''fn'', f), (''args'', JList as)])))"
| "term_to_canon_json (Prim op args) env =
     bindr (mapr (\<lambda>a. term_to_canon_json a env) args) (\<lambda>as.
       Inr (JObj [(''tag'', JStr ''prim''), (''op'', op), (''args'', JList as)]))"
| "term_to_canon_json (MatchList s n c) env =
     (let depth = length env; head_name = numbered ''h'' depth; tail_name = numbered ''t'' depth;
          env2 = [tail_name, head_name] @ env in
      bindr (term_to_canon_json s env) (\<lambda>s.
      bindr (term_to_canon_json n env) (\<lambda>n.
      bindr (term_to_canon_json c env2) (\<lambda>c.
        Inr (JObj [(''tag'', JStr ''match_list''), (''scrutinee'', s), (''nil_case'', n),
          (''cons_case'', JObj [(''head_var'', JStr head_name), (''tail_var'', JStr tail_name),
             (''body'', c)])])))))"
| "term_to_canon_json (MatchOption s n b) env =
     (let depth = length env; some_name = numbered ''o'' depth; env2 = [some_name] @ env in
      bindr (term_to_canon_json s env) (\<lambda>s.
      bindr (term_to_canon_json n env) (\<lambda>n.
      bindr (term_to_canon_json b env2) (\<lambda>b.
        Inr (JObj [(''tag'', JStr ''match_option''), (''scrutinee'', s), (''none_case'', n),
          (''some_case'', JObj [(''var'', JStr some_name), (''body'', b)])])))))"

definition rename_term :: "json \<Rightarrow> json list \<Rightarrow> string list \<Rightarrow> json res" where
  "rename_term node original_env canon_env =
     bindr (parse_term node original_env) (\<lambda>t. term_to_canon_json t canon_env)"

subsection \<open>Definitions\<close>

text \<open>Python's equality on hashable values: \<open>True == 1\<close> and \<open>False == 0\<close>.\<close>

fun scalar_key :: "json \<Rightarrow> json" where
  "scalar_key (JBool b) = JInt (if b then 1 else 0)"
| "scalar_key j = j"

text \<open>\<open>_canon_params\<close> and \<open>_canon_vars\<close>, which differ in the prefix and the message.\<close>

definition canon_binders :: "string \<Rightarrow> string \<Rightarrow> string \<Rightarrow> json list
    \<Rightarrow> (json list \<times> json list \<times> string list) res" where
  "canon_binders prefix missing dup binders =
     (let canonical_names = map (numbered prefix) [0..<length binders] in
      bindr (mapr (\<lambda>p. jgetr p ''name'') binders) (\<lambda>original_names.
      if JNull \<in> set original_names then Inl (ValueError missing)
      else if \<exists>n \<in> set original_names. \<not> hashable n then Inl (PyTypeError ''unhashable type'')
      else if \<not> distinct (map scalar_key original_names) then Inl (ValueError dup)
      else
        bindr (mapr (\<lambda>(name, p).
          bindr (type_from_json (jget p ''type'')) (\<lambda>t.
            Inr (JObj [(''name'', JStr name), (''type'', type_to_json t)])))
          (zip canonical_names binders)) (\<lambda>canon.
        Inr (canon, original_names, canonical_names))))"

definition canon_params :: "json list \<Rightarrow> (json list \<times> json list \<times> string list) res" where
  "canon_params = canon_binders ''p'' ''param name missing'' ''duplicate param name''"

definition canon_vars :: "json list \<Rightarrow> string \<Rightarrow> (json list \<times> json list \<times> string list) res" where
  "canon_vars vs prefix = canon_binders prefix ''var name missing'' ''duplicate var name'' vs"

definition canonicalize_definition :: "json \<Rightarrow> json res" where
  "canonicalize_definition defn =
     bindr (jgetr defn ''params'') (\<lambda>params0.
     let params = jor params0 (JList []) in
     if \<not> is_list params then Inl (ValueError ''params must be a list'')
     else
       bindr (canon_params (the_list params)) (\<lambda>(cparams, orig_names, canon_names).
       let env_orig = rev orig_names; env_canon = rev canon_names in
       bindr (rename_term (jget defn ''body'') env_orig env_canon) (\<lambda>body.
       bindr (type_from_json (jget defn ''ret_type'')) (\<lambda>ret_type.
       let termination = jor (jget defn ''termination'') (JObj []) in
       bindr (jgetr termination ''decreases_param'') (\<lambda>dec.
       bindr (if dec = JNull then Inr JNull
              else case list_index (map scalar_key orig_names) (scalar_key dec) of
                  None \<Rightarrow> Inl (ValueError ''termination decreases_param not in params'')
                | Some dec_index \<Rightarrow> Inr (JStr (canon_names ! dec_index))) (\<lambda>dec.
       Inr (JObj [(''name'', jget defn ''name''), (''params'', JList cparams),
         (''ret_type'', type_to_json ret_type), (''body'', body),
         (''termination'', JObj [(''kind'', jget termination ''kind''),
            (''decreases_param'', dec)])])))))))"

definition definition_hash :: "hash_fn \<Rightarrow> json \<Rightarrow> string res" where
  "definition_hash H defn =
     bindr (canonicalize_definition defn) (\<lambda>canon_def. Inr (H (canonical_json_bytes canon_def)))"

subsection \<open>Specs\<close>

text \<open>The local and global \<open>require_...\<close> helpers: the field of a dict, of the required type.\<close>

definition require_int :: "string \<Rightarrow> json \<Rightarrow> json res" where
  "require_int label source =
     bindr (jgetr source label) (\<lambda>v.
       if is_int v then Inr v else Inl (ValueError ''must be an int''))"

definition require_str_from :: "json \<Rightarrow> string \<Rightarrow> json res" where
  "require_str_from source label =
     bindr (jgetr source label) (\<lambda>v.
       if is_str v then Inr v else Inl (ValueError ''must be a string''))"

definition require_decimal_str :: "string \<Rightarrow> json \<Rightarrow> json res" where
  "require_decimal_str label source =
     bindr (require_str_from source label) (\<lambda>v.
       if v = JStr [] then Inl (ValueError ''must be a non-empty string'') else Inr v)"

definition require_evalue :: "json \<Rightarrow> json res" where
  "require_evalue source =
     (let v = jget source ''evalue'' in
      if \<not> is_obj v then Inl (ValueError ''evalue must be an object'')
      else let mantissa = jget v ''mantissa''; exponent10 = jget v ''exponent10'' in
        if \<not> is_str mantissa \<or> mantissa = JStr [] then Inl (ValueError ''evalue mantissa must be a string'')
        else if \<not> is_int exponent10 then Inl (ValueError ''evalue exponent10 must be an int'')
        else Inr (JObj [(''mantissa'', mantissa), (''exponent10'', exponent10)]))"

definition canonicalize_alpha_schedule :: "json \<Rightarrow> json res" where
  "canonicalize_alpha_schedule raw =
     (if \<not> is_obj raw then Inl (ValueError ''alpha_schedule must be an object'')
      else let name = jget raw ''name''; exponent = jget raw ''exponent'';
               coefficient = jget raw ''coefficient'' in
        if \<not> is_str name then Inl (ValueError ''alpha_schedule name must be a string'')
        else if \<not> is_int exponent \<or> the_int exponent \<le> 1
        then Inl (ValueError ''alpha_schedule exponent must be an int > 1'')
        else if \<not> is_str coefficient
        then Inl (ValueError ''alpha_schedule coefficient must be a string'')
        else Inr (JObj [(''name'', name), (''exponent'', exponent), (''coefficient'', coefficient)]))"

text \<open>\<open>k in d\<close>.\<close>

fun jhas :: "json \<Rightarrow> string \<Rightarrow> bool" where
  "jhas (JObj kvs) k = (k \<in> fst ` set kvs)"
| "jhas _ k = False"

lemma obj_set_simps [simp]:
  "is_obj j \<Longrightarrow> jget (obj_set j k v) l = (if l = k then v else jget j l)"
  "is_obj j \<Longrightarrow> jhas (obj_set j k v) l \<longleftrightarrow> l = k \<or> jhas j l"
  "is_obj (obj_set j k v) \<longleftrightarrow> is_obj j"
  by (cases j; simp add: map_of_dict_set keys_dict_set)+

text \<open>The three records of a statistical certificate.\<close>

definition canon_eval_cfg :: "json \<Rightarrow> json \<Rightarrow> json \<Rightarrow> json res" where
  "canon_eval_cfg eval_cfg paired oracle_symbol =
     bindr (require_int ''episodes'' eval_cfg) (\<lambda>episodes.
     bindr (require_int ''max_steps'' eval_cfg) (\<lambda>max_steps.
     bindr (require_str_from eval_cfg ''eval_harness_id'') (\<lambda>hid.
     bindr (require_str_from eval_cfg ''eval_harness_hash'') (\<lambda>hh.
     bindr (require_str_from eval_cfg ''eval_suite_hash'') (\<lambda>sh.
       Inr (JObj [(''episodes'', episodes), (''max_steps'', max_steps), (''paired_seeds'', paired),
         (''oracle_symbol'', oracle_symbol), (''eval_harness_id'', hid),
         (''eval_harness_hash'', hh), (''eval_suite_hash'', sh)]))))))"

definition canon_risk :: "json \<Rightarrow> json res" where
  "canon_risk risk =
     bindr (require_decimal_str ''alpha_i'' risk) (\<lambda>alpha_i.
     bindr (require_decimal_str ''evalue_threshold'' risk) (\<lambda>threshold.
     bindr (canonicalize_alpha_schedule (jget risk ''alpha_schedule'')) (\<lambda>schedule.
       Inr (JObj [(''alpha_i'', alpha_i), (''evalue_threshold'', threshold),
         (''alpha_schedule'', schedule)]))))"

definition canon_certificate :: "json \<Rightarrow> json res" where
  "canon_certificate cert =
     bindr (require_int ''n'' cert) (\<lambda>n.
     bindr (require_int ''baseline_successes'' cert) (\<lambda>bs.
     bindr (require_int ''candidate_successes'' cert) (\<lambda>cs.
     bindr (require_int ''diff_sum'' cert) (\<lambda>dsum.
     bindr (require_int ''diff_min'' cert) (\<lambda>dmin.
     bindr (require_int ''diff_max'' cert) (\<lambda>dmax.
     bindr (require_evalue cert) (\<lambda>evalue.
     bindr (require_str_from cert ''transcript_hash'') (\<lambda>th.
     bindr (require_str_from cert ''signature'') (\<lambda>sg.
     bindr (require_str_from cert ''signature_scheme'') (\<lambda>scheme.
     bindr (require_str_from cert ''key_id'') (\<lambda>key_id.
       Inr (JObj ([(''n'', n), (''baseline_successes'', bs), (''candidate_successes'', cs),
         (''diff_sum'', dsum), (''diff_min'', dmin), (''diff_max'', dmax), (''evalue'', evalue),
         (''transcript_hash'', th), (''signature'', sg), (''signature_scheme'', scheme),
         (''key_id'', key_id)]
         @ (if jhas cert ''evalue_schema_version''
            then [(''evalue_schema_version'', jget cert ''evalue_schema_version'')] else []))))))))))))))"

definition canonicalize_stat_cert :: "json \<Rightarrow> json res" where
  "canonicalize_stat_cert spec =
     (let eval_cfg = jor (jget spec ''eval'') (JObj []); risk = jor (jget spec ''risk'') (JObj []);
          certificate = jor (jget spec ''certificate'') (JObj []) in
      if \<not> is_obj eval_cfg then Inl (ValueError ''eval must be an object'')
      else if \<not> is_obj risk then Inl (ValueError ''risk must be an object'')
      else if \<not> is_obj certificate then Inl (ValueError ''certificate must be an object'')
      else let paired = jget eval_cfg ''paired_seeds''; oracle = jget eval_cfg ''oracle_symbol'' in
      if \<not> is_bool paired then Inl (ValueError ''paired_seeds must be a bool'')
      else if \<not> is_str oracle then Inl (ValueError ''oracle_symbol must be a string'')
      else
        bindr (canon_eval_cfg eval_cfg paired oracle) (\<lambda>ceval.
        bindr (canon_risk risk) (\<lambda>crisk.
        bindr (canon_certificate certificate) (\<lambda>ccert.
        bindr (require_str_from spec ''concept'') (\<lambda>concept.
        bindr (require_str_from spec ''metric'') (\<lambda>metric.
        bindr (require_str_from spec ''null'') (\<lambda>null.
        bindr (require_str_from spec ''baseline_symbol'') (\<lambda>baseline.
        bindr (require_str_from spec ''candidate_symbol'') (\<lambda>candidate.
          Inr (JObj [(''kind'', JStr ''stat_cert''), (''concept'', concept), (''metric'', metric),
            (''null'', null), (''baseline_symbol'', baseline), (''candidate_symbol'', candidate),
            (''eval'', ceval), (''risk'', crisk), (''certificate'', ccert)]))))))))))"

fun canonicalize_proof :: "json \<Rightarrow> json res" where
  "canonicalize_proof node =
     (if \<not> is_obj node then Inl (ValueError ''proof must be an object'')
      else let tag = jget node ''tag'' in
        if tag = JStr ''missing'' then Inr (JObj [(''tag'', JStr ''missing'')])
        else if tag = JStr ''by_eval'' then Inr (JObj [(''tag'', JStr ''by_eval'')])
        else if tag = JStr ''refl'' then
          bindr (rename_term (jget node ''term'') [] []) (\<lambda>t.
            Inr (JObj [(''tag'', JStr ''refl''), (''term'', t)]))
        else if tag = JStr ''sym'' then
          bindr (canonicalize_proof (jget node ''proof'')) (\<lambda>p.
            Inr (JObj [(''tag'', JStr ''sym''), (''proof'', p)]))
        else if tag = JStr ''trans'' then
          bindr (canonicalize_proof (jget node ''left'')) (\<lambda>l.
          bindr (canonicalize_proof (jget node ''right'')) (\<lambda>r.
            Inr (JObj [(''tag'', JStr ''trans''), (''left'', l), (''right'', r)])))
        else Inl (ValueError ''unknown proof tag: ''))"

declare canonicalize_proof.simps [simp del]

definition canonicalize_spec :: "json \<Rightarrow> json res" where
  "canonicalize_spec spec =
     bindr (jgetr spec ''kind'') (\<lambda>kind.
     if kind = JStr ''stat_cert'' then canonicalize_stat_cert spec
     else bindr (in_strs kind [''proof'', ''proof_unbounded'']) (\<lambda>is_proof.
     if is_proof then
       let goal = jor (jget spec ''goal'') (JObj []) in
         bindr (jgetr goal ''lhs'') (\<lambda>l.
         bindr (rename_term l [] []) (\<lambda>lhs.
         bindr (jgetr goal ''rhs'') (\<lambda>r.
         bindr (rename_term r [] []) (\<lambda>rhs.
         bindr (canonicalize_proof (jget spec ''proof'')) (\<lambda>pf.
           Inr (JObj [(''kind'', kind),
             (''goal'', JObj [(''tag'', JStr ''eq''), (''lhs'', lhs), (''rhs'', rhs)]),
             (''proof'', pf)]))))))
     else
       let vars_list = jor (jget spec ''vars'') (JList []) in
       if \<not> is_list vars_list then Inl (ValueError ''spec vars must be a list'')
       else
         bindr (canon_vars (the_list vars_list) ''v'') (\<lambda>(cvars, orig_names, canon_names).
         bindr (rename_term (jget spec ''assert'') (rev orig_names) (rev canon_names)) (\<lambda>assert_term.
         let domain = jor (jget spec ''domain'') (JObj []) in
         bindr (jgetr domain ''fun_symbols'') (\<lambda>fs0.
         let fun_symbols = jor fs0 (JList []) in
         if \<not> is_list fun_symbols then Inl (ValueError ''fun_symbols must be a list'')
         else if \<exists>f \<in> set (the_list fun_symbols). \<not> is_str f
         then Inl (ValueError ''fun_symbols must be strings'')
         else
           bindr (require_int ''int_min'' domain) (\<lambda>int_min.
           bindr (require_int ''int_max'' domain) (\<lambda>int_max.
           bindr (require_int ''list_max_len'' domain) (\<lambda>list_max_len.
             Inr (JObj [(''kind'', kind), (''vars'', JList cvars),
               (''domain'', JObj [(''int_min'', int_min), (''int_max'', int_max),
                  (''list_max_len'', list_max_len),
                  (''fun_symbols'', JList (sort_key the_str (the_list fun_symbols)))]),
               (''assert'', assert_term)])))))))))"

subsection \<open>Payloads\<close>

text \<open>
  \<open>sorted(xs, key=f)\<close> for keys that are JSON values: strings compare with strings and
  numbers with numbers; any other two keys are not ordered. Lists of lists, which Python
  orders, are refused here with the error \<open>set(...)\<close> raises for them one step later.
\<close>

definition py_sorted_by :: "(json \<Rightarrow> json) \<Rightarrow> json list \<Rightarrow> json list res" where
  "py_sorted_by f xs =
     (if length xs \<le> 1 then Inr xs
      else if \<forall>x \<in> set xs. is_str (f x) then Inr (sort_key (\<lambda>x. the_str (f x)) xs)
      else if \<forall>x \<in> set xs. is_int (f x) \<or> is_bool (f x)
      then Inr (sort_key (\<lambda>x. the_int (scalar_key (f x))) xs)
      else Inl (PyTypeError ''not supported between instances''))"

definition canonicalize_concept :: "json \<Rightarrow> json res" where
  "canonicalize_concept entry =
     (if \<not> is_obj entry then Inl (ValueError ''concept entry must be an object'')
      else let concept = jget entry ''concept''; symbol = jget entry ''symbol'' in
        if \<not> is_str concept then Inl (ValueError ''concept must be a string'')
        else if \<not> is_str symbol then Inl (ValueError ''concept symbol must be a string'')
        else Inr (JObj [(''concept'', concept), (''symbol'', symbol)]))"

definition canonicalize_claim :: "json \<Rightarrow> json res" where
  "canonicalize_claim claim =
     bindr (require_int ''ast_nodes'' claim) (\<lambda>ast_nodes.
     bindr (require_int ''spec_work'' claim) (\<lambda>spec_work.
     bindr (require_int ''index_impact'' claim) (\<lambda>index_impact.
       Inr (JObj [(''ast_nodes'', ast_nodes), (''spec_work'', spec_work),
         (''index_impact'', index_impact)]))))"

text \<open>The two optional fields of a payload, as the items they add.\<close>

definition canonicalize_concepts :: "json \<Rightarrow> (string \<times> json) list res" where
  "canonicalize_concepts concepts =
     (if concepts = JNull then Inr []
      else if \<not> is_list concepts then Inl (ValueError ''concepts must be a list'')
      else bindr (mapr canonicalize_concept (the_list concepts)) (\<lambda>cs.
        Inr [(''concepts'', JList (sort_key (\<lambda>c.
          [the_str (jget c ''concept''), the_str (jget c ''symbol'')]) cs))]))"

definition canonicalize_capacity :: "json \<Rightarrow> (string \<times> json) list res" where
  "canonicalize_capacity payload =
     (if jhas payload ''capacity_claim'' then
        bindr (canonicalize_claim (jor (jget payload ''capacity_claim'') (JObj []))) (\<lambda>c.
          Inr [(''capacity_claim'', c)])
      else Inr [])"

definition canonicalize_payload :: "json \<Rightarrow> json res" where
  "canonicalize_payload payload =
     (if \<not> is_obj payload then Inl (ValueError ''payload must be an object'')
      else let new_symbols = jor (jget payload ''new_symbols'') (JList []);
               declared_deps = jor (jget payload ''declared_deps'') (JList []);
               definitions = jor (jget payload ''definitions'') (JList []);
               specs = jor (jget payload ''specs'') (JList []) in
      if \<not> is_list new_symbols then Inl (ValueError ''new_symbols must be a list'')
      else if \<not> is_list declared_deps then Inl (ValueError ''declared_deps must be a list'')
      else if \<not> is_list definitions then Inl (ValueError ''definitions must be a list'')
      else if \<not> is_list specs then Inl (ValueError ''specs must be a list'')
      else
        bindr (canonicalize_concepts (jget payload ''concepts'')) (\<lambda>cconcepts.
        bindr (mapr canonicalize_definition (the_list definitions)) (\<lambda>cdefs0.
        bindr (py_sorted_by (\<lambda>d. jget d ''name'') cdefs0) (\<lambda>cdefs.
        bindr (mapr canonicalize_spec (the_list specs)) (\<lambda>cspecs.
        bindr (py_sorted_by id (the_list new_symbols)) (\<lambda>csyms.
        bindr (py_sorted_by id (the_list declared_deps)) (\<lambda>cdeps.
        bindr (canonicalize_capacity payload) (\<lambda>cclaim.
        Inr (JObj ([(''new_symbols'', JList csyms), (''definitions'', JList cdefs),
          (''declared_deps'', JList cdeps),
          (''specs'', JList (sort_key canonical_json_bytes cspecs))] @ cconcepts @ cclaim))))))))))"

definition payload_bytes_and_hash :: "hash_fn \<Rightarrow> json \<Rightarrow> (string \<times> string) res" where
  "payload_bytes_and_hash H payload =
     bindr (canonicalize_payload payload) (\<lambda>canon.
       let data = canonical_json_bytes canon in Inr (data, H data))"

end
