(* ===== verification/Kernel_Proof.thy ===== *)
theory Kernel_Proof
  imports Kernel_Eval_Props
begin

section \<open>The equality proof checker (kernel/proof.py)\<close>

text \<open>
  Goals are equations between closed terms; proofs are \<open>refl\<close>, \<open>sym\<close>, \<open>trans\<close> and
  \<open>by_eval\<close>. The two sides of a \<open>by_eval\<close> goal share one evaluator, hence one step counter.
  Two operators of a \<open>Prim\<close> are compared as documents. Proved: an accepted goal equates
  terms that evaluate alike under every larger step limit.
\<close>

record eq_goal =
  g_lhs :: kterm
  g_rhs :: kterm

fun prove_node :: "json \<Rightarrow> eq_goal res" where
  "prove_node node =
     (if \<not> is_obj node then Inl (AttributeError ''get'')
      else let tag = jget node ''tag'' in
        if tag = JStr ''refl'' then
          bindr (parse_term (jget node ''term'') []) (\<lambda>t. Inr \<lparr>g_lhs = t, g_rhs = t\<rparr>)
        else if tag = JStr ''sym'' then
          bindr (prove_node (jget node ''proof'')) (\<lambda>g.
            Inr \<lparr>g_lhs = g_rhs g, g_rhs = g_lhs g\<rparr>)
        else if tag = JStr ''trans'' then
          bindr (prove_node (jget node ''left'')) (\<lambda>l.
          bindr (prove_node (jget node ''right'')) (\<lambda>r.
            if g_rhs l \<noteq> g_lhs r then Inl (ProofError ''trans chain mismatch'')
            else Inr \<lparr>g_lhs = g_lhs l, g_rhs = g_rhs r\<rparr>))
        else Inl (ProofError ''unsupported proof tag: ''))"

declare prove_node.simps [simp del]

fun proof_size :: "json \<Rightarrow> int res" where
  "proof_size node =
     (if \<not> is_obj node then Inr 0
      else let tag = jget node ''tag'' in
        if tag = JStr ''missing'' then Inr 0
        else if tag = JStr ''refl'' then
          bindr (parse_term (jget node ''term'') []) (\<lambda>t. Inr (1 + count_term_nodes t))
        else if tag = JStr ''by_eval'' then Inr 1
        else if tag = JStr ''sym'' then
          bindr (proof_size (jget node ''proof'')) (\<lambda>n. Inr (1 + n))
        else if tag = JStr ''trans'' then
          bindr (proof_size (jget node ''left'')) (\<lambda>l.
          bindr (proof_size (jget node ''right'')) (\<lambda>r. Inr (1 + l + r)))
        else Inr 1)"

declare proof_size.simps [simp del]

definition check_proof_spec :: "json \<Rightarrow> defs \<Rightarrow> int \<Rightarrow> int res" where
  "check_proof_spec spec D step_limit =
     (let goal = jget spec ''goal''; pf = jget spec ''proof'' in
      if \<not> is_obj goal then Inl (ProofError ''goal must be an object'')
      else if jget goal ''tag'' \<noteq> JStr ''eq'' then Inl (ProofError ''only eq goals are supported'')
      else
        bindr (parse_term (jget goal ''lhs'') []) (\<lambda>lhs.
        bindr (parse_term (jget goal ''rhs'') []) (\<lambda>rhs.
        if \<not> is_obj pf then Inl (ProofError ''proof must be an object'')
        else let tag = jget pf ''tag'' in
          if tag = JStr ''missing'' then Inl (ProofError ''PROOF_MISSING'')
          else if tag = JStr ''by_eval'' then
            bindr (eval_term (Suc (nat step_limit)) step_limit D lhs [] 0) (\<lambda>(lhs_val, s).
            bindr (eval_term (Suc (nat step_limit)) step_limit D rhs [] s) (\<lambda>(rhs_val, s').
            if lhs_val \<noteq> rhs_val then Inl (ProofError ''by_eval failed'')
            else bindr (proof_size pf) (\<lambda>n.
              Inr (n + count_term_nodes lhs + count_term_nodes rhs))))
          else
            bindr (prove_node pf) (\<lambda>proved.
            if g_lhs proved \<noteq> lhs \<or> g_rhs proved \<noteq> rhs
            then Inl (ProofError ''proof does not match goal'')
            else proof_size pf))))"

subsection \<open>The rules prove identities\<close>

lemma prove_node_cases:
  assumes "prove_node p = Inr g"
  shows "is_obj p \<and> ((\<exists>t. g = \<lparr>g_lhs = t, g_rhs = t\<rparr>)
    \<or> (\<exists>h. prove_node (jget p ''proof'') = Inr h \<and> g = \<lparr>g_lhs = g_rhs h, g_rhs = g_lhs h\<rparr>)
    \<or> (\<exists>l r. prove_node (jget p ''left'') = Inr l \<and> prove_node (jget p ''right'') = Inr r
         \<and> g_rhs l = g_lhs r \<and> g = \<lparr>g_lhs = g_lhs l, g_rhs = g_rhs r\<rparr>))"
  using assms unfolding prove_node.simps [of p] Let_def
  by (simp split: if_split_asm) metis+

lemma prove_node_identity: "prove_node p = Inr g \<Longrightarrow> g_lhs g = g_rhs g"
proof (induction p arbitrary: g rule: measure_induct_rule [of size])
  case (less p)
  from prove_node_cases [OF less.prems] have obj: "is_obj p" by blast
  have sub: "g_lhs h = g_rhs h" if "prove_node (jget p k) = Inr h" for k h
    using less.IH [OF jget_size [OF obj] that] .
  from prove_node_cases [OF less.prems] show ?case
    by (elim conjE disjE exE) (simp_all add: sub)
qed

subsection \<open>Shifting the step counter\<close>

fun shift_steps :: "int \<Rightarrow> ('a \<times> int) res \<Rightarrow> ('a \<times> int) res" where
  "shift_steps k (Inl e) = Inl e"
| "shift_steps k (Inr (v, s)) = Inr (v, s + k)"

lemma shift_steps_bind:
  "m' = shift_steps k m \<Longrightarrow> (\<And>v s. m = Inr (v, s) \<Longrightarrow> f' v (s + k) = shift_steps k (f v s)) \<Longrightarrow>
     bindr m' (\<lambda>(v, s). f' v s) = shift_steps k (bindr m (\<lambda>(v, s). f v s))"
  by (cases m) auto

definition shifts :: "nat \<Rightarrow> int \<Rightarrow> defs \<Rightarrow> int \<Rightarrow> bool" where
  "shifts n L D k \<longleftrightarrow> (\<forall>t env s. eval_term n (L + k) D t env (s + k)
     = shift_steps k (eval_term n L D t env s))"

lemma shiftsD: "shifts n L D k \<Longrightarrow>
  eval_term n (L + k) D t env (s + k) = shift_steps k (eval_term n L D t env s)"
  by (simp add: shifts_def)

lemma eval_args_shift:
  "shifts n L D k \<Longrightarrow>
     eval_args n (L + k) D ts env (s + k) = shift_steps k (eval_args n L D ts env s)"
proof (induction ts arbitrary: s)
  case Nil
  then show ?case by simp
next
  case (Cons t ts)
  then show ?case unfolding eval_args.simps
    by (intro shift_steps_bind) (auto simp: shiftsD)
qed

lemma eval_apply_shift:
  "shifts n L D k \<Longrightarrow>
     eval_apply n (L + k) D f args (s + k) = shift_steps k (eval_apply n L D f args s)"
  by (cases f) (auto simp: shiftsD split: option.split)

lemma eval_body_shift:
  assumes "shifts n L D k"
  shows "eval_body n (L + k) D t env (s + k) = shift_steps k (eval_body n L D t env s)"
proof (cases t)
  case (Prim op args)
  show ?thesis unfolding Prim eval_body.simps
  proof (intro shift_steps_bind eval_args_shift assms)
    show "bindr (eval_prim op v) (\<lambda>v. Inr (v, s + k))
      = shift_steps k (bindr (eval_prim op v) (\<lambda>v. Inr (v, s)))" for v s
      by (cases "eval_prim op v") auto
  qed
next
  case (App f args)
  show ?thesis unfolding App eval_body.simps
    by (intro shift_steps_bind eval_args_shift eval_apply_shift shiftsD assms)
qed (use assms in \<open>auto simp: shiftsD intro!: shift_steps_bind
      split: val.splits list.splits option.splits\<close>)

lemma eval_term_shift: "shifts n L D k"
proof (induction n)
  case 0
  then show ?case by (simp add: shifts_def)
next
  case (Suc n)
  then show ?case
    using eval_body_shift [OF Suc, of _ _ "s + 1" for s]
    by (auto simp: shifts_def ac_simps)
qed

text \<open>A result reached from counter \<open>s\<close> is reached from zero.\<close>

lemma eval_from_zero:
  assumes "eval_term n L D t env s = Inr (v, s')" and "0 \<le> s"
  shows "eval_term n L D t env 0 = Inr (v, s' - s)"
proof -
  have "eval_term n L D t env s = shift_steps s (eval_term n (L - s) D t env 0)"
    using shiftsD [OF eval_term_shift, where n = n and L = "L - s" and D = D and k = s and t = t
        and env = env and s = 0] by simp
  with assms(1) have "eval_term n (L - s) D t env 0 = Inr (v, s' - s)"
    by (cases "eval_term n (L - s) D t env 0") auto
  moreover have "s' \<le> L" using eval_counter(1) [OF assms(1)] by simp
  ultimately show ?thesis using eval_term_stable [of n "L - s" D t env 0 v "s' - s" n L] assms(2)
    by simp
qed

lemma eval_term_run:
  assumes "eval_term (Suc (nat L)) L D t env 0 = Inr (v, s)"
  shows "run_eval L D t env = Inr v"
  using assms by (simp add: run_eval_def del: eval_term.simps)

subsection \<open>Soundness\<close>

lemma check_proof_sound:
  assumes "check_proof_spec spec D L = Inr w"
  obtains lhs rhs where
    "parse_term (jget (jget spec ''goal'') ''lhs'') [] = Inr lhs"
    "parse_term (jget (jget spec ''goal'') ''rhs'') [] = Inr rhs"
    "\<And>L'. L \<le> L' \<Longrightarrow> run_eval L' D lhs [] = run_eval L' D rhs []"
proof -
  let ?pf = "jget spec ''proof''"
  from assms obtain lhs rhs where
    l: "parse_term (jget (jget spec ''goal'') ''lhs'') [] = Inr lhs" and
    r: "parse_term (jget (jget spec ''goal'') ''rhs'') [] = Inr rhs" and
    p: "(\<exists>v s s'. eval_term (Suc (nat L)) L D lhs [] 0 = Inr (v, s)
          \<and> eval_term (Suc (nat L)) L D rhs [] s = Inr (v, s'))
      \<or> prove_node ?pf = Inr \<lparr>g_lhs = lhs, g_rhs = rhs\<rparr>"
    unfolding check_proof_spec_def Let_def
    by (auto elim!: bindrE simp del: eval_term.simps bindr_Inr_iff split: if_split_asm)
  have "run_eval L' D lhs [] = run_eval L' D rhs []" if "L \<le> L'" for L'
    using p
  proof
    assume "\<exists>v s s'. eval_term (Suc (nat L)) L D lhs [] 0 = Inr (v, s)
        \<and> eval_term (Suc (nat L)) L D rhs [] s = Inr (v, s')"
    then obtain v s s' where e: "eval_term (Suc (nat L)) L D lhs [] 0 = Inr (v, s)"
      "eval_term (Suc (nat L)) L D rhs [] s = Inr (v, s')" by blast
    have "0 \<le> s" using eval_counter(1) [OF e(1)] by simp
    from eval_from_zero [OF e(2) this] have "run_eval L D rhs [] = Inr v" by (rule eval_term_run)
    moreover from e(1) have "run_eval L D lhs [] = Inr v" by (rule eval_term_run)
    ultimately show ?thesis using run_eval_mono that by metis
  next
    assume "prove_node ?pf = Inr \<lparr>g_lhs = lhs, g_rhs = rhs\<rparr>"
    from prove_node_identity [OF this] show ?thesis by simp
  qed
  with l r that show ?thesis by blast
qed

end
