(* ===== verification/Kernel_Canon_Props.thy ===== *)
theory Kernel_Canon_Props
  imports Kernel_Canon Kernel_Proof
begin

section \<open>Canonical documents mean what the originals mean\<close>

text \<open>
  Parsing the canonical form of a term or definition gives back the term that was parsed
  from the original; canonical forms are fixed points of canonicalisation; and the
  canonical definition is a function of the parsed one, so renaming binders does not change
  a definition's hash.
\<close>

text \<open>Environments the printer builds: no name in them is one it may still bind.\<close>

definition canon_env :: "string list \<Rightarrow> bool" where
  "canon_env env \<longleftrightarrow> distinct env \<and>
     (\<forall>d \<ge> length env. numbered ''h'' d \<notin> set env \<and> numbered ''t'' d \<notin> set env \<and> numbered ''o'' d \<notin> set env)"

lemma numbered_inj [simp]: "numbered [a] i = numbered [b] j \<longleftrightarrow> a = b \<and> i = j"
  by (auto simp: numbered_def dest: nat_str_inj)

lemma canon_env_list:
  "canon_env env \<Longrightarrow> canon_env ([numbered ''t'' (length env), numbered ''h'' (length env)] @ env)"
  by (auto simp: canon_env_def)

lemma canon_env_option: "canon_env env \<Longrightarrow> canon_env ([numbered ''o'' (length env)] @ env)"
  by (auto simp: canon_env_def)

lemma canon_env_params: "canon_env (rev (map (numbered ''p'') [0..<n]))"
  by (auto simp: canon_env_def distinct_map inj_on_def)

lemma canon_env_vars: "canon_env (rev (map (numbered ''v'') [0..<n]))"
  by (auto simp: canon_env_def distinct_map inj_on_def)

lemma canon_env_Nil [simp]: "canon_env []"
  by (simp add: canon_env_def)

text \<open>\<open>prints env t j\<close>: \<open>j\<close> is the canonical form of \<open>t\<close> and parses back to it.\<close>

definition prints :: "string list \<Rightarrow> kterm \<Rightarrow> json \<Rightarrow> bool" where
  "prints env t j \<longleftrightarrow> term_to_canon_json t env = Inr j \<and> parse_term j (map JStr env) = Inr t"

lemma prints_list:
  assumes "\<forall>a \<in> set as. \<exists>j. prints env a j"
  shows "\<exists>js. mapr (\<lambda>a. term_to_canon_json a env) as = Inr js
    \<and> mapr (\<lambda>j. parse_term j (map JStr env)) js = Inr as"
  using assms
proof (induction as)
  case Nil
  then show ?case by simp
next
  case (Cons a as)
  then obtain j js where "prints env a j" "mapr (\<lambda>a. term_to_canon_json a env) as = Inr js"
    "mapr (\<lambda>j. parse_term j (map JStr env)) js = Inr as" by auto
  then show ?case by (intro exI [of _ "j # js"]) (simp add: prints_def)
qed

lemma term_prints: "canon_env env \<Longrightarrow> scoped (length env) t \<Longrightarrow> \<exists>j. prints env t j"
proof (induction t arbitrary: env)
  case (Var i)
  then obtain k where k: "i = int k" "k < length env" by (auto dest: zero_le_imp_eq_int)
  have "list_index (map JStr env) (map JStr env ! k) = Some k"
    using Var.prems k by (intro list_index_nth) (auto simp: canon_env_def distinct_map inj_on_def)
  with k show ?case
    by (simp add: prints_def parse_term.simps [of "JObj kvs" for kvs])
next
  case (App f as)
  from App.IH(1) [OF App.prems(1)] App.prems(2) obtain jf where jf: "prints env f jf" by auto
  from App have "\<forall>a \<in> set as. \<exists>j. prints env a j" by auto
  from prints_list [OF this] jf show ?case
    by (auto simp: prints_def parse_term.simps [of "JObj kvs" for kvs])
next
  case (Prim op as)
  then have "\<forall>a \<in> set as. \<exists>j. prints env a j" by auto
  from prints_list [OF this] show ?case
    by (auto simp: prints_def parse_term.simps [of "JObj kvs" for kvs])
next
  case (MatchList s n c)
  from MatchList.IH(3) [OF canon_env_list [OF MatchList.prems(1)]] MatchList.prems
  obtain jc where "prints ([numbered ''t'' (length env), numbered ''h'' (length env)] @ env) c jc"
    by auto
  moreover from MatchList obtain js jn where "prints env s js" "prints env n jn" by (metis scoped.simps(11))
  ultimately show ?case
    by (auto simp: prints_def Let_def parse_term.simps [of "JObj kvs" for kvs])
next
  case (MatchOption s n b)
  from MatchOption.IH(3) [OF canon_env_option [OF MatchOption.prems(1)]] MatchOption.prems
  obtain jb where "prints ([numbered ''o'' (length env)] @ env) b jb" by auto
  moreover from MatchOption obtain js jn where "prints env s js" "prints env n jn" by (metis scoped.simps(4))
  ultimately show ?case
    by (auto simp: prints_def Let_def parse_term.simps [of "JObj kvs" for kvs])
next
  case (ConsT h t)
  then obtain jh jt where "prints env h jh" "prints env t jt" by (metis scoped.simps(2))
  then show ?case by (simp add: prints_def parse_term.simps [of "JObj kvs" for kvs])
next
  case (PairT l r)
  then obtain jl jr where "prints env l jl" "prints env r jr" by (metis scoped.simps(5))
  then show ?case by (simp add: prints_def parse_term.simps [of "JObj kvs" for kvs])
next
  case (IfT c t e)
  then obtain jc jt je where "prints env c jc" "prints env t jt" "prints env e je"
    by (metis scoped.simps(8))
  then show ?case by (simp add: prints_def parse_term.simps [of "JObj kvs" for kvs])
next
  case (OptionSome v)
  then obtain j where "prints env v j" by auto
  then show ?case by (simp add: prints_def parse_term.simps [of "JObj kvs" for kvs])
next
  case (Fst p)
  then obtain j where "prints env p j" by auto
  then show ?case by (simp add: prints_def parse_term.simps [of "JObj kvs" for kvs])
next
  case (Snd p)
  then obtain j where "prints env p j" by auto
  then show ?case by (simp add: prints_def parse_term.simps [of "JObj kvs" for kvs])
qed (simp_all add: prints_def [abs_def] parse_term.simps [of "JObj kvs" for kvs])

lemma rename_term_parsed:
  assumes "parse_term j oenv = Inr t" "canon_env cenv" "length oenv = length cenv"
  shows "\<exists>c. rename_term j oenv cenv = Inr c \<and> prints cenv t c"
  using assms term_prints [of cenv t] parse_term_scoped [OF assms(1)]
  by (auto simp: rename_term_def prints_def)

subsection \<open>Definitions\<close>

definition binder_ok :: "json \<Rightarrow> json \<Rightarrow> ktype \<Rightarrow> bool" where
  "binder_ok j n t \<longleftrightarrow> is_obj j \<and> jget j ''name'' = n \<and> type_from_json (jget j ''type'') = Inr t"

definition binder_json :: "string \<Rightarrow> ktype \<Rightarrow> json" where
  "binder_json n t = JObj [(''name'', JStr n), (''type'', type_to_json t)]"

text \<open>What \<open>canon_binders\<close> returns, and when.\<close>

definition binders_parse :: "json list \<Rightarrow> json list \<Rightarrow> ktype list \<Rightarrow> bool" where
  "binders_parse js ns ts \<longleftrightarrow> length ns = length js \<and> length ts = length js \<and>
     (\<forall>i < length js. binder_ok (js ! i) (ns ! i) (ts ! i))"

definition names_ok :: "json list \<Rightarrow> bool" where
  "names_ok ns \<longleftrightarrow> JNull \<notin> set ns \<and> (\<forall>n \<in> set ns. hashable n) \<and> distinct (map scalar_key ns)"

lemma mapr_nth: "mapr f xs = Inr ys \<longleftrightarrow> length ys = length xs \<and> (\<forall>i < length xs. f (xs ! i) = Inr (ys ! i))"
  by (auto simp: mapr_Inr_iff list_all2_conv_all_nth)

lemma canon_binders_iff:
  "canon_binders p m d js = Inr (cs, ns, names) \<longleftrightarrow>
     names = map (numbered p) [0..<length js] \<and> names_ok ns \<and>
     (\<exists>ts. binders_parse js ns ts \<and> cs = map2 binder_json names ts)"
proof -
  let ?names = "map (numbered p) [0..<length js]"
  let ?f = "\<lambda>(name, j). bindr (type_from_json (jget j ''type'')) (\<lambda>t.
    Inr (JObj [(''name'', JStr name), (''type'', type_to_json t)]))"
  have types: "mapr ?f (zip ?names js) = Inr cs \<longleftrightarrow>
      (\<exists>ts. length ts = length js \<and> (\<forall>i < length js. type_from_json (jget (js ! i) ''type'') = Inr (ts ! i))
        \<and> cs = map2 binder_json ?names ts)"
  proof
    assume "mapr ?f (zip ?names js) = Inr cs"
    then have len: "length cs = length js" and all: "\<forall>i < length js. \<exists>t.
        type_from_json (jget (js ! i) ''type'') = Inr t \<and> cs ! i = binder_json (?names ! i) t"
      by (auto simp: mapr_nth binder_json_def)
    from all obtain T where T: "\<forall>i < length js. type_from_json (jget (js ! i) ''type'') = Inr (T i)
        \<and> cs ! i = binder_json (?names ! i) (T i)" by metis
    with len have "cs = map2 binder_json ?names (map T [0..<length js])"
      by (intro nth_equalityI) auto
    with T show "\<exists>ts. length ts = length js \<and>
        (\<forall>i < length js. type_from_json (jget (js ! i) ''type'') = Inr (ts ! i)) \<and> cs = map2 binder_json ?names ts"
      by (intro exI [of _ "map T [0..<length js]"]) auto
  next
    assume "\<exists>ts. length ts = length js \<and>
        (\<forall>i < length js. type_from_json (jget (js ! i) ''type'') = Inr (ts ! i)) \<and> cs = map2 binder_json ?names ts"
    then show "mapr ?f (zip ?names js) = Inr cs" by (auto simp: mapr_nth binder_json_def)
  qed
  have names: "mapr (\<lambda>p. jgetr p ''name'') js = Inr ns \<longleftrightarrow>
      length ns = length js \<and> (\<forall>i < length js. is_obj (js ! i) \<and> jget (js ! i) ''name'' = ns ! i)"
    by (auto simp: mapr_nth jgetr_def split: if_splits)
  show ?thesis
    unfolding canon_binders_def Let_def bindr_Inr_iff names names_ok_def binders_parse_def binder_ok_def
    using types by (auto simp: names split: if_splits)
qed

lemma binders_parse_canon:
  assumes "length names = length ts" "\<forall>t \<in> set ts. wf_type t"
  shows "binders_parse (map2 binder_json names ts) (map JStr names) ts"
  using assms by (auto simp: binders_parse_def binder_ok_def binder_json_def type_from_to_json)

lemma binders_parse_wf: "binders_parse js ns ts \<Longrightarrow> \<forall>t \<in> set ts. wf_type t"
  by (auto simp: binders_parse_def binder_ok_def in_set_conv_nth dest!: type_from_json_wf)

lemma names_ok_strs [simp]: "names_ok (map JStr ns) \<longleftrightarrow> distinct ns"
  by (auto simp: names_ok_def distinct_map inj_on_def comp_def)

lemma names_ok_rev [simp]: "names_ok (rev ns) = names_ok ns"
  by (simp add: names_ok_def rev_map [symmetric])

lemma numbered_list: "distinct (map (numbered [c]) [0..<n])"
  by (simp add: distinct_map inj_on_def)

lemma canon_binders_idem:
  assumes "canon_binders [c] m d js = Inr (cs, ns, names)"
  shows "canon_binders [c] m d cs = Inr (cs, map JStr names, names)"
proof -
  from assms obtain ts where ts: "names = map (numbered [c]) [0..<length js]" "binders_parse js ns ts"
    "cs = map2 binder_json names ts"
    unfolding canon_binders_iff by blast
  then have len: "length names = length ts" "length cs = length js" by (simp_all add: binders_parse_def)
  have "names_ok (map JStr names)" using numbered_list names_ok_strs ts(1) by metis
  with binders_parse_canon [OF len(1) binders_parse_wf [OF ts(2)]] ts(1,3) len(2)
  show ?thesis unfolding canon_binders_iff by metis
qed

lemma rename_term_idem:
  assumes "rename_term j oenv cenv = Inr c" "canon_env cenv" "length oenv = length cenv"
  shows "rename_term c (map JStr cenv) cenv = Inr c"
proof -
  from assms obtain t where t: "parse_term j oenv = Inr t" by (auto simp: rename_term_def)
  from rename_term_parsed [OF t assms(2,3)] assms(1) have "prints cenv t c" by auto
  then show ?thesis by (simp add: rename_term_def prints_def)
qed

lemma canon_binders_names:
  assumes "canon_binders p m d js = Inr (cs, ns, names)"
  shows "names = map (numbered p) [0..<length cs]" "length ns = length names"
proof -
  from assms obtain ts where ts: "names = map (numbered p) [0..<length js]" "binders_parse js ns ts"
    "cs = map2 binder_json names ts"
    unfolding canon_binders_iff by blast
  then have "length cs = length js" by (simp add: binders_parse_def)
  with ts show "names = map (numbered p) [0..<length cs]" "length ns = length names"
    by (simp_all add: binders_parse_def)
qed

lemma scalar_index_str:
  "list_index (map scalar_key (map JStr ns)) (scalar_key (JStr n)) = list_index (map JStr ns) (JStr n)"
  by (simp add: comp_def)

lemma canonicalize_definition_idem:
  assumes "canonicalize_definition j = Inr c"
  shows "canonicalize_definition c = Inr c"
proof -
  let ?dec = "jget (jor (jget j ''termination'') (JObj [])) ''decreases_param''"
  from assms obtain cs ns names body ret dec where
    binders: "canon_params (the_list (jor (jget j ''params'') (JList []))) = Inr (cs, ns, names)" and
    body: "rename_term (jget j ''body'') (rev ns) (rev names) = Inr body" and
    ret: "type_from_json (jget j ''ret_type'') = Inr ret" and
    dec0: "(if ?dec = JNull then Inr JNull
      else case list_index (map scalar_key ns) (scalar_key ?dec) of
          None \<Rightarrow> Inl (ValueError ''termination decreases_param not in params'')
        | Some i \<Rightarrow> Inr (JStr (names ! i))) = Inr dec" and
    c: "c = JObj [(''name'', jget j ''name''), (''params'', JList cs),
      (''ret_type'', type_to_json ret), (''body'', body),
      (''termination'', JObj [(''kind'', jget (jor (jget j ''termination'') (JObj [])) ''kind''),
        (''decreases_param'', dec)])]"
    unfolding canonicalize_definition_def Let_def
    by (auto elim!: bindrE simp: jgetr_def split: if_split_asm simp del: bindr_Inr_iff)
  have names: "names = map (numbered ''p'') [0..<length cs]" and len: "length ns = length names"
    using canon_binders_names binders unfolding canon_params_def by blast+
  have dec: "dec = JNull \<or> (\<exists>i < length names. dec = JStr (names ! i))"
  proof -
    have "i < length names" if "list_index (map scalar_key ns) k = Some i" for k i
      using list_index_Some [OF that] len by simp
    with dec0 show ?thesis by (auto split: if_split_asm option.split_asm)
  qed
  have again: "canon_params cs = Inr (cs, map JStr names, names)"
    using binders canon_binders_idem unfolding canon_params_def by blast
  have body2: "rename_term body (rev (map JStr names)) (rev names) = Inr body"
    using rename_term_idem [OF body] canon_env_params len by (simp add: names rev_map)
  have dist: "distinct names" by (simp add: names numbered_list)
  have idx: "list_index (map scalar_key (map JStr names)) (scalar_key (JStr (names ! i))) = Some i"
    if "i < length names" for i
    using that dist list_index_nth [of "map JStr names" i]
    unfolding scalar_index_str by (simp add: distinct_map inj_on_def)
  have ret2: "type_from_json (type_to_json ret) = Inr ret"
    using ret by (rule type_to_json_idem)
  show ?thesis
    using again body2 ret2 dec idx
    by (cases "cs = []") (auto simp: c canonicalize_definition_def jor_def)
qed

text \<open>
  A definition the parser accepts: what the parser and the canonicaliser see is the same
  term, and the canonical form is read off the parsed definition.
\<close>

definition canon_kdef :: "kdef \<Rightarrow> kdef" where
  "canon_kdef d =
     (let names = map (numbered ''p'') [0..<length (d_params d)] in
      \<lparr>d_name = d_name d,
       d_params = map2 (\<lambda>n p. \<lparr>p_name = n, p_typ = p_typ p\<rparr>) names (d_params d),
       d_ret = d_ret d, d_body = d_body d,
       d_term = \<lparr>t_kind = t_kind (d_term d),
         t_decreases = (case list_index (map (\<lambda>p. JStr (p_name p)) (d_params d)) (t_decreases (d_term d)) of
             None \<Rightarrow> JNull | Some i \<Rightarrow> JStr (names ! i))\<rparr>\<rparr>)"

lemma parse_params_binders:
  assumes "parse_params js params env seen = Inr (params', env')"
  shows "\<exists>new. params' = params @ new \<and> env' = rev (map (\<lambda>p. JStr (p_name p)) new) @ env
    \<and> binders_parse js (map (\<lambda>p. JStr (p_name p)) new) (map p_typ new)
    \<and> distinct (map p_name new) \<and> (\<forall>p \<in> set new. JStr (p_name p) \<notin> set seen)"
  using assms
proof (induction js arbitrary: params env seen)
  case Nil
  then show ?case by (simp add: binders_parse_def)
next
  case (Cons j js)
  from Cons.prems obtain n t where n: "binder_ok j (JStr n) t" "JStr n \<notin> set seen"
    and rest: "parse_params js (params @ [\<lparr>p_name = n, p_typ = t\<rparr>]) (JStr n # env) (JStr n # seen)
      = Inr (params', env')"
    by (auto simp: is_str_iff jgetr_def binder_ok_def split: if_splits)
  from Cons.IH [OF rest] obtain new where
    "params' = (params @ [\<lparr>p_name = n, p_typ = t\<rparr>]) @ new"
    "env' = rev (map (\<lambda>p. JStr (p_name p)) new) @ JStr n # env"
    "binders_parse js (map (\<lambda>p. JStr (p_name p)) new) (map p_typ new)"
    "distinct (map p_name new)" "\<forall>p \<in> set new. JStr (p_name p) \<notin> set (JStr n # seen)" by blast
  with n show ?case
    by (intro exI [of _ "\<lparr>p_name = n, p_typ = t\<rparr> # new"])
      (auto simp: binders_parse_def nth_Cons' less_Suc_eq_0_disj)
qed

lemma parse_params_canon:
  assumes "binders_parse js (map JStr names) ts" "distinct names" "\<forall>n \<in> set names. JStr n \<notin> set seen"
  shows "parse_params js params env seen =
    Inr (params @ map2 (\<lambda>n t. \<lparr>p_name = n, p_typ = t\<rparr>) names ts, rev (map JStr names) @ env)"
  using assms
proof (induction js arbitrary: names ts params env seen)
  case Nil
  then show ?case by (simp add: binders_parse_def)
next
  case (Cons j js)
  then obtain n ns t us where n: "names = n # ns" "ts = t # us"
    by (cases names; cases ts) (auto simp: binders_parse_def)
  from Cons.prems(1) have "binder_ok j (JStr n) t" and "binders_parse js (map JStr ns) us"
    unfolding n binders_parse_def by (auto dest: spec [of _ 0] spec [of _ "Suc _"])
  moreover from Cons.prems(2,3) n have fresh: "distinct ns" "\<forall>m \<in> set ns. JStr m \<notin> set (JStr n # seen)"
    "JStr n \<notin> set seen" by auto
  ultimately show ?case
    using Cons.IH [of ns us "JStr n # seen" "params @ [\<lparr>p_name = n, p_typ = t\<rparr>]" "JStr n # env"] n
    by (simp add: binder_ok_def jgetr_def)
qed

lemma canonicalize_definition_parse:
  assumes d: "parse_definition j = Inr d" and c: "canonicalize_definition j = Inr c"
  shows "parse_definition c = Inr (canon_kdef d)"
proof -
  let ?dec = "jget (jor (jget j ''termination'') (JObj [])) ''decreases_param''"
  let ?names = "map (numbered ''p'') [0..<length (d_params d)]"
  from d obtain name env where
    pp: "parse_params (the_list (jor (jget j ''params'') (JList []))) [] [] [] = Inr (d_params d, env)" and
    name: "jget j ''name'' = JStr (d_name d)" and
    ret: "type_from_json (jget j ''ret_type'') = Inr (d_ret d)" and
    body: "parse_term (jget j ''body'') env = Inr (d_body d)" and
    trm: "d_term d = \<lparr>t_kind = jget (jor (jget j ''termination'') (JObj [])) ''kind'', t_decreases = ?dec\<rparr>"
    by (auto simp: parse_definition_def Let_def is_str_iff jgetr_def split: if_split_asm)
  let ?js = "the_list (jor (jget j ''params'') (JList []))"
  let ?ns = "map (\<lambda>p. JStr (p_name p)) (d_params d)"
  from parse_params_binders [OF pp] have env: "env = rev ?ns"
    and bp: "binders_parse ?js ?ns (map p_typ (d_params d))" and dist: "distinct (map p_name (d_params d))"
    by auto
  then have len: "length ?js = length (d_params d)" by (simp add: binders_parse_def)
  have nok: "names_ok ?ns"
    using dist names_ok_strs [of "map p_name (d_params d)"] by (simp add: comp_def)
  have cp: "canon_params ?js = Inr (map2 binder_json ?names (map p_typ (d_params d)), ?ns, ?names)"
    using bp nok len unfolding canon_params_def canon_binders_iff by metis
  have "length (rev ?ns) = length (rev ?names)" by simp
  from rename_term_parsed [OF body [unfolded env] canon_env_params this] obtain b where
    b: "rename_term (jget j ''body'') (rev ?ns) (rev ?names) = Inr b" "prints (rev ?names) (d_body d) b"
    by blast
  have parse_b: "parse_term b (rev (map JStr ?names)) = Inr (d_body d)"
    using b(2) by (simp add: prints_def rev_map)
  have idx: "list_index (map scalar_key ?ns) (scalar_key v) = list_index ?ns v" for v
  proof -
    have eq: "map scalar_key ?ns = ?ns" by simp
    have "list_index ?ns (JInt k) = None" "list_index ?ns (JBool x) = None" for k x
      by (auto simp: list_index_None)
    then show ?thesis unfolding eq by (cases v) simp_all
  qed
  let ?i = "list_index ?ns ?dec"
  have null: "list_index ?ns JNull = None" by (auto simp: list_index_None)
  from null c cp b(1) ret idx [of ?dec] have c': "(?dec = JNull \<or> ?i \<noteq> None)
    \<and> c = JObj [(''name'', jget j ''name''),
      (''params'', JList (map2 binder_json ?names (map p_typ (d_params d)))),
      (''ret_type'', type_to_json (d_ret d)), (''body'', b),
      (''termination'', JObj [(''kind'', t_kind (d_term d)),
        (''decreases_param'', case ?i of None \<Rightarrow> JNull | Some i \<Rightarrow> JStr (?names ! i))])]"
    unfolding canonicalize_definition_def Let_def
    by (auto simp: trm jgetr_def split: if_split_asm option.split_asm)
  have pc: "parse_params (map2 binder_json ?names (map p_typ (d_params d))) [] [] []
      = Inr (map2 (\<lambda>n p. \<lparr>p_name = n, p_typ = p_typ p\<rparr>) ?names (d_params d), rev (map JStr ?names))"
  proof -
    have "binders_parse (map2 binder_json ?names (map p_typ (d_params d))) (map JStr ?names)
        (map p_typ (d_params d))"
      using binders_parse_wf [OF bp] by (intro binders_parse_canon) auto
    from parse_params_canon [OF this, of "[]" "[]" "[]"] numbered_list
    show ?thesis by (simp add: zip_map2 comp_def case_prod_unfold)
  qed
  have ret2: "type_from_json (type_to_json (d_ret d)) = Inr (d_ret d)"
    using ret by (rule type_to_json_idem)
  have jl: "jor (JList xs) (JList []) = JList xs" for xs by (simp add: jor_def)
  show ?thesis
    unfolding c' [THEN conjunct2] parse_definition_def using parse_b
    by (cases "d_params d = []") (simp_all add: jl pc ret2 name canon_kdef_def Let_def jor_def trm)
qed

lemma canon_kdef_fields [simp]:
  "d_name (canon_kdef d) = d_name d" "d_ret (canon_kdef d) = d_ret d"
  "d_body (canon_kdef d) = d_body d" "map p_typ (d_params (canon_kdef d)) = map p_typ (d_params d)"
  by (auto simp: canon_kdef_def Let_def intro: nth_equalityI)

end
