(* ===== verification/Sealed_Decimal.thy ===== *)
theory Sealed_Decimal
  imports Json_Text
begin

section \<open>Decimal arithmetic (the part of Python's decimal module in use)\<close>

text \<open>
  \<open>sealed/evalue.py\<close> works with \<open>decimal.Decimal\<close> under the precision of 50 digits it sets on
  import and the default rounding, half to even. A finite number is a sign, a coefficient and
  an exponent; \<open>NaN\<close> stands for both kinds of not-a-number. Results whose exponent leaves the
  range of the context are \<open>Unmodelled\<close>, as are powers that are not exact.
\<close>

datatype decimal =
    Fin bool nat int
  | Infinite bool
  | NaN

definition prec :: nat where
  "prec = 50"

definition emax :: int where
  "emax = 999999"

definition invalid :: "'a res" where
  "invalid = Inl (InvalidOperation '''')"

definition ndigits :: "nat \<Rightarrow> nat" where
  "ndigits c = length (nat_str c)"

fun is_finite :: "decimal \<Rightarrow> bool" where
  "is_finite (Fin s c e) = True"
| "is_finite d = False"

fun adjusted :: "decimal \<Rightarrow> int" where
  "adjusted (Fin s c e) = e + int (ndigits c) - 1"
| "adjusted d = 0"

subsection \<open>Rounding\<close>

datatype rounding = HalfEven | HalfUp

text \<open>Dropping the last \<open>k\<close> digits of a coefficient.\<close>

definition round_off :: "rounding \<Rightarrow> nat \<Rightarrow> nat \<Rightarrow> nat" where
  "round_off r c k =
     (let d = 10 ^ k; q = c div d; m = c mod d in
      case r of
        HalfEven \<Rightarrow> if 2 * m > d \<or> 2 * m = d \<and> odd q then q + 1 else q
      | HalfUp \<Rightarrow> if 2 * m \<ge> d then q + 1 else q)"

definition in_range :: "decimal \<Rightarrow> decimal res" where
  "in_range d =
     (if is_finite d \<and> (adjusted d > emax \<or> adjusted d < - emax)
      then Inl (Unmodelled ''decimal exponent out of range'') else Inr d)"

text \<open>Rounding a result to the precision of the context.\<close>

fun fix_prec :: "nat \<Rightarrow> decimal \<Rightarrow> decimal res" where
  "fix_prec p (Fin s c e) =
     (let n = ndigits c in
      if n \<le> p then in_range (Fin s c e)
      else let k = n - p; q = round_off HalfEven c k in
        in_range (if ndigits q > p then Fin s (q div 10) (e + int k + 1) else Fin s q (e + int k)))"
| "fix_prec p d = Inr d"

text \<open>\<open>d.quantize(Decimal(1).scaleb(qe), rounding=r)\<close> under precision \<open>p\<close>.\<close>

fun quantize :: "nat \<Rightarrow> rounding \<Rightarrow> decimal \<Rightarrow> int \<Rightarrow> decimal res" where
  "quantize p r (Fin s c e) qe =
     (if c = 0 then Inr (Fin s 0 qe)
      else if adjusted (Fin s c e) - qe + 1 > int p then invalid
      else let q = (if qe \<le> e then c * 10 ^ nat (e - qe) else round_off r c (nat (qe - e))) in
        if ndigits q > p then invalid else Inr (Fin s q qe))"
| "quantize p r (Infinite s) qe = invalid"
| "quantize p r NaN qe = Inr NaN"

subsection \<open>Arithmetic on finite numbers\<close>

definition scoeff :: "bool \<Rightarrow> nat \<Rightarrow> int" where
  "scoeff s c = (if s then - int c else int c)"

definition of_scoeff :: "int \<Rightarrow> int \<Rightarrow> decimal" where
  "of_scoeff i e = Fin (i < 0) (nat \<bar>i\<bar>) e"

definition dec_of_int :: "int \<Rightarrow> decimal" where
  "dec_of_int i = of_scoeff i 0"

definition beyond_finite :: "'a res" where
  "beyond_finite = Inl (Unmodelled ''arithmetic on infinities or NaN'')"

fun dec_add :: "decimal \<Rightarrow> decimal \<Rightarrow> decimal res" where
  "dec_add (Fin s c e) (Fin s' c' e') =
     (let m = min e e'; i = scoeff s c * 10 ^ nat (e - m) + scoeff s' c' * 10 ^ nat (e' - m) in
      fix_prec prec (if i = 0 then Fin (s \<and> s') 0 m else of_scoeff i m))"
| "dec_add _ _ = beyond_finite"

fun dec_mul :: "decimal \<Rightarrow> decimal \<Rightarrow> decimal res" where
  "dec_mul (Fin s c e) (Fin s' c' e') = fix_prec prec (Fin (s \<noteq> s') (c * c') (e + e'))"
| "dec_mul _ _ = beyond_finite"

text \<open>An exact quotient is brought towards the exponent of the operands; another one keeps a
  sticky last digit, so that the final rounding sees it.\<close>

fun strip_zeros :: "nat \<Rightarrow> int \<Rightarrow> int \<Rightarrow> nat \<times> int" where
  "strip_zeros c e ideal =
     (if e < ideal \<and> c mod 10 = 0 \<and> 0 < c then strip_zeros (c div 10) (e + 1) ideal else (c, e))"

declare strip_zeros.simps [simp del]

fun dec_div :: "decimal \<Rightarrow> decimal \<Rightarrow> decimal res" where
  "dec_div (Fin s c e) (Fin s' c' e') =
     (if c' = 0 then (if c = 0 then invalid else Inl ZeroDivisionError)
      else if c = 0 then in_range (Fin (s \<noteq> s') 0 (e - e'))
      else let sh = int (ndigits c') - int (ndigits c) + int prec + 1; x = e - e' - sh;
               num = (if 0 \<le> sh then c * 10 ^ nat sh else c);
               den = (if 0 \<le> sh then c' else c' * 10 ^ nat (- sh));
               q = num div den; m = num mod den;
               (k, y) = (if m \<noteq> 0 then (if q mod 5 = 0 then q + 1 else q, x)
                         else strip_zeros q x (e - e'))
        in fix_prec prec (Fin (s \<noteq> s') k y))"
| "dec_div _ _ = beyond_finite"

text \<open>\<open>Decimal(b) ** n\<close> for positive integers, when the power fits the precision.\<close>

definition dec_int_pow :: "nat \<Rightarrow> nat \<Rightarrow> decimal res" where
  "dec_int_pow b n =
     (if ndigits (b ^ n) \<le> prec then Inr (Fin False (b ^ n) 0) else Inl (Unmodelled ''inexact power''))"

text \<open>\<open>d.scaleb(k)\<close>.\<close>

fun scaleb :: "decimal \<Rightarrow> int \<Rightarrow> decimal res" where
  "scaleb (Fin s c e) k =
     (if \<bar>k\<bar> > 2 * (emax + int prec) then invalid else fix_prec prec (Fin s c (e + k)))"
| "scaleb d k = Inr d"

subsection \<open>Comparison\<close>

fun fin_less :: "decimal \<Rightarrow> decimal \<Rightarrow> bool" where
  "fin_less (Fin s c e) (Fin s' c' e') =
     (let m = min e e' in scoeff s c * 10 ^ nat (e - m) < scoeff s' c' * 10 ^ nat (e' - m))"
| "fin_less (Infinite s) d = (s \<and> d \<noteq> Infinite True)"
| "fin_less (Fin s c e) d = (d = Infinite False)"
| "fin_less NaN d = False"

text \<open>\<open>a < b\<close>: an ordering comparison with NaN signals.\<close>

definition dec_less :: "decimal \<Rightarrow> decimal \<Rightarrow> bool res" where
  "dec_less a b = (if a = NaN \<or> b = NaN then invalid else Inr (fin_less a b))"

subsection \<open>Square root\<close>

fun isqrt :: "nat \<Rightarrow> nat" where
  "isqrt n = (if n = 0 then 0 else let r = 2 * isqrt (n div 4) in if (r + 1) ^ 2 \<le> n then r + 1 else r)"

declare isqrt.simps [simp del]

text \<open>The root to one digit more than the precision, with a sticky last digit.\<close>

fun dec_sqrt :: "decimal \<Rightarrow> decimal res" where
  "dec_sqrt (Fin s c e) =
     (if c = 0 then Inr (Fin s 0 (e div 2))
      else if s then invalid
      else let c1 = (if odd e then c * 10 else c); l = (ndigits c1 + 1) div 2;
               sh = int prec + 1 - int l;
               c2 = (if 0 \<le> sh then c1 * 100 ^ nat sh else c1 div 100 ^ nat (- sh));
               whole = (0 \<le> sh \<or> c1 mod 100 ^ nat (- sh) = 0);
               n = isqrt c2; h = e div 2
        in if whole \<and> n * n = c2
           then fix_prec prec (Fin False (if 0 \<le> sh then n div 10 ^ nat sh else n * 10 ^ nat (- sh)) h)
           else fix_prec prec (Fin False (if n mod 5 = 0 then n + 1 else n) (h - sh)))"
| "dec_sqrt (Infinite s) = (if s then invalid else Inr (Infinite False))"
| "dec_sqrt NaN = Inr NaN"

lemma isqrt_correct: "(isqrt n) ^ 2 \<le> n \<and> n < (isqrt n + 1) ^ 2"
proof (induction n rule: isqrt.induct)
  case (1 n)
  show ?case
  proof (cases "n = 0")
    case True
    then show ?thesis by (simp add: isqrt.simps [of 0])
  next
    case False
    let ?r = "isqrt (n div 4)"
    from 1 False have r: "?r ^ 2 \<le> n div 4" "n div 4 < (?r + 1) ^ 2" by auto
    have "(2 * ?r) ^ 2 \<le> n"
    proof -
      have "(2 * ?r) ^ 2 = 4 * ?r ^ 2" by (simp add: power2_eq_square)
      also have "\<dots> \<le> 4 * (n div 4)" using r(1) by simp
      also have "\<dots> \<le> n" by simp
      finally show ?thesis .
    qed
    moreover have "n < (2 * ?r + 2) ^ 2"
    proof -
      have "n < 4 * (n div 4 + 1)" by presburger
      also have "\<dots> \<le> 4 * (?r + 1) ^ 2" using r(2) by simp
      also have "\<dots> = (2 * ?r + 2) ^ 2" by (simp add: power2_eq_square algebra_simps)
      finally show ?thesis .
    qed
    ultimately show ?thesis using False
      by (subst (1 2) isqrt.simps) (auto simp: Let_def)
  qed
qed

subsection \<open>Exponential\<close>

text \<open>
  For \<open>x = p / q \<ge> 0\<close>, the partial sums of the exponential series bound \<open>exp x\<close> from below,
  and from above once twice the next term is added and \<open>2 * x \<le> N + 2\<close>. The result is the
  rounding of both bounds when they agree: \<open>exp x\<close> is irrational unless \<open>x = 0\<close>, so they do
  from some number of terms on.
\<close>

fun exp_sum :: "nat \<Rightarrow> nat \<Rightarrow> nat \<Rightarrow> nat \<times> nat \<times> nat" where
  "exp_sum p q 0 = (1, 1, 1)"
| "exp_sum p q (Suc N) =
     (let (num, den, pw) = exp_sum p q N in
      (num * q * Suc N + pw * p, den * q * Suc N, pw * p))"

text \<open>The quotient \<open>a / b \<ge> 1\<close> to \<open>prec\<close> digits.\<close>

definition round_quotient :: "nat \<Rightarrow> nat \<Rightarrow> nat \<times> int" where
  "round_quotient a b =
     (let sh = int prec - int (ndigits (a div b));
          num = (if 0 \<le> sh then a * 10 ^ nat sh else a);
          den = (if 0 \<le> sh then b else b * 10 ^ nat (- sh));
          q = num div den; m = num mod den
      in (if 2 * m \<ge> den then q + 1 else q, - sh))"

fun exp_loop :: "nat \<Rightarrow> nat \<Rightarrow> nat \<Rightarrow> nat \<Rightarrow> decimal res" where
  "exp_loop 0 p q N = Inl OutOfFuel"
| "exp_loop (Suc k) p q N =
     (let (num, den, pw) = exp_sum p q N;
          lo = round_quotient num den;
          hi = round_quotient (num * q * Suc N + 2 * pw * p) (den * q * Suc N)
      in if 2 * p \<le> (N + 2) * q \<and> lo = hi then fix_prec prec (Fin False (fst lo) (snd lo))
         else exp_loop k p q (2 * N))"

fun dec_exp :: "decimal \<Rightarrow> decimal res" where
  "dec_exp (Fin s c e) =
     (if c = 0 then Inr (Fin False 1 0)
      else if s then Inl (Unmodelled ''exponential of a negative number'')
      else let p = c * 10 ^ nat e; q = 10 ^ nat (- e) in
        if p > 2302600 * q then Inl (Unmodelled ''decimal exponent out of range'')
        else exp_loop 40 p q 64)"
| "dec_exp d = beyond_finite"

subsection \<open>Text\<close>

definition py_space :: "char \<Rightarrow> bool" where
  "py_space c \<longleftrightarrow> (let n = of_char c :: nat in 9 \<le> n \<and> n \<le> 13 \<or> 28 \<le> n \<and> n \<le> 32 \<or> n = 133 \<or> n = 160)"

definition strip :: "string \<Rightarrow> string" where
  "strip s = rev (dropWhile py_space (rev (dropWhile py_space s)))"

definition lower :: "string \<Rightarrow> string" where
  "lower s = map (\<lambda>c. let n = of_char c :: nat in if 65 \<le> n \<and> n \<le> 90 then char_of (n + 32) else c) s"

text \<open>A sign, if there is one, and the rest.\<close>

definition split_sign :: "string \<Rightarrow> bool \<times> string" where
  "split_sign s =
     (case s of
        c # r \<Rightarrow> if c = CHR ''-'' then (True, r) else if c = CHR ''+'' then (False, r) else (False, s)
      | [] \<Rightarrow> (False, s))"

text \<open>The exponent part, after lower-casing: nothing, or \<open>e\<close>, a sign and digits.\<close>

definition exponent_part :: "string \<Rightarrow> int option" where
  "exponent_part s =
     (case s of
        [] \<Rightarrow> Some 0
      | c # r \<Rightarrow>
          let (neg, ds) = split_sign r in
          if c = CHR ''e'' \<and> ds \<noteq> [] \<and> list_all is_digit ds
          then Some ((if neg then -1 else 1) * int (digits_val ds)) else None)"

text \<open>\<open>Decimal(s)\<close>.\<close>

definition parse_decimal :: "string \<Rightarrow> decimal res" where
  "parse_decimal s =
     (let (neg, u) = split_sign (lower (filter (\<lambda>c. c \<noteq> CHR ''_'') (strip s))) in
      if u = ''inf'' \<or> u = ''infinity'' then Inr (Infinite neg)
      else if starts ''nan'' u \<and> list_all is_digit (drop 3 u)
              \<or> starts ''snan'' u \<and> list_all is_digit (drop 4 u) then Inr NaN
      else let ds = takeWhile is_digit u; r = dropWhile is_digit u;
               (frac, r2) = (if starts ''.'' r then (takeWhile is_digit (drop 1 r), dropWhile is_digit (drop 1 r))
                             else ([], r))
        in if ds = [] \<and> frac = [] then invalid
           else case exponent_part r2 of
               None \<Rightarrow> invalid
             | Some e \<Rightarrow> Inr (Fin neg (digits_val (ds @ frac)) (e - int (length frac))))"

text \<open>\<open>format(d, "f")\<close>.\<close>

fun format_f :: "decimal \<Rightarrow> string" where
  "format_f (Fin s c e) =
     (if s then ''-'' else []) @
     (if e \<ge> 0 then (if c = 0 then ''0'' else nat_str c @ replicate (nat e) (CHR ''0''))
      else let k = nat (- e); ds = replicate (k + 1 - ndigits c) (CHR ''0'') @ nat_str c in
        take (length ds - k) ds @ ''.'' @ drop (length ds - k) ds)"
| "format_f (Infinite s) = (if s then ''-Infinity'' else ''Infinity'')"
| "format_f NaN = ''NaN''"

end
