(* ===== verification/Sealed_Evalue.thy ===== *)
theory Sealed_Evalue
  imports Sealed_Decimal
begin

section \<open>E-values and alpha spending (sealed/evalue.py)\<close>

definition p_series_coeff :: string where
  "p_series_coeff = ''0.60792710185402662866''"

definition alpha_quant :: int where
  "alpha_quant = -24"

definition evalue_sig_digits :: nat where
  "evalue_sig_digits = 24"

definition evalue_mantissa_quant :: int where
  "evalue_mantissa_quant = - (int evalue_sig_digits - 1)"

definition format_decimal :: "decimal \<Rightarrow> string res" where
  "format_decimal value =
     (if \<not> is_finite value then invalid
      else let needed = max (adjusted value + 1) 1 + \<bar>alpha_quant\<bar> in
        bindr (quantize (max prec (nat needed)) HalfUp value alpha_quant) (\<lambda>quantized.
          Inr (format_f quantized)))"

record encoded_evalue =
  ev_mantissa :: decimal
  ev_exponent10 :: int

definition format_mantissa :: "decimal \<Rightarrow> string res" where
  "format_mantissa value =
     (if \<not> is_finite value then invalid
      else bindr (quantize (max prec (evalue_sig_digits + 4)) HalfUp value evalue_mantissa_quant)
        (\<lambda>quantized. Inr (format_f quantized)))"

definition evalue_to_dict :: "encoded_evalue \<Rightarrow> json res" where
  "evalue_to_dict v =
     bindr (format_mantissa (ev_mantissa v)) (\<lambda>m.
       Inr (JObj [(''mantissa'', JStr m), (''exponent10'', JInt (ev_exponent10 v))]))"

text \<open>A comparison of two finite numbers by value.\<close>

definition dec_eq :: "decimal \<Rightarrow> decimal \<Rightarrow> bool" where
  "dec_eq a b \<longleftrightarrow> a \<noteq> NaN \<and> b \<noteq> NaN \<and> \<not> fin_less a b \<and> \<not> fin_less b a"

definition encode_evalue :: "decimal \<Rightarrow> encoded_evalue res" where
  "encode_evalue value =
     (if \<not> is_finite value \<or> \<not> fin_less (dec_of_int 0) value then invalid
      else let exp10 = adjusted value; p = max prec (evalue_sig_digits + 6) in
        bindr (scaleb value (- exp10)) (\<lambda>m0.
        bindr (quantize p HalfUp m0 evalue_mantissa_quant) (\<lambda>mantissa.
          if dec_eq mantissa (dec_of_int 10) then
            bindr (quantize prec HalfEven (dec_of_int 1) evalue_mantissa_quant) (\<lambda>one.
              Inr \<lparr>ev_mantissa = one, ev_exponent10 = exp10 + 1\<rparr>)
          else Inr \<lparr>ev_mantissa = mantissa, ev_exponent10 = exp10\<rparr>)))"

definition parse_evalue :: "json \<Rightarrow> encoded_evalue res" where
  "parse_evalue raw =
     (if \<not> is_obj raw then Inl (ValueError ''must be an object'')
      else let mantissa_raw = jget raw ''mantissa''; exponent_raw = jget raw ''exponent10'' in
        if \<not> is_str mantissa_raw \<or> mantissa_raw = JStr [] then Inl (ValueError ''mantissa must be a string'')
        else if \<not> is_int exponent_raw then Inl (ValueError ''exponent10 must be an int'')
        else
          bindr (parse_decimal (the_str mantissa_raw)) (\<lambda>mantissa.
          if \<not> is_finite mantissa then Inl (ValueError ''mantissa must be finite'')
          else if \<not> fin_less (dec_of_int 0) mantissa \<or> \<not> fin_less mantissa (dec_of_int 10)
          then Inl (ValueError ''mantissa out of range'')
          else
            bindr (format_mantissa mantissa) (\<lambda>text.
            if text \<noteq> the_str mantissa_raw then Inl (ValueError ''mantissa not canonical'')
            else Inr \<lparr>ev_mantissa = mantissa, ev_exponent10 = the_int exponent_raw\<rparr>)))"

definition encoded_evalue_to_decimal :: "encoded_evalue \<Rightarrow> decimal res" where
  "encoded_evalue_to_decimal v = scaleb (ev_mantissa v) (ev_exponent10 v)"

text \<open>\<open>and\<close> is lazy: the mantissas are formatted only when the exponents agree.\<close>

definition encoded_evalue_equal :: "encoded_evalue \<Rightarrow> encoded_evalue \<Rightarrow> bool res" where
  "encoded_evalue_equal l r =
     (if ev_exponent10 l \<noteq> ev_exponent10 r then Inr False
      else bindr (format_mantissa (ev_mantissa l)) (\<lambda>a.
           bindr (format_mantissa (ev_mantissa r)) (\<lambda>b. Inr (a = b))))"

record alpha_schedule =
  as_name :: string
  as_exponent :: int
  as_coefficient :: decimal

text \<open>\<open>d.get(k, default)\<close>, and \<open>str(v)\<close> as far as the decimal parser can tell results apart.\<close>

definition jget_default :: "json \<Rightarrow> string \<Rightarrow> json \<Rightarrow> json" where
  "jget_default j k d =
     (case j of JObj kvs \<Rightarrow> (case map_of kvs k of None \<Rightarrow> d | Some v \<Rightarrow> v) | _ \<Rightarrow> d)"

fun py_str :: "json \<Rightarrow> string" where
  "py_str (JStr s) = s"
| "py_str (JInt i) = int_str i"
| "py_str (JBool b) = (if b then ''True'' else ''False'')"
| "py_str JNull = ''None''"
| "py_str (JList xs) = ''[]''"
| "py_str (JObj kvs) = ''{}''"

definition parse_alpha_schedule :: "json \<Rightarrow> alpha_schedule res" where
  "parse_alpha_schedule schedule =
     (if \<not> is_obj schedule then Inl (ValueError ''alpha_schedule must be an object'')
      else let name = jget schedule ''name''; exponent = jget_default schedule ''exponent'' (JInt 2) in
        if \<not> is_str name then Inl (ValueError ''alpha_schedule name must be a string'')
        else if name \<noteq> JStr ''p_series'' then Inl (ValueError ''alpha_schedule name must be p_series'')
        else if \<not> is_int exponent \<or> the_int exponent \<le> 1
        then Inl (ValueError ''alpha_schedule exponent must be int > 1'')
        else
          bindr (parse_decimal (py_str (jget_default schedule ''coefficient'' (JStr p_series_coeff)))) (\<lambda>c.
            Inr \<lparr>as_name = the_str name, as_exponent = the_int exponent, as_coefficient = c\<rparr>))"

definition alpha_for_round :: "decimal \<Rightarrow> int \<Rightarrow> alpha_schedule \<Rightarrow> decimal res" where
  "alpha_for_round alpha_total round_idx schedule =
     (if round_idx \<le> 0 then Inl (ValueError ''round_idx must be positive'')
      else
        bindr (dec_mul alpha_total (as_coefficient schedule)) (\<lambda>num.
        bindr (dec_int_pow (nat round_idx) (nat (as_exponent schedule))) (\<lambda>den.
        bindr (dec_div num den) (\<lambda>result. quantize prec HalfEven result alpha_quant))))"

definition hoeffding_mixture_evalue :: "int \<Rightarrow> int \<Rightarrow> decimal res" where
  "hoeffding_mixture_evalue sum_diff n =
     (if n \<le> 0 then Inr (dec_of_int 1)
      else
        bindr (dec_add (dec_of_int 1) (dec_of_int n)) (\<lambda>np1.
        bindr (dec_sqrt np1) (\<lambda>denom.
        bindr (dec_mul (dec_of_int sum_diff) (dec_of_int sum_diff)) (\<lambda>sq.
        bindr (dec_mul (dec_of_int 2) np1) (\<lambda>den.
        bindr (dec_div sq den) (\<lambda>exponent.
        bindr (dec_exp exponent) (\<lambda>num. dec_div num denom)))))))"

definition safe_parse_decimal :: "string \<Rightarrow> decimal res" where
  "safe_parse_decimal value =
     (case parse_decimal value of
        Inl (InvalidOperation m) \<Rightarrow> Inl (ValueError ''invalid decimal for '')
      | r \<Rightarrow> r)"

end
