(* ===== verification/Sealed_Config.thy ===== *)
theory Sealed_Config
  imports Sealed_Evalue
begin

section \<open>Sealed settings and the signed payload (sealed/config.py, canon.py, protocol.py, crypto.py)\<close>

text \<open>
  What a statistical certificate is checked against: the alpha budget and schedule, the
  identity of the evaluation harness, and the allowed public keys. The signature check of
  the \<open>cryptography\<close> package is outside the repository: \<open>externals\<close> carries it, together
  with \<open>blake3\<close>.
\<close>

record externals =
  x_blake3 :: "string \<Rightarrow> string"
  x_crypto_available :: bool
  x_ed25519_verifies :: "string \<Rightarrow> string \<Rightarrow> string \<Rightarrow> bool"

record sealed_config =
  sc_alpha_total :: decimal
  sc_alpha_schedule :: alpha_schedule
  sc_eval_harness_id :: string
  sc_eval_harness_hash :: string
  sc_eval_suite_hash :: string
  sc_allowed_keys :: "(string \<times> string) list"

definition sealed_require_str :: "json \<Rightarrow> string \<Rightarrow> string res" where
  "sealed_require_str sealed label =
     (let value = jget sealed label in
      if \<not> is_str value \<or> value = JStr [] then Inl (ValueError ''missing'') else Inr (the_str value))"

fun load_keys :: "json list \<Rightarrow> (string \<times> string) list \<Rightarrow> (string \<times> string) list res" where
  "load_keys [] out = Inr out"
| "load_keys (entry # es) out =
     (if \<not> is_obj entry then Inl (ValueError ''sealed public_keys entries must be objects'')
      else let key_id = jget entry ''key_id''; key = jget entry ''public_key'' in
        if \<not> is_str key_id \<or> \<not> is_str key
        then Inl (ValueError ''sealed public_keys entries must include key_id and public_key'')
        else load_keys es (dict_set out (the_str key_id) (the_str key)))"

definition load_key_list :: "json \<Rightarrow> (string \<times> string) list res" where
  "load_key_list raw =
     (if raw = JNull then Inr []
      else if \<not> is_list raw then Inl (ValueError ''sealed public_keys must be a list'')
      else load_keys (the_list raw) [])"

definition load_sealed_config :: "json \<Rightarrow> bool \<Rightarrow> sealed_config res" where
  "load_sealed_config data require_keys =
     bindr (jgetr data ''sealed'') (\<lambda>sealed0.
     let sealed = jor sealed0 (JObj []) in
     if \<not> is_obj sealed then Inl (ValueError ''sealed config must be an object'')
     else
       bindr (if jget sealed ''alpha_total'' = JNull
              then jgetr (jor (jget data ''stat_cert'') (JObj [])) ''alpha_total''
              else Inr (jget sealed ''alpha_total'')) (\<lambda>alpha_raw.
       if alpha_raw = JNull then Inl (ValueError ''sealed.alpha_total missing'')
       else
         bindr (parse_decimal (py_str alpha_raw)) (\<lambda>alpha_total.
         bindr (parse_alpha_schedule (jor (jget sealed ''alpha_schedule'') (JObj []))) (\<lambda>schedule.
         bindr (sealed_require_str sealed ''eval_harness_id'') (\<lambda>hid.
         bindr (sealed_require_str sealed ''eval_harness_hash'') (\<lambda>hh.
         bindr (sealed_require_str sealed ''eval_suite_hash'') (\<lambda>sh.
         let primary_key = jget sealed ''public_key''; primary_id = jget sealed ''key_id'' in
         bindr (if truthy primary_key \<or> truthy primary_id then
                  if \<not> is_str primary_key \<or> primary_key = JStr [] then Inl (ValueError ''sealed.public_key missing'')
                  else if \<not> is_str primary_id \<or> primary_id = JStr [] then Inl (ValueError ''sealed.key_id missing'')
                  else Inr [(the_str primary_id, the_str primary_key)]
                else Inr []) (\<lambda>primary.
         bindr (load_key_list (jget sealed ''public_keys'')) (\<lambda>keys.
         bindr (load_key_list (jget sealed ''prev_public_keys'')) (\<lambda>prev_keys.
         let allowed_keys = dict_update (dict_update primary keys) prev_keys in
         if require_keys \<and> allowed_keys = [] then Inl (ValueError ''no sealed public keys configured'')
         else Inr \<lparr>sc_alpha_total = alpha_total, sc_alpha_schedule = schedule,
           sc_eval_harness_id = hid, sc_eval_harness_hash = hh, sc_eval_suite_hash = sh,
           sc_allowed_keys = allowed_keys\<rparr>))))))))))"

subsection \<open>The bytes that are signed\<close>

text \<open>\<open>_validate\<close> accepts every document of the model: keys are strings and there are no floats.\<close>

definition canon_bytes :: "json \<Rightarrow> string" where
  "canon_bytes payload = utf8 (dumps '','' '':'' False payload)"

definition stat_cert_signing_payload :: "json \<Rightarrow> json res" where
  "stat_cert_signing_payload spec =
     bindr (jgetr spec ''certificate'') (\<lambda>c0.
     let certificate = jor c0 (JObj []) in
     (case certificate of
        JObj items \<Rightarrow>
          Inr (JObj [(''kind'', JStr ''stat_cert''), (''concept'', jget spec ''concept''),
            (''metric'', jget spec ''metric''), (''null'', jget spec ''null''),
            (''baseline_symbol'', jget spec ''baseline_symbol''),
            (''candidate_symbol'', jget spec ''candidate_symbol''), (''eval'', jget spec ''eval''),
            (''risk'', jget spec ''risk''),
            (''certificate'', JObj (filter (\<lambda>(k, v). k \<noteq> ''signature'') items))])
      | _ \<Rightarrow> Inl (AttributeError ''items'')))"

definition stat_cert_signing_bytes :: "json \<Rightarrow> string res" where
  "stat_cert_signing_bytes spec =
     bindr (stat_cert_signing_payload spec) (\<lambda>p. Inr (canon_bytes p))"

text \<open>\<open>verify_signature\<close>: \<open>x_ed25519_verifies\<close> is the body of its \<open>try\<close>, with every exception
  it catches read as \<open>False\<close>.\<close>

definition verify_signature :: "externals \<Rightarrow> string \<Rightarrow> string \<Rightarrow> string \<Rightarrow> string \<Rightarrow> bool" where
  "verify_signature X public_key_b64 payload signature_b64 scheme =
     (if scheme \<notin> {''ed25519''} then False
      else if \<not> x_crypto_available X then False
      else x_ed25519_verifies X public_key_b64 payload signature_b64)"

end
