(* ===== verification/Kernel_Spec.thy ===== *)
theory Kernel_Spec
  imports Kernel_Proof Sealed_Config
begin

section \<open>Spec checking over bounded domains (kernel/spec.py)\<close>

text \<open>
  A \<open>forall\<close> spec is run on every assignment of a finite domain, a \<open>proof\<close> spec goes to the
  proof checker, a \<open>stat_cert\<close> spec is checked against the sealed settings.
\<close>

subsection \<open>Domains\<close>

text \<open>\<open>itertools.product(*lists)\<close>, the last list varying fastest, and \<open>product(xs, repeat=n)\<close>.\<close>

fun product_of :: "'a list list \<Rightarrow> 'a list list" where
  "product_of [] = [[]]"
| "product_of (xs # xss) = concat (map (\<lambda>x. map (\<lambda>ys. x # ys) (product_of xss)) xs)"

definition list_domain :: "val list \<Rightarrow> int \<Rightarrow> val list" where
  "list_domain elems max_len =
     (let lists = [ListVal []] in
      if max_len \<le> 0 then lists
      else lists @ concat (map (\<lambda>n. map ListVal (product_of (replicate n elems))) [1..<Suc (nat max_len)]))"

text \<open>The function symbols of a given type, in order; a symbol without a type is an error.\<close>

fun fun_domain :: "ktype \<Rightarrow> json list \<Rightarrow> sym_types \<Rightarrow> val list res" where
  "fun_domain typ [] ST = Inr []"
| "fun_domain typ (name # names) ST =
     (if \<not> hashable name then Inl (PyTypeError ''unhashable type'')
      else case (if is_str name then ST (the_str name) else None) of
          None \<Rightarrow> Inl (SpecError ''fun_symbol not found: '')
        | Some t \<Rightarrow>
            bindr (fun_domain typ names ST) (\<lambda>values.
              Inr (if t \<noteq> typ then values else FunVal (the_str name) # values)))"

fun domain_for_type :: "ktype \<Rightarrow> int \<Rightarrow> int \<Rightarrow> int \<Rightarrow> json list \<Rightarrow> sym_types \<Rightarrow> val list res" where
  "domain_for_type IntType lo hi len fs ST = Inr (map IntVal [lo..hi])"
| "domain_for_type BoolType lo hi len fs ST = Inr [BoolVal False, BoolVal True]"
| "domain_for_type (ListType t) lo hi len fs ST =
     bindr (domain_for_type t lo hi len fs ST) (\<lambda>elems. Inr (list_domain elems len))"
| "domain_for_type (OptionType t) lo hi len fs ST =
     bindr (domain_for_type t lo hi len fs ST) (\<lambda>elems.
       Inr (OptionVal None # map (\<lambda>e. OptionVal (Some e)) elems))"
| "domain_for_type (PairType l r) lo hi len fs ST =
     bindr (domain_for_type l lo hi len fs ST) (\<lambda>left.
     bindr (domain_for_type r lo hi len fs ST) (\<lambda>right.
       Inr (concat (map (\<lambda>a. map (\<lambda>b. PairVal a b) right) left))))"
| "domain_for_type (FunType ts r) lo hi len fs ST =
     bindr (fun_domain (FunType ts r) fs ST) (\<lambda>values.
       if values = [] then Inl (SpecError ''no fun_symbols available for function domain'')
       else Inr values)"

subsection \<open>Forall specs\<close>

text \<open>\<open>int(v)\<close>: numbers, booleans, and strings of decimal digits with an optional sign,
  surrounding white space and single underscores between digits.\<close>

fun digit_groups :: "string \<Rightarrow> bool" where
  "digit_groups [] = False"
| "digit_groups [c] = is_digit c"
| "digit_groups (c # d # s) =
     (is_digit c \<and> (if d = CHR ''_'' then digit_groups s else digit_groups (d # s)))"

fun py_int :: "json \<Rightarrow> int res" where
  "py_int (JInt i) = Inr i"
| "py_int (JBool b) = Inr (if b then 1 else 0)"
| "py_int (JStr s) =
     (let (neg, ds) = split_sign (strip s) in
      if digit_groups ds
      then Inr ((if neg then -1 else 1) * int (digits_val (filter is_digit ds)))
      else Inl (ValueError ''invalid literal for int() with base 10: ''))"
| "py_int _ = Inl (PyTypeError ''int() argument'')"

text \<open>The loop over the assignments: a fresh evaluator for each.\<close>

fun check_assignments :: "kterm \<Rightarrow> defs \<Rightarrow> int \<Rightarrow> val list list \<Rightarrow> int \<Rightarrow> int res" where
  "check_assignments t D step_limit [] work = Inr work"
| "check_assignments t D step_limit (a # as) work =
     bindr (run_eval step_limit D t (push_front_all a)) (\<lambda>result.
     case result of
       BoolVal b \<Rightarrow>
         if \<not> b then Inl (SpecError ''spec assertion failed'')
         else check_assignments t D step_limit as (work + 1)
     | _ \<Rightarrow> Inl (SpecError ''spec assert did not evaluate to bool''))"

definition check_forall :: "json \<Rightarrow> defs \<Rightarrow> sym_types \<Rightarrow> int \<Rightarrow> int \<Rightarrow> int res" where
  "check_forall spec D ST step_limit work =
     (let vars_list = jor (jget spec ''vars'') (JList []) in
      if \<not> is_list vars_list then Inl (SpecError ''spec vars must be a list'')
      else
        bindr (parse_specs_vars (the_list vars_list)) (\<lambda>(env_names, var_types).
        bindr (parse_term (jget spec ''assert'') env_names) (\<lambda>t.
        let domain = jor (jget spec ''domain'') (JObj []) in
        bindr (jgetr domain ''int_min'') (\<lambda>v1. bindr (py_int v1) (\<lambda>int_min.
        bindr (py_int (jget domain ''int_max'')) (\<lambda>int_max.
        bindr (py_int (jget domain ''list_max_len'')) (\<lambda>list_max_len.
        let fun_symbols = jor (jget domain ''fun_symbols'') (JList []) in
        if \<not> is_list fun_symbols then Inl (SpecError ''fun_symbols must be a list'')
        else if int_min > int_max then Inl (SpecError ''spec domain int_min greater than int_max'')
        else if list_max_len < 0 then Inl (SpecError ''spec domain list_max_len negative'')
        else
          bindr (mapr (\<lambda>ty. domain_for_type ty int_min int_max list_max_len (the_list fun_symbols) ST)
                   var_types) (\<lambda>domains.
            check_assignments t D step_limit (product_of domains) work))))))))"

subsection \<open>Statistical certificates\<close>

record stat_cert_context =
  ctx_alpha_total :: decimal
  ctx_alpha_schedule :: alpha_schedule
  ctx_round_start :: int
  ctx_allowed_keys :: "(string \<times> string) list"
  ctx_eval_harness_id :: string
  ctx_eval_harness_hash :: string
  ctx_eval_suite_hash :: string

definition require_int_field :: "json \<Rightarrow> string \<Rightarrow> int res" where
  "require_int_field source label =
     (let v = jget source label in
      if is_int v then Inr (the_int v) else Inl (SpecError ''must be int''))"

definition parse_decimal_field :: "json \<Rightarrow> decimal res" where
  "parse_decimal_field v =
     (if \<not> is_str v then Inl (SpecError ''must be string decimal'')
      else case parse_decimal (the_str v) of
          Inl (InvalidOperation m) \<Rightarrow> Inl (SpecError ''invalid decimal'')
        | Inl (ValueError m) \<Rightarrow> Inl (SpecError ''invalid decimal'')
        | r \<Rightarrow> r)"

text \<open>The subject of the certificate: metric, null hypothesis and the symbols compared.\<close>

definition check_cert_subject :: "json \<Rightarrow> defs \<Rightarrow> unit res" where
  "check_cert_subject spec D =
     (let concept = jget spec ''concept''; null = jget spec ''null'';
          baseline = jget spec ''baseline_symbol''; candidate = jget spec ''candidate_symbol'' in
      if jget spec ''metric'' \<noteq> JStr ''accuracy'' then Inl (SpecError ''stat_cert metric must be accuracy'')
      else if \<not> is_str concept \<or> concept = JStr [] then Inl (SpecError ''stat_cert concept missing'')
      else
        bindr (in_strs null [''no_improvement'', ''no_regression'']) (\<lambda>ok.
        if \<not> ok then Inl (SpecError ''stat_cert null must be no_improvement or no_regression'')
        else if \<not> is_str baseline \<or> \<not> is_str candidate
        then Inl (SpecError ''stat_cert baseline_symbol and candidate_symbol must be strings'')
        else if D (the_str baseline) = None then Inl (SpecError ''stat_cert baseline_symbol not found'')
        else if D (the_str candidate) = None then Inl (SpecError ''stat_cert candidate_symbol not found'')
        else Inr ()))"

text \<open>The evaluation it reports; the result is the number of episodes.\<close>

definition check_cert_eval :: "json \<Rightarrow> defs \<Rightarrow> stat_cert_context \<Rightarrow> int res" where
  "check_cert_eval spec D ctx =
     (let cfg = jor (jget spec ''eval'') (JObj []) in
      if \<not> is_obj cfg then Inl (SpecError ''stat_cert eval must be an object'')
      else
        bindr (require_int_field cfg ''episodes'') (\<lambda>episodes.
        if episodes \<le> 0 then Inl (SpecError ''stat_cert eval episodes must be positive'')
        else
          bindr (require_int_field cfg ''max_steps'') (\<lambda>_.
          let oracle = jget cfg ''oracle_symbol'' in
          if \<not> is_bool (jget cfg ''paired_seeds'') then Inl (SpecError ''stat_cert eval paired_seeds must be bool'')
          else if \<not> is_str oracle then Inl (SpecError ''stat_cert eval oracle_symbol must be string'')
          else if D (the_str oracle) = None then Inl (SpecError ''stat_cert oracle_symbol not found'')
          else if jget cfg ''eval_harness_id'' \<noteq> JStr (ctx_eval_harness_id ctx)
          then Inl (SpecError ''stat_cert eval_harness_id mismatch'')
          else if jget cfg ''eval_harness_hash'' \<noteq> JStr (ctx_eval_harness_hash ctx)
          then Inl (SpecError ''stat_cert eval_harness_hash mismatch'')
          else if jget cfg ''eval_suite_hash'' \<noteq> JStr (ctx_eval_suite_hash ctx)
          then Inl (SpecError ''stat_cert eval_suite_hash mismatch'')
          else Inr episodes)))"

text \<open>The risk it is allowed: alpha for the round and the threshold.\<close>

definition check_cert_risk :: "json \<Rightarrow> stat_cert_context \<Rightarrow> int \<Rightarrow> (decimal \<times> decimal) res" where
  "check_cert_risk spec ctx round_idx =
     (let risk = jor (jget spec ''risk'') (JObj []) in
      if \<not> is_obj risk then Inl (SpecError ''stat_cert risk must be an object'')
      else
        bindr (parse_decimal_field (jget risk ''alpha_i'')) (\<lambda>alpha_i.
        bindr (parse_decimal_field (jget risk ''evalue_threshold'')) (\<lambda>threshold.
        bindr (case parse_alpha_schedule (jget risk ''alpha_schedule'') of
                 Inl (ValueError m) \<Rightarrow> Inl (SpecError ''stat_cert alpha_schedule invalid'')
               | Inl (InvalidOperation m) \<Rightarrow> Inl (SpecError ''stat_cert alpha_schedule invalid'')
               | r \<Rightarrow> r) (\<lambda>schedule.
        bindr (format_decimal (as_coefficient schedule)) (\<lambda>c1.
        bindr (format_decimal (as_coefficient (ctx_alpha_schedule ctx))) (\<lambda>c2.
        if c1 \<noteq> c2 then Inl (SpecError ''stat_cert alpha_schedule coefficient mismatch'')
        else if as_name schedule \<noteq> as_name (ctx_alpha_schedule ctx)
             \<or> as_exponent schedule \<noteq> as_exponent (ctx_alpha_schedule ctx)
        then Inl (SpecError ''stat_cert alpha_schedule mismatch'')
        else
          bindr (alpha_for_round (ctx_alpha_total ctx) round_idx (ctx_alpha_schedule ctx)) (\<lambda>expected_alpha.
          bindr (format_decimal alpha_i) (\<lambda>a1.
          bindr (format_decimal expected_alpha) (\<lambda>a2.
          if a1 \<noteq> a2 then Inl (SpecError ''stat_cert alpha_i does not match schedule'')
          else Inr (alpha_i, threshold))))))))))"

text \<open>The counts it certifies and the e-value they give.\<close>

definition check_cert_counts :: "json \<Rightarrow> int \<Rightarrow> encoded_evalue res" where
  "check_cert_counts certificate episodes =
     (let schema_version = jget certificate ''evalue_schema_version'' in
      if schema_version = JNull then Inl (SpecError ''stat_cert evalue_schema_version missing'')
      else if \<not> is_int schema_version then Inl (SpecError ''stat_cert evalue_schema_version must be int'')
      else if the_int schema_version \<noteq> 2 then Inl (SpecError ''stat_cert evalue_schema_version unsupported'')
      else
        bindr (require_int_field certificate ''n'') (\<lambda>n.
        if n \<noteq> episodes then Inl (SpecError ''stat_cert certificate n mismatch'')
        else
          bindr (require_int_field certificate ''baseline_successes'') (\<lambda>bs.
          bindr (require_int_field certificate ''candidate_successes'') (\<lambda>cs.
          bindr (require_int_field certificate ''diff_sum'') (\<lambda>diff_sum.
          bindr (require_int_field certificate ''diff_min'') (\<lambda>diff_min.
          bindr (require_int_field certificate ''diff_max'') (\<lambda>diff_max.
          if bs < 0 \<or> bs > n then Inl (SpecError ''stat_cert baseline_successes out of range'')
          else if cs < 0 \<or> cs > n then Inl (SpecError ''stat_cert candidate_successes out of range'')
          else if diff_min \<noteq> -1 \<or> diff_max \<noteq> 1 then Inl (SpecError ''stat_cert diff bounds must be -1 and 1'')
          else if diff_sum \<noteq> cs - bs then Inl (SpecError ''stat_cert diff_sum mismatch'')
          else
            bindr (case parse_evalue (jget certificate ''evalue'') of
                     Inl (ValueError m) \<Rightarrow> Inl (SpecError ''stat_cert certificate evalue invalid'')
                   | r \<Rightarrow> r) (\<lambda>evalue.
            bindr (hoeffding_mixture_evalue diff_sum n) (\<lambda>d.
            bindr (encode_evalue d) (\<lambda>expected_evalue.
            bindr (encoded_evalue_equal evalue expected_evalue) (\<lambda>same.
            if \<not> same then Inl (SpecError ''stat_cert evalue mismatch'') else Inr evalue)))))))))))"

definition nonempty_str :: "json \<Rightarrow> bool" where
  "nonempty_str v \<longleftrightarrow> is_str v \<and> v \<noteq> JStr []"

definition check_stat_cert_spec :: "externals \<Rightarrow> json \<Rightarrow> defs \<Rightarrow> stat_cert_context \<Rightarrow> int \<Rightarrow> int res" where
  "check_stat_cert_spec X spec D ctx round_idx =
     bindr (check_cert_subject spec D) (\<lambda>_.
     bindr (check_cert_eval spec D ctx) (\<lambda>episodes.
     bindr (check_cert_risk spec ctx round_idx) (\<lambda>(alpha_i, threshold).
     let certificate = jor (jget spec ''certificate'') (JObj []) in
     if \<not> is_obj certificate then Inl (SpecError ''stat_cert certificate must be an object'')
     else
       bindr (check_cert_counts certificate episodes) (\<lambda>evalue.
       let signature = jget certificate ''signature'';
           signature_scheme = jget certificate ''signature_scheme'';
           key_id = jget certificate ''key_id'' in
       if \<not> nonempty_str signature then Inl (SpecError ''stat_cert signature missing'')
       else if \<not> nonempty_str signature_scheme then Inl (SpecError ''stat_cert signature_scheme missing'')
       else if \<not> nonempty_str key_id then Inl (SpecError ''stat_cert key_id missing'')
       else
         bindr (encoded_evalue_to_decimal evalue) (\<lambda>d.
         bindr (dec_mul d alpha_i) (\<lambda>prod.
         bindr (dec_less prod threshold) (\<lambda>below.
         if below then Inl (SpecError ''stat_cert evalue below threshold'')
         else if \<not> x_crypto_available X then Inl (SpecError ''stat_cert crypto backend unavailable'')
         else case map_of (ctx_allowed_keys ctx) (the_str key_id) of
             None \<Rightarrow> Inl (SpecError ''stat_cert key_id not allowed'')
           | Some public_key \<Rightarrow>
               if public_key = [] then Inl (SpecError ''stat_cert key_id not allowed'')
               else
                 bindr (stat_cert_signing_bytes spec) (\<lambda>signing_bytes.
                 if \<not> verify_signature X public_key signing_bytes (the_str signature) (the_str signature_scheme)
                 then Inl (SpecError ''stat_cert signature invalid'')
                 else Inr episodes))))))))"

subsection \<open>The loop over the specs\<close>

record spec_stats =
  st_spec_work :: int
  st_stat_cert_count :: int

fun check_spec_list :: "externals \<Rightarrow> json list \<Rightarrow> defs \<Rightarrow> sym_types \<Rightarrow> int \<Rightarrow> stat_cert_context option
    \<Rightarrow> int \<Rightarrow> int \<Rightarrow> spec_stats res" where
  "check_spec_list X [] D ST step_limit ctx work certs =
     Inr \<lparr>st_spec_work = work, st_stat_cert_count = certs\<rparr>"
| "check_spec_list X (spec # specs) D ST step_limit ctx work certs =
     bindr (jgetr spec ''kind'') (\<lambda>kind.
     if kind = JStr ''forall'' then
       bindr (check_forall spec D ST step_limit work) (\<lambda>work'.
         check_spec_list X specs D ST step_limit ctx work' certs)
     else bindr (in_strs kind [''proof'', ''proof_unbounded'']) (\<lambda>is_proof.
     if is_proof then
       bindr (case check_proof_spec spec D step_limit of
                Inl (ProofError m) \<Rightarrow> Inl (SpecError (''PROOF_INVALID: '' @ m))
              | r \<Rightarrow> r) (\<lambda>w. check_spec_list X specs D ST step_limit ctx (work + w) certs)
     else if kind = JStr ''stat_cert'' then
       (case ctx of
          None \<Rightarrow> Inl (SpecError ''stat_cert requires stat_ctx'')
        | Some c \<Rightarrow>
            bindr (check_stat_cert_spec X spec D c (ctx_round_start c + certs)) (\<lambda>w.
              check_spec_list X specs D ST step_limit ctx (work + w) (certs + 1)))
     else Inl (SpecError ''only forall, proof, proof_unbounded, and stat_cert specs are supported'')))"

definition check_specs :: "externals \<Rightarrow> json list \<Rightarrow> defs \<Rightarrow> sym_types \<Rightarrow> int \<Rightarrow> stat_cert_context option
    \<Rightarrow> spec_stats res" where
  "check_specs X specs D ST step_limit ctx = check_spec_list X specs D ST step_limit ctx 0 0"

end
