(* ===== verification/Kernel_Spec_Props.thy ===== *)
theory Kernel_Spec_Props
  imports Kernel_Spec Kernel_Sound
begin

section \<open>What an accepted spec establishes\<close>

text \<open>
  The domain of a type is exactly the set of its values within the bounds
  (\<open>in_domain\<close>), every value of it is well typed, and an accepted \<open>forall\<close> spec is true on
  all assignments of values within the bounds, at a work of one per assignment.
\<close>

lemma set_product_of: "set (product_of xss) = {ys. list_all2 (\<lambda>y xs. y \<in> set xs) ys xss}"
  by (induction xss) (auto simp: list_all2_Cons2)

lemma length_product_of: "length (product_of xss) = prod_list (map length xss)"
  by (induction xss) (auto simp: length_concat comp_def sum_list_triv)

lemma set_list_domain:
  "set (list_domain elems n) = {ListVal vs | vs. length vs \<le> nat n \<and> set vs \<subseteq> set elems}"
proof -
  have rep: "list_all2 (\<lambda>y xs. y \<in> set xs) ys (replicate k elems) \<longleftrightarrow> length ys = k \<and> set ys \<subseteq> set elems" for ys k
    by (auto simp: list_all2_conv_all_nth subset_code(1) all_set_conv_all_nth)
  show ?thesis
  proof (cases "n \<le> 0")
    case True
    then show ?thesis by (auto simp: list_domain_def)
  next
    case False
    then have "set (list_domain elems n)
        = insert (ListVal []) (\<Union>k \<in> {1..<Suc (nat n)}. {ListVal vs | vs. length vs = k \<and> set vs \<subseteq> set elems})"
      by (auto simp: list_domain_def set_product_of rep simp del: upt_Suc)
    also have "\<dots> = {ListVal vs | vs. length vs \<le> nat n \<and> set vs \<subseteq> set elems}"
      by (auto simp: less_Suc_eq_le Suc_le_eq)
    finally show ?thesis .
  qed
qed

text \<open>The values of a type within the bounds of a spec.\<close>

fun in_domain :: "int \<Rightarrow> int \<Rightarrow> int \<Rightarrow> json list \<Rightarrow> sym_types \<Rightarrow> val \<Rightarrow> ktype \<Rightarrow> bool" where
  "in_domain lo hi len fs ST (IntVal i) IntType = (lo \<le> i \<and> i \<le> hi)"
| "in_domain lo hi len fs ST (BoolVal b) BoolType = True"
| "in_domain lo hi len fs ST (ListVal vs) (ListType t) =
     (length vs \<le> nat len \<and> (\<forall>v \<in> set vs. in_domain lo hi len fs ST v t))"
| "in_domain lo hi len fs ST (OptionVal None) (OptionType t) = True"
| "in_domain lo hi len fs ST (OptionVal (Some v)) (OptionType t) = in_domain lo hi len fs ST v t"
| "in_domain lo hi len fs ST (PairVal l r) (PairType u v) =
     (in_domain lo hi len fs ST l u \<and> in_domain lo hi len fs ST r v)"
| "in_domain lo hi len fs ST (FunVal name) (FunType ts r) =
     (JStr name \<in> set fs \<and> ST name = Some (FunType ts r))"
| "in_domain lo hi len fs ST v t = False"

lemma set_fun_domain:
  "fun_domain t fs ST = Inr vs \<Longrightarrow> set vs = {FunVal n | n. JStr n \<in> set fs \<and> ST n = Some t}"
proof (induction fs arbitrary: vs)
  case Nil
  then show ?case by simp
next
  case (Cons f fs)
  from Cons.prems obtain n u ws where "f = JStr n" "ST n = Some u" "fun_domain t fs ST = Inr ws"
    "vs = (if u \<noteq> t then ws else FunVal n # ws)"
    by (auto simp: is_str_iff split: if_split_asm option.split_asm)
  with Cons.IH show ?case by auto
qed

lemma set_domain_for_type:
  "domain_for_type t lo hi len fs ST = Inr vs \<Longrightarrow> v \<in> set vs \<longleftrightarrow> in_domain lo hi len fs ST v t"
proof (induction t arbitrary: vs v)
  case IntType
  then show ?case by (cases v) auto
next
  case BoolType
  then show ?case by (cases v) auto
next
  case (ListType t)
  then obtain es where es: "domain_for_type t lo hi len fs ST = Inr es" "vs = list_domain es len" by auto
  with ListType.IH show ?case by (cases v) (auto simp: set_list_domain subset_code(1))
next
  case (OptionType t)
  then obtain es where es: "domain_for_type t lo hi len fs ST = Inr es"
    "vs = OptionVal None # map (\<lambda>e. OptionVal (Some e)) es" by auto
  have "in_domain lo hi len fs ST v (OptionType t) \<longleftrightarrow>
      v = OptionVal None \<or> (\<exists>e. v = OptionVal (Some e) \<and> in_domain lo hi len fs ST e t)"
  proof (cases v)
    case (OptionVal x)
    then show ?thesis by (cases x) auto
  qed auto
  with es OptionType.IH [OF es(1)] show ?case by auto
next
  case (PairType l r)
  then obtain ls rs where "domain_for_type l lo hi len fs ST = Inr ls" "domain_for_type r lo hi len fs ST = Inr rs"
    "vs = concat (map (\<lambda>a. map (\<lambda>b. PairVal a b) rs) ls)" by auto
  with PairType.IH show ?case by (cases v) (auto simp: image_iff)
next
  case (FunType ts r)
  then have "fun_domain (FunType ts r) fs ST = Inr vs" by (auto split: if_split_asm)
  from set_fun_domain [OF this] show ?case by (cases v) auto
qed

lemma in_domain_typed: "in_domain lo hi len fs ST v t \<Longrightarrow> has_type ST v t"
  by (induction lo hi len fs ST v t rule: in_domain.induct) auto

lemma check_assignments_iff:
  "check_assignments t D L as work = Inr w \<longleftrightarrow>
     (\<forall>a \<in> set as. run_eval L D t (rev a) = Inr (BoolVal True)) \<and> w = work + int (length as)"
proof (induction as arbitrary: work)
  case Nil
  then show ?case by auto
next
  case (Cons a as)
  then show ?case
    by (cases "run_eval L D t (rev a)") (auto split: val.split if_split)
qed

text \<open>A \<open>forall\<close> spec, read off its document.\<close>

definition forall_parts :: "json \<Rightarrow> kterm \<Rightarrow> ktype list \<Rightarrow> int \<Rightarrow> int \<Rightarrow> int \<Rightarrow> json list \<Rightarrow> bool" where
  "forall_parts spec t types lo hi len fs \<longleftrightarrow>
     (\<exists>env domain. parse_specs_vars (the_list (jor (jget spec ''vars'') (JList []))) = Inr (env, types)
       \<and> parse_term (jget spec ''assert'') env = Inr t
       \<and> domain = jor (jget spec ''domain'') (JObj [])
       \<and> py_int (jget domain ''int_min'') = Inr lo \<and> py_int (jget domain ''int_max'') = Inr hi
       \<and> py_int (jget domain ''list_max_len'') = Inr len
       \<and> fs = the_list (jor (jget domain ''fun_symbols'') (JList [])))"

lemma list_all2_mapr:
  "mapr f xs = Inr ys \<Longrightarrow> (\<And>x y. x \<in> set xs \<Longrightarrow> f x = Inr y \<Longrightarrow> \<forall>v. v \<in> set y \<longleftrightarrow> P v x) \<Longrightarrow>
     list_all2 (\<lambda>v y. v \<in> set y) vs ys \<longleftrightarrow> list_all2 P vs xs"
proof (induction xs arbitrary: ys vs)
  case Nil
  then show ?case by simp
next
  case (Cons x xs)
  from Cons.prems(1) obtain y zs where y: "ys = y # zs" "f x = Inr y" "mapr f xs = Inr zs" by auto
  with Cons.prems(2) have "\<forall>v. v \<in> set y \<longleftrightarrow> P v x" by simp
  with Cons.IH [OF y(3)] Cons.prems(2) y(1) show ?case
    by (auto simp: list_all2_Cons2)
qed

lemma check_forall_sound:
  assumes "check_forall spec D ST L work = Inr w"
  shows "\<exists>t types lo hi len fs domains. forall_parts spec t types lo hi len fs \<and> lo \<le> hi \<and> 0 \<le> len
    \<and> (\<forall>vs. list_all2 (in_domain lo hi len fs ST) vs types \<longrightarrow> run_eval L D t (rev vs) = Inr (BoolVal True))
    \<and> mapr (\<lambda>ty. domain_for_type ty lo hi len fs ST) types = Inr domains
    \<and> w = work + int (prod_list (map length domains))"
proof -
  from assms obtain env types t lo hi len domains where
    vars: "parse_specs_vars (the_list (jor (jget spec ''vars'') (JList []))) = Inr (env, types)" and
    t: "parse_term (jget spec ''assert'') env = Inr t" and
    bounds: "py_int (jget (jor (jget spec ''domain'') (JObj [])) ''int_min'') = Inr lo"
      "py_int (jget (jor (jget spec ''domain'') (JObj [])) ''int_max'') = Inr hi"
      "py_int (jget (jor (jget spec ''domain'') (JObj [])) ''list_max_len'') = Inr len"
      "lo \<le> hi" "0 \<le> len" and
    domains: "mapr (\<lambda>ty. domain_for_type ty lo hi len
      (the_list (jor (jget (jor (jget spec ''domain'') (JObj [])) ''fun_symbols'') (JList []))) ST) types = Inr domains" and
    run: "check_assignments t D L (product_of domains) work = Inr w"
    unfolding check_forall_def Let_def
    by (auto elim!: bindrE simp: jgetr_def split: if_split_asm simp del: bindr_Inr_iff)
  let ?fs = "the_list (jor (jget (jor (jget spec ''domain'') (JObj [])) ''fun_symbols'') (JList []))"
  have "forall_parts spec t types lo hi len ?fs"
    using vars t bounds unfolding forall_parts_def by blast
  moreover have "run_eval L D t (rev vs) = Inr (BoolVal True)"
    if "list_all2 (in_domain lo hi len ?fs ST) vs types" for vs
  proof -
    have "list_all2 (\<lambda>y xs. y \<in> set xs) vs domains"
      using that list_all2_mapr [OF domains, of "in_domain lo hi len ?fs ST" vs] set_domain_for_type by blast
    with run show ?thesis by (simp add: check_assignments_iff set_product_of)
  qed
  moreover from run have "w = work + int (prod_list (map length domains))"
    by (simp add: check_assignments_iff length_product_of)
  ultimately show ?thesis using domains bounds(4,5) by blast
qed

text \<open>
  An accepted certificate: an allowed key verifies its signature over the certificate
  without the signature field, its counts are consistent, its e-value is the one the counts
  give, its alpha is the one the schedule allots to the round, and e-value times alpha
  reaches the threshold.
\<close>

definition cert_of :: "json \<Rightarrow> json" where
  "cert_of spec = jor (jget spec ''certificate'') (JObj [])"

lemma check_stat_cert_signed:
  assumes "check_stat_cert_spec X spec D ctx k = Inr n"
  shows "\<exists>pk bytes. map_of (ctx_allowed_keys ctx) (the_str (jget (cert_of spec) ''key_id'')) = Some pk
    \<and> stat_cert_signing_bytes spec = Inr bytes
    \<and> x_ed25519_verifies X pk bytes (the_str (jget (cert_of spec) ''signature''))"
  using assms unfolding check_stat_cert_spec_def cert_of_def Let_def
  by (auto elim!: bindrE simp: verify_signature_def simp del: bindr_Inr_iff
      split: if_split_asm option.split_asm prod.split_asm)

lemma check_cert_counts_consistent:
  assumes "check_cert_counts c n = Inr ev"
  shows "\<exists>bs cs d expected. jget c ''n'' = JInt n \<and> jget c ''baseline_successes'' = JInt bs
    \<and> jget c ''candidate_successes'' = JInt cs \<and> 0 \<le> bs \<and> bs \<le> n \<and> 0 \<le> cs \<and> cs \<le> n
    \<and> jget c ''diff_sum'' = JInt (cs - bs) \<and> hoeffding_mixture_evalue (cs - bs) n = Inr d
    \<and> encode_evalue d = Inr expected \<and> encoded_evalue_equal ev expected = Inr True"
  using assms unfolding check_cert_counts_def Let_def require_int_field_def
  by (auto elim!: bindrE simp: is_int_iff simp del: bindr_Inr_iff split: if_split_asm)

lemma check_cert_risk_alpha:
  assumes "check_cert_risk spec ctx k = Inr (alpha_i, threshold)"
  shows "\<exists>expected a. alpha_for_round (ctx_alpha_total ctx) k (ctx_alpha_schedule ctx) = Inr expected
    \<and> format_decimal alpha_i = Inr a \<and> format_decimal expected = Inr a"
  using assms unfolding check_cert_risk_def Let_def
  by (auto elim!: bindrE simp del: bindr_Inr_iff split: if_split_asm)

lemma check_stat_cert_parts:
  assumes "check_stat_cert_spec X spec D ctx k = Inr n"
  shows "\<exists>alpha_i threshold ev d p. check_cert_risk spec ctx k = Inr (alpha_i, threshold)
    \<and> check_cert_counts (cert_of spec) n = Inr ev \<and> 0 < n
    \<and> encoded_evalue_to_decimal ev = Inr d \<and> dec_mul d alpha_i = Inr p \<and> dec_less p threshold = Inr False"
proof -
  have "check_cert_eval spec D ctx = Inr m \<Longrightarrow> 0 < m" for m
    unfolding check_cert_eval_def Let_def
    by (auto elim!: bindrE simp del: bindr_Inr_iff split: if_split_asm)
  with assms show ?thesis
    unfolding check_stat_cert_spec_def cert_of_def Let_def
    by (fastforce elim!: bindrE simp del: bindr_Inr_iff split: if_split_asm option.split_asm)
qed

end
