(* ===== verification/Ledger_Store.thy ===== *)
theory Ledger_Store
  imports Kernel_Spec
begin

section \<open>Ledger storage (ledger/errors.py, ledger/storage.py)\<close>

text \<open>
  The files of a ledger directory: content-addressed objects, metadata, the order log, the
  head file and the closure cache. A file is its text; a missing file is \<open>None\<close>. Input and
  output errors of the operating system other than a missing file are not modelled, so a
  write succeeds and the replacement of a temporary file is one step.
\<close>

subsection \<open>Reject codes\<close>

datatype reject_code =
    SCHEMA_INVALID
  | HASH_CANON_MISMATCH
  | PARENT_MISMATCH
  | DUPLICATE_SYMBOL
  | FRESHNESS_VIOLATION
  | DEPS_MISMATCH
  | TYPE_ERROR
  | TERMINATION_FAIL
  | SPEC_FAIL
  | CAPACITY_EXCEEDED
  | MUTUAL_RECURSION_FORBIDDEN

fun reject_code_value :: "reject_code \<Rightarrow> string" where
  "reject_code_value SCHEMA_INVALID = ''SCHEMA_INVALID''"
| "reject_code_value HASH_CANON_MISMATCH = ''HASH_CANON_MISMATCH''"
| "reject_code_value PARENT_MISMATCH = ''PARENT_MISMATCH''"
| "reject_code_value DUPLICATE_SYMBOL = ''DUPLICATE_SYMBOL''"
| "reject_code_value FRESHNESS_VIOLATION = ''FRESHNESS_VIOLATION''"
| "reject_code_value DEPS_MISMATCH = ''DEPS_MISMATCH''"
| "reject_code_value TYPE_ERROR = ''TYPE_ERROR''"
| "reject_code_value TERMINATION_FAIL = ''TERMINATION_FAIL''"
| "reject_code_value SPEC_FAIL = ''SPEC_FAIL''"
| "reject_code_value CAPACITY_EXCEEDED = ''CAPACITY_EXCEEDED''"
| "reject_code_value MUTUAL_RECURSION_FORBIDDEN = ''MUTUAL_RECURSION_FORBIDDEN''"

lemma reject_code_value_inj [simp]: "reject_code_value a = reject_code_value b \<longleftrightarrow> a = b"
  by (cases a; cases b) simp_all

text \<open>The enumeration is a subclass of \<open>str\<close>: its members are ordered as their values.\<close>

instantiation reject_code :: linorder
begin

definition less_eq_reject_code :: "reject_code \<Rightarrow> reject_code \<Rightarrow> bool" where
  "less_eq_reject_code a b \<longleftrightarrow> reject_code_value a \<le> reject_code_value b"

definition less_reject_code :: "reject_code \<Rightarrow> reject_code \<Rightarrow> bool" where
  "less_reject_code a b \<longleftrightarrow> reject_code_value a < reject_code_value b"

instance
  by standard (auto simp: less_eq_reject_code_def less_reject_code_def simp flip: reject_code_value_inj)

end

record rejection =
  rj_code :: reject_code
  rj_reason :: string
  rj_details :: "string option"

subsection \<open>The ledger's files\<close>

record ledger_files =
  lf_objects :: "string \<Rightarrow> string option"
  lf_meta :: "string \<Rightarrow> string option"
  lf_order_log :: "string option"
  lf_head :: "string option"
  lf_cache :: "string \<Rightarrow> string option"

definition genesis_hash :: string where
  "genesis_hash = ''GENESIS''"

definition init_storage :: "ledger_files \<Rightarrow> ledger_files" where
  "init_storage F =
     (let F1 = (if lf_head F = None then F\<lparr>lf_head := Some genesis_hash\<rparr> else F) in
      if lf_order_log F1 = None then F1\<lparr>lf_order_log := Some ''''\<rparr> else F1)"

definition object_path :: "string \<Rightarrow> string" where
  "object_path payload_hash = take 2 payload_hash @ ''/'' @ payload_hash @ ''.blob''"

definition write_object :: "string \<Rightarrow> string \<Rightarrow> ledger_files \<Rightarrow> ledger_files" where
  "write_object payload_hash payload_bytes F =
     F\<lparr>lf_objects := (lf_objects F)(object_path payload_hash := Some payload_bytes)\<rparr>"

definition read_object :: "ledger_files \<Rightarrow> string \<Rightarrow> string res" where
  "read_object F payload_hash =
     (case lf_objects F (object_path payload_hash) of
        None \<Rightarrow> Inl (FileNotFoundError ''object'')
      | Some bytes \<Rightarrow> Inr bytes)"

text \<open>Object paths are distinct for distinct hashes.\<close>

lemma object_path_inj: "object_path a = object_path b \<longleftrightarrow> a = b"
proof
  assume eq: "object_path a = object_path b"
  have len: "length (object_path x) = min 2 (length x) + length x + 6" for x
    by (simp add: object_path_def)
  from eq have "min 2 (length a) + length a = min 2 (length b) + length b"
    using len [of a] len [of b] by simp
  then have "length a = length b" by (auto simp: min_def split: if_splits)
  with eq show "a = b" by (simp add: object_path_def)
qed simp

lemma read_object_write [simp]:
  "read_object (write_object h b F) h' = (if h' = h then Inr b else read_object F h')"
  by (simp add: read_object_def write_object_def object_path_inj)

subsection \<open>Text files\<close>

text \<open>The line boundaries of \<open>str.splitlines\<close>.\<close>

definition line_break :: "char \<Rightarrow> bool" where
  "line_break c \<longleftrightarrow> of_char c \<in> {10, 11, 12, 13, 28, 29, 30, 133 :: nat}"

function splitlines :: "string \<Rightarrow> string list" where
  "splitlines s =
     (if s = [] then []
      else takeWhile (\<lambda>c. \<not> line_break c) s #
        (case dropWhile (\<lambda>c. \<not> line_break c) s of
           [] \<Rightarrow> []
         | c # r \<Rightarrow>
             splitlines (if of_char c = (13 :: nat)
               then (case eat (CHR 0x0A) r of Some r' \<Rightarrow> r' | None \<Rightarrow> r) else r)))"
  by pat_completeness auto
termination
proof (relation "measure length")
  fix s c r
  assume "dropWhile (\<lambda>c. \<not> line_break c) s = c # r"
  then have "length (c # r) \<le> length s" by (metis length_dropWhile_le)
  then show "(if of_char c = (13 :: nat)
      then (case eat (CHR 0x0A) r of Some r' \<Rightarrow> r' | None \<Rightarrow> r) else r, s) \<in> measure length"
    by (auto split: option.split)
qed simp

declare splitlines.simps [simp del]

lemma splitlines_Nil [simp]: "splitlines [] = []"
  by (simp add: splitlines.simps)

definition clean :: "string \<Rightarrow> bool" where
  "clean h \<longleftrightarrow> h \<noteq> [] \<and> (\<forall>c \<in> set h. \<not> line_break c \<and> \<not> py_space c)"

lemma splitlines_line:
  "\<forall>c \<in> set h. \<not> line_break c \<Longrightarrow> splitlines (h @ CHR 0x0A # s) = h # splitlines s"
  by (subst splitlines.simps) (simp add: takeWhile_append2 dropWhile_append2 line_break_def)

lemma splitlines_lines:
  "\<forall>h \<in> set hs. clean h \<Longrightarrow> splitlines (concat (map (\<lambda>h. h @ [CHR 0x0A]) hs)) = hs"
  by (induction hs) (auto simp: splitlines_line clean_def)

lemma strip_clean:
  assumes "clean h"
  shows "strip h = h"
proof -
  have "dropWhile py_space xs = xs" if "set xs = set h" for xs
    using that assms by (cases xs) (auto simp: clean_def)
  then show ?thesis by (simp add: strip_def)
qed

subsection \<open>The order log and the head\<close>

text \<open>Appending under the lock; the flag says whether the line was written.\<close>

definition append_order_log :: "string \<Rightarrow> ledger_files \<Rightarrow> bool \<times> ledger_files" where
  "append_order_log payload_hash F =
     (let text = (case lf_order_log F of None \<Rightarrow> [] | Some t \<Rightarrow> t);
          lines = splitlines text;
          last_line = (if lines = [] then [] else strip (last lines))
      in if last_line = payload_hash then (False, F\<lparr>lf_order_log := Some text\<rparr>)
         else (True, F\<lparr>lf_order_log := Some (text @ payload_hash @ [CHR 0x0A])\<rparr>))"

definition iter_order_log :: "ledger_files \<Rightarrow> string list" where
  "iter_order_log F =
     (case lf_order_log F of
        None \<Rightarrow> []
      | Some text \<Rightarrow> filter (\<lambda>l. l \<noteq> []) (map strip (splitlines text)))"

definition read_head :: "ledger_files \<Rightarrow> string" where
  "read_head F =
     (let order = iter_order_log F in
      if order \<noteq> [] then last order
      else case lf_head F of
          None \<Rightarrow> genesis_hash
        | Some text \<Rightarrow> if strip text = [] then genesis_hash else strip text)"

definition write_head :: "string \<Rightarrow> ledger_files \<Rightarrow> ledger_files" where
  "write_head payload_hash F = F\<lparr>lf_head := Some payload_hash\<rparr>"

subsection \<open>Metadata\<close>

definition meta_path :: "string \<Rightarrow> string" where
  "meta_path payload_hash = payload_hash @ ''.json''"

definition write_meta :: "string \<Rightarrow> json \<Rightarrow> ledger_files \<Rightarrow> ledger_files" where
  "write_meta payload_hash meta F =
     F\<lparr>lf_meta := (lf_meta F)(meta_path payload_hash := Some (dumps '', '' '': '' True meta))\<rparr>"

definition read_meta :: "ledger_files \<Rightarrow> string \<Rightarrow> json res" where
  "read_meta F payload_hash =
     (case lf_meta F (meta_path payload_hash) of None \<Rightarrow> Inr JNull | Some text \<Rightarrow> loads text)"

subsection \<open>Reading an object back\<close>

text \<open>\<open>bytes.decode("utf-8")\<close>, for code points below 256.\<close>

fun utf8_decode :: "string \<Rightarrow> string res" where
  "utf8_decode [] = Inr []"
| "utf8_decode (c # s) =
     (if of_char c < (128 :: nat) then bindr (utf8_decode s) (\<lambda>r. Inr (c # r))
      else if of_char c \<in> {194, 195 :: nat} then
        (case s of
           [] \<Rightarrow> Inl (ValueError ''unexpected end of data'')
         | d # s' \<Rightarrow>
             if of_char d div 64 = (2 :: nat)
             then bindr (utf8_decode s') (\<lambda>r.
               Inr (char_of ((of_char c - 192) * 64 + of_char d mod 64 :: nat) # r))
             else Inl (ValueError ''invalid continuation byte''))
      else if of_char c div 64 = (2 :: nat) \<or> of_char c \<in> {192, 193 :: nat} \<or> of_char c \<ge> (245 :: nat)
      then Inl (ValueError ''invalid start byte'')
      else Inl (Unmodelled ''character above 255''))"

lemma utf8_decode_ascii: "\<forall>c \<in> set s. of_char c < (128 :: nat) \<Longrightarrow> utf8_decode s = Inr s"
  by (induction s) auto

definition load_module_payload :: "ledger_files \<Rightarrow> string \<Rightarrow> json res" where
  "load_module_payload F module_hash =
     bindr (read_object F module_hash) (\<lambda>data. bindr (utf8_decode data) loads)"

text \<open>The text of an order log that holds \<open>hs\<close>.\<close>

definition log_text :: "string list \<Rightarrow> string" where
  "log_text hs = concat (map (\<lambda>h. h @ [CHR 0x0A]) hs)"

lemma iter_order_log_text:
  assumes "lf_order_log F = Some (log_text hs)" and "\<forall>h \<in> set hs. clean h"
  shows "iter_order_log F = hs"
proof -
  have "map strip hs = hs" using assms(2) by (induction hs) (auto simp: strip_clean)
  moreover have "filter (\<lambda>l. l \<noteq> []) hs = hs" using assms(2) by (auto simp: filter_id_conv clean_def)
  ultimately show ?thesis
    using assms by (simp add: iter_order_log_def log_text_def splitlines_lines)
qed

lemma append_order_log_text:
  assumes "lf_order_log F = Some (log_text hs)" and "\<forall>h \<in> set hs. clean h" and "h \<notin> set hs" "h \<noteq> []"
  shows "append_order_log h F = (True, F\<lparr>lf_order_log := Some (log_text (hs @ [h]))\<rparr>)"
proof -
  have last: "(if hs = [] then [] else strip (last hs)) \<noteq> h"
    using assms(2-4) last_in_set [of hs] by (auto simp: strip_clean)
  have lines: "splitlines (log_text hs) = hs"
    using assms(2) by (simp add: log_text_def splitlines_lines)
  show ?thesis
    unfolding append_order_log_def assms(1) option.case lines Let_def if_not_P [OF last]
    by (simp add: log_text_def)
qed

end
