(* ===== verification/Ledger_Index.thy ===== *)
theory Ledger_Index
  imports Ledger_Store
begin

section \<open>The derived index (ledger/index.py)\<close>

text \<open>
  The SQLite tables as lists of rows in insertion order, which is the order an unordered
  \<open>SELECT\<close> returns them in. A statement that breaks a primary key raises
  \<open>IntegrityError\<close>, a number outside 64 bits raises \<open>OverflowError\<close>. Of the tables with
  the single key \<open>state_id = 1\<close> only that row is kept. Text is ordered by code points, as the
  default collation does.
\<close>

record module_row =
  mr_hash :: string
  mr_parent_hash :: string
  mr_bytes :: string
  mr_cost :: int
  mr_accepted_at :: int

record symbol_row =
  sr_symbol :: string
  sr_module_hash :: string
  sr_type_norm :: string
  sr_def_hash :: "string option"

record impact_row =
  ir_module_hash :: string
  ir_symbols_count :: int
  ir_deps_count :: int
  ir_sym_deps_count :: int
  ir_type_index_count :: int
  ir_def_hashes_count :: int

record adoption_row =
  ar_hash :: string
  ar_parent_hash :: string
  ar_bytes :: string
  ar_accepted_at :: int
  ar_concept :: string
  ar_chosen_symbol :: string
  ar_baseline_symbol :: "string option"

record index_db =
  ix_modules :: "module_row list"
  ix_symbols :: "symbol_row list"
  ix_def_hashes :: "(string \<times> string \<times> string) list"
  ix_deps :: "(string \<times> string) list"
  ix_sym_deps :: "(string \<times> string) list"
  ix_type_index :: "(string \<times> string) list"
  ix_aliases :: "(string \<times> string) list"
  ix_concepts :: "(string \<times> string \<times> string) list"
  ix_index_impact :: "impact_row list"
  ix_budget :: "int option"
  ix_rejections :: "(string \<times> string \<times> string option) list"
  ix_schema_version :: "int option"
  ix_stat_cert_state :: "(int \<times> string) option"
  ix_adoptions :: "adoption_row list"

definition empty_db :: index_db where
  "empty_db = \<lparr>ix_modules = [], ix_symbols = [], ix_def_hashes = [], ix_deps = [], ix_sym_deps = [],
     ix_type_index = [], ix_aliases = [], ix_concepts = [], ix_index_impact = [], ix_budget = None,
     ix_rejections = [], ix_schema_version = None, ix_stat_cert_state = None, ix_adoptions = []\<rparr>"

definition schema_version :: int where
  "schema_version = 2"

definition init_schema :: "index_db \<Rightarrow> index_db res" where
  "init_schema db =
     (case ix_schema_version db of
        None \<Rightarrow> Inr (db\<lparr>ix_schema_version := Some schema_version\<rparr>)
      | Some v \<Rightarrow>
          if v \<noteq> schema_version then Inl (ValueError ''index schema version mismatch; run migration'')
          else Inr db)"

subsection \<open>Rows and limits\<close>

definition insert_unique :: "('a \<Rightarrow> 'k) \<Rightarrow> 'a \<Rightarrow> 'a list \<Rightarrow> 'a list res" where
  "insert_unique key row rows =
     (if key row \<in> key ` set rows then Inl (IntegrityError ''UNIQUE constraint failed'')
      else Inr (rows @ [row]))"

definition sql_int :: "int \<Rightarrow> int res" where
  "sql_int i =
     (if - (2 ^ 63) \<le> i \<and> i < 2 ^ 63 then Inr i
      else Inl (OverflowError ''Python int too large to convert to SQLite INTEGER''))"

definition sql_limit :: "int \<Rightarrow> 'a list \<Rightarrow> 'a list" where
  "sql_limit n xs = (if n < 0 then xs else take (nat n) xs)"

definition first_row :: "'a list \<Rightarrow> 'a option" where
  "first_row rows = (case rows of [] \<Rightarrow> None | r # rs \<Rightarrow> Some r)"

text \<open>\<open>a LIKE p\<close>: \<open>%\<close> is any text, \<open>_\<close> any character, ASCII letters match in both cases.\<close>

definition fold_case :: "char \<Rightarrow> nat" where
  "fold_case c = (let n = of_char c in if 97 \<le> n \<and> n \<le> 122 then n - 32 else n)"

function like :: "string \<Rightarrow> string \<Rightarrow> bool" where
  "like [] s \<longleftrightarrow> s = []"
| "like (p # ps) s \<longleftrightarrow>
     (if p = CHR ''%'' then like ps s \<or> (if s = [] then False else like (p # ps) (tl s))
      else if s = [] then False
      else (p = CHR ''_'' \<or> fold_case p = fold_case (hd s)) \<and> like ps (tl s))"
  by pat_completeness auto
termination
  by (relation "measure (\<lambda>(p, s). length p + length s)") (auto simp: length_greater_0_conv [symmetric] simp del: length_greater_0_conv)

subsection \<open>Queries\<close>

definition symbol_exists :: "index_db \<Rightarrow> string \<Rightarrow> bool" where
  "symbol_exists db name \<longleftrightarrow> (\<exists>r \<in> set (ix_symbols db). sr_symbol r = name)"

definition symbol_row_of :: "index_db \<Rightarrow> string \<Rightarrow> symbol_row option" where
  "symbol_row_of db name = first_row (filter (\<lambda>r. sr_symbol r = name) (ix_symbols db))"

definition get_symbol_info :: "index_db \<Rightarrow> string \<Rightarrow> (string \<times> string) option" where
  "get_symbol_info db name = map_option (\<lambda>r. (sr_module_hash r, sr_type_norm r)) (symbol_row_of db name)"

definition get_symbol_module :: "index_db \<Rightarrow> string \<Rightarrow> string option" where
  "get_symbol_module db name = map_option sr_module_hash (symbol_row_of db name)"

definition get_symbol_type :: "index_db \<Rightarrow> string \<Rightarrow> string option" where
  "get_symbol_type db name = map_option sr_type_norm (symbol_row_of db name)"

definition list_symbol_deps :: "index_db \<Rightarrow> string \<Rightarrow> string list" where
  "list_symbol_deps db name = map snd (filter (\<lambda>r. fst r = name) (ix_sym_deps db))"

definition list_reverse_deps :: "index_db \<Rightarrow> string \<Rightarrow> int \<Rightarrow> string list" where
  "list_reverse_deps db name limit =
     sql_limit limit (sort (map fst (filter (\<lambda>r. snd r = name) (ix_sym_deps db))))"

definition list_symbols_for_concept :: "index_db \<Rightarrow> string \<Rightarrow> int \<Rightarrow> string list" where
  "list_symbols_for_concept db concept limit =
     sql_limit limit (sort (map (\<lambda>(c, s, h). s) (filter (\<lambda>(c, s, h). c = concept) (ix_concepts db))))"

definition list_concepts :: "index_db \<Rightarrow> int option \<Rightarrow> string list" where
  "list_concepts db limit =
     (let cs = sort (remdups (map fst (ix_concepts db))) in
      case limit of None \<Rightarrow> cs | Some n \<Rightarrow> sql_limit n cs)"

text \<open>The first row with the greatest key: SQL leaves the choice among equal keys open.\<close>

fun latest :: "('a \<times> int) list \<Rightarrow> 'a option" where
  "latest [] = None"
| "latest ((x, k) # rows) =
     (if \<exists>r \<in> set rows. snd r > k then latest rows else Some x)"

definition latest_symbol_for_concept :: "index_db \<Rightarrow> string \<Rightarrow> string option" where
  "latest_symbol_for_concept db concept =
     latest (concat (map (\<lambda>(c, s, h).
         if c = concept then map (\<lambda>m. (s, mr_accepted_at m)) (filter (\<lambda>m. mr_hash m = h) (ix_modules db))
         else []) (ix_concepts db)))"

definition search_symbols_by_type :: "index_db \<Rightarrow> string \<Rightarrow> int \<Rightarrow> string list" where
  "search_symbols_by_type db type_norm_value limit =
     sql_limit limit (sort (map snd (filter (\<lambda>r. fst r = type_norm_value) (ix_type_index db))))"

definition search_symbols_by_prefix :: "index_db \<Rightarrow> string \<Rightarrow> int \<Rightarrow> string list" where
  "search_symbols_by_prefix db prefix limit =
     sql_limit limit (sort (filter (like (prefix @ ''%'')) (map sr_symbol (ix_symbols db))))"

definition get_def_hash :: "index_db \<Rightarrow> string \<Rightarrow> string option" where
  "get_def_hash db symbol =
     first_row (map (\<lambda>(s, d, m). d) (filter (\<lambda>(s, d, m). s = symbol) (ix_def_hashes db)))"

definition get_alias_target :: "index_db \<Rightarrow> string \<Rightarrow> string option" where
  "get_alias_target db symbol = first_row (map snd (filter (\<lambda>r. fst r = symbol) (ix_aliases db)))"

definition list_aliases_for_target :: "index_db \<Rightarrow> string \<Rightarrow> int option \<Rightarrow> string list" where
  "list_aliases_for_target db target limit =
     (let ss = sort (map fst (filter (\<lambda>r. snd r = target) (ix_aliases db))) in
      case limit of None \<Rightarrow> ss | Some n \<Rightarrow> sql_limit n ss)"

definition get_budget :: "index_db \<Rightarrow> int option" where
  "get_budget db = ix_budget db"

definition get_stat_cert_state :: "index_db \<Rightarrow> (int \<times> string) option" where
  "get_stat_cert_state db = ix_stat_cert_state db"

definition concept_symbol_exists :: "index_db \<Rightarrow> string \<Rightarrow> string \<Rightarrow> bool" where
  "concept_symbol_exists db concept symbol \<longleftrightarrow>
     (\<exists>(c, s, h) \<in> set (ix_concepts db). c = concept \<and> s = symbol)"

definition latest_adoption_for_concept :: "index_db \<Rightarrow> string \<Rightarrow> (string \<times> string \<times> string option) option" where
  "latest_adoption_for_concept db concept =
     latest (map (\<lambda>r. ((ar_hash r, ar_chosen_symbol r, ar_baseline_symbol r), ar_accepted_at r))
       (filter (\<lambda>r. ar_concept r = concept) (ix_adoptions db)))"

subsection \<open>Updates\<close>

definition insert_module :: "string \<Rightarrow> string \<Rightarrow> string \<Rightarrow> int \<Rightarrow> int \<Rightarrow> index_db \<Rightarrow> index_db res" where
  "insert_module module_hash parent_hash payload_bytes cost accepted_at db =
     bindr (sql_int cost) (\<lambda>cost'. bindr (sql_int accepted_at) (\<lambda>at.
     bindr (insert_unique mr_hash \<lparr>mr_hash = module_hash, mr_parent_hash = parent_hash,
         mr_bytes = payload_bytes, mr_cost = cost', mr_accepted_at = at\<rparr> (ix_modules db)) (\<lambda>rows.
       Inr (db\<lparr>ix_modules := rows\<rparr>))))"

fun insert_symbols :: "(string \<times> ktype) list \<Rightarrow> (string \<times> string) list \<Rightarrow> string \<Rightarrow> index_db \<Rightarrow> index_db res" where
  "insert_symbols [] def_hashes module_hash db = Inr db"
| "insert_symbols ((name, typ) # sts) def_hashes module_hash db =
     bindr (insert_unique sr_symbol \<lparr>sr_symbol = name, sr_module_hash = module_hash,
         sr_type_norm = type_norm typ, sr_def_hash = map_of def_hashes name\<rparr> (ix_symbols db)) (\<lambda>rows.
       insert_symbols sts def_hashes module_hash (db\<lparr>ix_symbols := rows\<rparr>))"

fun insert_def_hashes :: "(string \<times> string) list \<Rightarrow> string \<Rightarrow> index_db \<Rightarrow> index_db res" where
  "insert_def_hashes [] module_hash db = Inr db"
| "insert_def_hashes ((symbol, def_hash) # dhs) module_hash db =
     bindr (insert_unique fst (symbol, def_hash, module_hash) (ix_def_hashes db)) (\<lambda>rows.
       insert_def_hashes dhs module_hash (db\<lparr>ix_def_hashes := rows\<rparr>))"

definition insert_deps :: "string \<Rightarrow> string list \<Rightarrow> index_db \<Rightarrow> index_db" where
  "insert_deps module_hash deps db = db\<lparr>ix_deps := ix_deps db @ map (Pair module_hash) deps\<rparr>"

definition insert_sym_deps :: "string \<Rightarrow> string list \<Rightarrow> index_db \<Rightarrow> index_db" where
  "insert_sym_deps symbol deps db = db\<lparr>ix_sym_deps := ix_sym_deps db @ map (Pair symbol) deps\<rparr>"

definition insert_type_index :: "(string \<times> ktype) list \<Rightarrow> index_db \<Rightarrow> index_db" where
  "insert_type_index symbol_types db =
     db\<lparr>ix_type_index := ix_type_index db @ map (\<lambda>(symbol, typ). (type_norm typ, symbol)) symbol_types\<rparr>"

fun insert_aliases :: "(string \<times> string) list \<Rightarrow> index_db \<Rightarrow> index_db res" where
  "insert_aliases [] db = Inr db"
| "insert_aliases ((symbol, target) # al) db =
     bindr (insert_unique fst (symbol, target) (ix_aliases db)) (\<lambda>rows.
       insert_aliases al (db\<lparr>ix_aliases := rows\<rparr>))"

text \<open>Entries that are no objects, or without a concept or a symbol, are skipped. The fields of
  a stored payload are strings.\<close>

fun insert_concepts :: "json list \<Rightarrow> string \<Rightarrow> index_db \<Rightarrow> index_db res" where
  "insert_concepts [] module_hash db = Inr db"
| "insert_concepts (entry # es) module_hash db =
     (let concept = jget entry ''concept''; symbol = jget entry ''symbol'' in
      if \<not> is_obj entry then insert_concepts es module_hash db
      else if concept = JNull \<or> symbol = JNull then insert_concepts es module_hash db
      else if \<not> is_str concept \<or> \<not> is_str symbol then Inl (Unmodelled ''concept column'')
      else bindr (insert_unique (\<lambda>(c, s, h). (c, s)) (the_str concept, the_str symbol, module_hash)
             (ix_concepts db)) (\<lambda>rows.
        insert_concepts es module_hash (db\<lparr>ix_concepts := rows\<rparr>)))"

definition insert_index_impact :: "impact_row \<Rightarrow> index_db \<Rightarrow> index_db res" where
  "insert_index_impact row db =
     bindr (insert_unique ir_module_hash row (ix_index_impact db)) (\<lambda>rows.
       Inr (db\<lparr>ix_index_impact := rows\<rparr>))"

definition set_budget :: "int \<Rightarrow> index_db \<Rightarrow> index_db res" where
  "set_budget remaining db = bindr (sql_int remaining) (\<lambda>n. Inr (db\<lparr>ix_budget := Some n\<rparr>))"

definition update_budget :: "int \<Rightarrow> index_db \<Rightarrow> index_db res" where
  "update_budget remaining db =
     bindr (sql_int remaining) (\<lambda>n. Inr (db\<lparr>ix_budget := map_option (\<lambda>_. n) (ix_budget db)\<rparr>))"

definition set_stat_cert_state :: "int \<Rightarrow> string \<Rightarrow> index_db \<Rightarrow> index_db res" where
  "set_stat_cert_state round_idx alpha_spent db =
     bindr (sql_int round_idx) (\<lambda>n. Inr (db\<lparr>ix_stat_cert_state := Some (n, alpha_spent)\<rparr>))"

definition insert_adoption :: "adoption_row \<Rightarrow> index_db \<Rightarrow> index_db res" where
  "insert_adoption row db =
     bindr (sql_int (ar_accepted_at row)) (\<lambda>_.
     bindr (insert_unique ar_hash row (ix_adoptions db)) (\<lambda>rows. Inr (db\<lparr>ix_adoptions := rows\<rparr>)))"

definition record_rejection :: "string \<Rightarrow> string \<Rightarrow> string option \<Rightarrow> index_db \<Rightarrow> index_db" where
  "record_rejection module_hash reason details db =
     db\<lparr>ix_rejections := ix_rejections db @ [(module_hash, reason, details)]\<rparr>"

subsection \<open>Lookups after updates\<close>

lemma insert_unique_Inr [simp]:
  "insert_unique key row rows = Inr rows' \<longleftrightarrow> key row \<notin> key ` set rows \<and> rows' = rows @ [row]"
  by (auto simp: insert_unique_def)

lemma sql_int_Inr [simp]: "sql_int i = Inr j \<longleftrightarrow> - (2 ^ 63) \<le> i \<and> i < 2 ^ 63 \<and> j = i"
  by (auto simp: sql_int_def)

lemma symbol_row_of_None [simp]: "symbol_row_of db name = None \<longleftrightarrow> \<not> symbol_exists db name"
  by (cases "filter (\<lambda>r. sr_symbol r = name) (ix_symbols db)")
    (auto simp: symbol_row_of_def symbol_exists_def first_row_def filter_empty_conv filter_eq_Cons_iff)

lemma symbol_row_of_Some:
  "symbol_row_of db name = Some r \<Longrightarrow> r \<in> set (ix_symbols db) \<and> sr_symbol r = name"
  by (auto simp: symbol_row_of_def first_row_def filter_eq_Cons_iff split: list.splits)

text \<open>The rows the bulk insertions add.\<close>

definition symbol_rows :: "(string \<times> ktype) list \<Rightarrow> (string \<times> string) list \<Rightarrow> string \<Rightarrow> symbol_row list" where
  "symbol_rows sts def_hashes module_hash = map (\<lambda>(name, typ).
     \<lparr>sr_symbol = name, sr_module_hash = module_hash, sr_type_norm = type_norm typ,
      sr_def_hash = map_of def_hashes name\<rparr>) sts"

lemma insert_symbols_Inr:
  "insert_symbols sts dhs h db = Inr db' \<longleftrightarrow>
     distinct (map fst sts) \<and> (\<forall>n \<in> fst ` set sts. \<not> symbol_exists db n)
     \<and> db' = db\<lparr>ix_symbols := ix_symbols db @ symbol_rows sts dhs h\<rparr>"
proof (induction sts dhs h db rule: insert_symbols.induct)
  case (1 dhs h db)
  then show ?case by (auto simp: symbol_rows_def)
next
  case (2 name T sts dhs h db)
  then show ?case by (auto simp: symbol_rows_def symbol_exists_def image_iff)
qed

lemma insert_def_hashes_Inr:
  "insert_def_hashes dhs h db = Inr db' \<longleftrightarrow>
     distinct (map fst dhs) \<and> fst ` set dhs \<inter> fst ` set (ix_def_hashes db) = {}
     \<and> db' = db\<lparr>ix_def_hashes := ix_def_hashes db @ map (\<lambda>(s, d). (s, d, h)) dhs\<rparr>"
  by (induction dhs h db rule: insert_def_hashes.induct) (auto simp: image_iff)

lemma insert_aliases_Inr:
  "insert_aliases al db = Inr db' \<longleftrightarrow>
     distinct (map fst al) \<and> fst ` set al \<inter> fst ` set (ix_aliases db) = {}
     \<and> db' = db\<lparr>ix_aliases := ix_aliases db @ al\<rparr>"
  by (induction al db rule: insert_aliases.induct) (auto simp: image_iff)

end
