(* ===== verification/Ledger_Closure.thy ===== *)
theory Ledger_Closure
  imports Ledger_Index Kernel_Deps
begin

section \<open>Aliases and dependency closures (ledger/alias.py, ledger/closure.py)\<close>

text \<open>
  A Python set is a list without duplicates, in the order of insertion; the order in which the
  code iterates over a set is not specified by Python, and only the choice of the exception that
  is raised first depends on it. The two closure computations, over the index and over the
  scanned order log, are instances of one interface, \<open>worklist\<close>.
\<close>

subsection \<open>Alias detection\<close>

fun alias_args :: "kterm list \<Rightarrow> int \<Rightarrow> bool" where
  "alias_args [] expected = True"
| "alias_args (arg # args) expected =
     (case arg of Var i \<Rightarrow> i = expected \<and> alias_args args (expected - 1) | _ \<Rightarrow> False)"

definition alias_target :: "kdef \<Rightarrow> string option" where
  "alias_target defn =
     (case d_body defn of
        App (Sym name) args \<Rightarrow>
          if length args \<noteq> length (d_params defn) then None
          else if alias_args args (int (length (d_params defn)) - 1) then Some name else None
      | _ \<Rightarrow> None)"

subsection \<open>The worklist\<close>

text \<open>The inner loop: dependencies not seen before join the closure and the queue.\<close>

fun add_new :: "'a list \<Rightarrow> 'a list \<Rightarrow> 'a list \<Rightarrow> 'a list \<times> 'a list" where
  "add_new [] closure queue = (closure, queue)"
| "add_new (dep # deps) closure queue =
     (if dep \<in> set closure then add_new deps closure queue
      else add_new deps (closure @ [dep]) (queue @ [dep]))"

lemma add_new_spec:
  assumes "add_new deps C q = (C', q')"
  obtains new where "C' = C @ new" "q' = q @ new" "distinct new" "set new = set deps - set C"
  using assms
proof (induction deps C q arbitrary: thesis rule: add_new.induct)
  case (1 C q)
  then show ?case by auto
next
  case (2 dep deps C q)
  show ?case
  proof (cases "dep \<in> set C")
    case True
    with 2 show ?thesis by (auto simp: insert_Diff_if)
  next
    case False
    from 2(2) [OF False _ 2(4) [unfolded add_new.simps if_not_P [OF False]]] obtain new where
      "C' = C @ dep # new" "q' = q @ dep # new" "distinct new" "set new = set deps - set (C @ [dep])"
      by auto
    with False show ?thesis by (intro 2(3) [of "dep # new"]) auto
  qed
qed

lemma add_new_measure:
  assumes "add_new deps C (butlast q) = (C', q')" and "set deps \<subseteq> U" and "finite U" and "q \<noteq> []"
  shows "((C', q'), (C, q)) \<in> measures [\<lambda>(C, q). card (U - set C), \<lambda>(C, q). length q]"
proof -
  from assms(1) obtain new where new: "C' = C @ new" "q' = butlast q @ new" "set new = set deps - set C"
    by (rule add_new_spec)
  show ?thesis
  proof (cases "new = []")
    case True
    with new assms(4) show ?thesis by simp
  next
    case False
    then obtain y where "y \<in> set new" by (cases new) auto
    with new assms(2) have "y \<in> U - set C" "y \<notin> U - set C'" by auto
    with new(1) have "U - set C' \<subset> U - set C" by auto
    with assms(3) show ?thesis by (simp add: psubset_card_mono)
  qed
qed

text \<open>
  The interface of a worklist computation: the queue is consumed from its end, each element's
  successors join closure and queue, and only finitely many elements can join.
\<close>

lemma Image_rtrancl_absorb:
  "N \<subseteq> E\<^sup>* `` C \<Longrightarrow> C' = C \<union> N \<Longrightarrow> E\<^sup>* `` C' \<subseteq> E\<^sup>* `` C"
  by (auto, meson ImageE ImageI rtrancl_trans subsetD)

locale worklist =
  fixes run :: "'a list \<Rightarrow> 'a list \<Rightarrow> 'a list res"
    and succs :: "'a \<Rightarrow> 'a list res"
  assumes run_Nil: "run C [] = Inr C"
    and run_snoc: "run C (q @ [x]) = bindr (succs x) (\<lambda>ds. case add_new ds C q of (C', q') \<Rightarrow> run C' q')"
    and finite_succs: "finite {y. \<exists>x ds. succs x = Inr ds \<and> y \<in> set ds}"
begin

lemma worklist_induct [case_names empty step]:
  assumes "\<And>C. P C []"
    and "\<And>C q x. (\<And>ds C' q'. succs x = Inr ds \<Longrightarrow> add_new ds C q = (C', q') \<Longrightarrow> P C' q') \<Longrightarrow> P C (q @ [x])"
  shows "P C q"
proof -
  let ?U = "{y. \<exists>x ds. succs x = Inr ds \<and> y \<in> set ds}"
  have "wf (measures [\<lambda>(C :: 'a list, q :: 'a list). card (?U - set C), \<lambda>(C, q). length q])" by simp
  then have "case (C, q) of (C, q) \<Rightarrow> P C q"
  proof (induction "(C, q)" arbitrary: C q rule: wf_induct_rule)
    case (less C q)
    show ?case
    proof (cases q rule: rev_cases)
      case Nil
      with assms(1) show ?thesis by simp
    next
      case (snoc q0 x)
      have "P C' q'" if "succs x = Inr ds" "add_new ds C q0 = (C', q')" for ds C' q'
      proof -
        from that(1) have "set ds \<subseteq> ?U" by auto
        from add_new_measure [OF _ this finite_succs, of C q C' q'] that(2) snoc less
        show ?thesis by simp
      qed
      with assms(2) snoc show ?thesis by simp
    qed
  qed
  then show ?thesis by simp
qed

lemma run_reach:
  assumes "run C q = Inr R" and "set q \<subseteq> set C"
    and "\<forall>x \<in> set C - set q. \<exists>ds. succs x = Inr ds \<and> set ds \<subseteq> set C"
  shows "set R = {(x, y). \<exists>ds. succs x = Inr ds \<and> y \<in> set ds}\<^sup>* `` set C
    \<and> (\<forall>x \<in> set R. \<exists>ds. succs x = Inr ds) \<and> (distinct C \<longrightarrow> distinct R)"
    (is "set R = ?E\<^sup>* `` _ \<and> _")
  using assms
proof (induction C q rule: worklist_induct)
  case (empty C)
  have "?E\<^sup>* `` set C \<subseteq> set C"
    by (rule Image_closed_trancl [THEN equalityD1]) (use empty(3) in force)
  with empty show ?case by (fastforce simp: run_Nil)
next
  case (step C q x)
  obtain ds where ds: "succs x = Inr ds" using step.prems(1) by (auto simp: run_snoc)
  obtain C' q' where an: "add_new ds C q = (C', q')" by fastforce
  with ds step.prems(1) have "run C' q' = Inr R" by (simp add: run_snoc)
  note ds = ds an this
  from ds(2) obtain new where new: "C' = C @ new" "q' = q @ new" "distinct new" "set new = set ds - set C"
    by (rule add_new_spec)
  have "\<forall>z \<in> set C' - set q'. \<exists>ds. succs z = Inr ds \<and> set ds \<subseteq> set C'"
  proof
    fix z assume z: "z \<in> set C' - set q'"
    show "\<exists>ds. succs z = Inr ds \<and> set ds \<subseteq> set C'"
    proof (cases "z = x")
      case True
      with ds new show ?thesis by auto
    next
      case False
      with z new have "z \<in> set C - set (q @ [x])" by auto
      with step.prems(3) new show ?thesis by fastforce
    qed
  qed
  moreover have "set q' \<subseteq> set C'" using step.prems(2) new by auto
  ultimately have IH: "set R = ?E\<^sup>* `` set C'" "\<forall>x \<in> set R. \<exists>ds. succs x = Inr ds"
    "distinct C' \<longrightarrow> distinct R"
    using step.IH [OF ds(1,2,3)] by blast+
  have "?E\<^sup>* `` set C' = ?E\<^sup>* `` set C"
  proof
    have "set new \<subseteq> ?E\<^sup>* `` set C"
      using ds(1) new(4) step.prems(2) by (auto intro!: r_into_rtrancl bexI [of _ x] simp: Image_iff)
    then show "?E\<^sup>* `` set C' \<subseteq> ?E\<^sup>* `` set C"
      by (rule Image_rtrancl_absorb) (use new(1) in auto)
  qed (use new(1) in auto)
  with IH new show ?case by auto
qed

lemma run_total:
  assumes "\<forall>x \<in> {(x, y). \<exists>ds. succs x = Inr ds \<and> y \<in> set ds}\<^sup>* `` set C. \<exists>ds. succs x = Inr ds"
    and "set q \<subseteq> set C"
  shows "\<exists>R. run C q = Inr R"
  using assms
proof (induction C q rule: worklist_induct)
  case (empty C)
  then show ?case by (simp add: run_Nil)
next
  case (step C q x)
  let ?E = "{(x, y). \<exists>ds. succs x = Inr ds \<and> y \<in> set ds}"
  from step.prems obtain ds where ds: "succs x = Inr ds" by auto
  obtain C' q' where an: "add_new ds C q = (C', q')" by fastforce
  then obtain new where new: "C' = C @ new" "q' = q @ new" "set new = set ds - set C"
    by (rule add_new_spec)
  have "set new \<subseteq> ?E\<^sup>* `` set C"
    using ds new(3) step.prems(2) by (auto intro!: r_into_rtrancl bexI [of _ x] simp: Image_iff)
  then have "?E\<^sup>* `` set C' \<subseteq> ?E\<^sup>* `` set C"
    by (rule Image_rtrancl_absorb) (use new(1) in auto)
  moreover have "set q' \<subseteq> set C'" using step.prems(2) new by auto
  ultimately have "\<exists>R. run C' q' = Inr R" using step.IH [OF ds an] step.prems(1) by blast
  with ds an show ?case by (auto simp: run_snoc)
qed

end

subsection \<open>The closure over the index\<close>

lemma list_symbol_deps_subset: "set (list_symbol_deps db x) \<subseteq> snd ` set (ix_sym_deps db)"
  by (auto simp: list_symbol_deps_def)

function closure_loop :: "index_db \<Rightarrow> string list \<Rightarrow> string list \<Rightarrow> int \<Rightarrow> string list \<times> int" where
  "closure_loop db closure queue lookups =
     (if queue = [] then (closure, lookups)
      else let (closure', queue') = add_new (list_symbol_deps db (last queue)) closure (butlast queue)
        in closure_loop db closure' queue' (lookups + 1))"
  by pat_completeness auto
termination
proof (relation "measures [\<lambda>(db, C, q, n). card (snd ` set (ix_sym_deps db) - set C),
    \<lambda>(db, C, q, n). length q]", goal_cases)
  case (2 db C q n p C' q')
  then have "((C', q'), (C, q)) \<in> measures [\<lambda>(C, q). card (snd ` set (ix_sym_deps db) - set C), \<lambda>(C, q). length q]"
    by (intro add_new_measure [OF _ list_symbol_deps_subset]) simp_all
  then show ?case by simp
qed simp

declare closure_loop.simps [simp del]

definition compute_closure_with_stats :: "index_db \<Rightarrow> string list \<Rightarrow> string list \<times> int" where
  "compute_closure_with_stats db symbols = closure_loop db (remdups symbols) symbols 0"

definition compute_closure :: "index_db \<Rightarrow> string list \<Rightarrow> string list" where
  "compute_closure db symbols = fst (compute_closure_with_stats db symbols)"

lemma closure_loop_Nil [simp]: "closure_loop db C [] n = (C, n)"
  by (simp add: closure_loop.simps)

lemma closure_loop_snoc:
  "closure_loop db C (q @ [x]) n =
     (case add_new (list_symbol_deps db x) C q of (C', q') \<Rightarrow> closure_loop db C' q' (n + 1))"
  by (simp add: closure_loop.simps [of db C "q @ [x]"])

lemma fst_closure_loop: "fst (closure_loop db C q n) = fst (closure_loop db C q m)"
proof (induction db C q n arbitrary: m rule: closure_loop.induct)
  case (1 db C q n)
  show ?case
  proof (cases q rule: rev_cases)
    case (snoc q0 x)
    obtain C' q' where an: "add_new (list_symbol_deps db x) C q0 = (C', q')" by fastforce
    have "fst (closure_loop db C' q' (n + 1)) = fst (closure_loop db C' q' (m + 1))"
      by (rule 1) (use snoc an in simp_all)
    with snoc an show ?thesis by (simp add: closure_loop_snoc)
  qed simp
qed

interpretation indexed: worklist "\<lambda>C q. Inr (fst (closure_loop db C q 0))"
  "\<lambda>x. Inr (list_symbol_deps db x)" for db
proof
  show "Inr (fst (closure_loop db C (q @ [x]) 0)) = bindr (Inr (list_symbol_deps db x))
      (\<lambda>ds. case add_new ds C q of (C', q') \<Rightarrow> Inr (fst (closure_loop db C' q' 0)))" for C q x
    by (auto simp: closure_loop_snoc fst_closure_loop [of db _ _ 1 0] split: prod.split)
  show "finite {y. \<exists>x ds. Inr (list_symbol_deps db x) = (Inr ds :: string list res) \<and> y \<in> set ds}"
    by (rule finite_subset [of _ "snd ` set (ix_sym_deps db)"]) (use list_symbol_deps_subset in auto)
qed simp

text \<open>The closure is what the dependency edges reach; every element is looked up once.\<close>

definition dep_edges :: "index_db \<Rightarrow> (string \<times> string) set" where
  "dep_edges db = set (ix_sym_deps db)"

lemma dep_edges_iff: "(x, y) \<in> dep_edges db \<longleftrightarrow> y \<in> set (list_symbol_deps db x)"
  by (force simp: dep_edges_def list_symbol_deps_def)

lemma compute_closure_reach:
  "set (compute_closure db symbols) = (dep_edges db)\<^sup>* `` set symbols \<and> distinct (compute_closure db symbols)"
proof -
  have "{(x, y). \<exists>ds. (Inr (list_symbol_deps db x) :: string list res) = Inr ds \<and> y \<in> set ds} = dep_edges db"
    using dep_edges_iff by auto
  with indexed.run_reach [of db "remdups symbols" symbols "compute_closure db symbols"] show ?thesis
    by (auto simp: compute_closure_def compute_closure_with_stats_def)
qed

lemma closure_loop_count:
  assumes "distinct C" and "closure_loop db C q n = (R, m)"
  shows "m = n + int (length R) - int (length C) + int (length q)"
  using assms
proof (induction db C q n arbitrary: R m rule: closure_loop.induct)
  case (1 db C q n)
  show ?case
  proof (cases q rule: rev_cases)
    case Nil
    with 1 show ?thesis by simp
  next
    case (snoc q0 x)
    obtain C' q' where an: "add_new (list_symbol_deps db x) C q0 = (C', q')" by fastforce
    then obtain new where "C' = C @ new" "q' = q0 @ new" "distinct new"
      "set new = set (list_symbol_deps db x) - set C" by (rule add_new_spec)
    with 1 an snoc show ?thesis by (fastforce simp: closure_loop_snoc)
  qed
qed

lemma closure_lookups:
  assumes "distinct symbols"
  shows "snd (compute_closure_with_stats db symbols) = int (length (compute_closure db symbols))"
  using closure_loop_count [of symbols db symbols 0] assms
  by (simp add: compute_closure_def compute_closure_with_stats_def prod_eq_iff distinct_remdups_id)

subsection \<open>Loading definitions through the index\<close>

record closure_stats =
  cs_closure_symbols_count :: int
  cs_closure_modules_count :: int
  cs_scanned_modules_count :: int
  cs_index_lookups_count :: int
  cs_closure_cache_hits :: int
  cs_closure_cache_misses :: int

text \<open>\<open>payload.get("definitions", [])\<close>, iterated.\<close>

definition payload_definitions :: "json \<Rightarrow> json list res" where
  "payload_definitions payload =
     (if \<not> is_obj payload then Inl (AttributeError ''get'')
      else iter_json (jget_default payload ''definitions'' (JList [])))"

fun add_parsed :: "json list \<Rightarrow> (string \<times> kdef) list \<Rightarrow> (string \<times> kdef) list res" where
  "add_parsed [] defs = Inr defs"
| "add_parsed (defn # ds) defs =
     bindr (parse_definition defn) (\<lambda>parsed. add_parsed ds (dict_set defs (d_name parsed) parsed))"

definition add_module :: "ledger_files \<Rightarrow> string \<Rightarrow> (string \<times> kdef) list \<Rightarrow> (string \<times> kdef) list res" where
  "add_module F module_hash defs =
     bindr (load_module_payload F module_hash) (\<lambda>payload.
     bindr (payload_definitions payload) (\<lambda>ds. add_parsed ds defs))"

fun load_closure :: "ledger_files \<Rightarrow> index_db \<Rightarrow> string list \<Rightarrow> (string \<times> kdef) list \<Rightarrow> string list
    \<Rightarrow> ((string \<times> kdef) list \<times> string list) res" where
  "load_closure F db [] defs loaded = Inr (defs, loaded)"
| "load_closure F db (s # ss) defs loaded =
     (case get_symbol_module db s of
        None \<Rightarrow> Inl (ValueError (''symbol not found in index: '' @ s))
      | Some module_hash \<Rightarrow>
          if module_hash \<in> set loaded then load_closure F db ss defs loaded
          else bindr (add_module F module_hash defs) (\<lambda>defs'.
            load_closure F db ss defs' (loaded @ [module_hash])))"

fun load_defs_from_modules :: "ledger_files \<Rightarrow> string list \<Rightarrow> (string \<times> kdef) list \<Rightarrow> (string \<times> kdef) list res" where
  "load_defs_from_modules F [] defs = Inr defs"
| "load_defs_from_modules F (h # hs) defs =
     bindr (add_module F h defs) (\<lambda>defs'. load_defs_from_modules F hs defs')"

definition closure_cache_path :: "string \<Rightarrow> string \<Rightarrow> string" where
  "closure_cache_path head symbol = ''closure/'' @ head @ ''/'' @ symbol @ ''.json''"

definition read_closure_cache :: "ledger_files \<Rightarrow> string \<Rightarrow> string \<Rightarrow> json res" where
  "read_closure_cache F head symbol =
     (case lf_cache F (closure_cache_path head symbol) of
        None \<Rightarrow> Inr JNull | Some text \<Rightarrow> loads text)"

definition write_closure_cache :: "string \<Rightarrow> string \<Rightarrow> string list \<Rightarrow> string list \<Rightarrow> ledger_files \<Rightarrow> ledger_files" where
  "write_closure_cache head symbol closure modules F =
     F\<lparr>lf_cache := (lf_cache F)(closure_cache_path head symbol := Some (dumps '', '' '': '' True
        (JObj [(''symbols'', JList (map JStr (sort closure))),
               (''modules'', JList (map JStr (sort modules)))])))\<rparr>"

text \<open>\<open>d[k]\<close>.\<close>

definition jitem :: "json \<Rightarrow> string \<Rightarrow> json res" where
  "jitem j k =
     (case j of
        JObj kvs \<Rightarrow> (case map_of kvs k of None \<Rightarrow> Inl (KeyError k) | Some v \<Rightarrow> Inr v)
      | _ \<Rightarrow> Inl (PyTypeError ''indices''))"

fun json_len :: "json \<Rightarrow> int res" where
  "json_len (JList xs) = Inr (int (length xs))"
| "json_len (JObj kvs) = Inr (int (length kvs))"
| "json_len (JStr s) = Inr (int (length s))"
| "json_len _ = Inl (PyTypeError ''object has no len()'')"

text \<open>The module hashes of a cache file: strings, as \<open>write_closure_cache\<close> writes them.\<close>

definition json_strs :: "json \<Rightarrow> string list res" where
  "json_strs j = bindr (iter_json j) (\<lambda>xs.
     if \<forall>x \<in> set xs. is_str x then Inr (map the_str xs) else Inl (PyTypeError ''not a string''))"

definition load_definitions_with_stats :: "ledger_files \<Rightarrow> index_db \<Rightarrow> string list \<Rightarrow> bool
    \<Rightarrow> ((string \<times> kdef) list \<times> closure_stats \<times> ledger_files) res" where
  "load_definitions_with_stats F db symbols use_cache =
     (let cacheable = (use_cache \<and> length symbols = 1); head = read_head F in
      bindr (if cacheable then read_closure_cache F head (hd symbols) else Inr JNull) (\<lambda>cached.
      if truthy cached then
        bindr (jitem cached ''modules'') (\<lambda>modules. bindr (json_strs modules) (\<lambda>hs.
        bindr (load_defs_from_modules F hs []) (\<lambda>defs.
        bindr (jitem cached ''symbols'') (\<lambda>syms. bindr (json_len syms) (\<lambda>n.
          Inr (defs, \<lparr>cs_closure_symbols_count = n, cs_closure_modules_count = int (length hs),
            cs_scanned_modules_count = 0, cs_index_lookups_count = 0,
            cs_closure_cache_hits = 1, cs_closure_cache_misses = 0\<rparr>, F))))))
      else
        let (closure, dep_lookups) = compute_closure_with_stats db symbols in
        bindr (load_closure F db closure [] []) (\<lambda>(defs, loaded).
          Inr (defs, \<lparr>cs_closure_symbols_count = int (length closure),
            cs_closure_modules_count = int (length loaded), cs_scanned_modules_count = 0,
            cs_index_lookups_count = dep_lookups + int (length closure),
            cs_closure_cache_hits = 0, cs_closure_cache_misses = (if cacheable then 1 else 0)\<rparr>,
            if cacheable then write_closure_cache head (hd symbols) closure loaded F else F))))"

definition load_definitions :: "ledger_files \<Rightarrow> index_db \<Rightarrow> string list \<Rightarrow> (string \<times> kdef) list res" where
  "load_definitions F db symbols =
     bindr (load_definitions_with_stats F db symbols False) (\<lambda>(defs, stats, F'). Inr defs)"

subsection \<open>Loading definitions by scanning the order log\<close>

record scan_tables =
  sc_defs :: "(string \<times> kdef) list"
  sc_deps :: "(string \<times> string list) list"
  sc_module :: "(string \<times> string) list"

fun scan_definitions :: "json list \<Rightarrow> string \<Rightarrow> scan_tables \<Rightarrow> scan_tables res" where
  "scan_definitions [] module_hash T = Inr T"
| "scan_definitions (defn # ds) module_hash T =
     bindr (jgetr defn ''name'') (\<lambda>name.
     if \<not> is_str name then scan_definitions ds module_hash T
     else
       bindr (parse_definition defn) (\<lambda>parsed.
       bindr (collect_sym_refs (jor (jget defn ''body'') (JObj []))) (\<lambda>refs.
         scan_definitions ds module_hash
           \<lparr>sc_defs = dict_set (sc_defs T) (the_str name) parsed,
            sc_deps = dict_set (sc_deps T) (the_str name) (filter (\<lambda>s. s \<noteq> the_str name) refs),
            sc_module = dict_set (sc_module T) (the_str name) module_hash\<rparr>)))"

fun scan_modules :: "ledger_files \<Rightarrow> string list \<Rightarrow> scan_tables \<Rightarrow> scan_tables res" where
  "scan_modules F [] T = Inr T"
| "scan_modules F (h # hs) T =
     bindr (load_module_payload F h) (\<lambda>payload.
     bindr (payload_definitions payload) (\<lambda>ds.
     bindr (scan_definitions ds h T) (\<lambda>T'. scan_modules F hs T')))"

definition scan_succs :: "scan_tables \<Rightarrow> string \<Rightarrow> string list res" where
  "scan_succs T s =
     (if map_of (sc_defs T) s = None then Inl (ValueError (''symbol not found in ledger scan: '' @ s))
      else Inr (case map_of (sc_deps T) s of None \<Rightarrow> [] | Some deps \<Rightarrow> deps))"

lemma scan_succs_subset:
  "scan_succs T x = Inr ds \<Longrightarrow> set ds \<subseteq> (\<Union>(s, deps) \<in> set (sc_deps T). set deps)"
  by (auto simp: scan_succs_def dest!: map_of_SomeD split: if_splits option.splits)

function scan_loop :: "scan_tables \<Rightarrow> string list \<Rightarrow> string list \<Rightarrow> string list res" where
  "scan_loop T closure queue =
     (if queue = [] then Inr closure
      else case scan_succs T (last queue) of
          Inl e \<Rightarrow> Inl e
        | Inr deps \<Rightarrow>
            let (closure', queue') = add_new deps closure (butlast queue) in scan_loop T closure' queue')"
  by pat_completeness auto
termination
proof (relation "measures [\<lambda>(T, C, q). card ((\<Union>(s, deps) \<in> set (sc_deps T). set deps) - set C),
    \<lambda>(T, C, q). length q]", goal_cases)
  case (2 T C q deps p C' q')
  then have "((C', q'), (C, q)) \<in> measures [\<lambda>(C, q). card ((\<Union>(s, deps) \<in> set (sc_deps T). set deps) - set C),
      \<lambda>(C, q). length q]"
    by (intro add_new_measure [OF _ scan_succs_subset]) auto
  then show ?case by simp
qed simp

declare scan_loop.simps [simp del]

interpretation scanned: worklist "scan_loop T" "scan_succs T" for T
proof
  show "scan_loop T C (q @ [x]) = bindr (scan_succs T x) (\<lambda>ds. case add_new ds C q of (C', q') \<Rightarrow> scan_loop T C' q')"
    for C q x
    by (cases "scan_succs T x") (auto simp: scan_loop.simps [of T C "q @ [x]"] split: prod.split)
  show "finite {y. \<exists>x ds. scan_succs T x = Inr ds \<and> y \<in> set ds}"
    by (rule finite_subset [of _ "\<Union>(s, deps) \<in> set (sc_deps T). set deps"])
      (use scan_succs_subset in fast)+
qed (simp add: scan_loop.simps)

definition load_definitions_scan_with_stats :: "ledger_files \<Rightarrow> string list
    \<Rightarrow> ((string \<times> kdef) list \<times> closure_stats) res" where
  "load_definitions_scan_with_stats F symbols =
     (let order = iter_order_log F in
      bindr (scan_modules F order \<lparr>sc_defs = [], sc_deps = [], sc_module = []\<rparr>) (\<lambda>T.
      bindr (scan_loop T (remdups symbols) symbols) (\<lambda>closure.
        Inr (map (\<lambda>sym. (sym, the (map_of (sc_defs T) sym))) closure,
          \<lparr>cs_closure_symbols_count = int (length closure),
           cs_closure_modules_count = int (length (remdups
             (filter (\<lambda>m. m \<noteq> []) (List.map_filter (map_of (sc_module T)) closure)))),
           cs_scanned_modules_count = int (length order), cs_index_lookups_count = 0,
           cs_closure_cache_hits = 0, cs_closure_cache_misses = 0\<rparr>))))"

fun load_symbol_types :: "index_db \<Rightarrow> string list \<Rightarrow> (string \<times> string) list \<Rightarrow> (string \<times> string) list res" where
  "load_symbol_types db [] types = Inr types"
| "load_symbol_types db (s # ss) types =
     (case get_symbol_info db s of
        None \<Rightarrow> Inl (ValueError (''symbol not found in index: '' @ s))
      | Some (module_hash, t) \<Rightarrow> load_symbol_types db ss (dict_set types s t))"

end
