(* ===== verification/Ledger_Verifier.thy ===== *)
theory Ledger_Verifier
  imports Ledger_Closure Kernel_Terminate Kernel_Canon
begin

section \<open>The verifier pipeline (ledger/verifier.py)\<close>

text \<open>
  \<open>verify_module\<close> either returns a result, accepted or rejected, or raises. Inside its \<open>try\<close>
  block an early \<open>return _reject(...)\<close> is the stop \<open>Refuse\<close> and an exception the stop
  \<open>Raise\<close>; \<open>catch_verify\<close> is the chain of \<open>except\<close> clauses. The configuration is the JSON
  document \<open>cfg.data\<close>.
\<close>

record accepted_module =
  am_payload_hash :: string
  am_payload_bytes :: string
  am_payload :: json
  am_cost :: int
  am_spec_work :: int
  am_symbol_types :: "(string \<times> ktype) list"
  am_defs :: "(string \<times> kdef) list"
  am_actual_deps :: "string list"
  am_symbol_deps :: "(string \<times> string list) list"
  am_stat_cert_count :: int
  am_stat_round_start :: "int option"
  am_stat_alpha_spent :: "string option"

text \<open>A refusal carries the cost and the spec work when the capacity is exceeded.\<close>

datatype verification_result =
    Accepted accepted_module
  | Refused rejection "(int \<times> int) option"

datatype stop = Raise exn | Refuse rejection "(int \<times> int) option"

type_synonym 'a checked = "stop + 'a"

definition try_it :: "'a res \<Rightarrow> 'a checked" where
  "try_it m = (case m of Inl e \<Rightarrow> Inl (Raise e) | Inr x \<Rightarrow> Inr x)"

definition rejected :: "reject_code \<Rightarrow> string \<Rightarrow> string option \<Rightarrow> rejection" where
  "rejected code reason details = \<lparr>rj_code = code, rj_reason = reason, rj_details = details\<rparr>"

definition reject_because :: "reject_code \<Rightarrow> string \<Rightarrow> string option \<Rightarrow> verification_result" where
  "reject_because code reason details = Refused (rejected code reason details) None"

definition refuse :: "reject_code \<Rightarrow> string \<Rightarrow> 'a checked" where
  "refuse code reason = Inl (Refuse (rejected code reason None) None)"

lemma try_it_Inr [simp]: "try_it m = Inr x \<longleftrightarrow> m = Inr x"
  by (auto simp: try_it_def split: sum.splits)

lemma refuse_not_Inr [simp]: "refuse code reason \<noteq> Inr x"
  by (simp add: refuse_def)

record ledger =
  l_files :: ledger_files
  l_index :: index_db

subsection \<open>Schema\<close>

definition validate_schema :: "json \<Rightarrow> unit res" where
  "validate_schema module =
     (if \<not> is_obj module then Inl (ValueError ''module must be an object'')
      else if \<not> eq_int (jget module ''schema_version'') 1 then Inl (ValueError ''unsupported schema_version'')
      else if \<not> eq_int (jget module ''dsl_version'') 1 then Inl (ValueError ''unsupported dsl_version'')
      else if \<not> jhas module ''parent'' \<or> \<not> is_str (jget module ''parent'')
      then Inl (ValueError ''module missing parent'')
      else if \<not> jhas module ''payload'' \<or> \<not> is_obj (jget module ''payload'')
      then Inl (ValueError ''module missing payload'')
      else Inr ())"

definition legacy_evalue_error :: exn where
  "legacy_evalue_error = SpecError (''stat_cert rejected: legacy evalue format detected. ''
     @ ''Expected {mantissa, exponent10}. Certificates must be regenerated.'')"

fun precheck_specs :: "json list \<Rightarrow> unit res" where
  "precheck_specs [] = Inr ()"
| "precheck_specs (spec # specs) =
     (if \<not> is_obj spec \<or> jget spec ''kind'' \<noteq> JStr ''stat_cert'' then precheck_specs specs
      else let cert = jget spec ''certificate''; evalue = jget cert ''evalue'' in
        if \<not> is_obj cert \<or> \<not> is_obj evalue \<or> \<not> is_str (jget evalue ''mantissa'')
          \<or> \<not> is_int (jget evalue ''exponent10'')
        then Inl legacy_evalue_error else precheck_specs specs)"

definition precheck_stat_cert_evalue_format :: "json \<Rightarrow> unit res" where
  "precheck_stat_cert_evalue_format module =
     (let specs = jget (jget module ''payload'') ''specs'' in
      if \<not> is_obj (jget module ''payload'') \<or> \<not> is_list specs then Inr ()
      else precheck_specs (the_list specs))"

subsection \<open>Mutual recursion\<close>

text \<open>The call heads in the order \<open>collect\<close> meets them.\<close>

fun collect_calls :: "kterm \<Rightarrow> string list" where
  "collect_calls (MatchList s n c) = collect_calls s @ collect_calls n @ collect_calls c"
| "collect_calls (MatchOption s n b) = collect_calls s @ collect_calls n @ collect_calls b"
| "collect_calls (IfT c t e) = collect_calls c @ collect_calls t @ collect_calls e"
| "collect_calls (ConsT h t) = collect_calls h @ collect_calls t"
| "collect_calls (OptionSome v) = collect_calls v"
| "collect_calls (PairT l r) = collect_calls l @ collect_calls r"
| "collect_calls (Fst p) = collect_calls p"
| "collect_calls (Snd p) = collect_calls p"
| "collect_calls (Prim op args) = concat (map collect_calls args)"
| "collect_calls (App f args) =
     (case f of Sym target \<Rightarrow> [target] | _ \<Rightarrow> []) @ collect_calls f @ concat (map collect_calls args)"
| "collect_calls _ = []"

definition call_graph :: "(string \<times> kdef) list \<Rightarrow> (string \<times> string list) list" where
  "call_graph defs = map (\<lambda>(name, defn). (name,
     remdups (filter (\<lambda>t. t \<in> fst ` set defs \<and> t \<noteq> name) (collect_calls (d_body defn))))) defs"

text \<open>The depth-first search: \<open>temp\<close> is the current path, \<open>perm\<close> the finished nodes.\<close>

function visit_nodes :: "(string \<times> string list) list \<Rightarrow> string list \<Rightarrow> string list \<Rightarrow> string list
    \<Rightarrow> string list res" where
  "visit_nodes g temp [] perm = Inr perm"
| "visit_nodes g temp (node # nodes) perm =
     (if node \<in> set perm then visit_nodes g temp nodes perm
      else if node \<in> set temp then Inl (MutualRecursionError ''mutual recursion is not allowed'')
      else case map_of g node of
          None \<Rightarrow> Inl (KeyError node)
        | Some succs \<Rightarrow>
            bindr (visit_nodes g (node # temp) succs perm) (\<lambda>perm'.
              visit_nodes g temp nodes (node # perm')))"
  by pat_completeness auto
termination
proof (relation "measures [\<lambda>(g, temp, nodes, perm). card (fst ` set g - set temp),
    \<lambda>(g, temp, nodes, perm). length nodes]", goal_cases)
  case (3 g temp node nodes perm succs)
  from 3(3) have "node \<in> fst ` set g" by (force dest!: map_of_SomeD)
  with 3(2) have "fst ` set g - set (node # temp) \<subset> fst ` set g - set temp" by auto
  then show ?case by (simp add: psubset_card_mono)
qed simp_all

definition check_no_mutual_recursion :: "(string \<times> kdef) list \<Rightarrow> unit res" where
  "check_no_mutual_recursion defs =
     bindr (visit_nodes (call_graph defs) [] (map fst (call_graph defs)) []) (\<lambda>_. Inr ())"

subsection \<open>The first part: payload, parent, budget\<close>

definition verify_payload :: "externals \<Rightarrow> ledger_files \<Rightarrow> json \<Rightarrow> (json \<times> string \<times> string) checked" where
  "verify_payload X F module =
     bindr (try_it (validate_schema module)) (\<lambda>_.
     bindr (try_it (precheck_stat_cert_evalue_format module)) (\<lambda>_.
     bindr (try_it (canonicalize_payload (jor (jget module ''payload'') (JObj [])))) (\<lambda>payload.
     let payload_bytes = canonical_json_bytes payload;
         payload_hash = payload_hash_hex (x_blake3 X) payload;
         head = read_head F in
     if jget module ''parent'' \<noteq> JStr head
     then Inl (Refuse (rejected PARENT_MISMATCH ''parent does not match head''
            (Some (''expected '' @ head))) None)
     else Inr (payload, payload_bytes, payload_hash))))"

definition config_int :: "json \<Rightarrow> string \<Rightarrow> string \<Rightarrow> int res" where
  "config_int data part key =
     bindr (jitem data part) (\<lambda>p. bindr (jitem p key) py_int)"

text \<open>Opening the index; the budget is written on first use.\<close>

definition open_index :: "json \<Rightarrow> index_db \<Rightarrow> int res \<times> index_db" where
  "open_index data db =
     (case init_schema db of
        Inl e \<Rightarrow> (Inl e, db)
      | Inr db1 \<Rightarrow>
          (case get_budget db1 of
             Some remaining \<Rightarrow> (Inr remaining, db1)
           | None \<Rightarrow>
               (case bindr (config_int data ''ledger'' ''budget'') (\<lambda>n. bindr (set_budget n db1) (\<lambda>db2. Inr (n, db2))) of
                  Inl e \<Rightarrow> (Inl e, db1)
                | Inr (n, db2) \<Rightarrow> (Inr n, db2))))"

subsection \<open>Symbols, concepts, dependencies\<close>

text \<open>\<open>len(set(xs)) != len(xs)\<close>.\<close>

definition has_duplicates :: "json list \<Rightarrow> bool res" where
  "has_duplicates xs =
     (if \<exists>x \<in> set xs. \<not> hashable x then Inl (PyTypeError ''unhashable type'')
      else Inr (\<not> distinct (map scalar_key xs)))"

fun check_concepts :: "json list \<Rightarrow> string list \<Rightarrow> (string \<times> string) list \<Rightarrow> (string \<times> string) list checked" where
  "check_concepts [] new_symbols pairs = Inr pairs"
| "check_concepts (entry # es) new_symbols pairs =
     (if \<not> is_obj entry then refuse SCHEMA_INVALID ''concept entry must be an object''
      else let concept = jget entry ''concept''; symbol = jget entry ''symbol'' in
        if \<not> is_str concept \<or> \<not> is_str symbol
        then refuse SCHEMA_INVALID ''concept and symbol must be strings''
        else if (the_str concept, the_str symbol) \<in> set pairs
        then refuse DUPLICATE_SYMBOL ''duplicate concept tag''
        else if the_str symbol \<notin> set new_symbols
        then refuse SCHEMA_INVALID ''concept symbol must be in new_symbols''
        else check_concepts es new_symbols (pairs @ [(the_str concept, the_str symbol)]))"

definition check_symbols :: "json \<Rightarrow> (string list \<times> string list \<times> (string \<times> string) list) checked" where
  "check_symbols payload =
     (let new_symbols = the_list (jor (jget payload ''new_symbols'') (JList []));
          declared_deps = the_list (jor (jget payload ''declared_deps'') (JList []));
          concepts = jor (jget payload ''concepts'') (JList []) in
      bindr (try_it (has_duplicates new_symbols)) (\<lambda>dup_symbols.
      if dup_symbols then refuse DUPLICATE_SYMBOL ''duplicate new_symbols''
      else bindr (try_it (has_duplicates declared_deps)) (\<lambda>dup_deps.
      if dup_deps then refuse SCHEMA_INVALID ''duplicate declared_deps''
      else if \<exists>s \<in> set new_symbols. \<not> is_str s then refuse SCHEMA_INVALID ''new_symbols must be strings''
      else if \<exists>s \<in> set declared_deps. \<not> is_str s then refuse SCHEMA_INVALID ''declared_deps must be strings''
      else if \<not> is_list concepts then refuse SCHEMA_INVALID ''concepts must be a list''
      else bindr (check_concepts (the_list concepts) (map the_str new_symbols) []) (\<lambda>concept_pairs.
        Inr (map the_str new_symbols, map the_str declared_deps, concept_pairs)))))"

definition check_fresh :: "index_db \<Rightarrow> ledger_files \<Rightarrow> string list \<Rightarrow> string \<Rightarrow> unit checked" where
  "check_fresh db F new_symbols payload_hash =
     (case filter (symbol_exists db) new_symbols of
        s # ss \<Rightarrow> refuse FRESHNESS_VIOLATION (''symbol already exists: '' @ s)
      | [] \<Rightarrow>
          if lf_objects F (object_path payload_hash) \<noteq> None
          then Inl (Refuse (rejected HASH_CANON_MISMATCH ''payload already exists'' (Some payload_hash)) None)
          else Inr ())"

definition check_def_names :: "json list \<Rightarrow> string list \<Rightarrow> string list \<Rightarrow> unit checked" where
  "check_def_names definitions new_symbols declared_deps =
     bindr (try_it (mapr (\<lambda>d. jgetr d ''name'') definitions)) (\<lambda>def_names.
     if JNull \<in> set def_names then refuse SCHEMA_INVALID ''definition name missing''
     else bindr (try_it (has_duplicates def_names)) (\<lambda>dup.
     if dup then refuse DUPLICATE_SYMBOL ''duplicate definition names''
     else if set def_names \<noteq> JStr ` set new_symbols
     then refuse SCHEMA_INVALID ''new_symbols does not match definitions''
     else if \<exists>s \<in> set new_symbols. s \<in> set declared_deps
     then refuse DEPS_MISMATCH ''declared_deps includes new symbols''
     else Inr ()))"

definition check_deps :: "index_db \<Rightarrow> json list \<Rightarrow> json list \<Rightarrow> string list \<Rightarrow> string list \<Rightarrow> string list checked" where
  "check_deps db definitions specs new_symbols declared_deps =
     bindr (try_it (collect_sym_refs_in_defs definitions)) (\<lambda>refs1.
     bindr (try_it (collect_sym_refs_in_specs specs)) (\<lambda>refs2.
     let actual_deps = filter (\<lambda>s. s \<notin> set new_symbols) (set_update refs1 refs2);
         unknown = filter (\<lambda>s. \<not> symbol_exists db s) actual_deps in
     if unknown \<noteq> []
     then Inl (Refuse (rejected DEPS_MISMATCH ''unknown symbol reference'' (Some (join '', '' (sort unknown)))) None)
     else if set declared_deps \<noteq> set actual_deps
     then Inl (Refuse (rejected DEPS_MISMATCH ''declared_deps mismatch'' (Some '''')) None)
     else Inr actual_deps))"

fun check_stat_cert_fields :: "json list \<Rightarrow> string list \<Rightarrow> (string \<times> string) list \<Rightarrow> unit checked" where
  "check_stat_cert_fields [] new_symbols pairs = Inr ()"
| "check_stat_cert_fields (spec # specs) new_symbols pairs =
     (if jget spec ''kind'' \<noteq> JStr ''stat_cert'' then check_stat_cert_fields specs new_symbols pairs
      else let candidate = jget spec ''candidate_symbol''; baseline = jget spec ''baseline_symbol'';
               concept = jget spec ''concept''; eval_cfg = jor (jget spec ''eval'') (JObj []);
               oracle = (if is_obj eval_cfg then jget eval_cfg ''oracle_symbol'' else JNull) in
        if \<not> is_str candidate then refuse SCHEMA_INVALID ''stat_cert candidate_symbol must be string''
        else if \<not> is_str baseline then refuse SCHEMA_INVALID ''stat_cert baseline_symbol must be string''
        else if the_str candidate \<notin> set new_symbols
        then refuse SCHEMA_INVALID ''stat_cert candidate_symbol must be new''
        else if the_str baseline \<in> set new_symbols
        then refuse SCHEMA_INVALID ''stat_cert baseline_symbol must be existing''
        else if \<not> is_str concept then refuse SCHEMA_INVALID ''stat_cert concept must be string''
        else if (the_str concept, the_str candidate) \<notin> set pairs
        then refuse SCHEMA_INVALID ''stat_cert concept must match concept tag''
        else if \<not> is_str oracle then refuse SCHEMA_INVALID ''stat_cert oracle_symbol must be string''
        else if the_str oracle \<in> set new_symbols
        then refuse SCHEMA_INVALID ''stat_cert oracle_symbol must be existing''
        else check_stat_cert_fields specs new_symbols pairs)"

subsection \<open>The kernel checks and the cost\<close>

definition definition_type :: "kdef \<Rightarrow> ktype" where
  "definition_type defn = FunType (map p_typ (d_params defn)) (d_ret defn)"

definition types_of :: "(string \<times> kdef) list \<Rightarrow> sym_types" where
  "types_of defs name = map_option definition_type (map_of defs name)"

fun check_all :: "('a \<Rightarrow> 'b res) \<Rightarrow> 'a list \<Rightarrow> unit res" where
  "check_all f [] = Inr ()"
| "check_all f (x # xs) = bindr (f x) (\<lambda>_. check_all f xs)"

text \<open>Mutual recursion, types and termination of the new definitions, in this order.\<close>

definition kernel_checks :: "(string \<times> kdef) list \<Rightarrow> (string \<times> kdef) list \<Rightarrow> unit res" where
  "kernel_checks old_defs new_defs =
     bindr (check_no_mutual_recursion new_defs) (\<lambda>_.
     bindr (check_all (\<lambda>(n, d). typecheck_definition d (types_of old_defs ++ types_of new_defs)) new_defs) (\<lambda>_.
       check_all (\<lambda>(n, d). check_termination d) new_defs))"

definition has_stat_cert :: "json list \<Rightarrow> bool" where
  "has_stat_cert specs \<longleftrightarrow> (\<exists>spec \<in> set specs. jget spec ''kind'' = JStr ''stat_cert'')"

definition stat_context_of :: "sealed_config \<Rightarrow> int \<Rightarrow> stat_cert_context" where
  "stat_context_of sc round_start =
     \<lparr>ctx_alpha_total = sc_alpha_total sc, ctx_alpha_schedule = sc_alpha_schedule sc,
      ctx_round_start = round_start, ctx_allowed_keys = sc_allowed_keys sc,
      ctx_eval_harness_id = sc_eval_harness_id sc, ctx_eval_harness_hash = sc_eval_harness_hash sc,
      ctx_eval_suite_hash = sc_eval_suite_hash sc\<rparr>"

definition stat_context :: "json \<Rightarrow> index_db \<Rightarrow> json list
    \<Rightarrow> (stat_cert_context option \<times> int option \<times> string option) checked" where
  "stat_context data db specs =
     (if \<not> has_stat_cert specs then Inr (None, None, None)
      else
        (case load_sealed_config data True of
           Inl (InvalidOperation m) \<Rightarrow> Inl (Refuse (rejected SCHEMA_INVALID ''stat_cert sealed config invalid'' (Some m)) None)
         | Inl (ValueError m) \<Rightarrow> Inl (Refuse (rejected SCHEMA_INVALID ''stat_cert sealed config invalid'' (Some m)) None)
         | Inl e \<Rightarrow> Inl (Raise e)
         | Inr sc \<Rightarrow>
             bindr (case get_stat_cert_state db of
                      None \<Rightarrow> bindr (try_it (bindr (parse_decimal ''0'') format_decimal)) (\<lambda>z. Inr (1, z))
                    | Some (r, a) \<Rightarrow> Inr (r, a)) (\<lambda>(round_start, alpha_spent).
               Inr (Some (stat_context_of sc round_start), Some round_start, Some alpha_spent))))"

definition module_cost :: "json \<Rightarrow> int \<Rightarrow> int \<Rightarrow> int \<Rightarrow> int res" where
  "module_cost data ast_nodes spec_work index_impact =
     bindr (config_int data ''cost'' ''alpha'') (\<lambda>alpha.
     bindr (config_int data ''cost'' ''beta'') (\<lambda>beta.
     bindr (config_int data ''cost'' ''gamma'') (\<lambda>gamma.
       Inr (alpha * ast_nodes + beta * spec_work + gamma * index_impact))))"

definition definition_deps :: "json \<Rightarrow> (string \<times> string list) res" where
  "definition_deps defn =
     bindr (collect_sym_refs_in_defs [defn]) (\<lambda>refs.
       let name = the_str (jget defn ''name'') in Inr (name, filter (\<lambda>s. s \<noteq> name) refs))"

subsection \<open>The whole check\<close>

definition verify_checks :: "externals \<Rightarrow> json \<Rightarrow> ledger_files \<Rightarrow> index_db \<Rightarrow> int
    \<Rightarrow> json \<Rightarrow> string \<Rightarrow> string \<Rightarrow> accepted_module checked" where
  "verify_checks X data F db remaining payload payload_bytes payload_hash =
     (let definitions = the_list (jor (jget payload ''definitions'') (JList []));
          specs = the_list (jor (jget payload ''specs'') (JList [])) in
      bindr (check_symbols payload) (\<lambda>(new_symbols, declared_deps, concept_pairs).
      bindr (check_fresh db F new_symbols payload_hash) (\<lambda>_.
      bindr (check_def_names definitions new_symbols declared_deps) (\<lambda>_.
      bindr (check_deps db definitions specs new_symbols declared_deps) (\<lambda>actual_deps.
      bindr (check_stat_cert_fields specs new_symbols concept_pairs) (\<lambda>_.
      bindr (try_it (if actual_deps = [] then Inr [] else load_definitions F db actual_deps)) (\<lambda>old_defs.
      bindr (try_it (add_parsed definitions [])) (\<lambda>new_defs.
      bindr (try_it (kernel_checks old_defs new_defs)) (\<lambda>_.
      bindr (try_it (config_int data ''evaluator'' ''step_limit'')) (\<lambda>step_limit.
      bindr (stat_context data db specs) (\<lambda>(stat_ctx, stat_round_start, stat_alpha_spent).
      bindr (try_it (check_specs X specs (map_of old_defs ++ map_of new_defs)
               (types_of old_defs ++ types_of new_defs) step_limit stat_ctx)) (\<lambda>stats.
      let ast_nodes = sum_list (map (\<lambda>(n, d). count_term_nodes (d_body d)) new_defs);
          index_impact = int (length new_symbols) + int (length actual_deps) + int (length new_symbols) in
      bindr (try_it (module_cost data ast_nodes (st_spec_work stats) index_impact)) (\<lambda>cost.
      if cost > remaining
      then Inl (Refuse (rejected CAPACITY_EXCEEDED ''capacity exceeded'' (Some (int_str cost)))
             (Some (cost, st_spec_work stats)))
      else
        bindr (try_it (mapr definition_deps definitions)) (\<lambda>per_symbol_deps.
          Inr \<lparr>am_payload_hash = payload_hash, am_payload_bytes = payload_bytes, am_payload = payload,
            am_cost = cost, am_spec_work = st_spec_work stats,
            am_symbol_types = map (\<lambda>(n, d). (n, definition_type d)) new_defs,
            am_defs = new_defs, am_actual_deps = actual_deps, am_symbol_deps = per_symbol_deps,
            am_stat_cert_count = st_stat_cert_count stats,
            am_stat_round_start = stat_round_start, am_stat_alpha_spent = stat_alpha_spent\<rparr>))))))))))))))"

text \<open>The \<open>except\<close> clauses.\<close>

fun catch_verify :: "stop \<Rightarrow> verification_result res" where
  "catch_verify (Refuse r c) = Inr (Refused r c)"
| "catch_verify (Raise (ValueError m)) =
     Inr (reject_because SCHEMA_INVALID ''schema validation failed'' (Some m))"
| "catch_verify (Raise (KernelTypeError m)) = Inr (reject_because TYPE_ERROR ''type error'' (Some m))"
| "catch_verify (Raise (MutualRecursionError m)) =
     Inr (reject_because MUTUAL_RECURSION_FORBIDDEN ''mutual recursion not allowed'' (Some m))"
| "catch_verify (Raise (TerminationError m)) =
     Inr (reject_because TERMINATION_FAIL ''termination check failed'' (Some m))"
| "catch_verify (Raise (SpecError m)) = Inr (reject_because SPEC_FAIL ''spec check failed'' (Some m))"
| "catch_verify (Raise e) = Inl e"

definition finish :: "accepted_module checked \<Rightarrow> verification_result res" where
  "finish r = (case r of Inl s \<Rightarrow> catch_verify s | Inr m \<Rightarrow> Inr (Accepted m))"

definition verify_module :: "externals \<Rightarrow> json \<Rightarrow> ledger \<Rightarrow> json \<Rightarrow> verification_result res \<times> ledger" where
  "verify_module X data W module =
     (case verify_payload X (l_files W) module of
        Inl s \<Rightarrow> (catch_verify s, W)
      | Inr (payload, payload_bytes, payload_hash) \<Rightarrow>
          (case open_index data (l_index W) of
             (Inl e, db) \<Rightarrow> (catch_verify (Raise e), W\<lparr>l_index := db\<rparr>)
           | (Inr remaining, db) \<Rightarrow>
               (finish (verify_checks X data (l_files W) db remaining payload payload_bytes payload_hash),
                W\<lparr>l_index := db\<rparr>)))"

subsection \<open>Committing a verified module\<close>

fun spend_alpha :: "sealed_config \<Rightarrow> int \<Rightarrow> nat \<Rightarrow> decimal \<Rightarrow> decimal res" where
  "spend_alpha sc round_start 0 spent = Inr spent"
| "spend_alpha sc round_start (Suc n) spent =
     bindr (alpha_for_round (sc_alpha_total sc) round_start (sc_alpha_schedule sc)) (\<lambda>a.
     bindr (dec_add spent a) (\<lambda>spent'. spend_alpha sc (round_start + 1) n spent'))"

fun insert_all_sym_deps :: "(string \<times> string list) list \<Rightarrow> index_db \<Rightarrow> index_db" where
  "insert_all_sym_deps [] db = db"
| "insert_all_sym_deps ((name, deps) # rest) db = insert_all_sym_deps rest (insert_sym_deps name deps db)"

text \<open>The inserts both the commit and the rebuild make for a module.\<close>

definition insert_module_rows :: "string \<Rightarrow> string \<Rightarrow> string \<Rightarrow> int \<Rightarrow> int \<Rightarrow> (string \<times> ktype) list
    \<Rightarrow> (string \<times> string) list \<Rightarrow> string list \<Rightarrow> (string \<times> string list) list \<Rightarrow> (string \<times> string) list
    \<Rightarrow> json list \<Rightarrow> index_db \<Rightarrow> index_db res" where
  "insert_module_rows module_hash parent_hash payload_bytes cost now symbol_types def_hashes deps
       symbol_deps alias_map concepts db =
     bindr (insert_module module_hash parent_hash payload_bytes cost now db) (\<lambda>db.
     bindr (insert_symbols symbol_types def_hashes module_hash db) (\<lambda>db.
     bindr (insert_def_hashes def_hashes module_hash db) (\<lambda>db.
     bindr (insert_aliases alias_map (insert_type_index symbol_types
              (insert_all_sym_deps symbol_deps (insert_deps module_hash deps db)))) (\<lambda>db.
     bindr (insert_concepts concepts module_hash db) (\<lambda>db.
       insert_index_impact \<lparr>ir_module_hash = module_hash, ir_symbols_count = int (length symbol_types),
         ir_deps_count = int (length deps),
         ir_sym_deps_count = sum_list (map (\<lambda>(n, ds). int (length ds)) symbol_deps),
         ir_type_index_count = int (length symbol_types),
         ir_def_hashes_count = int (length def_hashes)\<rparr> db)))))"

definition alias_map_of :: "(string \<times> kdef) list \<Rightarrow> (string \<times> string) list" where
  "alias_map_of defs = concat (map (\<lambda>(name, defn).
     case alias_target defn of Some target \<Rightarrow> if target = [] then [] else [(name, target)] | None \<Rightarrow> []) defs)"

definition named_hash :: "externals \<Rightarrow> json \<Rightarrow> (string \<times> string) res" where
  "named_hash X defn =
     bindr (definition_hash (x_blake3 X) defn) (\<lambda>h. Inr (the_str (jget defn ''name''), h))"

text \<open>The body of the transaction.\<close>

definition commit_index :: "json \<Rightarrow> string \<Rightarrow> int \<Rightarrow> accepted_module \<Rightarrow> (string \<times> string) list \<Rightarrow> int
    \<Rightarrow> index_db \<Rightarrow> index_db res" where
  "commit_index data parent now m def_hashes remaining db =
     bindr (insert_module_rows (am_payload_hash m) parent (am_payload_bytes m) (am_cost m) now
              (am_symbol_types m) def_hashes (am_actual_deps m) (am_symbol_deps m)
              (alias_map_of (am_defs m))
              (the_list (jor (jget (am_payload m) ''concepts'') (JList []))) db) (\<lambda>db.
     bindr (update_budget (remaining - am_cost m) db) (\<lambda>db.
     if am_stat_cert_count m \<le> 0 then Inr db
     else
       bindr (load_sealed_config data True) (\<lambda>sc.
       let round_start = (case am_stat_round_start m of None \<Rightarrow> 1 | Some r \<Rightarrow> if r = 0 then 1 else r);
           alpha0 = (case am_stat_alpha_spent m of None \<Rightarrow> ''0'' | Some a \<Rightarrow> if a = [] then ''0'' else a) in
       bindr (parse_decimal alpha0) (\<lambda>spent0.
       bindr (spend_alpha sc round_start (nat (am_stat_cert_count m)) spent0) (\<lambda>spent.
       bindr (format_decimal spent) (\<lambda>text.
         set_stat_cert_state (round_start + am_stat_cert_count m) text db))))))"

text \<open>The files a commit writes; the flag is that of the order log.\<close>

definition commit_files :: "json \<Rightarrow> accepted_module \<Rightarrow> ledger_files \<Rightarrow> bool \<times> ledger_files" where
  "commit_files module m F =
     (let F1 = write_object (am_payload_hash m) (am_payload_bytes m) F;
          meta = jget module ''meta'';
          F2 = (if is_obj meta \<and> truthy meta then write_meta (am_payload_hash m) meta F1 else F1);
          (appended, F3) = append_order_log (am_payload_hash m) F2
      in (appended, if appended then write_head (am_payload_hash m) F3 else F3))"

text \<open>An exception inside the transaction rolls it back and is only logged.\<close>

definition commit_module :: "externals \<Rightarrow> json \<Rightarrow> int \<Rightarrow> ledger \<Rightarrow> json \<Rightarrow> verification_result res \<times> ledger" where
  "commit_module X data now W module =
     (case verify_module X data W module of
        (Inr (Accepted m), W1) \<Rightarrow>
          (let (appended, F) = commit_files module m (l_files W1); W2 = W1\<lparr>l_files := F\<rparr> in
           if \<not> appended then (Inr (Accepted m), W2)
           else
             (case open_index data (l_index W2) of
                (Inl e, db) \<Rightarrow> (Inl e, W2\<lparr>l_index := db\<rparr>)
              | (Inr remaining, db) \<Rightarrow>
                  (case mapr (named_hash X) (the_list (jget (am_payload m) ''definitions'')) of
                     Inl e \<Rightarrow> (Inl e, W2\<lparr>l_index := db\<rparr>)
                   | Inr def_hashes \<Rightarrow>
                       (case commit_index data (the_str (jget module ''parent'')) now m def_hashes remaining db of
                          Inl e \<Rightarrow> (Inr (Accepted m), W2\<lparr>l_index := db\<rparr>)
                        | Inr db' \<Rightarrow> (Inr (Accepted m), W2\<lparr>l_index := db'\<rparr>)))))
      | (r, W1) \<Rightarrow> (r, W1))"

end
