(* ===== verification/Ledger_Audit.thy ===== *)
theory Ledger_Audit
  imports Ledger_Verifier
begin

section \<open>Audit and rebuild (ledger/audit.py, ledger/rebuild.py)\<close>

text \<open>
  The audit replays the order log from nothing: the stored bytes must be canonical and hash to
  their name, no symbol may be defined twice, and the full audit repeats the checks of the
  verifier. The rebuild recomputes the index. A connection has the state that was committed and
  the state its open transaction sees; what is not committed when it is closed is lost.
\<close>

subsection \<open>The objects of the log\<close>

text \<open>Reading an object and checking that it is canonical and has its hash.\<close>

definition read_canonical :: "externals \<Rightarrow> ledger_files \<Rightarrow> string \<Rightarrow> exn \<Rightarrow> exn \<Rightarrow> (json \<times> string) res" where
  "read_canonical X F module_hash not_canonical not_hash =
     bindr (read_object F module_hash) (\<lambda>payload_bytes.
     bindr (bindr (utf8_decode payload_bytes) loads) (\<lambda>payload.
     bindr (canonicalize_payload payload) (\<lambda>canon_payload.
     if canonical_json_bytes canon_payload \<noteq> payload_bytes then Inl not_canonical
     else if payload_hash_hex (x_blake3 X) canon_payload \<noteq> module_hash then Inl not_hash
     else Inr (canon_payload, payload_bytes))))"

subsection \<open>The full audit of a module\<close>

record audit_state =
  au_seen :: "(string \<times> string) list"
  au_defs :: "(string \<times> kdef) list"
  au_module_count :: int
  au_stat_round :: int
  au_sealed :: "sealed_config option"
  au_alpha_spent :: decimal

text \<open>\<open>f"module {module_count} ..."\<close>.\<close>

definition module_error :: "int \<Rightarrow> string \<Rightarrow> exn" where
  "module_error n msg = AuditError (''module '' @ int_str n @ '' '' @ msg)"

fun audit_concepts :: "int \<Rightarrow> json list \<Rightarrow> json list \<Rightarrow> (string \<times> string) list \<Rightarrow> unit res" where
  "audit_concepts n [] new_symbols pairs = Inr ()"
| "audit_concepts n (entry # es) new_symbols pairs =
     (if \<not> is_obj entry then Inl (module_error n ''concept entry must be an object'')
      else let concept = jget entry ''concept''; symbol = jget entry ''symbol'' in
        if \<not> is_str concept \<or> \<not> is_str symbol then Inl (module_error n ''concept fields must be strings'')
        else if (the_str concept, the_str symbol) \<in> set pairs then Inl (module_error n ''duplicate concept tag'')
        else if symbol \<notin> set new_symbols then Inl (module_error n ''concept symbol not in new_symbols'')
        else audit_concepts n es new_symbols (pairs @ [(the_str concept, the_str symbol)]))"

text \<open>The inner \<open>try\<close>: kernel errors become audit errors.\<close>

fun audit_catch :: "int \<Rightarrow> 'a res \<Rightarrow> 'a res" where
  "audit_catch n (Inl (KernelTypeError m)) = Inl (module_error n (''kernel check failed: '' @ m))"
| "audit_catch n (Inl (MutualRecursionError m)) = Inl (module_error n (''kernel check failed: '' @ m))"
| "audit_catch n (Inl (TerminationError m)) = Inl (module_error n (''kernel check failed: '' @ m))"
| "audit_catch n (Inl (SpecError m)) = Inl (module_error n (''kernel check failed: '' @ m))"
| "audit_catch n r = r"

definition audit_full_module :: "externals \<Rightarrow> json \<Rightarrow> json \<Rightarrow> (string \<times> kdef) list \<Rightarrow> int \<Rightarrow> int \<Rightarrow> sealed_config option
    \<Rightarrow> (spec_stats \<times> (string \<times> kdef) list) res" where
  "audit_full_module X data payload defs n stat_round sealed_cfg =
     (let new_symbols = the_list (jor (jget payload ''new_symbols'') (JList []));
          declared_deps = the_list (jor (jget payload ''declared_deps'') (JList []));
          definitions = the_list (jor (jget payload ''definitions'') (JList []));
          specs = the_list (jor (jget payload ''specs'') (JList []));
          concepts = jor (jget payload ''concepts'') (JList []) in
      if \<not> is_list concepts then Inl (module_error n ''concepts must be a list'')
      else
        bindr (audit_concepts n (the_list concepts) new_symbols []) (\<lambda>_.
        bindr (collect_sym_refs_in_defs definitions) (\<lambda>refs1.
        bindr (collect_sym_refs_in_specs specs) (\<lambda>refs2.
        if \<exists>s \<in> set new_symbols. \<not> hashable s then Inl (PyTypeError ''unhashable type'')
        else
          let actual_deps = filter (\<lambda>s. JStr s \<notin> set new_symbols) (set_update refs1 refs2);
              unknown = filter (\<lambda>s. s \<notin> fst ` set defs) actual_deps in
          if unknown \<noteq> [] then Inl (module_error n (''unknown deps: '' @ join '', '' (sort unknown)))
          else if \<exists>s \<in> set declared_deps. \<not> hashable s then Inl (PyTypeError ''unhashable type'')
          else if set declared_deps \<noteq> JStr ` set actual_deps then Inl (module_error n ''declared_deps mismatch'')
          else
            bindr (add_parsed definitions []) (\<lambda>new_defs.
            bindr (audit_catch n
              (bindr (kernel_checks defs new_defs) (\<lambda>_.
               bindr (config_int data ''evaluator'' ''step_limit'') (\<lambda>step_limit.
               bindr (if \<not> has_stat_cert specs then Inr None
                      else case sealed_cfg of
                          None \<Rightarrow> Inl (module_error n ''stat_cert config missing'')
                        | Some sc \<Rightarrow> Inr (Some (stat_context_of sc stat_round))) (\<lambda>stat_ctx.
                 check_specs X specs (map_of defs ++ map_of new_defs)
                   (types_of defs ++ types_of new_defs) step_limit stat_ctx))))) (\<lambda>stats.
              Inr (stats, dict_update defs new_defs)))))))"

subsection \<open>The audit\<close>

fun audit_names :: "externals \<Rightarrow> int \<Rightarrow> json list \<Rightarrow> (string \<times> string) list \<Rightarrow> (string \<times> string) list res" where
  "audit_names X n [] seen = Inr seen"
| "audit_names X n (defn # ds) seen =
     (let name = jget defn ''name'' in
      if \<not> hashable name then Inl (PyTypeError ''unhashable type'')
      else if \<not> is_str name then Inl (Unmodelled ''definition name'')
      else if the_str name \<in> fst ` set seen then Inl (module_error n (''symbol redefinition: '' @ the_str name))
      else bindr (definition_hash (x_blake3 X) defn) (\<lambda>h. audit_names X n ds (seen @ [(the_str name, h)])))"

definition audit_module :: "externals \<Rightarrow> json \<Rightarrow> ledger_files \<Rightarrow> bool \<Rightarrow> audit_state \<Rightarrow> string \<Rightarrow> audit_state res" where
  "audit_module X data F full S module_hash =
     (let n = au_module_count S + 1; S1 = S\<lparr>au_module_count := n\<rparr> in
     bindr (read_canonical X F module_hash (module_error n ''non-canonical payload'') (module_error n ''hash mismatch''))
       (\<lambda>(payload, payload_bytes).
     let definitions = the_list (jor (jget payload ''definitions'') (JList []));
         specs = the_list (jor (jget payload ''specs'') (JList [])) in
     bindr (audit_names X n definitions (au_seen S)) (\<lambda>seen.
     if \<not> full then Inr (S1\<lparr>au_seen := seen\<rparr>)
     else
       bindr (if au_sealed S = None \<and> has_stat_cert specs
              then bindr (load_sealed_config data True) (\<lambda>sc. Inr (Some sc))
              else Inr (au_sealed S)) (\<lambda>sealed_cfg.
       bindr (audit_full_module X data payload (au_defs S) n (au_stat_round S) sealed_cfg) (\<lambda>(stats, defs).
       bindr (case sealed_cfg of
                None \<Rightarrow> Inr (au_alpha_spent S)
              | Some sc \<Rightarrow> spend_alpha sc (au_stat_round S) (nat (st_stat_cert_count stats)) (au_alpha_spent S)) (\<lambda>spent.
         Inr (S1\<lparr>au_seen := seen, au_defs := defs,
           au_stat_round := au_stat_round S + st_stat_cert_count stats,
           au_sealed := sealed_cfg, au_alpha_spent := spent\<rparr>)))))))"

fun audit_modules :: "externals \<Rightarrow> json \<Rightarrow> ledger_files \<Rightarrow> bool \<Rightarrow> string list \<Rightarrow> audit_state \<Rightarrow> audit_state res" where
  "audit_modules X data F full [] S = Inr S"
| "audit_modules X data F full (h # hs) S =
     bindr (audit_module X data F full S h) (\<lambda>S'. audit_modules X data F full hs S')"

fun check_def_hashes :: "index_db \<Rightarrow> (string \<times> string) list \<Rightarrow> unit res" where
  "check_def_hashes db [] = Inr ()"
| "check_def_hashes db ((symbol, def_hash) # seen) =
     (case get_def_hash db symbol of
        None \<Rightarrow> Inl (AuditError (''def_hash missing in index: '' @ symbol))
      | Some stored \<Rightarrow>
          if stored \<noteq> def_hash then Inl (AuditError (''def_hash mismatch for '' @ symbol)) else check_def_hashes db seen)"

text \<open>An index file that does not exist is one whose schema was never initialised.\<close>

definition check_def_hash_index :: "index_db \<Rightarrow> (string \<times> string) list \<Rightarrow> unit res" where
  "check_def_hash_index db seen =
     (if ix_schema_version db = None then Inr ()
      else bindr (init_schema db) (\<lambda>db.
        if ix_def_hashes db = [] then Inr () else check_def_hashes db seen))"

record audit_result =
  ad_modules :: int
  ad_symbols :: int
  ad_head :: string
  ad_stat_cert_round :: "int option"

definition audit_start :: audit_state where
  "audit_start = \<lparr>au_seen = [], au_defs = [], au_module_count = 0, au_stat_round = 1, au_sealed = None,
     au_alpha_spent = Fin False 0 0\<rparr>"

definition audit_stat_state :: "index_db \<Rightarrow> audit_state \<Rightarrow> unit res" where
  "audit_stat_state db S =
     (case get_stat_cert_state db of
        None \<Rightarrow> Inr ()
      | Some (rnd, alpha) \<Rightarrow>
          if rnd \<noteq> au_stat_round S then Inl (AuditError ''stat_cert round mismatch in index'')
          else bindr (format_decimal (au_alpha_spent S)) (\<lambda>text.
            if text \<noteq> alpha then Inl (AuditError ''stat_cert alpha_spent mismatch in index'') else Inr ()))"

definition audit_ledger :: "externals \<Rightarrow> json \<Rightarrow> ledger \<Rightarrow> bool \<Rightarrow> audit_result res \<times> index_db" where
  "audit_ledger X data W full =
     (let F = l_files W; db = l_index W in
      case bindr (audit_modules X data F full (iter_order_log F) audit_start) (\<lambda>S.
             bindr (check_def_hash_index db (au_seen S)) (\<lambda>_. Inr S)) of
        Inl e \<Rightarrow> (Inl e, db)
      | Inr S \<Rightarrow>
          let result = \<lparr>ad_modules = au_module_count S, ad_symbols = int (length (au_seen S)),
                ad_head = read_head F, ad_stat_cert_round = None\<rparr> in
          if au_sealed S = None then (Inr result, db)
          else
            (case init_schema db of
               Inl e \<Rightarrow> (Inl e, db)
             | Inr db1 \<Rightarrow>
                 (case audit_stat_state db1 S of
                    Inl e \<Rightarrow> (Inl e, db1)
                  | Inr u \<Rightarrow> (Inr (result\<lparr>ad_stat_cert_round := Some (au_stat_round S)\<rparr>), db1))))"

text \<open>\<open>audit_run\<close>: both audits, a record for each, and the marker files of those that passed.\<close>

record audit_dir =
  dir_records :: "string \<Rightarrow> audit_result res option"
  dir_ok :: "string \<Rightarrow> bool"

definition record_audit :: "string \<Rightarrow> audit_result res \<Rightarrow> audit_dir \<Rightarrow> audit_dir" where
  "record_audit label r d =
     d\<lparr>dir_records := (dir_records d)(label := Some r),
       dir_ok := (dir_ok d)(label := (case r of Inl e \<Rightarrow> False | Inr x \<Rightarrow> True))\<rparr>"

definition audit_run :: "externals \<Rightarrow> json \<Rightarrow> ledger \<Rightarrow> audit_dir
    \<Rightarrow> (string \<times> audit_result) list res \<times> audit_dir \<times> index_db" where
  "audit_run X data W out_dir =
     (let (fast, db1) = audit_ledger X data W False;
          d1 = record_audit ''fast'' fast out_dir;
          (full, db2) = audit_ledger X data (W\<lparr>l_index := db1\<rparr>) True;
          d2 = record_audit ''full'' full d1 in
      (case (fast, full) of
         (Inr a, Inr b) \<Rightarrow> Inr [(''fast'', a), (''full'', b)]
       | _ \<Rightarrow> Inl (AuditError ''audit failed: ''), d2, db2))"

subsection \<open>Rebuilding the index\<close>

record connection =
  cn_durable :: index_db
  cn_working :: index_db

definition clear_tables :: "index_db \<Rightarrow> index_db" where
  "clear_tables db =
     db\<lparr>ix_modules := [], ix_symbols := [], ix_def_hashes := [], ix_deps := [], ix_sym_deps := [],
        ix_type_index := [], ix_aliases := [], ix_concepts := [], ix_index_impact := [],
        ix_budget := None, ix_rejections := [], ix_stat_cert_state := None\<rparr>"

definition recompute_cost :: "json \<Rightarrow> kdef list \<Rightarrow> string list \<Rightarrow> json \<Rightarrow> int res" where
  "recompute_cost payload defs module_deps data =
     (let claim = jget payload ''capacity_claim'';
          n = int (length (the_list (jor (jget payload ''new_symbols'') (JList [])))) in
      bindr (if truthy claim then
               bindr (jgetr claim ''ast_nodes'') (\<lambda>a. bindr (py_int a) (\<lambda>ast_nodes.
               bindr (py_int (jget claim ''spec_work'')) (\<lambda>spec_work.
               bindr (py_int (jget claim ''index_impact'')) (\<lambda>index_impact.
                 Inr (ast_nodes, spec_work, index_impact)))))
             else Inr (sum_list (map (\<lambda>d. count_term_nodes (d_body d)) defs), 0, n + int (length module_deps) + n))
        (\<lambda>(ast_nodes, spec_work, index_impact). module_cost data ast_nodes spec_work index_impact))"

record rebuild_state =
  rb_remaining :: int
  rb_head :: string
  rb_stat_round :: int
  rb_alpha_spent :: decimal
  rb_sealed :: "sealed_config option"

fun rebuild_stat :: "json \<Rightarrow> json list \<Rightarrow> rebuild_state \<Rightarrow> rebuild_state res" where
  "rebuild_stat data [] R = Inr R"
| "rebuild_stat data (spec # specs) R =
     (if jget spec ''kind'' \<noteq> JStr ''stat_cert'' then rebuild_stat data specs R
      else
        bindr (case rb_sealed R of Some sc \<Rightarrow> Inr sc | None \<Rightarrow> load_sealed_config data False) (\<lambda>sc.
        bindr (alpha_for_round (sc_alpha_total sc) (rb_stat_round R) (sc_alpha_schedule sc)) (\<lambda>a.
        bindr (dec_add (rb_alpha_spent R) a) (\<lambda>spent.
          rebuild_stat data specs (R\<lparr>rb_sealed := Some sc, rb_alpha_spent := spent,
            rb_stat_round := rb_stat_round R + 1\<rparr>)))))"

definition json_dep_names :: "json list \<Rightarrow> string list res" where
  "json_dep_names xs =
     (if \<exists>x \<in> set xs. \<not> hashable x then Inl (PyTypeError ''unhashable type'')
      else if \<exists>x \<in> set xs. \<not> is_str x then Inl (Unmodelled ''declared_deps'')
      else Inr (remdups (map the_str xs)))"

text \<open>The references of a definition by \<open>collect_sym_refs(defn.get("body"))\<close>.\<close>

definition body_deps :: "json \<Rightarrow> (string \<times> string list) res" where
  "body_deps defn =
     bindr (collect_sym_refs (jget defn ''body'')) (\<lambda>refs.
       let name = the_str (jget defn ''name'') in Inr (name, filter (\<lambda>s. s \<noteq> name) refs))"

text \<open>What the loop computes for a module before its transaction.\<close>

definition rebuild_rows :: "externals \<Rightarrow> json \<Rightarrow> ledger_files \<Rightarrow> int \<Rightarrow> string \<Rightarrow> rebuild_state
    \<Rightarrow> (json \<times> int \<times> (index_db \<Rightarrow> index_db res)) res" where
  "rebuild_rows X data F now module_hash R =
     bindr (read_canonical X F module_hash (ValueError (''non-canonical payload bytes for '' @ module_hash))
       (ValueError (''hash mismatch for module '' @ module_hash)))
       (\<lambda>(payload, payload_bytes).
     let definitions = the_list (jor (jget payload ''definitions'') (JList [])) in
     bindr (mapr parse_definition definitions) (\<lambda>new_defs.
     bindr (mapr (named_hash X) definitions) (\<lambda>def_hashes.
     bindr (json_dep_names (the_list (jor (jget payload ''declared_deps'') (JList [])))) (\<lambda>module_deps.
     bindr (mapr body_deps definitions) (\<lambda>per_symbol_deps.
     bindr (recompute_cost payload new_defs module_deps data) (\<lambda>cost.
     let named = map (\<lambda>d. (d_name d, d)) new_defs in
       Inr (payload, cost, insert_module_rows module_hash (rb_head R) payload_bytes cost now
         (dict_update [] (map (\<lambda>(n, d). (n, definition_type d)) named)) (dict_update [] def_hashes)
         module_deps (dict_update [] per_symbol_deps) (dict_update [] (alias_map_of named))
         (the_list (jor (jget payload ''concepts'') (JList []))))))))))"

text \<open>One module: its transaction is committed, or rolled back and the exception goes on.\<close>

definition rebuild_module :: "externals \<Rightarrow> json \<Rightarrow> ledger_files \<Rightarrow> int \<Rightarrow> string \<Rightarrow> rebuild_state \<Rightarrow> connection
    \<Rightarrow> rebuild_state res \<times> connection" where
  "rebuild_module X data F now module_hash R conn =
     (case rebuild_rows X data F now module_hash R of
        Inl e \<Rightarrow> (Inl e, conn)
      | Inr (payload, cost, insert_rows) \<Rightarrow>
          (case bindr (insert_rows (cn_working conn)) (\<lambda>db.
                bindr (update_budget (rb_remaining R - cost) db) (\<lambda>db.
                bindr (rebuild_stat data (the_list (jor (jget payload ''specs'') (JList []))) R) (\<lambda>R'.
                  Inr (db, R'\<lparr>rb_remaining := rb_remaining R - cost, rb_head := module_hash\<rparr>)))) of
             Inl e \<Rightarrow> (Inl e, conn\<lparr>cn_working := cn_durable conn\<rparr>)
           | Inr (db, R') \<Rightarrow> (Inr R', \<lparr>cn_durable = db, cn_working = db\<rparr>)))"

fun rebuild_modules :: "externals \<Rightarrow> json \<Rightarrow> ledger_files \<Rightarrow> int \<Rightarrow> string list \<Rightarrow> rebuild_state \<Rightarrow> connection
    \<Rightarrow> rebuild_state res \<times> connection" where
  "rebuild_modules X data F now [] R conn = (Inr R, conn)"
| "rebuild_modules X data F now (h # hs) R conn =
     (case rebuild_module X data F now h R conn of
        (Inl e, conn') \<Rightarrow> (Inl e, conn')
      | (Inr R', conn') \<Rightarrow> rebuild_modules X data F now hs R' conn')"

text \<open>
  The last statement sets the certificate state outside of any \<open>with conn\<close> block and nothing
  commits it afterwards, so the durable index does not see it.
\<close>

definition rebuild_index :: "externals \<Rightarrow> json \<Rightarrow> int \<Rightarrow> ledger \<Rightarrow> unit res \<times> ledger" where
  "rebuild_index X data now W =
     (case init_schema (l_index W) of
        Inl e \<Rightarrow> (Inl e, W)
      | Inr db \<Rightarrow>
          let cleared = clear_tables db; W1 = W\<lparr>l_index := cleared\<rparr> in
          (case bindr (config_int data ''ledger'' ''budget'') (\<lambda>n. bindr (set_budget n cleared) (\<lambda>db. Inr (n, db))) of
             Inl e \<Rightarrow> (Inl e, W1)
           | Inr (remaining, working) \<Rightarrow>
               (case rebuild_modules X data (l_files W) now (iter_order_log (l_files W))
                   \<lparr>rb_remaining = remaining, rb_head = genesis_hash, rb_stat_round = 1,
                    rb_alpha_spent = Fin False 0 0, rb_sealed = None\<rparr>
                   \<lparr>cn_durable = cleared, cn_working = working\<rparr> of
                  (Inl e, conn) \<Rightarrow> (Inl e, W1\<lparr>l_index := cn_durable conn\<rparr>)
                | (Inr R, conn) \<Rightarrow>
                    let W2 = W1\<lparr>l_files := write_head (rb_head R) (l_files W1), l_index := cn_durable conn\<rparr> in
                    if rb_stat_round R > 1
                    then (bindr (format_decimal (rb_alpha_spent R)) (\<lambda>text.
                        bindr (set_stat_cert_state (rb_stat_round R) text (cn_working conn)) (\<lambda>_. Inr ())), W2)
                    else (Inr (), W2))))"

end
