(* ===== verification/Ledger_Recursion.thy ===== *)
theory Ledger_Recursion
  imports Ledger_Audit Kernel_Halting
begin

section \<open>The mutual recursion check is exact\<close>

text \<open>
  The depth-first search of \<open>check_no_mutual_recursion\<close> succeeds exactly when the calls among
  the new definitions have no cycle. Adding such definitions to a program whose calls are well
  founded and closed keeps the calls well founded, and with it termination.
\<close>

subsection \<open>The search finds a topological order\<close>

definition graph_edges :: "(string \<times> string list) list \<Rightarrow> (string \<times> string) set" where
  "graph_edges g = {(a, b). \<exists>ss. map_of g a = Some ss \<and> b \<in> set ss}"

fun topo :: "(string \<times> string list) list \<Rightarrow> string list \<Rightarrow> bool" where
  "topo g [] \<longleftrightarrow> True"
| "topo g (n # ns) \<longleftrightarrow> n \<notin> set ns \<and> (\<exists>ss. map_of g n = Some ss \<and> set ss \<subseteq> set ns) \<and> topo g ns"

lemma visit_nodes_topo:
  assumes "visit_nodes g temp nodes perm = Inr perm'" and "topo g perm"
  shows "topo g perm' \<and> set nodes \<subseteq> set perm' \<and> set perm \<subseteq> set perm'
    \<and> set perm' \<inter> set temp = set perm \<inter> set temp"
  using assms
proof (induction g temp nodes perm arbitrary: perm' rule: visit_nodes.induct)
  case (1 g temp perm)
  then show ?case by simp
next
  case (2 g temp node nodes perm)
  show ?case
  proof (cases "node \<in> set perm")
    case True
    with 2 show ?thesis by auto
  next
    case new: False
    with 2(4) obtain ss perm1 where steps: "node \<notin> set temp" "map_of g node = Some ss"
      "visit_nodes g (node # temp) ss perm = Inr perm1" "visit_nodes g temp nodes (node # perm1) = Inr perm'"
      by (auto split: if_split_asm option.split_asm)
    have one: "topo g perm1 \<and> set ss \<subseteq> set perm1 \<and> set perm \<subseteq> set perm1
        \<and> set perm1 \<inter> set (node # temp) = set perm \<inter> set (node # temp)"
      by (rule 2(2) [OF new steps(1-3) 2(5)])
    with new have fresh: "node \<notin> set perm1" by auto
    have "topo g (node # perm1)" using one fresh steps(2) by simp
    from 2(3) [OF new steps(1-4) this] one steps(1) show ?thesis by auto
  qed
qed

fun rank :: "string list \<Rightarrow> string \<Rightarrow> nat" where
  "rank [] a = 0"
| "rank (n # ns) a = (if a = n then Suc (length ns) else rank ns a)"

lemma rank_le: "rank ns a \<le> length ns"
  by (induction ns) auto

lemma topo_rank:
  "topo g ns \<Longrightarrow> a \<in> set ns \<Longrightarrow> (a, b) \<in> graph_edges g \<Longrightarrow> b \<in> set ns \<and> rank ns b < rank ns a"
  by (induction ns) (auto simp: graph_edges_def less_Suc_eq_le rank_le)

lemma visit_nodes_wf:
  assumes "visit_nodes g [] (map fst g) [] = Inr perm"
  shows "wf ((graph_edges g)\<inverse>)"
proof -
  from visit_nodes_topo [OF assms] have perm: "topo g perm" "fst ` set g \<subseteq> set perm" by auto
  have "(graph_edges g)\<inverse> \<subseteq> measure (rank perm)"
  proof (rule subrelI)
    fix b a assume "(b, a) \<in> (graph_edges g)\<inverse>"
    then have e: "(a, b) \<in> graph_edges g" by simp
    then have "a \<in> fst ` set g" by (force simp: graph_edges_def dest: map_of_SomeD)
    with perm(2) have "a \<in> set perm" by blast
    with topo_rank [OF perm(1) _ e] show "(b, a) \<in> measure (rank perm)" by simp
  qed
  then show ?thesis by (rule wf_subset [OF wf_measure])
qed

text \<open>Conversely a search that fails has found a cycle.\<close>

lemma visit_nodes_cycle:
  assumes "visit_nodes g temp nodes perm = Inl e" and "set nodes \<subseteq> fst ` set g"
    and "\<forall>(a, b) \<in> graph_edges g. b \<in> fst ` set g"
    and "\<forall>t \<in> set temp. \<forall>n \<in> set nodes. (t, n) \<in> (graph_edges g)\<^sup>+"
  shows "e = MutualRecursionError ''mutual recursion is not allowed'' \<and> (\<exists>x. (x, x) \<in> (graph_edges g)\<^sup>+)"
  using assms
proof (induction g temp nodes perm rule: visit_nodes.induct)
  case (1 g temp perm)
  then show ?case by simp
next
  case (2 g temp node nodes perm)
  show ?case
  proof (cases "node \<in> set perm")
    case True
    with 2 show ?thesis by auto
  next
    case new: False
    show ?thesis
    proof (cases "node \<in> set temp")
      case True
      with 2(4,7) new show ?thesis by auto
    next
      case off: False
      from 2(5) have "map_of g node \<noteq> None" by (auto simp: map_of_eq_None_iff)
      then obtain ss where ss: "map_of g node = Some ss" by blast
      have edge: "n \<in> set ss \<Longrightarrow> (node, n) \<in> graph_edges g" for n
        using ss by (simp add: graph_edges_def)
      show ?thesis
      proof (cases "visit_nodes g (node # temp) ss perm")
        case (Inl e')
        have "\<forall>t \<in> set (node # temp). \<forall>n \<in> set ss. (t, n) \<in> (graph_edges g)\<^sup>+"
        proof (intro ballI)
          fix t n assume "t \<in> set (node # temp)" "n \<in> set ss"
          with 2(7) edge show "(t, n) \<in> (graph_edges g)\<^sup>+"
            by (cases "t = node") (auto intro: trancl_into_trancl)
        qed
        moreover have "set ss \<subseteq> fst ` set g" using edge 2(6) by blast
        moreover from 2(4) new off ss Inl have "e' = e" by simp
        ultimately show ?thesis using 2(2) [OF new off ss] Inl 2(6) by blast
      next
        case (Inr perm1)
        with 2(3) [OF new off ss Inr] 2(4-7) new off ss show ?thesis by simp
      qed
    qed
  qed
qed

lemma visit_nodes_iff:
  assumes "\<forall>(a, b) \<in> graph_edges g. b \<in> fst ` set g"
  shows "(\<exists>perm. visit_nodes g [] (map fst g) [] = Inr perm) \<longleftrightarrow> acyclic (graph_edges g)"
proof
  assume "\<exists>perm. visit_nodes g [] (map fst g) [] = Inr perm"
  then show "acyclic (graph_edges g)"
    using visit_nodes_wf wf_acyclic acyclic_converse by blast
next
  assume "acyclic (graph_edges g)"
  then show "\<exists>perm. visit_nodes g [] (map fst g) [] = Inr perm"
    using visit_nodes_cycle [of g "[]" "map fst g" "[]"] assms
    by (cases "visit_nodes g [] (map fst g) []") (auto simp: acyclic_def)
qed

subsection \<open>Calls\<close>

lemma call_heads_collect: "call_heads t \<subseteq> set (collect_calls t)"
proof (induction t rule: collect_calls.induct)
  case (10 f args)
  then have "(\<Union>a \<in> set args. call_heads a) \<subseteq> (\<Union>a \<in> set args. set (collect_calls a))" by blast
  then show ?case by (cases f) auto
qed auto

lemma dom_fst_set: "map_of xs k = Some v \<Longrightarrow> k \<in> fst ` set xs"
  by (force dest: map_of_SomeD)

text \<open>The calls of a list of definitions to other definitions of the list.\<close>

definition new_calls :: "(string \<times> kdef) list \<Rightarrow> (string \<times> string) set" where
  "new_calls defs = {(f, g). \<exists>d. map_of defs f = Some d \<and> g \<in> set (collect_calls (d_body d))
     \<and> g \<in> fst ` set defs \<and> g \<noteq> f}"

lemma call_graph_edges: "graph_edges (call_graph defs) = new_calls defs"
proof -
  have "map_of (map (\<lambda>(name, defn). (name, remdups (filter (\<lambda>t. t \<in> K \<and> t \<noteq> name)
        (collect_calls (d_body defn))))) xs) f = map_option (\<lambda>d. remdups (filter
      (\<lambda>t. t \<in> K \<and> t \<noteq> f) (collect_calls (d_body d)))) (map_of xs f)" for xs f K
    by (induction xs) auto
  then have "map_of (call_graph defs) f = map_option (\<lambda>d. remdups (filter
      (\<lambda>t. t \<in> fst ` set defs \<and> t \<noteq> f) (collect_calls (d_body d)))) (map_of defs f)" for f
    unfolding call_graph_def by blast
  note edges = this
  show ?thesis
  proof (rule set_eqI)
    fix e
    show "e \<in> graph_edges (call_graph defs) \<longleftrightarrow> e \<in> new_calls defs"
      by (cases e; cases "map_of defs (fst e)") (auto simp: graph_edges_def new_calls_def edges)
  qed
qed

lemma check_no_mutual_recursion_iff: "check_no_mutual_recursion defs = Inr () \<longleftrightarrow> acyclic (new_calls defs)"
proof -
  have "map fst (call_graph defs) = map fst defs" by (auto simp: call_graph_def)
  then have "fst ` set (call_graph defs) = fst ` set defs" by (metis list.set_map)
  then have "\<forall>(a, b) \<in> graph_edges (call_graph defs). b \<in> fst ` set (call_graph defs)"
    by (auto simp: call_graph_edges new_calls_def)
  from visit_nodes_iff [OF this] show ?thesis
    by (auto simp: check_no_mutual_recursion_def call_graph_edges)
qed

lemma check_no_mutual_recursion_error:
  assumes "check_no_mutual_recursion defs = Inl e"
  shows "e = MutualRecursionError ''mutual recursion is not allowed''"
proof -
  have "map fst (call_graph defs) = map fst defs" by (auto simp: call_graph_def)
  then have names: "fst ` set (call_graph defs) = fst ` set defs" by (metis list.set_map)
  from assms have "visit_nodes (call_graph defs) [] (map fst (call_graph defs)) [] = Inl e"
    by (cases "visit_nodes (call_graph defs) [] (map fst (call_graph defs)) []")
      (auto simp: check_no_mutual_recursion_def)
  from visit_nodes_cycle [OF this] show ?thesis
    using names by (auto simp: call_graph_edges new_calls_def)
qed

lemma check_no_mutual_recursion_wf:
  assumes "check_no_mutual_recursion defs = Inr u"
  shows "wf ((new_calls defs)\<inverse>)"
  using assms visit_nodes_wf [of "call_graph defs"]
  by (auto simp: check_no_mutual_recursion_def call_graph_edges)

subsection \<open>Extending a program\<close>

text \<open>A program whose definitions only call its own definitions.\<close>

definition closed_calls :: "defs \<Rightarrow> bool" where
  "closed_calls D \<longleftrightarrow> (\<forall>f d. D f = Some d \<longrightarrow> call_heads (d_body d) \<subseteq> dom D)"

lemma calls_extend:
  assumes "wf (calls D)" and "closed_calls D" and "wf ((new_calls N)\<inverse>)"
    and "dom D \<inter> fst ` set N = {}"
  shows "wf (calls (D ++ map_of N))"
proof -
  let ?ND = "{(g, f). f \<in> fst ` set N \<and> g \<notin> fst ` set N}"
  have sub: "calls (D ++ map_of N) \<subseteq> calls D \<union> (?ND \<union> (new_calls N)\<inverse>)"
  proof (rule subrelI)
    fix g f assume "(g, f) \<in> calls (D ++ map_of N)"
    then have "\<exists>d. (D ++ map_of N) f = Some d \<and> g \<in> call_heads (d_body d) \<and> g \<noteq> f"
      by (simp only: calls_def mem_Collect_eq prod.case)
    then obtain d where d: "(D ++ map_of N) f = Some d" "g \<in> call_heads (d_body d)" "g \<noteq> f"
      by metis
    show "(g, f) \<in> calls D \<union> (?ND \<union> (new_calls N)\<inverse>)"
    proof (cases "map_of N f")
      case None
      with d show ?thesis by (auto simp: calls_def map_add_Some_iff)
    next
      case (Some d')
      with d have "d' = d" by (simp add: map_add_Some_iff)
      with d Some dom_fst_set [OF Some] call_heads_collect [of "d_body d"] show ?thesis
        by (auto simp: new_calls_def)
    qed
  qed
  have "wf {(g, f). f \<in> X \<and> g \<notin> X}" for X :: "string set"
    by (rule wf_subset [OF wf_measure [of "\<lambda>x. if x \<in> X then 1 else 0"]]) auto
  note this [of "fst ` set N"]
  have "wf (?ND \<union> (new_calls N)\<inverse>)"
  proof (rule wf_Un)
    show "Domain ?ND \<inter> Range ((new_calls N)\<inverse>) = {}"
      by (auto simp: new_calls_def dest!: dom_fst_set)
  qed (fact, rule assms(3))
  then have "wf (calls D \<union> (?ND \<union> (new_calls N)\<inverse>))"
  proof (rule wf_Un [OF assms(1)])
    have "Domain (calls D) \<subseteq> dom D" using assms(2) by (auto simp: calls_def closed_calls_def)
    moreover have "Range (?ND \<union> (new_calls N)\<inverse>) \<subseteq> fst ` set N"
      by (auto simp: new_calls_def dest!: dom_fst_set)
    ultimately show "Domain (calls D) \<inter> Range (?ND \<union> (new_calls N)\<inverse>) = {}"
      using assms(4) by blast
  qed
  then show ?thesis by (rule wf_subset) (rule sub)
qed

end
