(* ===== verification/Ledger_Audit_Props.thy ===== *)
theory Ledger_Audit_Props
  imports Ledger_Recursion Kernel_Deps
begin

section \<open>What an audited ledger guarantees\<close>

text \<open>
  Every symbol a checked term uses has a type, so checked definitions call only definitions of
  the program. With the mutual recursion check this makes the calls of every audited program
  well founded.
\<close>

subsection \<open>Checked terms use typed symbols\<close>

definition syms_typed :: "sym_types \<Rightarrow> kterm \<Rightarrow> bool" where
  "syms_typed ST t \<longleftrightarrow> (\<forall>env ex T. typecheck_term t env ST ex = Inr T \<longrightarrow> term_syms t \<subseteq> dom ST)"

lemma syms_typedD: "syms_typed ST t \<Longrightarrow> typecheck_term t env ST ex = Inr T \<Longrightarrow> term_syms t \<subseteq> dom ST"
  unfolding syms_typed_def by blast

lemma typecheck_args_syms:
  assumes "typecheck_args args ts env ST = Inr u" and "length args = length ts"
    and "\<forall>a \<in> set args. syms_typed ST a"
  shows "(\<Union>a \<in> set args. term_syms a) \<subseteq> dom ST"
  using assms
proof (induction args ts rule: list_induct2')
  case (4 a args t ts)
  from 4(2) have head: "typecheck_term a env ST (Some t) = Inr t" and "typecheck_args args ts env ST = Inr u"
    by auto
  with 4 have "(\<Union>a \<in> set args. term_syms a) \<subseteq> dom ST" by simp
  moreover have "term_syms a \<subseteq> dom ST" using 4(4) syms_typedD [OF _ head] by simp
  ultimately show ?case by simp
qed simp_all

lemma typecheck_syms: "syms_typed ST t"
proof (induction t)
  case (App f args)
  show ?case
    unfolding syms_typed_def
  proof (intro allI impI)
    fix env ex T assume "typecheck_term (App f args) env ST ex = Inr T"
    then obtain ts r u where "typecheck_term f env ST None = Inr (FunType ts r)"
      "length ts = length args" "typecheck_args args ts env ST = Inr u"
      by (auto elim!: bindrE split: ktype.split_asm if_split_asm simp del: bindr_Inr_iff)
    with App typecheck_args_syms [of args ts env ST] show "term_syms (App f args) \<subseteq> dom ST"
      by (auto dest!: syms_typedD)
  qed
next
  case (Prim op args)
  show ?case
    unfolding syms_typed_def
  proof (intro allI impI)
    fix env ex T assume "typecheck_term (Prim op args) env ST ex = Inr T"
    then obtain ts u where "length args = length ts" "typecheck_args args ts env ST = Inr u"
      by (auto elim!: bindrE split: option.split_asm if_split_asm simp del: bindr_Inr_iff)
    with Prim typecheck_args_syms [of args ts env ST] show "term_syms (Prim op args) \<subseteq> dom ST"
      by simp
  qed
next
  case (OptionSome v)
  show ?case
    unfolding syms_typed_def
  proof (intro allI impI)
    fix env ex T assume "typecheck_term (OptionSome v) env ST ex = Inr T"
    then obtain ex' T' where "typecheck_term v env ST ex' = Inr T'"
      by (auto elim!: bindrE split: ktype.split_asm option.split_asm simp del: bindr_Inr_iff)
    with OptionSome show "term_syms (OptionSome v) \<subseteq> dom ST" by (simp add: syms_typedD)
  qed
next
  case (ConsT h t)
  show ?case
    unfolding syms_typed_def
  proof (intro allI impI)
    fix env ex T assume "typecheck_term (ConsT h t) env ST ex = Inr T"
    then obtain ex' T' ex'' T'' where "typecheck_term h env ST ex' = Inr T'" "typecheck_term t env ST ex'' = Inr T''"
      by (auto elim!: bindrE split: ktype.split_asm option.split_asm simp del: bindr_Inr_iff)
    with ConsT show "term_syms (ConsT h t) \<subseteq> dom ST" by (simp add: syms_typedD)
  qed
next
  case (IfT c t e)
  show ?case
    unfolding syms_typed_def
  proof (intro allI impI)
    fix env ex T assume "typecheck_term (IfT c t e) env ST ex = Inr T"
    then obtain ex' T' ex'' T'' ex3 T3 where "typecheck_term c env ST ex' = Inr T'" "typecheck_term t env ST ex'' = Inr T''"
      "typecheck_term e env ST ex3 = Inr T3"
      by (auto elim!: bindrE split: ktype.split_asm option.split_asm simp del: bindr_Inr_iff)
    with IfT show "term_syms (IfT c t e) \<subseteq> dom ST" by (simp add: syms_typedD)
  qed
next
  case (PairT l r)
  show ?case
    unfolding syms_typed_def
  proof (intro allI impI)
    fix env ex T assume "typecheck_term (PairT l r) env ST ex = Inr T"
    then obtain ex' T' ex'' T'' where "typecheck_term l env ST ex' = Inr T'" "typecheck_term r env ST ex'' = Inr T''"
      by (auto elim!: bindrE split: ktype.split_asm option.split_asm simp del: bindr_Inr_iff)
    with PairT show "term_syms (PairT l r) \<subseteq> dom ST" by (simp add: syms_typedD)
  qed
next
  case (Fst p)
  show ?case
    unfolding syms_typed_def
  proof (intro allI impI)
    fix env ex T assume "typecheck_term (Fst p) env ST ex = Inr T"
    then obtain ex' T' where "typecheck_term p env ST ex' = Inr T'"
      by (auto elim!: bindrE split: ktype.split_asm option.split_asm simp del: bindr_Inr_iff)
    with Fst show "term_syms (Fst p) \<subseteq> dom ST" by (simp add: syms_typedD)
  qed
next
  case (Snd p)
  show ?case
    unfolding syms_typed_def
  proof (intro allI impI)
    fix env ex T assume "typecheck_term (Snd p) env ST ex = Inr T"
    then obtain ex' T' where "typecheck_term p env ST ex' = Inr T'"
      by (auto elim!: bindrE split: ktype.split_asm option.split_asm simp del: bindr_Inr_iff)
    with Snd show "term_syms (Snd p) \<subseteq> dom ST" by (simp add: syms_typedD)
  qed
next
  case (MatchList s n c)
  show ?case
    unfolding syms_typed_def
  proof (intro allI impI)
    fix env ex T assume "typecheck_term (MatchList s n c) env ST ex = Inr T"
    then obtain ex' ex'' e T' T'' where "typecheck_term s env ST None = Inr (ListType e)"
      "typecheck_term n env ST ex' = Inr T'" "typecheck_term c ([ListType e, e] @ env) ST ex'' = Inr T''"
      by (auto elim!: bindrE split: ktype.split_asm option.split_asm simp del: bindr_Inr_iff)
    with MatchList show "term_syms (MatchList s n c) \<subseteq> dom ST" by (simp add: syms_typedD)
  qed
next
  case (MatchOption s n b)
  show ?case
    unfolding syms_typed_def
  proof (intro allI impI)
    fix env ex T assume "typecheck_term (MatchOption s n b) env ST ex = Inr T"
    then obtain ex' ex'' e T' T'' where "typecheck_term s env ST None = Inr (OptionType e)"
      "typecheck_term n env ST ex' = Inr T'" "typecheck_term b ([e] @ env) ST ex'' = Inr T''"
      by (auto elim!: bindrE split: ktype.split_asm option.split_asm simp del: bindr_Inr_iff)
    with MatchOption show "term_syms (MatchOption s n b) \<subseteq> dom ST" by (simp add: syms_typedD)
  qed
qed (auto simp: syms_typed_def split: option.split)

lemma call_heads_syms: "call_heads t \<subseteq> term_syms t"
proof (induction t)
  case (App f args)
  then have "(\<Union>a \<in> set args. call_heads a) \<subseteq> (\<Union>a \<in> set args. term_syms a)" by blast
  with App show ?case by (cases f) auto
qed auto

lemma typecheck_definition_calls:
  "typecheck_definition d ST = Inr T \<Longrightarrow> call_heads (d_body d) \<subseteq> dom ST"
  unfolding typecheck_definition_def using syms_typedD [OF typecheck_syms] call_heads_syms by blast

subsection \<open>Python dictionaries\<close>

declare map_of_dict_set [simp] keys_dict_set [simp] distinct_dict_set [simp]

lemma keys_dict_update: "fst ` set (dict_update d kvs) = fst ` set d \<union> fst ` set kvs"
proof (induction kvs arbitrary: d)
  case (Cons kv kvs)
  then show ?case by (cases kv) (simp add: dict_update_Cons)
qed simp

subsection \<open>The checks of a module keep a program well formed\<close>

lemma check_all_iff: "check_all f xs = Inr u \<longleftrightarrow> (\<forall>x \<in> set xs. \<exists>y. f x = Inr y)"
  by (induction xs) auto

definition program_ok :: "defs \<Rightarrow> bool" where
  "program_ok D \<longleftrightarrow> wf (calls D) \<and> closed_calls D
     \<and> (\<forall>f d. D f = Some d \<longrightarrow> d_name d = f \<and> check_termination d = Inr ())"

lemma dom_types_of: "dom (types_of defs) = dom (map_of defs)"
  by (auto simp: types_of_def)

lemma kernel_checks_program:
  assumes "kernel_checks old new = Inr u" and "program_ok (map_of old)"
    and "dom (map_of old) \<inter> fst ` set new = {}" and "\<forall>(f, d) \<in> set new. d_name d = f"
  shows "program_ok (map_of old ++ map_of new)"
proof -
  from assms(1) have rec: "check_no_mutual_recursion new = Inr ()"
    and types: "\<forall>(f, d) \<in> set new. \<exists>T. typecheck_definition d (types_of old ++ types_of new) = Inr T"
    and stops: "\<forall>(f, d) \<in> set new. check_termination d = Inr ()"
    by (auto simp: kernel_checks_def check_all_iff split_beta)
  from assms(2) have ok: "wf (calls (map_of old))" "closed_calls (map_of old)" by (simp_all add: program_ok_def)
  have heads: "call_heads (d_body d) \<subseteq> dom (map_of old ++ map_of new)" if "(f, d) \<in> set new" for f d
  proof -
    from that types obtain T where "typecheck_definition d (types_of old ++ types_of new) = Inr T" by blast
    from typecheck_definition_calls [OF this] show ?thesis by (simp add: dom_types_of)
  qed
  have closed: "closed_calls (map_of old ++ map_of new)"
    unfolding closed_calls_def
  proof (intro allI impI)
    fix f d assume "(map_of old ++ map_of new) f = Some d"
    then have "(f, d) \<in> set new \<or> map_of old f = Some d"
      by (auto simp: map_add_Some_iff dest: map_of_SomeD)
    then show "call_heads (d_body d) \<subseteq> dom (map_of old ++ map_of new)"
    proof
      assume "map_of old f = Some d"
      with ok(2) have "call_heads (d_body d) \<subseteq> dom (map_of old)" unfolding closed_calls_def by blast
      then show ?thesis by auto
    qed (rule heads)
  qed
  moreover have "wf (calls (map_of old ++ map_of new))"
    by (rule calls_extend [OF ok check_no_mutual_recursion_wf [OF rec] assms(3)])
  moreover have "d_name d = f \<and> check_termination d = Inr ()"
    if "(map_of old ++ map_of new) f = Some d" for f d
  proof -
    from that have "(f, d) \<in> set new \<or> map_of old f = Some d"
      by (auto simp: map_add_Some_iff dest: map_of_SomeD)
    then show ?thesis using assms(2,4) stops by (auto simp: program_ok_def)
  qed
  ultimately show ?thesis by (simp add: program_ok_def)
qed

subsection \<open>The audit\<close>

lemma add_parsed_spec:
  assumes "add_parsed ds defs = Inr defs'" and "distinct (map fst defs)" and "\<forall>(f, d) \<in> set defs. d_name d = f"
  shows "distinct (map fst defs') \<and> (\<forall>(f, d) \<in> set defs'. d_name d = f)
    \<and> fst ` set defs' = fst ` set defs \<union> (\<lambda>d. the_str (jget d ''name'')) ` set ds"
  using assms
proof (induction ds defs rule: add_parsed.induct)
  case (1 defs)
  then show ?case by simp
next
  case (2 defn ds defs)
  from 2(2) obtain d where d: "parse_definition defn = Inr d"
    and rest: "add_parsed ds (dict_set defs (d_name d) d) = Inr defs'" by auto
  have name: "d_name d = the_str (jget defn ''name'')"
    using d by (auto simp: parse_definition_def Let_def jgetr_def split: if_split_asm prod.split_asm)
  have "\<forall>(f, e) \<in> set (dict_set defs (d_name d) d). d_name e = f"
    using 2(4) by (induction defs "d_name d" d rule: dict_set.induct) auto
  with 2(1) [OF d rest] 2(3) name show ?case by auto
qed

lemma audit_names_fresh:
  "audit_names X n ds seen = Inr seen' \<Longrightarrow>
     fst ` set seen' = fst ` set seen \<union> (\<lambda>d. the_str (jget d ''name'')) ` set ds
     \<and> (\<forall>d \<in> set ds. the_str (jget d ''name'') \<notin> fst ` set seen)"
proof (induction X n ds seen rule: audit_names.induct)
  case (2 X n defn ds seen)
  from 2(2) obtain h where new: "the_str (jget defn ''name'') \<notin> fst ` set seen"
    and conds: "hashable (jget defn ''name'')" "is_str (jget defn ''name'')"
    and h: "definition_hash (x_blake3 X) defn = Inr h"
    and rest: "audit_names X n ds (seen @ [(the_str (jget defn ''name''), h)]) = Inr seen'"
    by (auto simp: Let_def split: if_split_asm)
  from 2(1) [OF refl _ _ new h rest] conds new show ?case by auto
qed simp

definition audit_inv :: "audit_state \<Rightarrow> bool" where
  "audit_inv S \<longleftrightarrow> program_ok (map_of (au_defs S)) \<and> fst ` set (au_defs S) \<subseteq> fst ` set (au_seen S)"

lemma audit_start_inv: "audit_inv audit_start"
  by (simp add: audit_inv_def audit_start_def program_ok_def calls_def closed_calls_def)

lemma audit_catch_Inr [simp]: "audit_catch n r = Inr x \<longleftrightarrow> r = Inr x"
  by (cases "(n, r)" rule: audit_catch.cases) auto

lemma disjoint_image: "\<forall>x \<in> B. f x \<notin> A \<Longrightarrow> A \<inter> f ` B = {}"
  by auto

lemma audit_full_module_program:
  assumes "audit_full_module X data payload defs n k sc = Inr (stats, defs')"
    and "program_ok (map_of defs)"
    and "\<forall>d \<in> set (the_list (jor (jget payload ''definitions'') (JList []))). the_str (jget d ''name'') \<notin> fst ` set defs"
  shows "program_ok (map_of defs') \<and> fst ` set defs' = fst ` set defs
    \<union> (\<lambda>d. the_str (jget d ''name'')) ` set (the_list (jor (jget payload ''definitions'') (JList [])))"
proof -
  let ?ds = "the_list (jor (jget payload ''definitions'') (JList []))"
  from assms(1) obtain new u where new: "add_parsed ?ds [] = Inr new"
    and checks: "kernel_checks defs new = Inr u" and defs': "defs' = dict_update defs new"
    unfolding audit_full_module_def Let_def
    by (auto elim!: bindrE split: if_split_asm simp del: bindr_Inr_iff)
  from add_parsed_spec [OF new] have spec: "distinct (map fst new)" "\<forall>(f, d) \<in> set new. d_name d = f"
    "fst ` set new = (\<lambda>d. the_str (jget d ''name'')) ` set ?ds" by auto
  have "dom (map_of defs) \<inter> fst ` set new = {}"
    unfolding dom_map_of_conv_image_fst spec(3) by (rule disjoint_image) (rule assms(3))
  from kernel_checks_program [OF checks assms(2) this spec(2)] show ?thesis
    unfolding defs' map_of_dict_update [OF spec(1)] keys_dict_update spec(3) by blast
qed

lemma audit_module_inv:
  assumes "audit_module X data F True S h = Inr S'" and "audit_inv S"
  shows "audit_inv S'"
proof -
  from assms(1) obtain n payload bytes seen sc stats defs where
    names: "audit_names X n (the_list (jor (jget payload ''definitions'') (JList []))) (au_seen S) = Inr seen"
    and full: "audit_full_module X data payload (au_defs S) n (au_stat_round S) sc = Inr (stats, defs)"
    and S': "au_seen S' = seen" "au_defs S' = defs"
    unfolding audit_module_def Let_def
    by (auto elim!: bindrE split: if_split_asm prod.split_asm simp del: bindr_Inr_iff)
  from assms(2) have sub: "fst ` set (au_defs S) \<subseteq> fst ` set (au_seen S)" by (simp add: audit_inv_def)
  from audit_names_fresh [OF names] subsetD [OF sub] have
    "\<forall>d \<in> set (the_list (jor (jget payload ''definitions'') (JList []))). the_str (jget d ''name'') \<notin> fst ` set (au_defs S)"
    and seen: "fst ` set seen = fst ` set (au_seen S)
      \<union> (\<lambda>d. the_str (jget d ''name'')) ` set (the_list (jor (jget payload ''definitions'') (JList [])))"
    by blast+
  from audit_full_module_program [OF full _ this(1)] assms(2) seen S' sub show ?thesis
    by (simp add: audit_inv_def le_supI1)
qed

lemma audit_modules_inv:
  "audit_modules X data F True hs S = Inr S' \<Longrightarrow> audit_inv S \<Longrightarrow> audit_inv S'"
  by (induction hs arbitrary: S) (auto dest: audit_module_inv)

text \<open>The objects an audit has read.\<close>

lemma read_canonical_Inr:
  assumes "read_canonical X F h e1 e2 = Inr (p, b)"
  shows "read_object F h = Inr b \<and> canonical_json_bytes p = b \<and> x_blake3 X b = h
    \<and> (\<exists>raw. canonicalize_payload raw = Inr p)"
  using assms unfolding read_canonical_def payload_hash_hex_def
  by (auto elim!: bindrE simp del: bindr_Inr_iff split: if_split_asm)

lemma audit_modules_objects:
  "audit_modules X data F full hs S = Inr S' \<Longrightarrow> h \<in> set hs \<Longrightarrow>
     \<exists>p b. read_object F h = Inr b \<and> canonical_json_bytes p = b \<and> x_blake3 X b = h
       \<and> (\<exists>raw. canonicalize_payload raw = Inr p)"
proof (induction hs arbitrary: S)
  case (Cons k hs)
  from Cons.prems(1) obtain S1 where one: "audit_module X data F full S k = Inr S1"
    and rest: "audit_modules X data F full hs S1 = Inr S'" by auto
  from one obtain e1 e2 p b where "read_canonical X F k e1 e2 = Inr (p, b)"
    unfolding audit_module_def Let_def by (elim bindrE) auto
  note k = read_canonical_Inr [OF this]
  show ?case
  proof (cases "h = k")
    case True
    from k show ?thesis unfolding True by (intro exI)
  next
    case False
    with Cons.prems(2) have "h \<in> set hs" by simp
    from Cons.IH [OF rest this] show ?thesis .
  qed
qed simp

text \<open>No name is defined twice, and every stored hash is the one of the index.\<close>

lemma audit_names_distinct:
  "audit_names X n ds seen = Inr seen' \<Longrightarrow> distinct (map fst seen) \<Longrightarrow> distinct (map fst seen')"
proof (induction X n ds seen rule: audit_names.induct)
  case (2 X n defn ds seen)
  from 2(2) obtain h where new: "the_str (jget defn ''name'') \<notin> fst ` set seen"
    and conds: "hashable (jget defn ''name'')" "is_str (jget defn ''name'')"
    and h: "definition_hash (x_blake3 X) defn = Inr h"
    and rest: "audit_names X n ds (seen @ [(the_str (jget defn ''name''), h)]) = Inr seen'"
    by (auto simp: Let_def split: if_split_asm)
  from 2(1) [OF refl _ _ new h rest] conds new 2(3) show ?case by simp
qed simp

lemma check_def_hashes_Inr:
  "check_def_hashes db seen = Inr u \<longleftrightarrow> (\<forall>(s, h) \<in> set seen. get_def_hash db s = Some h)"
  by (induction db seen rule: check_def_hashes.induct) (auto split: option.split)

end
