(* ===== verification/Ledger_Commit_Props.thy ===== *)
theory Ledger_Commit_Props
  imports Ledger_Audit_Props Kernel_Canon_Props
begin

section \<open>What committing does to the ledger\<close>

text \<open>
  A rejected module leaves the files alone. An accepted one appends one hash to the order log,
  stores the canonical bytes under it, and fills the index in one transaction, which cannot fail
  on a ledger reached from an empty one, unless it holds certificates.
\<close>

subsection \<open>Canonical payloads\<close>

lemma canonicalize_payload_parts:
  assumes "canonicalize_payload raw = Inr p"
  obtains ss ds deps specs cs claim where
    "p = JObj ([(''new_symbols'', JList ss), (''definitions'', JList ds), (''declared_deps'', JList deps),
       (''specs'', JList specs)] @ cs @ claim)"
    "cs = [] \<or> (\<exists>entries. cs = [(''concepts'', JList entries)])"
    "claim = [] \<or> (\<exists>c. claim = [(''capacity_claim'', c)])"
    "\<forall>d \<in> set ds. \<exists>r. canonicalize_definition r = Inr d"
proof -
  from assms obtain cconcepts cdefs0 cdefs cspecs csyms cdeps cclaim where
    c: "canonicalize_concepts (jget raw ''concepts'') = Inr cconcepts"
    and ds: "mapr canonicalize_definition (the_list (jor (jget raw ''definitions'') (JList []))) = Inr cdefs0"
      "py_sorted_by (\<lambda>d. jget d ''name'') cdefs0 = Inr cdefs"
    and cl: "canonicalize_capacity raw = Inr cclaim"
    and p: "p = JObj ([(''new_symbols'', JList csyms), (''definitions'', JList cdefs), (''declared_deps'', JList cdeps),
       (''specs'', JList (sort_key canonical_json_bytes cspecs))] @ cconcepts @ cclaim)"
    unfolding canonicalize_payload_def Let_def
    by (auto elim!: bindrE split: if_split_asm simp del: bindr_Inr_iff)
  have c': "cconcepts = [] \<or> (\<exists>entries. cconcepts = [(''concepts'', JList entries)])"
    using c by (auto simp: canonicalize_concepts_def split: if_split_asm)
  have cl': "cclaim = [] \<or> (\<exists>c. cclaim = [(''capacity_claim'', c)])"
    using cl by (auto simp: canonicalize_capacity_def split: if_split_asm)
  have "set cdefs = set cdefs0"
    using ds(2) by (auto simp: py_sorted_by_def split: if_split_asm)
  with mapr_Inr_ex [OF ds(1)] have "\<forall>d \<in> set cdefs. \<exists>r. canonicalize_definition r = Inr d" by blast
  with that [OF p c' cl'] show thesis by blast
qed

lemma canonical_payload_fields:
  assumes "canonicalize_payload raw = Inr p"
  shows "\<exists>ss ds deps specs. jget p ''new_symbols'' = JList ss \<and> jget p ''definitions'' = JList ds
    \<and> jget p ''declared_deps'' = JList deps \<and> jget p ''specs'' = JList specs
    \<and> (\<forall>d \<in> set ds. canonicalize_definition d = Inr d)"
  using assms
proof (rule canonicalize_payload_parts)
  fix ss ds deps specs cs claim
  assume p: "p = JObj ([(''new_symbols'', JList ss), (''definitions'', JList ds), (''declared_deps'', JList deps),
       (''specs'', JList specs)] @ cs @ claim)"
    and "\<forall>d \<in> set ds. \<exists>r. canonicalize_definition r = Inr d"
  then have "\<forall>d \<in> set ds. canonicalize_definition d = Inr d"
    using canonicalize_definition_idem by blast
  with p show ?thesis by simp
qed

lemma named_hash_canonical:
  assumes "canonicalize_payload raw = Inr p"
  shows "mapr (named_hash X) (the_list (jget p ''definitions'')) =
    Inr (map (\<lambda>d. (the_str (jget d ''name''), x_blake3 X (canonical_json_bytes d)))
      (the_list (jget p ''definitions'')))"
proof -
  obtain ds where "jget p ''definitions'' = JList ds" "\<forall>d \<in> set ds. canonicalize_definition d = Inr d"
    using canonical_payload_fields [OF assms] by blast
  then show ?thesis by (simp add: mapr_all_Inr named_hash_def definition_hash_def)
qed

subsection \<open>Opening the index\<close>

text \<open>Opening changes nothing but the schema version and the budget.\<close>

lemma init_schema_Inr: "init_schema db = Inr db1 \<Longrightarrow> db1 = db\<lparr>ix_schema_version := Some 2\<rparr>"
  by (cases db) (auto simp: init_schema_def schema_version_def split: option.split_asm if_split_asm)

lemma same_budget: "db\<lparr>ix_budget := ix_budget db\<rparr> = (db :: index_db)"
  by (cases db) simp

lemma same_version: "db\<lparr>ix_schema_version := ix_schema_version db\<rparr> = (db :: index_db)"
  by (cases db) simp

lemma open_index_cases:
  obtains (schema) e where "open_index data db = (Inl e, db)"
  | (budget) e db1 where "init_schema db = Inr db1" "open_index data db = (Inl e, db1)"
  | (known) n db1 where "init_schema db = Inr db1" "ix_budget db1 = Some n" "open_index data db = (Inr n, db1)"
  | (first) n db1 where "init_schema db = Inr db1" "ix_budget db1 = None" "sql_int n = Inr n"
      "config_int data ''ledger'' ''budget'' = Inr n"
      "open_index data db = (Inr n, db1\<lparr>ix_budget := Some n\<rparr>)"
proof (cases "init_schema db")
  case (Inl e)
  then show thesis by (intro schema) (simp add: open_index_def)
next
  case (Inr db1)
  note init = this
  show thesis
  proof (cases "ix_budget db1")
    case (Some n)
    with init show thesis by (intro known) (simp_all add: open_index_def get_budget_def)
  next
    case None
    show thesis
    proof (cases "bindr (config_int data ''ledger'' ''budget'') (\<lambda>n. bindr (set_budget n db1) (\<lambda>db2. Inr (n, db2)))")
      case (Inl e)
      with init None show thesis by (intro budget) (simp_all add: open_index_def get_budget_def)
    next
      case (Inr r)
      obtain n db2 where r: "r = (n, db2)" by fastforce
      from Inr r have c: "config_int data ''ledger'' ''budget'' = Inr n" and b: "set_budget n db1 = Inr db2"
        by auto
      from b have "sql_int n = Inr n" "db2 = db1\<lparr>ix_budget := Some n\<rparr>" by (auto simp: set_budget_def)
      with init None c b show thesis by (intro first) (simp_all add: open_index_def get_budget_def)
    qed
  qed
qed

lemma open_index_done:
  assumes "open_index data db = (Inr n, db')"
  shows "ix_schema_version db' = Some 2 \<and> ix_budget db' = Some n"
  by (rule open_index_cases [of data db]) (use assms in \<open>auto dest!: init_schema_Inr\<close>)

lemma open_index_idem:
  assumes "open_index data db = (Inr n, db')"
  shows "open_index data db' = (Inr n, db')"
  using open_index_done [OF assms]
  by (simp add: open_index_def init_schema_def schema_version_def get_budget_def)

lemma open_index_fields:
  "\<exists>v b. snd (open_index data db) = db\<lparr>ix_schema_version := v, ix_budget := b\<rparr>"
proof -
  have same: "db = db\<lparr>ix_schema_version := ix_schema_version db, ix_budget := ix_budget db\<rparr>"
    "db\<lparr>ix_schema_version := v\<rparr> = db\<lparr>ix_schema_version := v, ix_budget := ix_budget db\<rparr>" for v
    by (cases db, simp)+
  show ?thesis
  proof (cases rule: open_index_cases [of data db])
    case schema
    with same(1) show ?thesis by (intro exI [of _ "ix_schema_version db"] exI [of _ "ix_budget db"]) simp
  next
    case budget
    with same(2) [of "Some 2"] init_schema_Inr show ?thesis
      by (intro exI [of _ "Some 2"] exI [of _ "ix_budget db"]) simp
  next
    case known
    with same(2) [of "Some 2"] init_schema_Inr show ?thesis
      by (intro exI [of _ "Some 2"] exI [of _ "ix_budget db"]) simp
  next
    case (first n db1)
    with init_schema_Inr show ?thesis by (intro exI [of _ "Some 2"] exI [of _ "Some n"]) simp
  qed
qed

subsection \<open>An accepted verification\<close>

lemma catch_not_accepted: "catch_verify s \<noteq> Inr (Accepted m)"
proof (cases s)
  case (Raise e)
  then show ?thesis by (cases e) (simp_all add: reject_because_def)
qed simp

lemma verify_payload_Inr:
  assumes "verify_payload X F module = Inr (p, bytes, h)"
  shows "jget module ''parent'' = JStr (read_head F) \<and> (\<exists>raw. canonicalize_payload raw = Inr p)
    \<and> bytes = canonical_json_bytes p \<and> h = x_blake3 X bytes"
  using assms unfolding verify_payload_def Let_def
  by (auto elim!: bindrE simp: payload_hash_hex_def simp del: bindr_Inr_iff split: if_split_asm)

lemma verify_accepted:
  assumes "verify_module X data W module = (Inr (Accepted m), W1)"
  obtains raw p bytes h n db where
    "jget module ''parent'' = JStr (read_head (l_files W))"
    "canonicalize_payload raw = Inr p" "bytes = canonical_json_bytes p" "h = x_blake3 X bytes"
    "open_index data (l_index W) = (Inr n, db)" "W1 = W\<lparr>l_index := db\<rparr>"
    "verify_checks X data (l_files W) db n p bytes h = Inr m"
proof -
  from assms obtain p bytes h where vp: "verify_payload X (l_files W) module = Inr (p, bytes, h)"
    by (auto simp: verify_module_def catch_not_accepted split: sum.split_asm)
  from assms vp obtain n db where oi: "open_index data (l_index W) = (Inr n, db)"
    and r: "finish (verify_checks X data (l_files W) db n p bytes h) = Inr (Accepted m)"
    and W1: "W1 = W\<lparr>l_index := db\<rparr>"
    by (auto simp: verify_module_def catch_not_accepted split: sum.split_asm prod.split_asm)
  from r have "verify_checks X data (l_files W) db n p bytes h = Inr m"
    by (auto simp: finish_def catch_not_accepted split: sum.split_asm)
  with that verify_payload_Inr [OF vp] oi W1 show thesis by blast
qed

text \<open>The parts of a passed check.\<close>

lemma verify_checks_parts:
  assumes "verify_checks X data F db n p bytes h = Inr m"
  obtains ss deps pairs actual old new step ctx rs al stats sdeps where
    "check_symbols p = Inr (ss, deps, pairs)" "check_fresh db F ss h = Inr ()"
    "check_def_names (the_list (jor (jget p ''definitions'') (JList []))) ss deps = Inr ()"
    "check_deps db (the_list (jor (jget p ''definitions'') (JList [])))
       (the_list (jor (jget p ''specs'') (JList []))) ss deps = Inr actual"
    "add_parsed (the_list (jor (jget p ''definitions'') (JList []))) [] = Inr new"
    "kernel_checks old new = Inr ()"
    "stat_context data db (the_list (jor (jget p ''specs'') (JList []))) = Inr (ctx, rs, al)"
    "check_specs X (the_list (jor (jget p ''specs'') (JList []))) (map_of old ++ map_of new)
       (types_of old ++ types_of new) step ctx = Inr stats"
    "module_cost data (sum_list (map (\<lambda>(n, d). count_term_nodes (d_body d)) new)) (st_spec_work stats)
       (int (length ss) + int (length actual) + int (length ss)) = Inr (am_cost m)"
    "am_cost m \<le> n"
    "mapr definition_deps (the_list (jor (jget p ''definitions'') (JList []))) = Inr sdeps"
    "m = \<lparr>am_payload_hash = h, am_payload_bytes = bytes, am_payload = p, am_cost = am_cost m,
       am_spec_work = st_spec_work stats,
       am_symbol_types = map (\<lambda>(n, d). (n, definition_type d)) new, am_defs = new, am_actual_deps = actual,
       am_symbol_deps = sdeps, am_stat_cert_count = st_stat_cert_count stats,
       am_stat_round_start = rs, am_stat_alpha_spent = al\<rparr>"
  using assms unfolding verify_checks_def Let_def
  by (elim bindrE) (auto elim!: bindrE simp del: bindr_Inr_iff split: prod.split_asm if_split_asm)

end
