(* ===== verification/Ledger_Index_Props.thy ===== *)
theory Ledger_Index_Props
  imports Ledger_Commit_Props
begin

section \<open>What the transaction of a commit writes\<close>

text \<open>
  The rows a successful transaction appends to each table, and the conditions under which it
  succeeds. They are stated on \<open>insert_module_rows\<close>, which commit and rebuild share.
\<close>

definition concept_row :: "string \<Rightarrow> json \<Rightarrow> string \<times> string \<times> string" where
  "concept_row h e = (the_str (jget e ''concept''), the_str (jget e ''symbol''), h)"

definition concept_entry :: "json \<Rightarrow> bool" where
  "concept_entry e \<longleftrightarrow> is_obj e \<and> is_str (jget e ''concept'') \<and> is_str (jget e ''symbol'')"

definition concept_key :: "json \<Rightarrow> string \<times> string" where
  "concept_key e = (the_str (jget e ''concept''), the_str (jget e ''symbol''))"

definition row_key :: "string \<times> string \<times> string \<Rightarrow> string \<times> string" where
  "row_key r = (case r of (c, s, h) \<Rightarrow> (c, s))"

lemma row_key_concept_row [simp]: "row_key (concept_row h e) = concept_key e"
  by (simp add: row_key_def concept_row_def concept_key_def)

lemma concept_symbol_exists_key: "concept_symbol_exists db c s \<longleftrightarrow> (c, s) \<in> row_key ` set (ix_concepts db)"
  by (force simp: concept_symbol_exists_def row_key_def)

lemma insert_concepts_Cons:
  assumes "concept_entry e"
  shows "insert_concepts (e # es) h db =
    (if concept_key e \<in> row_key ` set (ix_concepts db) then Inl (IntegrityError ''UNIQUE constraint failed'')
     else insert_concepts es h (db\<lparr>ix_concepts := ix_concepts db @ [concept_row h e]\<rparr>))"
proof -
  have key: "(\<lambda>(c, s, h). (c, s)) = row_key" by (auto simp: row_key_def)
  from assms obtain c s where e: "is_obj e" "jget e ''concept'' = JStr c" "jget e ''symbol'' = JStr s"
    by (auto simp: concept_entry_def is_str_iff)
  then have "concept_key e = (c, s)" "concept_row h e = (c, s, h)" "row_key (c, s, h) = (c, s)"
    by (simp_all add: concept_key_def concept_row_def row_key_def)
  with e key show ?thesis by (simp add: insert_unique_def)
qed

declare insert_concepts.simps(2) [simp del]

lemma insert_concepts_Inr:
  assumes "\<forall>e \<in> set es. concept_entry e"
  shows "insert_concepts es h db = Inr db' \<longleftrightarrow>
    distinct (map concept_key es) \<and> concept_key ` set es \<inter> row_key ` set (ix_concepts db) = {}
    \<and> db' = db\<lparr>ix_concepts := ix_concepts db @ map (concept_row h) es\<rparr>"
  using assms
proof (induction es arbitrary: db)
  case Nil
  then show ?case by auto
next
  case (Cons e es)
  then show ?case by (auto simp: insert_concepts_Cons)
qed

lemma insert_all_sym_deps_eq:
  "insert_all_sym_deps sds db = db\<lparr>ix_sym_deps := ix_sym_deps db @ concat (map (\<lambda>(n, ds). map (Pair n) ds) sds)\<rparr>"
  by (induction sds db rule: insert_all_sym_deps.induct) (simp_all add: insert_sym_deps_def)

text \<open>The index after the rows of a module were inserted.\<close>

definition rows_added :: "string \<Rightarrow> string \<Rightarrow> string \<Rightarrow> int \<Rightarrow> int \<Rightarrow> (string \<times> ktype) list
    \<Rightarrow> (string \<times> string) list \<Rightarrow> string list \<Rightarrow> (string \<times> string list) list \<Rightarrow> (string \<times> string) list
    \<Rightarrow> json list \<Rightarrow> index_db \<Rightarrow> index_db" where
  "rows_added h parent bytes cost now sts dhs deps sds al cs db =
     db\<lparr>ix_modules := ix_modules db @ [\<lparr>mr_hash = h, mr_parent_hash = parent, mr_bytes = bytes,
           mr_cost = cost, mr_accepted_at = now\<rparr>],
        ix_symbols := ix_symbols db @ symbol_rows sts dhs h,
        ix_def_hashes := ix_def_hashes db @ map (\<lambda>(s, d). (s, d, h)) dhs,
        ix_deps := ix_deps db @ map (Pair h) deps,
        ix_sym_deps := ix_sym_deps db @ concat (map (\<lambda>(n, ds). map (Pair n) ds) sds),
        ix_type_index := ix_type_index db @ map (\<lambda>(symbol, typ). (type_norm typ, symbol)) sts,
        ix_aliases := ix_aliases db @ al,
        ix_concepts := ix_concepts db @ map (concept_row h) cs,
        ix_index_impact := ix_index_impact db @ [\<lparr>ir_module_hash = h, ir_symbols_count = int (length sts),
           ir_deps_count = int (length deps),
           ir_sym_deps_count = sum_list (map (\<lambda>(n, ds). int (length ds)) sds),
           ir_type_index_count = int (length sts), ir_def_hashes_count = int (length dhs)\<rparr>]\<rparr>"

text \<open>The keys a module brings are new.\<close>

definition rows_fresh :: "string \<Rightarrow> (string \<times> ktype) list \<Rightarrow> (string \<times> string) list
    \<Rightarrow> (string \<times> string) list \<Rightarrow> json list \<Rightarrow> index_db \<Rightarrow> bool" where
  "rows_fresh h sts dhs al cs db \<longleftrightarrow>
     h \<notin> mr_hash ` set (ix_modules db) \<and> h \<notin> ir_module_hash ` set (ix_index_impact db)
     \<and> distinct (map fst sts) \<and> (\<forall>n \<in> fst ` set sts. \<not> symbol_exists db n)
     \<and> distinct (map fst dhs) \<and> fst ` set dhs \<inter> fst ` set (ix_def_hashes db) = {}
     \<and> distinct (map fst al) \<and> fst ` set al \<inter> fst ` set (ix_aliases db) = {}
     \<and> distinct (map concept_key cs)
     \<and> concept_key ` set cs \<inter> row_key ` set (ix_concepts db) = {}"

lemma insert_module_rows_Inr:
  assumes "\<forall>e \<in> set cs. concept_entry e"
  shows "insert_module_rows h parent bytes cost now sts dhs deps sds al cs db = Inr db' \<longleftrightarrow>
    sql_int cost = Inr cost \<and> sql_int now = Inr now \<and> rows_fresh h sts dhs al cs db
    \<and> db' = rows_added h parent bytes cost now sts dhs deps sds al cs db"
proof -
  have "insert_module_rows h parent bytes cost now sts dhs deps sds al cs db = Inr db' \<longleftrightarrow>
      (\<exists>db1 db2 db3 db4 db5. insert_module h parent bytes cost now db = Inr db1
       \<and> insert_symbols sts dhs h db1 = Inr db2 \<and> insert_def_hashes dhs h db2 = Inr db3
       \<and> db4 = insert_type_index sts (insert_all_sym_deps sds (insert_deps h deps db3))
       \<and> insert_aliases al db4 = Inr db5
       \<and> (\<exists>db6. insert_concepts cs h db5 = Inr db6
         \<and> insert_index_impact \<lparr>ir_module_hash = h, ir_symbols_count = int (length sts),
           ir_deps_count = int (length deps),
           ir_sym_deps_count = sum_list (map (\<lambda>(n, ds). int (length ds)) sds),
           ir_type_index_count = int (length sts), ir_def_hashes_count = int (length dhs)\<rparr> db6 = Inr db'))"
    by (simp add: insert_module_rows_def)
  also have "\<dots> \<longleftrightarrow> sql_int cost = Inr cost \<and> sql_int now = Inr now \<and> rows_fresh h sts dhs al cs db
    \<and> db' = rows_added h parent bytes cost now sts dhs deps sds al cs db"
    using assms
    by (auto simp: insert_module_def insert_symbols_Inr insert_def_hashes_Inr insert_aliases_Inr
        insert_concepts_Inr insert_index_impact_def insert_deps_def insert_all_sym_deps_eq
        insert_type_index_def rows_fresh_def rows_added_def symbol_exists_def)
  finally show ?thesis .
qed

end
