(* ===== verification/Ledger_Invariant.thy ===== *)
theory Ledger_Invariant
  imports Ledger_Index_Props
begin

section \<open>The invariant of the ledger\<close>

subsection \<open>The symbols and modules of the index\<close>

definition names :: "index_db \<Rightarrow> string set" where
  "names db = sr_symbol ` set (ix_symbols db)"

definition module_hashes :: "index_db \<Rightarrow> string set" where
  "module_hashes db = mr_hash ` set (ix_modules db)"

lemma symbol_exists_names: "symbol_exists db s \<longleftrightarrow> s \<in> names db"
  by (auto simp: symbol_exists_def names_def)

subsection \<open>What an accepted module brings\<close>

lemma has_duplicates_strs:
  assumes "has_duplicates xs = Inr False" and "set xs \<subseteq> JStr ` S"
  shows "distinct (map the_str xs) \<and> distinct xs"
proof -
  from assms(2) have "map scalar_key xs = xs" by (induction xs) auto
  moreover have "inj_on the_str (JStr ` S)" by (auto simp: inj_on_def)
  then have "inj_on the_str (set xs)" using assms(2) by (rule inj_on_subset)
  moreover from assms(1) have "distinct (map scalar_key xs)"
    by (auto simp: has_duplicates_def split: if_split_asm)
  ultimately show ?thesis by (simp add: distinct_map)
qed

lemma check_concepts_spec:
  assumes "check_concepts es ss pairs = Inr pairs'"
  shows "\<forall>e \<in> set es. concept_entry e \<and> snd (concept_key e) \<in> set ss"
    and "distinct (map concept_key es) \<and> concept_key ` set es \<inter> set pairs = {}"
proof -
  have "(\<forall>e \<in> set es. concept_entry e \<and> snd (concept_key e) \<in> set ss)
      \<and> distinct (map concept_key es) \<and> concept_key ` set es \<inter> set pairs = {}"
    using assms
  proof (induction es ss pairs rule: check_concepts.induct)
    case (1 ss pairs)
    then show ?case by simp
  next
    case (2 e es ss pairs)
    from 2(2) have e: "is_obj e" "is_str (jget e ''concept'')" "is_str (jget e ''symbol'')"
      "concept_key e \<notin> set pairs" "the_str (jget e ''symbol'') \<in> set ss"
      and rest: "check_concepts es ss (pairs @ [concept_key e]) = Inr pairs'"
      by (auto simp: Let_def concept_key_def split: if_split_asm)
    have "(\<forall>e \<in> set es. concept_entry e \<and> snd (concept_key e) \<in> set ss)
      \<and> distinct (map concept_key es) \<and> concept_key ` set es \<inter> set (pairs @ [concept_key e]) = {}"
      unfolding concept_key_def [of e]
      by (rule 2(1)) (use e rest in \<open>simp_all add: concept_key_def\<close>)
    moreover have "concept_entry e \<and> snd (concept_key e) \<in> set ss"
      using e by (simp add: concept_entry_def concept_key_def)
    ultimately show ?case using e(4) by auto
  qed
  then show "\<forall>e \<in> set es. concept_entry e \<and> snd (concept_key e) \<in> set ss"
    "distinct (map concept_key es) \<and> concept_key ` set es \<inter> set pairs = {}" by blast+
qed

lemma refs_in_defs_mono:
  "refs_in_defs ds refs = Inr rs \<Longrightarrow> set refs \<subseteq> set rs"
  by (induction ds arbitrary: refs) (fastforce split: if_split_asm)+

lemma refs_in_defs_member:
  assumes "refs_in_defs ds refs = Inr rs" and "d \<in> set ds" and "refs_in_defs [d] [] = Inr rd"
  shows "set rd \<subseteq> set rs"
  using assms
proof (induction ds arbitrary: refs)
  case Nil
  then show ?case by simp
next
  case (Cons e es)
  show ?case
  proof (cases "d = e")
    case True
    with Cons.prems show ?thesis
      by (auto split: if_split_asm dest!: refs_in_defs_mono simp: subset_iff)
  next
    case False
    with Cons show ?thesis by (auto split: if_split_asm)
  qed
qed

definition payload_list :: "accepted_module \<Rightarrow> string \<Rightarrow> json list" where
  "payload_list m key = the_list (jor (jget (am_payload m) key) (JList []))"

definition new_names :: "accepted_module \<Rightarrow> string set" where
  "new_names m = fst ` set (am_defs m)"

definition def_name :: "json \<Rightarrow> string" where
  "def_name d = the_str (jget d ''name'')"

text \<open>The facts later proofs use, each about one part of the accepted module.\<close>

definition module_facts :: "index_db \<Rightarrow> accepted_module \<Rightarrow> bool" where
  "module_facts db m \<longleftrightarrow>
     distinct (map fst (am_defs m))
     \<and> (\<forall>s \<in> new_names m. \<not> symbol_exists db s)
     \<and> (\<forall>s \<in> set (am_actual_deps m). symbol_exists db s)
     \<and> am_symbol_types m = map (\<lambda>(n, d). (n, definition_type d)) (am_defs m)
     \<and> def_name ` set (payload_list m ''definitions'') = new_names m
     \<and> distinct (map def_name (payload_list m ''definitions''))
     \<and> (\<forall>(s, ds) \<in> set (am_symbol_deps m). s \<in> new_names m \<and> set ds \<subseteq> set (am_actual_deps m) \<union> new_names m)
     \<and> (\<forall>e \<in> set (payload_list m ''concepts''). concept_entry e \<and> snd (concept_key e) \<in> new_names m)
     \<and> distinct (map concept_key (payload_list m ''concepts''))"

lemma module_factsD:
  assumes "module_facts db m"
  shows "distinct (map fst (am_defs m))" "\<forall>s \<in> new_names m. s \<notin> names db"
    "set (am_actual_deps m) \<subseteq> names db"
    "am_symbol_types m = map (\<lambda>(n, d). (n, definition_type d)) (am_defs m)"
    "def_name ` set (payload_list m ''definitions'') = new_names m"
    "distinct (map def_name (payload_list m ''definitions''))"
    "\<forall>(s, ds) \<in> set (am_symbol_deps m). s \<in> new_names m \<and> set ds \<subseteq> set (am_actual_deps m) \<union> new_names m"
    "\<forall>e \<in> set (payload_list m ''concepts''). concept_entry e \<and> snd (concept_key e) \<in> new_names m"
    "distinct (map concept_key (payload_list m ''concepts''))"
  using assms by (simp_all add: module_facts_def symbol_exists_names subset_iff)

lemma check_fresh_Inr:
  assumes "check_fresh db F ss h = Inr u"
  shows "(\<forall>s \<in> set ss. \<not> symbol_exists db s) \<and> lf_objects F (object_path h) = None"
  using assms by (auto simp: check_fresh_def filter_empty_conv split: list.split_asm if_split_asm)

lemma check_deps_Inr:
  assumes "check_deps db ds specs ss deps = Inr actual"
  shows "(\<forall>s \<in> set actual. symbol_exists db s \<and> s \<notin> set ss) \<and> set deps = set actual
    \<and> (\<exists>rs1 rs2. collect_sym_refs_in_defs ds = Inr rs1 \<and> collect_sym_refs_in_specs specs = Inr rs2
        \<and> set actual = (set rs1 \<union> set rs2) - set ss)"
proof -
  from assms obtain rs1 rs2 where rs: "collect_sym_refs_in_defs ds = Inr rs1" "collect_sym_refs_in_specs specs = Inr rs2"
    and actual: "actual = filter (\<lambda>s. s \<notin> set ss) (set_update rs1 rs2)" "set deps = set actual"
    and known: "filter (\<lambda>s. \<not> symbol_exists db s) actual = []"
    unfolding check_deps_def Let_def
    by (auto elim!: bindrE simp del: bindr_Inr_iff split: if_split_asm)
  from actual(1) have "set actual = (set rs1 \<union> set rs2) - set ss" by auto
  moreover from known have "\<forall>s \<in> set actual. symbol_exists db s" by (simp add: filter_empty_conv)
  ultimately show ?thesis using rs actual(2) by blast
qed

lemma definition_deps_Inr:
  assumes "mapr definition_deps ds = Inr sdeps" and "collect_sym_refs_in_defs ds = Inr rs"
    and "(s, deps) \<in> set sdeps"
  shows "s \<in> def_name ` set ds \<and> set deps \<subseteq> set rs"
proof -
  from mapr_Inr_ex [OF assms(1,3)] obtain d where d: "d \<in> set ds" "definition_deps d = Inr (s, deps)" by blast
  then obtain rd where "collect_sym_refs_in_defs [d] = Inr rd" "s = def_name d" "set deps \<subseteq> set rd"
    by (auto simp: definition_deps_def Let_def def_name_def)
  with d(1) refs_in_defs_member [of ds "[]" rs d rd] assms(2) show ?thesis
    by (auto simp: collect_sym_refs_in_defs_def)
qed

lemma verify_checks_facts:
  assumes "verify_checks X data F db n p bytes h = Inr m"
  shows "module_facts db m \<and> am_payload m = p \<and> am_payload_hash m = h \<and> am_payload_bytes m = bytes
    \<and> am_cost m \<le> n \<and> lf_objects F (object_path h) = None"
  using assms
proof (rule verify_checks_parts)
  let ?ds = "the_list (jor (jget p ''definitions'') (JList []))"
  let ?specs = "the_list (jor (jget p ''specs'') (JList []))"
  fix ss deps pairs actual old new step ctx rs al stats sdeps
  assume sy: "check_symbols p = Inr (ss, deps, pairs)" and fr: "check_fresh db F ss h = Inr ()"
    and dn: "check_def_names ?ds ss deps = Inr ()" and dp: "check_deps db ?ds ?specs ss deps = Inr actual"
    and ad: "add_parsed ?ds [] = Inr new" and cost: "am_cost m \<le> n"
    and sd: "mapr definition_deps ?ds = Inr sdeps"
    and m: "m = \<lparr>am_payload_hash = h, am_payload_bytes = bytes, am_payload = p, am_cost = am_cost m,
       am_spec_work = st_spec_work stats,
       am_symbol_types = map (\<lambda>(n, d). (n, definition_type d)) new, am_defs = new, am_actual_deps = actual,
       am_symbol_deps = sdeps, am_stat_cert_count = st_stat_cert_count stats,
       am_stat_round_start = rs, am_stat_alpha_spent = al\<rparr>"
  have fields: "am_payload m = p" "am_payload_hash m = h" "am_payload_bytes m = bytes" "am_defs m = new"
    "am_symbol_types m = map (\<lambda>(n, d). (n, definition_type d)) new" "am_actual_deps m = actual"
    "am_symbol_deps m = sdeps"
    by (subst m, simp)+
  from dn obtain names where names: "mapr (\<lambda>d. jgetr d ''name'') ?ds = Inr names"
    "has_duplicates names = Inr False" "set names = JStr ` set ss"
    unfolding check_def_names_def by (auto elim!: bindrE simp del: bindr_Inr_iff split: if_split_asm)
  have "list_all2 (\<lambda>d n. the_str n = def_name d) ?ds names"
    using names(1) unfolding mapr_Inr_iff
    by (rule list_all2_mono) (auto simp: jgetr_def def_name_def split: if_split_asm)
  then have eq: "map the_str names = map def_name ?ds"
    by (induction rule: list_all2_induct) auto
  have "set (map the_str names) = set ss" using names(3) by force
  then have set_names: "def_name ` set ?ds = set ss" unfolding eq by simp
  from add_parsed_spec [OF ad] have new: "distinct (map fst new)" "fst ` set new = def_name ` set ?ds"
    by (auto simp: def_name_def)
  from sy obtain pr where cc: "check_concepts (the_list (jor (jget p ''concepts'') (JList []))) ss [] = Inr pr"
    unfolding check_symbols_def Let_def by (auto elim!: bindrE simp del: bindr_Inr_iff split: if_split_asm)
  obtain rs1 where rs1: "collect_sym_refs_in_defs ?ds = Inr rs1" "set rs1 \<subseteq> set actual \<union> set ss"
    using check_deps_Inr [OF dp] by auto
  have "\<forall>(s, ds) \<in> set sdeps. s \<in> set ss \<and> set ds \<subseteq> set actual \<union> set ss"
    using definition_deps_Inr [OF sd rs1(1)] rs1(2) set_names by blast
  moreover have "distinct (map def_name ?ds)"
    using has_duplicates_strs [OF names(2), of "set ss"] names(3) unfolding eq by simp
  ultimately show ?thesis
    using check_fresh_Inr [OF fr] check_deps_Inr [OF dp] cost new set_names check_concepts_spec [OF cc]
    by (simp add: module_facts_def new_names_def payload_list_def fields)
qed

subsection \<open>The index\<close>

text \<open>
  Unique keys, and references that lead to existing rows: every module of the index is in the
  order log \<open>hs\<close>, every row of the other tables belongs to a symbol or a module of the index,
  and both ends of every dependency are symbols. The budget is not negative.
\<close>

definition index_ok :: "index_db \<Rightarrow> string list \<Rightarrow> bool" where
  "index_ok db hs \<longleftrightarrow>
     distinct (map mr_hash (ix_modules db)) \<and> module_hashes db \<subseteq> set hs
     \<and> distinct (map sr_symbol (ix_symbols db))
     \<and> sr_module_hash ` set (ix_symbols db) \<subseteq> module_hashes db
     \<and> fst ` set (ix_def_hashes db) \<subseteq> names db
     \<and> fst ` set (ix_aliases db) \<subseteq> names db
     \<and> snd ` row_key ` set (ix_concepts db) \<subseteq> names db
     \<and> ir_module_hash ` set (ix_index_impact db) \<subseteq> module_hashes db
     \<and> fst ` set (ix_sym_deps db) \<subseteq> names db \<and> snd ` set (ix_sym_deps db) \<subseteq> names db
     \<and> (\<forall>n. ix_budget db = Some n \<longrightarrow> 0 \<le> n \<and> n < 2 ^ 63)"

lemma index_okD:
  assumes "index_ok db hs"
  shows "distinct (map mr_hash (ix_modules db))" "module_hashes db \<subseteq> set hs"
    "distinct (map sr_symbol (ix_symbols db))" "sr_module_hash ` set (ix_symbols db) \<subseteq> module_hashes db"
    "fst ` set (ix_def_hashes db) \<subseteq> names db" "fst ` set (ix_aliases db) \<subseteq> names db"
    "snd ` row_key ` set (ix_concepts db) \<subseteq> names db"
    "ir_module_hash ` set (ix_index_impact db) \<subseteq> module_hashes db"
    "fst ` set (ix_sym_deps db) \<subseteq> names db" "snd ` set (ix_sym_deps db) \<subseteq> names db"
    "\<forall>n. ix_budget db = Some n \<longrightarrow> 0 \<le> n \<and> n < 2 ^ 63"
  using assms by (simp_all add: index_ok_def)

lemma index_ok_empty: "index_ok empty_db []"
  by (simp add: index_ok_def empty_db_def module_hashes_def)

lemma index_ok_mono: "index_ok db hs \<Longrightarrow> set hs \<subseteq> set hs' \<Longrightarrow> index_ok db hs'"
  by (auto simp: index_ok_def)

lemma index_ok_same:
  assumes "index_ok db hs"
    and "(\<forall>n. b = Some n \<longrightarrow> 0 \<le> n \<and> n < 2 ^ 63)"
  shows "index_ok (db\<lparr>ix_schema_version := v, ix_budget := b\<rparr>) hs"
  using assms by (simp add: index_ok_def names_def module_hashes_def)

lemma index_ok_version: "index_ok (db\<lparr>ix_schema_version := v\<rparr>) hs = index_ok db hs"
  by (simp add: index_ok_def names_def module_hashes_def)

lemma index_ok_open:
  assumes "index_ok db hs" and "\<And>n. config_int data ''ledger'' ''budget'' = Inr n \<Longrightarrow> 0 \<le> n"
  shows "index_ok (snd (open_index data db)) hs"
proof (cases rule: open_index_cases [of data db])
  case schema
  with assms(1) show ?thesis by simp
next
  case (budget e db1)
  with assms(1) init_schema_Inr [OF budget(1)] show ?thesis by (simp add: index_ok_version)
next
  case (known n db1)
  with assms(1) init_schema_Inr [OF known(1)] show ?thesis by (simp add: index_ok_version)
next
  case (first n db1)
  from first(3) assms(2) [OF first(4)] have "0 \<le> n \<and> n < 2 ^ 63" by simp
  with first assms(1) init_schema_Inr [OF first(1)] show ?thesis by (simp add: index_ok_same)
qed

lemma symbol_rows_images [simp]:
  "sr_symbol ` set (symbol_rows sts dhs h) = fst ` set sts"
  "map sr_symbol (symbol_rows sts dhs h) = map fst sts"
  "sr_module_hash ` set (symbol_rows sts dhs h) \<subseteq> {h}"
  by (auto simp: symbol_rows_def split_beta image_image)

lemma names_rows_added [simp]:
  "names (rows_added h parent bytes cost now sts dhs deps sds al cs db) = names db \<union> fst ` set sts"
  by (simp add: names_def rows_added_def image_Un)

lemma module_hashes_rows_added [simp]:
  "module_hashes (rows_added h parent bytes cost now sts dhs deps sds al cs db) = insert h (module_hashes db)"
  by (simp add: module_hashes_def rows_added_def)

lemma dep_pairs_mem:
  "x \<in> set (concat (map (\<lambda>(n, ds). map (Pair n) ds) sds)) \<longleftrightarrow> (\<exists>ds. (fst x, ds) \<in> set sds \<and> snd x \<in> set ds)"
  by (induction sds; cases x) auto

lemma dep_pairs_images:
  assumes "fst ` set sds \<subseteq> A" and "\<forall>(s, ds) \<in> set sds. set ds \<subseteq> B"
  shows "fst ` set (concat (map (\<lambda>(n, ds). map (Pair n) ds) sds)) \<subseteq> A"
    and "snd ` set (concat (map (\<lambda>(n, ds). map (Pair n) ds) sds)) \<subseteq> B"
  using assms by (auto simp only: dep_pairs_mem image_subset_iff) force+

lemma index_ok_rows:
  assumes "index_ok db hs" and "rows_fresh h sts dhs al cs db"
    and "fst ` set dhs \<subseteq> fst ` set sts" "fst ` set al \<subseteq> fst ` set sts"
    and "snd ` concept_key ` set cs \<subseteq> fst ` set sts"
    and "fst ` set sds \<subseteq> fst ` set sts" "\<forall>(s, ds) \<in> set sds. set ds \<subseteq> names db \<union> fst ` set sts"
  shows "index_ok (rows_added h parent bytes cost now sts dhs deps sds al cs db) (hs @ [h])"
proof -
  let ?new = "rows_added h parent bytes cost now sts dhs deps sds al cs db"
  have mods: "map mr_hash (ix_modules ?new) = map mr_hash (ix_modules db) @ [h]"
    and syms: "ix_symbols ?new = ix_symbols db @ symbol_rows sts dhs h"
    and dhs: "fst ` set (ix_def_hashes ?new) = fst ` set (ix_def_hashes db) \<union> fst ` set dhs"
    and al: "ix_aliases ?new = ix_aliases db @ al"
    and cs: "row_key ` set (ix_concepts ?new) = row_key ` set (ix_concepts db) \<union> concept_key ` set cs"
    and im: "ir_module_hash ` set (ix_index_impact ?new) = insert h (ir_module_hash ` set (ix_index_impact db))"
    and bud: "ix_budget ?new = ix_budget db"
    by (simp_all add: rows_added_def image_image split_beta image_Un)
  have deps: "ix_sym_deps ?new = ix_sym_deps db @ concat (map (\<lambda>(n, ds). map (Pair n) ds) sds)"
    by (simp add: rows_added_def)
  note old = index_okD(9,10) [OF assms(1)]
  have deps': "fst ` set (ix_sym_deps ?new) \<subseteq> names db \<union> fst ` set sts"
    "snd ` set (ix_sym_deps ?new) \<subseteq> names db \<union> fst ` set sts"
    unfolding deps set_append image_Un using old dep_pairs_images [OF assms(6,7)]
    by (meson Un_least le_supI1 le_supI2)+
  note ok = index_okD(1-8,11) [OF assms(1)]
  have "\<forall>s \<in> fst ` set sts. s \<notin> names db" and "distinct (map fst sts)"
    using assms(2) unfolding rows_fresh_def symbol_exists_names by simp_all
  then have "names db \<inter> fst ` set sts = {}" "distinct (map fst sts)"
    by (simp_all only: disjoint_iff) (meson)
  then have "distinct (map sr_symbol (ix_symbols ?new))"
    using ok(3) unfolding syms map_append symbol_rows_images(2) distinct_append set_map names_def by simp
  moreover have "distinct (map mr_hash (ix_modules ?new))"
    using assms(2) ok(1) unfolding mods by (simp add: rows_fresh_def)
  moreover have "sr_module_hash ` set (ix_symbols ?new) \<subseteq> insert h (module_hashes db)"
    using ok(4) symbol_rows_images(3) [of sts dhs h] unfolding syms set_append image_Un by blast
  moreover have "snd ` row_key ` set (ix_concepts ?new) \<subseteq> names db \<union> fst ` set sts"
    unfolding cs image_Un using ok(7) assms(5) by (rule Un_mono)
  moreover have "fst ` set (ix_aliases ?new) \<subseteq> names db \<union> fst ` set sts"
    unfolding al set_append image_Un using ok(6) assms(4) by (rule Un_mono)
  moreover have "fst ` set (ix_def_hashes ?new) \<subseteq> names db \<union> fst ` set sts"
    unfolding dhs using ok(5) assms(3) by (rule Un_mono)
  moreover have "ir_module_hash ` set (ix_index_impact ?new) \<subseteq> insert h (module_hashes db)"
    unfolding im using ok(8) by blast
  moreover have "insert h (module_hashes db) \<subseteq> set (hs @ [h])"
    using ok(2) by auto
  moreover have "\<forall>n. ix_budget ?new = Some n \<longrightarrow> 0 \<le> n \<and> n < 2 ^ 63"
    unfolding bud by (rule ok(9))
  ultimately show ?thesis
    unfolding index_ok_def [of ?new] names_rows_added module_hashes_rows_added
    by (intro conjI deps') assumption+
qed

end
