(* ===== verification/Ledger_Reach.thy ===== *)
theory Ledger_Reach
  imports Ledger_Invariant
begin

section \<open>Reachable ledgers\<close>

text \<open>
  \<open>reachable\<close> holds of the ledgers an initialised directory can become by commits, accepted or
  not. Its invariant: the order log lists distinct hashes, each names an object that holds
  canonical bytes with that hash, and the index is consistent.
\<close>

subsection \<open>The files\<close>

text \<open>\<open>blake3(...).hexdigest()\<close>: 64 hexadecimal digits.\<close>

definition hex_hash :: "(string \<Rightarrow> string) \<Rightarrow> bool" where
  "hex_hash H \<longleftrightarrow> (\<forall>s. length (H s) = 64 \<and> set (H s) \<subseteq> set ''0123456789abcdef'')"

lemma hex_hash_clean:
  assumes "hex_hash H"
  shows "clean (H s)" and "H s \<noteq> genesis_hash"
proof -
  have "\<forall>c \<in> set ''0123456789abcdef''. \<not> line_break c \<and> \<not> py_space c"
    by (simp add: line_break_def py_space_def)
  moreover have "H s \<noteq> []" "set (H s) \<subseteq> set ''0123456789abcdef''"
    using assms by (auto simp: hex_hash_def dest: spec [of _ s])
  ultimately show "clean (H s)" unfolding clean_def by blast
  have "length genesis_hash = 7" by (simp add: genesis_hash_def)
  then show "H s \<noteq> genesis_hash" using assms unfolding hex_hash_def by (metis num.simps(3) numeral_eq_iff num.inject(2) semiring_norm(88))
qed

definition files_ok :: "externals \<Rightarrow> ledger_files \<Rightarrow> string list \<Rightarrow> bool" where
  "files_ok X F hs \<longleftrightarrow>
     lf_order_log F = Some (log_text hs) \<and> distinct hs \<and> (\<forall>h \<in> set hs. clean h)
     \<and> lf_head F = Some (if hs = [] then genesis_hash else last hs)
     \<and> (\<forall>h \<in> set hs. \<exists>raw p. canonicalize_payload raw = Inr p
          \<and> lf_objects F (object_path h) = Some (canonical_json_bytes p)
          \<and> x_blake3 X (canonical_json_bytes p) = h)"

definition empty_files :: ledger_files where
  "empty_files = \<lparr>lf_objects = (\<lambda>_. None), lf_meta = (\<lambda>_. None), lf_order_log = None, lf_head = None,
     lf_cache = (\<lambda>_. None)\<rparr>"

lemma files_ok_start: "files_ok X (init_storage empty_files) []"
  by (simp add: files_ok_def init_storage_def empty_files_def log_text_def Let_def)

lemma files_ok_order: "files_ok X F hs \<Longrightarrow> iter_order_log F = hs"
  unfolding files_ok_def by (intro iter_order_log_text) simp_all

lemma files_ok_head: "files_ok X F hs \<Longrightarrow> read_head F = (if hs = [] then genesis_hash else last hs)"
  using files_ok_order [of X F hs] unfolding read_head_def files_ok_def
  by (simp add: Let_def genesis_hash_def strip_def py_space_def)

text \<open>What \<open>commit_files\<close> leaves when the hash is not in the log.\<close>

lemma commit_files_eq:
  assumes "files_ok X F hs" and "clean (am_payload_hash m)" and "am_payload_hash m \<notin> set hs"
  shows "fst (commit_files module m F)
    \<and> lf_order_log (snd (commit_files module m F)) = Some (log_text (hs @ [am_payload_hash m]))
    \<and> lf_head (snd (commit_files module m F)) = Some (am_payload_hash m)
    \<and> lf_objects (snd (commit_files module m F))
        = (lf_objects F)(object_path (am_payload_hash m) := Some (am_payload_bytes m))"
proof -
  define F1 where "F1 = write_object (am_payload_hash m) (am_payload_bytes m) F"
  define F2 where "F2 = (let meta = jget module ''meta'' in
    if is_obj meta \<and> truthy meta then write_meta (am_payload_hash m) meta F1 else F1)"
  have F2: "lf_order_log F2 = Some (log_text hs)" "lf_objects F2 = (lf_objects F)(object_path (am_payload_hash m) := Some (am_payload_bytes m))"
    using assms(1) by (simp_all add: F2_def F1_def files_ok_def write_object_def write_meta_def Let_def)
  have "append_order_log (am_payload_hash m) F2 = (True, F2\<lparr>lf_order_log := Some (log_text (hs @ [am_payload_hash m]))\<rparr>)"
    by (rule append_order_log_text) (use F2 assms in \<open>simp_all add: files_ok_def clean_def\<close>)
  moreover have "commit_files module m F = (case append_order_log (am_payload_hash m) F2 of
      (appended, F3) \<Rightarrow> (appended, if appended then write_head (am_payload_hash m) F3 else F3))"
    by (simp add: commit_files_def F1_def F2_def Let_def)
  ultimately have "commit_files module m F
    = (True, write_head (am_payload_hash m) (F2\<lparr>lf_order_log := Some (log_text (hs @ [am_payload_hash m]))\<rparr>))"
    by simp
  with F2 show ?thesis by (simp add: write_head_def)
qed

subsection \<open>The transaction\<close>

definition parent_of :: "json \<Rightarrow> string" where
  "parent_of module = the_str (jget module ''parent'')"

definition def_hashes_of :: "externals \<Rightarrow> accepted_module \<Rightarrow> (string \<times> string) list" where
  "def_hashes_of X m = map (\<lambda>d. (def_name d, x_blake3 X (canonical_json_bytes d))) (payload_list m ''definitions'')"

text \<open>The index after the rows of an accepted module.\<close>

definition committed_rows :: "externals \<Rightarrow> string \<Rightarrow> int \<Rightarrow> accepted_module \<Rightarrow> index_db \<Rightarrow> index_db" where
  "committed_rows X parent now m db = rows_added (am_payload_hash m) parent (am_payload_bytes m) (am_cost m) now
     (am_symbol_types m) (def_hashes_of X m) (am_actual_deps m) (am_symbol_deps m) (alias_map_of (am_defs m))
     (payload_list m ''concepts'') db"

lemma alias_map_Cons: "alias_map_of ((n, d) # ds) = alias_map_of ds
    \<or> (\<exists>target. alias_map_of ((n, d) # ds) = (n, target) # alias_map_of ds)"
  by (auto simp: alias_map_of_def split: option.split)

lemma alias_map_subset: "fst ` set (alias_map_of defs) \<subseteq> fst ` set defs"
proof (induction defs)
  case (Cons d ds)
  obtain n e where d: "d = (n, e)" by fastforce
  from Cons have "insert n (fst ` set (alias_map_of ds)) \<subseteq> insert n (fst ` set ds)" by (rule insert_mono)
  moreover have "fst ` set (alias_map_of ds) \<subseteq> insert n (fst ` set ds)" using Cons by (rule subset_insertI2)
  ultimately show ?case using alias_map_Cons [of n e ds] unfolding d
    by (elim disjE exE) (simp_all only: list.set image_insert fst_conv)
qed (simp add: alias_map_of_def)

lemma alias_map_distinct: "distinct (map fst defs) \<Longrightarrow> distinct (map fst (alias_map_of defs))"
proof (induction defs)
  case (Cons d ds)
  obtain n e where d: "d = (n, e)" by fastforce
  with Cons.prems have "n \<notin> fst ` set ds" by simp
  then have "n \<notin> fst ` set (alias_map_of ds)" using alias_map_subset by (rule contra_subsetD [rotated])
  with alias_map_Cons [of n e ds] Cons show ?case unfolding d by auto
qed (simp add: alias_map_of_def)

lemma symbol_types_keys: "module_facts db m \<Longrightarrow> map fst (am_symbol_types m) = map fst (am_defs m)"
  by (simp add: module_facts_def split_beta)

lemma disjoint_sub: "A \<subseteq> N \<Longrightarrow> B \<subseteq> M \<Longrightarrow> N \<inter> M = {} \<Longrightarrow> A \<inter> B = {}"
  by blast

lemma disjoint_snd: "snd ` A \<inter> snd ` B = {} \<Longrightarrow> A \<inter> B = {}"
  by blast

lemma module_rows_fresh:
  assumes "module_facts db m" and "index_ok db hs" and "am_payload_hash m \<notin> set hs"
  shows "rows_fresh (am_payload_hash m) (am_symbol_types m) (def_hashes_of X m) (alias_map_of (am_defs m))
    (payload_list m ''concepts'') db"
proof -
  have keys: "fst ` set (am_symbol_types m) = new_names m" "distinct (map fst (am_symbol_types m))"
  proof -
    show "fst ` set (am_symbol_types m) = new_names m"
      using symbol_types_keys [OF assms(1)] unfolding new_names_def by (metis list.set_map)
    show "distinct (map fst (am_symbol_types m))"
      unfolding symbol_types_keys [OF assms(1)] using assms(1) by (simp add: module_facts_def)
  qed
  have new: "new_names m \<inter> names db = {}"
    using module_factsD(2) [OF assms(1)] by (simp add: disjoint_iff)
  have dh: "map fst (def_hashes_of X m) = map def_name (payload_list m ''definitions'')"
    by (simp add: def_hashes_of_def comp_def)
  have nn: "def_name ` set (payload_list m ''definitions'') = new_names m"
    using assms(1) by (simp add: module_facts_def)
  have "set (map fst (def_hashes_of X m)) = new_names m" unfolding dh set_map by (rule nn)
  then have "fst ` set (def_hashes_of X m) = new_names m" by (simp only: set_map)
  moreover have "fst ` set (ix_def_hashes db) \<subseteq> names db" using assms(2) by (simp add: index_ok_def)
  ultimately have "fst ` set (def_hashes_of X m) \<inter> fst ` set (ix_def_hashes db) = {}"
    by (intro disjoint_sub [OF _ _ new]) simp_all
  moreover have "fst ` set (alias_map_of (am_defs m)) \<inter> fst ` set (ix_aliases db) = {}"
    by (rule disjoint_sub [OF _ _ new])
      (use alias_map_subset [of "am_defs m"] assms(2) in \<open>simp_all add: new_names_def index_ok_def\<close>)
  moreover have "concept_key ` set (payload_list m ''concepts'') \<inter> row_key ` set (ix_concepts db) = {}"
  proof -
    have "snd ` concept_key ` set (payload_list m ''concepts'') \<subseteq> new_names m"
      using assms(1) by (auto simp: module_facts_def)
    moreover have "snd ` row_key ` set (ix_concepts db) \<subseteq> names db"
      using assms(2) by (simp add: index_ok_def)
    ultimately have "snd ` concept_key ` set (payload_list m ''concepts'') \<inter> snd ` row_key ` set (ix_concepts db) = {}"
      by (rule disjoint_sub [OF _ _ new])
    then show ?thesis by (rule disjoint_snd)
  qed
  moreover have "am_payload_hash m \<notin> module_hashes db"
    using index_okD(2) [OF assms(2)] assms(3) by (rule contra_subsetD)
  moreover from index_okD(8) [OF assms(2)] this have "am_payload_hash m \<notin> ir_module_hash ` set (ix_index_impact db)"
    by (rule contra_subsetD)
  moreover have "distinct (map fst (def_hashes_of X m))" "distinct (map fst (alias_map_of (am_defs m)))"
    "distinct (map concept_key (payload_list m ''concepts''))"
    using assms(1) alias_map_distinct [of "am_defs m"] by (simp_all add: dh module_facts_def)
  moreover have "\<forall>n \<in> fst ` set (am_symbol_types m). \<not> symbol_exists db n"
    using module_factsD(2) [OF assms(1)] unfolding keys(1) symbol_exists_names .
  ultimately show ?thesis
    using keys(2) unfolding rows_fresh_def module_hashes_def by (intro conjI) assumption+
qed

lemma committed_rows_ok:
  assumes "module_facts db m" and "index_ok db hs" and "am_payload_hash m \<notin> set hs"
  shows "index_ok (committed_rows X parent now m db) (hs @ [am_payload_hash m])"
  unfolding committed_rows_def
proof (rule index_ok_rows [OF assms(2) module_rows_fresh [OF assms]])
  have keys: "fst ` set (am_symbol_types m) = new_names m"
    using symbol_types_keys [OF assms(1)] unfolding new_names_def by (metis list.set_map)
  show "fst ` set (def_hashes_of X m) \<subseteq> fst ` set (am_symbol_types m)"
    unfolding keys module_factsD(5) [OF assms(1), symmetric] by (auto simp: def_hashes_of_def)
  show "fst ` set (alias_map_of (am_defs m)) \<subseteq> fst ` set (am_symbol_types m)"
    unfolding keys new_names_def by (rule alias_map_subset)
  show "snd ` concept_key ` set (payload_list m ''concepts'') \<subseteq> fst ` set (am_symbol_types m)"
    using module_factsD(8) [OF assms(1)] unfolding keys by auto
  show "fst ` set (am_symbol_deps m) \<subseteq> fst ` set (am_symbol_types m)"
    using module_factsD(7) [OF assms(1)] unfolding keys by auto
  show "\<forall>(s, ds) \<in> set (am_symbol_deps m). set ds \<subseteq> names db \<union> fst ` set (am_symbol_types m)"
    using module_factsD(3,7) [OF assms(1)] unfolding keys by blast
qed

subsection \<open>Commits\<close>

lemma commit_index_Inr:
  assumes "module_facts db m"
    and "commit_index data parent now m (def_hashes_of X m) n db = Inr db'"
  shows "\<exists>st. db' = (committed_rows X parent now m db)\<lparr>ix_budget := map_option (\<lambda>_. n - am_cost m) (ix_budget db),
      ix_stat_cert_state := st\<rparr> \<and> sql_int (n - am_cost m) = Inr (n - am_cost m)"
proof -
  have entries: "\<forall>e \<in> set (payload_list m ''concepts''). concept_entry e"
    using module_factsD(8) [OF assms(1)] by blast
  from assms(2) have "\<exists>db1 db2. insert_module_rows (am_payload_hash m) parent (am_payload_bytes m) (am_cost m) now
        (am_symbol_types m) (def_hashes_of X m) (am_actual_deps m) (am_symbol_deps m) (alias_map_of (am_defs m))
        (payload_list m ''concepts'') db = Inr db1 \<and> update_budget (n - am_cost m) db1 = Inr db2
      \<and> (db' = db2 \<or> (\<exists>st. db' = db2\<lparr>ix_stat_cert_state := st\<rparr>))"
    unfolding commit_index_def payload_list_def Let_def
    by (auto elim!: bindrE simp: set_stat_cert_state_def simp del: bindr_Inr_iff split: if_split_asm)
  then obtain db1 db2 where
    rows: "insert_module_rows (am_payload_hash m) parent (am_payload_bytes m) (am_cost m) now
        (am_symbol_types m) (def_hashes_of X m) (am_actual_deps m) (am_symbol_deps m) (alias_map_of (am_defs m))
        (payload_list m ''concepts'') db = Inr db1"
    and bud: "update_budget (n - am_cost m) db1 = Inr db2"
    and stat: "db' = db2 \<or> (\<exists>st. db' = db2\<lparr>ix_stat_cert_state := st\<rparr>)"
    by blast
  from rows have db1: "db1 = committed_rows X parent now m db"
    unfolding insert_module_rows_Inr [OF entries] committed_rows_def by blast
  have same: "db2 = db2\<lparr>ix_stat_cert_state := ix_stat_cert_state db2\<rparr>" by (cases db2) simp
  have "ix_budget db1 = ix_budget db" by (simp add: db1 committed_rows_def rows_added_def)
  with bud have db2: "db2 = db1\<lparr>ix_budget := map_option (\<lambda>_. n - am_cost m) (ix_budget db)\<rparr>"
    and range: "sql_int (n - am_cost m) = Inr (n - am_cost m)"
    by (auto simp: update_budget_def)
  from stat same have "\<exists>st. db' = db2\<lparr>ix_stat_cert_state := st\<rparr>" by metis
  with db1 db2 range show ?thesis by auto
qed

lemma commit_index_ok:
  assumes "module_facts db m" and "index_ok db hs" and "am_payload_hash m \<notin> set hs" and "am_cost m \<le> n"
    and "commit_index data parent now m (def_hashes_of X m) n db = Inr db'"
  shows "index_ok db' (hs @ [am_payload_hash m])"
proof -
  obtain st where db': "db' = (committed_rows X parent now m db)\<lparr>ix_budget := map_option (\<lambda>_. n - am_cost m) (ix_budget db),
      ix_stat_cert_state := st\<rparr>" and "sql_int (n - am_cost m) = Inr (n - am_cost m)"
    using commit_index_Inr [OF assms(1,5)] by blast
  then have "0 \<le> n - am_cost m \<and> n - am_cost m < 2 ^ 63" using assms(4) by simp
  with committed_rows_ok [OF assms(1-3), of X parent now] show ?thesis
    unfolding db' by (simp add: index_ok_def names_def module_hashes_def)
qed

text \<open>Without certificates the transaction succeeds, as long as the numbers fit SQLite's integers.\<close>

lemma commit_index_success:
  assumes "module_facts db m" and "index_ok db hs" and "am_payload_hash m \<notin> set hs"
    and "am_stat_cert_count m = 0" and "0 \<le> am_cost m" "am_cost m \<le> n" "n < 2 ^ 63" "0 \<le> now" "now < 2 ^ 63"
  shows "commit_index data parent now m (def_hashes_of X m) n db
    = Inr ((committed_rows X parent now m db)\<lparr>ix_budget := map_option (\<lambda>_. n - am_cost m) (ix_budget db)\<rparr>)"
proof -
  have entries: "\<forall>e \<in> set (payload_list m ''concepts''). concept_entry e"
    using module_factsD(8) [OF assms(1)] by blast
  have "insert_module_rows (am_payload_hash m) parent (am_payload_bytes m) (am_cost m) now
        (am_symbol_types m) (def_hashes_of X m) (am_actual_deps m) (am_symbol_deps m) (alias_map_of (am_defs m))
        (payload_list m ''concepts'') db = Inr (committed_rows X parent now m db)"
    using module_rows_fresh [OF assms(1-3)] assms(5-9)
    unfolding insert_module_rows_Inr [OF entries] committed_rows_def by simp
  moreover have "sql_int (n - am_cost m) = Inr (n - am_cost m)" using assms(5-7) by simp
  moreover have "ix_budget (committed_rows X parent now m db) = ix_budget db"
    by (simp add: committed_rows_def rows_added_def)
  ultimately show ?thesis
    using assms(4) by (simp add: commit_index_def payload_list_def [symmetric] update_budget_def)
qed

text \<open>The verifier only opens the index.\<close>

lemma verify_module_effect:
  assumes "verify_module X data W module = (r, W1)"
  shows "W1 = W \<or> W1 = W\<lparr>l_index := snd (open_index data (l_index W))\<rparr>"
  using assms by (auto simp: verify_module_def split: sum.split_asm prod.split_asm)

lemma commit_not_accepted:
  assumes "verify_module X data W module = (r, W1)" and "\<forall>m. r \<noteq> Inr (Accepted m)"
  shows "commit_module X data now W module = (r, W1)"
proof (cases r)
  case (Inr v)
  with assms show ?thesis by (cases v) (simp_all add: commit_module_def)
qed (use assms in \<open>simp add: commit_module_def\<close>)

lemma both_set: "W\<lparr>l_index := db, l_files := F\<rparr> = \<lparr>l_files = F, l_index = db\<rparr>"
  "W\<lparr>l_files := F, l_index := db\<rparr> = \<lparr>l_files = F, l_index = db\<rparr>" for W :: ledger
  by (cases W, simp)+

lemma commit_accepted:
  assumes "verify_module X data W module = (Inr (Accepted m), W1)"
    and "files_ok X (l_files W) hs" and "hex_hash (x_blake3 X)"
  obtains n db F where
    "open_index data (l_index W) = (Inr n, db)" "module_facts db m" "am_cost m \<le> n"
    "jget module ''parent'' = JStr (read_head (l_files W))"
    "am_payload_hash m \<notin> set hs" "F = snd (commit_files module m (l_files W))"
    "files_ok X F (hs @ [am_payload_hash m])"
    "lf_objects F = (lf_objects (l_files W))(object_path (am_payload_hash m) := Some (am_payload_bytes m))"
    "\<exists>raw. canonicalize_payload raw = Inr (am_payload m)"
    "am_payload_bytes m = canonical_json_bytes (am_payload m)"
    "am_payload_hash m = x_blake3 X (am_payload_bytes m)"
    "commit_module X data now W module = (Inr (Accepted m), \<lparr>l_files = F, l_index =
       (case commit_index data (parent_of module) now m (def_hashes_of X m) n db of Inl e \<Rightarrow> db | Inr db' \<Rightarrow> db')\<rparr>)"
  using assms(1)
proof (rule verify_accepted)
  fix raw p bytes h n db
  assume parent: "jget module ''parent'' = JStr (read_head (l_files W))"
    and raw: "canonicalize_payload raw = Inr p" and bytes: "bytes = canonical_json_bytes p" "h = x_blake3 X bytes"
    and opened: "open_index data (l_index W) = (Inr n, db)" and W1: "W1 = W\<lparr>l_index := db\<rparr>"
    and checks: "verify_checks X data (l_files W) db n p bytes h = Inr m"
  from verify_checks_facts [OF checks] have facts: "module_facts db m" "am_payload m = p" "am_payload_hash m = h"
    "am_payload_bytes m = bytes" "am_cost m \<le> n" "lf_objects (l_files W) (object_path h) = None" by auto
  have fresh: "h \<notin> set hs" using facts(6) assms(2) unfolding files_ok_def by fastforce
  have clean: "clean h" unfolding bytes(2) by (rule hex_hash_clean [OF assms(3)])
  let ?F = "snd (commit_files module m (l_files W))"
  from commit_files_eq [OF assms(2), of m module] clean fresh facts(3) have
    F: "fst (commit_files module m (l_files W))" "lf_order_log ?F = Some (log_text (hs @ [h]))"
      "lf_head ?F = Some h" "lf_objects ?F = (lf_objects (l_files W))(object_path h := Some bytes)"
    by (simp_all add: facts(4))
  have files: "files_ok X ?F (hs @ [h])"
    using assms(2) F(2-4) clean fresh raw bytes unfolding files_ok_def by (auto simp: object_path_inj)
  have hashes: "mapr (named_hash X) (the_list (jget (am_payload m) ''definitions'')) = Inr (def_hashes_of X m)"
  proof -
    obtain ds where "jget p ''definitions'' = JList ds" using canonical_payload_fields [OF raw] by blast
    then have "the_list (jget p ''definitions'') = payload_list m ''definitions''"
      by (auto simp: payload_list_def facts(2) jor_def)
    with named_hash_canonical [OF raw, of X] show ?thesis
      by (simp add: facts(2) def_hashes_of_def def_name_def [abs_def])
  qed
  obtain F where split: "commit_files module m (l_files W) = (True, F)" using F(1) by (metis prod.collapse)
  have "commit_module X data now W module = (Inr (Accepted m), \<lparr>l_files = ?F, l_index =
       (case commit_index data (parent_of module) now m (def_hashes_of X m) n db of Inl e \<Rightarrow> db | Inr db' \<Rightarrow> db')\<rparr>)"
    unfolding commit_module_def assms(1) [unfolded W1] prod.case sum.case verification_result.case split Let_def
      parent_of_def
    by (cases "commit_index data (the_str (jget module ''parent'')) now m (def_hashes_of X m) n db")
      (simp_all add: open_index_idem [OF opened] hashes split both_set)
  note committed = this
  show thesis
  proof (rule that [OF opened facts(1,5) parent _ refl])
    show "am_payload_hash m \<notin> set hs" "files_ok X ?F (hs @ [am_payload_hash m])"
      "\<exists>raw. canonicalize_payload raw = Inr (am_payload m)"
      "am_payload_bytes m = canonical_json_bytes (am_payload m)"
      "am_payload_hash m = x_blake3 X (am_payload_bytes m)"
      "lf_objects ?F = (lf_objects (l_files W))(object_path (am_payload_hash m) := Some (am_payload_bytes m))"
      using fresh files F(4) raw bytes by (auto simp: facts(2-4))
  qed (rule committed)
qed

subsection \<open>Reachability\<close>

inductive reachable :: "externals \<Rightarrow> json \<Rightarrow> ledger \<Rightarrow> bool" for X data where
  start: "reachable X data \<lparr>l_files = init_storage empty_files, l_index = empty_db\<rparr>"
| commit: "reachable X data W \<Longrightarrow> commit_module X data now W module = (r, W') \<Longrightarrow> reachable X data W'"

definition ledger_ok :: "externals \<Rightarrow> ledger \<Rightarrow> bool" where
  "ledger_ok X W \<longleftrightarrow> (\<exists>hs. files_ok X (l_files W) hs \<and> index_ok (l_index W) hs)"

text \<open>The configured budget, when there is one, is not negative.\<close>

definition budget_ok :: "json \<Rightarrow> bool" where
  "budget_ok data \<longleftrightarrow> (case config_int data ''ledger'' ''budget'' of Inl e \<Rightarrow> True | Inr n \<Rightarrow> 0 \<le> n)"

lemma commit_keeps_ok:
  assumes "commit_module X data now W module = (r, W')" and "ledger_ok X W"
    and "hex_hash (x_blake3 X)" and "budget_ok data"
  shows "ledger_ok X W'"
proof -
  from assms(2) obtain hs where ok: "files_ok X (l_files W) hs" "index_ok (l_index W) hs"
    by (auto simp: ledger_ok_def)
  have opened: "index_ok (snd (open_index data (l_index W))) hs"
    using ok(2) by (rule index_ok_open) (use assms(4) in \<open>auto simp: budget_ok_def\<close>)
  obtain v W1 where v: "verify_module X data W module = (v, W1)" by fastforce
  show ?thesis
  proof (cases "\<exists>m. v = Inr (Accepted m)")
    case False
    with assms(1) commit_not_accepted [OF v] have "W' = W1" by auto
    with verify_module_effect [OF v] ok opened show ?thesis by (auto simp: ledger_ok_def)
  next
    case True
    then obtain m where "verify_module X data W module = (Inr (Accepted m), W1)" using v by blast
    then show ?thesis
      using ok(1) assms(3)
    proof (rule commit_accepted [where now = now])
      fix n db F
      assume o: "open_index data (l_index W) = (Inr n, db)" and facts: "module_facts db m" "am_cost m \<le> n"
        and new: "am_payload_hash m \<notin> set hs" and F: "files_ok X F (hs @ [am_payload_hash m])"
        and c: "commit_module X data now W module = (Inr (Accepted m), \<lparr>l_files = F, l_index =
          (case commit_index data (parent_of module) now m (def_hashes_of X m) n db of Inl e \<Rightarrow> db | Inr db' \<Rightarrow> db')\<rparr>)"
      from o opened have db: "index_ok db hs" by simp
      then have "index_ok db (hs @ [am_payload_hash m])" by (rule index_ok_mono) auto
      with commit_index_ok [OF facts(1) db new facts(2)] F c assms(1) show ?thesis
        by (auto simp: ledger_ok_def split: sum.split)
    qed
  qed
qed

lemma reachable_ok:
  assumes "reachable X data W" and "hex_hash (x_blake3 X)" and "budget_ok data"
  shows "ledger_ok X W"
  using assms(1)
proof induction
  case start
  show ?case using files_ok_start index_ok_empty by (auto simp: ledger_ok_def)
next
  case (commit W now module r W')
  then show ?case using commit_keeps_ok assms(2,3) by blast
qed

end
