(* ===== verification/Ledger_Behaviour.thy ===== *)
theory Ledger_Behaviour
  imports Ledger_Reach
begin

section \<open>Further behaviour of the ledger\<close>

text \<open>
  Committing twice, what the rebuild keeps, what a prefix search matches, and what an alias is.
\<close>

subsection \<open>A module is committed once\<close>

lemma verify_payload_parent:
  assumes "verify_payload X F module = Inr r" and "jget module ''parent'' \<noteq> JStr (read_head F')"
  shows "verify_payload X F' module = Inl (Refuse (rejected PARENT_MISMATCH ''parent does not match head''
    (Some (''expected '' @ read_head F'))) None)"
proof -
  from assms(1) obtain p where "validate_schema module = Inr ()"
    "precheck_stat_cert_evalue_format module = Inr ()"
    "canonicalize_payload (jor (jget module ''payload'') (JObj [])) = Inr p"
    unfolding verify_payload_def Let_def by (auto elim!: bindrE simp del: bindr_Inr_iff split: if_split_asm)
  with assms(2) show ?thesis by (simp add: verify_payload_def Let_def try_it_def)
qed

lemma commit_twice:
  assumes "commit_module X data now W module = (Inr (Accepted m), W')"
    and "files_ok X (l_files W) hs" and "hex_hash (x_blake3 X)"
  shows "verify_module X data W' module = (Inr (reject_because PARENT_MISMATCH ''parent does not match head''
    (Some (''expected '' @ am_payload_hash m))), W')"
proof -
  obtain v W1 where v: "verify_module X data W module = (v, W1)" by fastforce
  have "v = Inr (Accepted m)"
  proof (rule ccontr)
    assume no: "v \<noteq> Inr (Accepted m)"
    show False
    proof (cases "\<exists>m'. v = Inr (Accepted m')")
      case True
      then obtain m' where m': "v = Inr (Accepted m')" by blast
      with v have "verify_module X data W module = (Inr (Accepted m'), W1)" by simp
      then show False
        using assms(2,3)
        by (rule commit_accepted [where now = now]) (use assms(1) no m' in simp)
    next
      case False
      with commit_not_accepted [OF v] assms(1) no show False by auto
    qed
  qed
  with v have acc: "verify_module X data W module = (Inr (Accepted m), W1)" by simp
  from acc obtain r where vp: "verify_payload X (l_files W) module = Inr r"
    by (auto simp: verify_module_def catch_not_accepted split: sum.split_asm)
  show ?thesis
    using acc assms(2,3)
  proof (rule commit_accepted [where now = now])
    fix n db F
    assume parent: "jget module ''parent'' = JStr (read_head (l_files W))"
      and new: "am_payload_hash m \<notin> set hs" and F: "files_ok X F (hs @ [am_payload_hash m])"
      and h: "am_payload_hash m = x_blake3 X (am_payload_bytes m)"
      and c: "commit_module X data now W module = (Inr (Accepted m), \<lparr>l_files = F, l_index =
          (case commit_index data (parent_of module) now m (def_hashes_of X m) n db of Inl e \<Rightarrow> db | Inr db' \<Rightarrow> db')\<rparr>)"
    have W': "l_files W' = F" using c assms(1) by (simp split: sum.splits)
    have head: "read_head F = am_payload_hash m" using files_ok_head [OF F] by simp
    have "read_head (l_files W) \<noteq> am_payload_hash m"
      using files_ok_head [OF assms(2)] new hex_hash_clean(2) [OF assms(3), of "am_payload_bytes m"] h
        last_in_set [of hs] by (metis (no_types))
    then have "jget module ''parent'' \<noteq> JStr (read_head (l_files W'))" by (simp add: parent W' head)
    from verify_payload_parent [OF vp this] show ?thesis
      by (simp add: verify_module_def W' head reject_because_def)
  qed
qed

subsection \<open>The rebuild loses the certificate state\<close>

lemma insert_symbols_stat: "insert_symbols sts dhs h db = Inr db' \<Longrightarrow> ix_stat_cert_state db' = ix_stat_cert_state db"
  by (simp add: insert_symbols_Inr)

lemma insert_concepts_stat: "insert_concepts es h db = Inr db' \<Longrightarrow> ix_stat_cert_state db' = ix_stat_cert_state db"
proof (induction es arbitrary: db)
  case (Cons e es)
  from Cons.prems have "\<exists>rows. insert_concepts es h (db\<lparr>ix_concepts := rows\<rparr>) = Inr db' \<or> insert_concepts es h db = Inr db'"
    by (subst (asm) insert_concepts.simps(2)) (auto simp: Let_def split: if_split_asm)
  with Cons.IH show ?case by fastforce
qed simp

lemma insert_module_rows_stat:
  "insert_module_rows h parent bytes cost now sts dhs deps sds al cs db = Inr db'
    \<Longrightarrow> ix_stat_cert_state db' = ix_stat_cert_state db"
  by (auto simp: insert_module_rows_def insert_module_def insert_symbols_Inr insert_def_hashes_Inr
      insert_aliases_Inr insert_deps_def insert_all_sym_deps_eq insert_type_index_def insert_index_impact_def
      dest!: insert_concepts_stat)

lemma rebuild_rows_stat:
  assumes "rebuild_rows X data F now h R = Inr (payload, cost, ins)" and "ins db = Inr db'"
  shows "ix_stat_cert_state db' = ix_stat_cert_state db"
  using assms unfolding rebuild_rows_def Let_def
  by (auto elim!: bindrE simp del: bindr_Inr_iff split: prod.split_asm dest!: insert_module_rows_stat)

lemma rebuild_module_stat:
  assumes "rebuild_module X data F now h R conn = (r, conn')"
    and "ix_stat_cert_state (cn_durable conn) = None" "ix_stat_cert_state (cn_working conn) = None"
  shows "ix_stat_cert_state (cn_durable conn') = None \<and> ix_stat_cert_state (cn_working conn') = None"
proof (cases "rebuild_rows X data F now h R")
  case (Inl e)
  with assms show ?thesis by (auto simp: rebuild_module_def)
next
  case (Inr p)
  obtain payload cost ins where p: "p = (payload, cost, ins)" by (metis prod.exhaust)
  from assms(1) Inr p consider "conn' = conn\<lparr>cn_working := cn_durable conn\<rparr>"
    | db db' where "ins (cn_working conn) = Inr db" "update_budget (rb_remaining R - cost) db = Inr db'"
      "conn' = \<lparr>cn_durable = db', cn_working = db'\<rparr>"
    by (auto simp: rebuild_module_def split: sum.split_asm)
  then show ?thesis
  proof cases
    case 1
    with assms show ?thesis by simp
  next
    case 2
    have "ix_stat_cert_state db = None" using rebuild_rows_stat [OF Inr [unfolded p] 2(1)] assms(3) by simp
    with 2(2,3) show ?thesis by (auto simp: update_budget_def)
  qed
qed

lemma rebuild_modules_stat:
  assumes "rebuild_modules X data F now hs R conn = (r, conn')"
    and "ix_stat_cert_state (cn_durable conn) = None" "ix_stat_cert_state (cn_working conn) = None"
  shows "ix_stat_cert_state (cn_durable conn') = None"
  using assms
proof (induction hs arbitrary: R conn)
  case (Cons h hs)
  obtain s conn1 where one: "rebuild_module X data F now h R conn = (s, conn1)" by fastforce
  from rebuild_module_stat [OF one Cons.prems(2,3)] Cons one show ?case by (cases s) auto
qed simp

lemma rebuild_index_stat:
  assumes "rebuild_index X data now W = (Inr (), W')"
  shows "ix_stat_cert_state (l_index W') = None"
proof -
  from assms obtain db where init: "init_schema (l_index W) = Inr db"
    by (auto simp: rebuild_index_def split: sum.split_asm)
  obtain n working where w: "set_budget n (clear_tables db) = Inr working"
    "config_int data ''ledger'' ''budget'' = Inr n"
    using assms init by (auto simp: rebuild_index_def Let_def split: sum.split_asm)
  let ?R = "\<lparr>rb_remaining = n, rb_head = genesis_hash, rb_stat_round = 1, rb_alpha_spent = Fin False 0 0, rb_sealed = None\<rparr>"
  obtain s conn where loop: "rebuild_modules X data (l_files W) now (iter_order_log (l_files W)) ?R
      \<lparr>cn_durable = clear_tables db, cn_working = working\<rparr> = (s, conn)" by fastforce
  have "ix_stat_cert_state (cn_durable conn) = None"
    by (rule rebuild_modules_stat [OF loop]) (use w in \<open>auto simp: clear_tables_def set_budget_def\<close>)
  moreover have "l_index W' = cn_durable conn"
    using assms init w loop by (auto simp: rebuild_index_def Let_def split: sum.split_asm if_split_asm)
  ultimately show ?thesis by simp
qed

subsection \<open>Prefix search\<close>

definition plain :: "string \<Rightarrow> bool" where
  "plain p \<longleftrightarrow> CHR ''%'' \<notin> set p \<and> CHR ''_'' \<notin> set p"

declare like.simps [simp del]

lemma like_Nil [simp]: "like [] s \<longleftrightarrow> s = []"
  by (simp add: like.simps)

lemma like_literal: "c \<noteq> CHR ''%'' \<Longrightarrow> c \<noteq> CHR ''_'' \<Longrightarrow>
    like (c # p) s \<longleftrightarrow> s \<noteq> [] \<and> fold_case c = fold_case (hd s) \<and> like p (tl s)"
  by (simp add: like.simps(2) [of c p s])

lemma like_percent [simp]: "like ''%'' s"
proof (induction s)
  case Nil
  show ?case by (subst like.simps(2)) simp
next
  case (Cons c s)
  then show ?case by (subst like.simps(2)) simp
qed

lemma like_plain:
  "plain p \<Longrightarrow> like (p @ ''%'') s \<longleftrightarrow> map fold_case p = map fold_case (take (length p) s)"
proof (induction p arbitrary: s)
  case (Cons c p)
  then have "plain p" "c \<noteq> CHR ''%''" "c \<noteq> CHR ''_''" by (auto simp: plain_def)
  with Cons.IH show ?case by (cases s) (auto simp: like_literal)
qed simp

subsection \<open>Aliases\<close>

lemma alias_args_iff:
  "alias_args args e \<longleftrightarrow> args = map (\<lambda>i. Var (e - int i)) [0..<length args]"
proof (induction args arbitrary: e)
  case (Cons a args)
  have "map (\<lambda>i. Var (e - int i)) [0..<length (a # args)] = Var e # map (\<lambda>i. Var (e - 1 - int i)) [0..<length args]"
    by (simp add: upt_rec [of 0 "Suc (length args)"] map_Suc_upt [symmetric] comp_def algebra_simps del: upt_Suc)
  with Cons [of "e - 1"] show ?case by (cases a) auto
qed simp

lemma nat_minus: "nat (int n - 1 - int i) = n - 1 - i"
  by arith

text \<open>The values of a list of variables in the environment of a call.\<close>

fun var_value :: "val list \<Rightarrow> kterm \<Rightarrow> val option" where
  "var_value env (Var i) = (if 0 \<le> i then py_index env i else None)"
| "var_value env _ = None"

definition passes_params :: "nat \<Rightarrow> kterm list \<Rightarrow> bool" where
  "passes_params n args \<longleftrightarrow> length args = n
     \<and> (\<forall>vs. length vs = n \<longrightarrow> map (var_value (push_front_all vs)) args = map Some vs)"

lemma alias_args_passes:
  assumes "length args = n"
  shows "alias_args args (int n - 1) \<longleftrightarrow> passes_params n args"
proof
  assume "alias_args args (int n - 1)"
  then have args: "args = map (\<lambda>i. Var (int n - 1 - int i)) [0..<n]" using assms by (simp add: alias_args_iff)
  show "passes_params n args"
    unfolding passes_params_def
    by (auto simp: args py_index_def rev_nth Let_def nat_minus intro!: nth_equalityI)
next
  assume passes: "passes_params n args"
  let ?vs = "map (\<lambda>i. IntVal (int i)) [0..<n]"
  have vars: "map (var_value (rev ?vs)) args = map Some ?vs" using passes by (simp add: passes_params_def)
  have "args ! i = Var (int n - 1 - int i)" if i: "i < n" for i
  proof -
    have "map (var_value (rev ?vs)) args ! i = map Some ?vs ! i" by (simp only: vars)
    then have "var_value (rev ?vs) (args ! i) = Some (IntVal (int i))" using i assms by simp
    then obtain j where j: "args ! i = Var j" "0 \<le> j" "py_index (rev ?vs) j = Some (IntVal (int i))"
      by (cases "args ! i") (auto split: if_split_asm)
    then have "j < int n" "rev ?vs ! nat j = IntVal (int i)" by (auto simp: py_index_def Let_def split: if_split_asm)
    with j(2) have "int (n - Suc (nat j)) = int i" by (simp add: rev_nth)
    with \<open>j < int n\<close> j(1,2) show ?thesis by (simp add: of_nat_diff)
  qed
  then show "alias_args args (int n - 1)"
    using assms by (auto simp: alias_args_iff intro!: nth_equalityI)
qed

text \<open>An alias passes its parameters on, unchanged and in order.\<close>

lemma alias_target_iff:
  "alias_target d = Some g \<longleftrightarrow> (\<exists>args. d_body d = App (Sym g) args \<and> passes_params (length (d_params d)) args)"
proof -
  have "alias_target d = Some g \<longleftrightarrow> (\<exists>args. d_body d = App (Sym g) args \<and> length args = length (d_params d)
      \<and> alias_args args (int (length (d_params d)) - 1))"
    by (auto simp: alias_target_def split: kterm.split)
  also have "\<dots> \<longleftrightarrow> (\<exists>args. d_body d = App (Sym g) args \<and> passes_params (length (d_params d)) args)"
    using alias_args_passes by (metis passes_params_def)
  finally show ?thesis .
qed

end
