(* ===== verification/Ledger_Stats.thy ===== *)
theory Ledger_Stats
  imports Ledger_Index Kernel_Deps
begin

section \<open>Lint and statistics (ledger/lint.py, ledger/stats.py)\<close>

text \<open>
  Reports over the index. A count table, such as the degree distributions, is an association
  list from the value to its count in ascending order of the values.
\<close>

subsection \<open>Lint\<close>

definition all_symbols :: "index_db \<Rightarrow> string list" where
  "all_symbols db = sort (map sr_symbol (ix_symbols db))"

text \<open>\<open>reverse.get(dep, set())\<close>: the symbols that depend on \<open>dep\<close>.\<close>

definition users_of :: "index_db \<Rightarrow> string \<Rightarrow> string list" where
  "users_of db dep = remdups (map fst (filter (\<lambda>r. snd r = dep) (ix_sym_deps db)))"

fun mark_deprecated :: "json list \<Rightarrow> string option \<Rightarrow> (string \<times> string option) list
    \<Rightarrow> (string \<times> string option) list res" where
  "mark_deprecated [] replaced_by d = Inr d"
| "mark_deprecated (s # ss) replaced_by d =
     (if \<not> hashable s then Inl (PyTypeError ''unhashable type'')
      else if \<not> is_str s then Inl (Unmodelled ''new_symbols'')
      else mark_deprecated ss replaced_by (dict_set d (the_str s) replaced_by))"

fun load_deprecated :: "ledger_files \<Rightarrow> string list \<Rightarrow> (string \<times> string option) list
    \<Rightarrow> (string \<times> string option) list res" where
  "load_deprecated F [] d = Inr d"
| "load_deprecated F (h # hs) d =
     bindr (read_meta F h) (\<lambda>meta.
     if \<not> truthy meta \<or> \<not> is_obj meta \<or> \<not> truthy (jget meta ''deprecated'') then load_deprecated F hs d
     else
       let replaced_by = (case jget meta ''replaced_by'' of JStr r \<Rightarrow> Some r | _ \<Rightarrow> None) in
       bindr (load_module_payload F h) (\<lambda>payload.
       bindr (jgetr payload ''new_symbols'') (\<lambda>ns.
       bindr (iter_json (jor ns (JList []))) (\<lambda>symbols.
       bindr (mark_deprecated symbols replaced_by d) (\<lambda>d'. load_deprecated F hs d')))))"

definition load_deprecated_symbols :: "ledger_files \<Rightarrow> (string \<times> string option) list res" where
  "load_deprecated_symbols F = load_deprecated F (iter_order_log F) []"

record deprecated_use =
  du_symbol :: string
  du_replaced_by :: "string option"
  du_used_by :: "string list"
  du_used_by_count :: int

record lint_report =
  lr_deprecated_in_use :: "deprecated_use list"
  lr_deprecated_in_use_count :: int
  lr_unused_symbols :: "string list"
  lr_unused_symbol_count :: int

text \<open>\<open>xs[:n]\<close>.\<close>

definition py_prefix :: "int \<Rightarrow> 'a list \<Rightarrow> 'a list" where
  "py_prefix n xs = take (nat (if n < 0 then int (length xs) + n else n)) xs"

definition unused_symbols :: "index_db \<Rightarrow> string list" where
  "unused_symbols db = filter (\<lambda>s. s \<notin> snd ` set (ix_sym_deps db)) (all_symbols db)"

definition lint_ledger :: "ledger_files \<Rightarrow> index_db \<Rightarrow> int \<Rightarrow> lint_report res" where
  "lint_ledger F db limit =
     bindr (init_schema db) (\<lambda>db.
     bindr (load_deprecated_symbols F) (\<lambda>deprecated.
     let in_use = concat (map (\<lambda>s.
           let users = sort (users_of db s) in
           if users = [] then []
           else [\<lparr>du_symbol = s, du_replaced_by = the (map_of deprecated s),
             du_used_by = py_prefix limit users, du_used_by_count = int (length users)\<rparr>])
           (sort (map fst deprecated))) in
     Inr \<lparr>lr_deprecated_in_use = in_use, lr_deprecated_in_use_count = int (length in_use),
       lr_unused_symbols = py_prefix limit (unused_symbols db),
       lr_unused_symbol_count = int (length (unused_symbols db))\<rparr>))"

subsection \<open>Statistics\<close>

definition deps_of :: "index_db \<Rightarrow> string \<Rightarrow> string list" where
  "deps_of db s = remdups (map snd (filter (\<lambda>r. fst r = s) (ix_sym_deps db)))"

definition indegree :: "index_db \<Rightarrow> string \<Rightarrow> int" where
  "indegree db s = int (length (filter (\<lambda>r. snd r = s) (remdups (ix_sym_deps db))))"

text \<open>A \<open>defaultdict(int)\<close> counting \<open>xs\<close>, sorted by key.\<close>

definition distribution :: "int list \<Rightarrow> (int \<times> int) list" where
  "distribution xs = map (\<lambda>x. (x, int (count_list xs x))) (sort (remdups xs))"

text \<open>\<open>SELECT dep_symbol, COUNT(1) ... GROUP BY ... ORDER BY c DESC, dep_symbol ASC\<close>.\<close>

definition top_dependents :: "index_db \<Rightarrow> int \<Rightarrow> (string \<times> int) list" where
  "top_dependents db limit =
     sql_limit limit (sort_key (\<lambda>(s, c). - c)
       (map (\<lambda>s. (s, int (count_list (map snd (ix_sym_deps db)) s))) (sort (remdups (map snd (ix_sym_deps db))))))"

lemma deps_of_edge: "deps_of db s \<noteq> [] \<Longrightarrow> s \<in> fst ` set (ix_sym_deps db)"
  by (force simp: deps_of_def filter_empty_conv)

text \<open>The recursive function \<open>depth\<close>: \<open>visiting\<close> is the current path.\<close>

function dep_depth :: "index_db \<Rightarrow> string list \<Rightarrow> string \<Rightarrow> (string \<times> int) list \<Rightarrow> (int \<times> (string \<times> int) list) res"
  and dep_depths :: "index_db \<Rightarrow> string list \<Rightarrow> string list \<Rightarrow> (string \<times> int) list \<Rightarrow> (int list \<times> (string \<times> int) list) res" where
  "dep_depth db visiting s memo =
     (case map_of memo s of
        Some d \<Rightarrow> Inr (d, memo)
      | None \<Rightarrow>
          if s \<in> set visiting then Inl (ValueError (''dependency cycle detected at '' @ s))
          else let deps = deps_of db s in
            if deps = [] then Inr (0, dict_set memo s 0)
            else bindr (dep_depths db (s # visiting) deps memo) (\<lambda>(ds, memo').
              let d = 1 + Max (set ds) in Inr (d, dict_set memo' s d)))"
| "dep_depths db visiting [] memo = Inr ([], memo)"
| "dep_depths db visiting (s # ss) memo =
     bindr (dep_depth db visiting s memo) (\<lambda>(d, memo').
     bindr (dep_depths db visiting ss memo') (\<lambda>(ds, memo''). Inr (d # ds, memo'')))"
  by pat_completeness auto

termination
proof (relation "measures
    [\<lambda>x. case x of Inl (db, visiting, s, memo) \<Rightarrow> card (fst ` set (ix_sym_deps db) - set visiting)
        | Inr (db, visiting, ss, memo) \<Rightarrow> card (fst ` set (ix_sym_deps db) - set visiting),
     \<lambda>x. case x of Inl _ \<Rightarrow> 0 | Inr (db, visiting, ss, memo) \<Rightarrow> Suc (length ss)]", goal_cases)
  case (2 db visiting s memo deps)
  then have "s \<in> fst ` set (ix_sym_deps db)" using deps_of_edge by simp
  with 2(2) have "fst ` set (ix_sym_deps db) - set (s # visiting) \<subset> fst ` set (ix_sym_deps db) - set visiting"
    by auto
  then show ?case by (simp add: psubset_card_mono)
qed simp_all

definition dependency_depths :: "index_db \<Rightarrow> string list \<Rightarrow> (string \<times> int) list res" where
  "dependency_depths db symbols = bindr (dep_depths db [] symbols []) (\<lambda>(ds, memo). Inr memo)"

record library_report =
  lb_total_symbols :: int
  lb_edge_count :: int
  lb_unused_symbols :: "string list"
  lb_top_dependents :: "(string \<times> int) list"
  lb_indegree_distribution :: "(int \<times> int) list"
  lb_outdegree_distribution :: "(int \<times> int) list"
  lb_dependency_depth_distribution :: "(int \<times> int) list"

text \<open>The field \<open>dead_ends\<close> of the report repeats \<open>unused_symbols\<close>.\<close>

definition library_stats :: "index_db \<Rightarrow> int \<Rightarrow> library_report res" where
  "library_stats db limit =
     bindr (init_schema db) (\<lambda>db.
     let symbols = all_symbols db in
     bindr (dependency_depths db symbols) (\<lambda>depths.
       Inr \<lparr>lb_total_symbols = int (length symbols), lb_edge_count = int (length (ix_sym_deps db)),
         lb_unused_symbols = unused_symbols db, lb_top_dependents = top_dependents db limit,
         lb_indegree_distribution = distribution (map (indegree db) symbols),
         lb_outdegree_distribution = distribution (map (\<lambda>s. int (length (deps_of db s))) symbols),
         lb_dependency_depth_distribution = distribution (map snd depths)\<rparr>))"

end
