(* ===== verification/Ledger_History.thy ===== *)
theory Ledger_History
  imports Ledger_Reach
begin

section \<open>The history of a ledger\<close>

text \<open>
  What the files of a ledger promise, as an abstract value: an append-only list of hashes and the
  bytes they name. And what its index promises about costs.
\<close>

subsection \<open>An append-only list\<close>

definition history :: "ledger_files \<Rightarrow> (string \<times> string res) list" where
  "history F = map (\<lambda>h. (h, read_object F h)) (iter_order_log F)"

definition history_head :: "(string \<times> string res) list \<Rightarrow> string" where
  "history_head h = (if h = [] then genesis_hash else fst (last h))"

text \<open>The abstract operation: nothing, or one more entry under a hash that is not there yet.\<close>

definition extends :: "(string \<Rightarrow> string) \<Rightarrow> (string \<times> string res) list \<Rightarrow> (string \<times> string res) list \<Rightarrow> bool" where
  "extends H h h' \<longleftrightarrow> h' = h \<or> (\<exists>raw p. canonicalize_payload raw = Inr p
     \<and> h' = h @ [(H (canonical_json_bytes p), Inr (canonical_json_bytes p))]
     \<and> H (canonical_json_bytes p) \<notin> fst ` set h)"

lemma history_ok: "files_ok X F hs \<Longrightarrow> history F = map (\<lambda>h. (h, read_object F h)) hs"
  by (simp add: history_def files_ok_order)

lemma history_head_ok: "files_ok X F hs \<Longrightarrow> read_head F = history_head (history F)"
  by (simp add: history_ok history_head_def files_ok_head last_map)

lemma commit_extends:
  assumes "commit_module X data now W module = (r, W')" and "files_ok X (l_files W) hs" and "hex_hash (x_blake3 X)"
  shows "extends (x_blake3 X) (history (l_files W)) (history (l_files W'))"
proof -
  obtain v W1 where v: "verify_module X data W module = (v, W1)" by fastforce
  show ?thesis
  proof (cases "\<exists>m. v = Inr (Accepted m)")
    case False
    with assms(1) commit_not_accepted [OF v] have "W' = W1" by auto
    with verify_module_effect [OF v] show ?thesis by (auto simp: extends_def)
  next
    case True
    then obtain m where "verify_module X data W module = (Inr (Accepted m), W1)" using v by blast
    then show ?thesis
      using assms(2,3)
    proof (rule commit_accepted [where now = now])
      fix n db F
      assume new: "am_payload_hash m \<notin> set hs" and F: "files_ok X F (hs @ [am_payload_hash m])"
        and objects: "lf_objects F = (lf_objects (l_files W))(object_path (am_payload_hash m) := Some (am_payload_bytes m))"
        and payload: "\<exists>raw. canonicalize_payload raw = Inr (am_payload m)"
          "am_payload_bytes m = canonical_json_bytes (am_payload m)" "am_payload_hash m = x_blake3 X (am_payload_bytes m)"
        and c: "commit_module X data now W module = (Inr (Accepted m), \<lparr>l_files = F, l_index =
          (case commit_index data (parent_of module) now m (def_hashes_of X m) n db of Inl e \<Rightarrow> db | Inr db' \<Rightarrow> db')\<rparr>)"
      have read: "read_object F h = (if h = am_payload_hash m then Inr (am_payload_bytes m) else read_object (l_files W) h)" for h
        by (simp add: read_object_def objects object_path_inj)
      then have "map (\<lambda>h. (h, read_object F h)) hs = map (\<lambda>h. (h, read_object (l_files W) h)) hs"
        using new by auto
      then have "history F = history (l_files W) @ [(am_payload_hash m, Inr (am_payload_bytes m))]"
        unfolding history_ok [OF F] history_ok [OF assms(2)] by (simp add: read)
      moreover have "fst ` set (history (l_files W)) = set hs" by (simp add: history_ok [OF assms(2)] image_image)
      ultimately show ?thesis
        using new payload c assms(1) unfolding extends_def by auto
    qed
  qed
qed

subsection \<open>The budget\<close>

text \<open>
  The rows of a module and the charge for it are one transaction, so in every reachable ledger the
  remaining budget and the costs of the indexed modules add up to the configured budget.
\<close>

definition total_cost :: "index_db \<Rightarrow> int" where
  "total_cost db = sum_list (map mr_cost (ix_modules db))"

definition budget_accounted :: "json \<Rightarrow> index_db \<Rightarrow> bool" where
  "budget_accounted data db \<longleftrightarrow>
     (ix_budget db = None \<and> ix_modules db = [])
     \<or> (\<exists>n. ix_budget db = Some n \<and> config_int data ''ledger'' ''budget'' = Inr (n + total_cost db))"

lemma budget_accounted_version [simp]:
  "budget_accounted data (db\<lparr>ix_schema_version := v\<rparr>) = budget_accounted data db"
  by (simp add: budget_accounted_def total_cost_def)

lemma budget_accounted_open:
  assumes "budget_accounted data db"
  shows "budget_accounted data (snd (open_index data db))"
proof (cases rule: open_index_cases [of data db])
  case schema
  with assms show ?thesis by simp
next
  case (budget e db1)
  with assms init_schema_Inr [OF budget(1)] show ?thesis by simp
next
  case (known n db1)
  with assms init_schema_Inr [OF known(1)] show ?thesis by simp
next
  case (first n db1)
  with assms init_schema_Inr [OF first(1)] show ?thesis
    by (simp add: budget_accounted_def total_cost_def)
qed

lemma committed_rows_cost:
  "total_cost (committed_rows X parent now m db) = total_cost db + am_cost m"
  by (simp add: total_cost_def committed_rows_def rows_added_def)

lemma commit_keeps_account:
  assumes "commit_module X data now W module = (r, W')" and "ledger_ok X W"
    and "budget_accounted data (l_index W)" and "hex_hash (x_blake3 X)"
  shows "budget_accounted data (l_index W')"
proof -
  from assms(2) obtain hs where files: "files_ok X (l_files W) hs" by (auto simp: ledger_ok_def)
  have opened: "budget_accounted data (snd (open_index data (l_index W)))"
    using assms(3) by (rule budget_accounted_open)
  obtain v W1 where v: "verify_module X data W module = (v, W1)" by fastforce
  show ?thesis
  proof (cases "\<exists>m. v = Inr (Accepted m)")
    case False
    with assms(1) commit_not_accepted [OF v] have "W' = W1" by auto
    with verify_module_effect [OF v] assms(3) opened show ?thesis by auto
  next
    case True
    then obtain m where "verify_module X data W module = (Inr (Accepted m), W1)" using v by blast
    then show ?thesis
      using files assms(4)
    proof (rule commit_accepted [where now = now])
      fix n db F
      assume o: "open_index data (l_index W) = (Inr n, db)" and facts: "module_facts db m"
        and c: "commit_module X data now W module = (Inr (Accepted m), \<lparr>l_files = F, l_index =
          (case commit_index data (parent_of module) now m (def_hashes_of X m) n db of Inl e \<Rightarrow> db | Inr db' \<Rightarrow> db')\<rparr>)"
      from o opened have db: "budget_accounted data db" by simp
      have n: "ix_budget db = Some n" using open_index_done [OF o] by simp
      show ?thesis
      proof (cases "commit_index data (parent_of module) now m (def_hashes_of X m) n db")
        case (Inl e)
        with c assms(1) db show ?thesis by auto
      next
        case (Inr db')
        with commit_index_Inr [OF facts] n obtain st where
          db': "db' = (committed_rows X (parent_of module) now m db)\<lparr>ix_budget := Some (n - am_cost m),
            ix_stat_cert_state := st\<rparr>" by fastforce
        have "total_cost db' = total_cost db + am_cost m"
          unfolding db' using committed_rows_cost by (simp add: total_cost_def)
        moreover have "config_int data ''ledger'' ''budget'' = Inr (n + total_cost db)"
          using db n by (simp add: budget_accounted_def)
        ultimately have "budget_accounted data db'" by (simp add: budget_accounted_def db')
        with c assms(1) Inr show ?thesis by auto
      qed
    qed
  qed
qed

lemma reachable_accounted:
  assumes "reachable X data W" and "hex_hash (x_blake3 X)" and "budget_ok data"
  shows "budget_accounted data (l_index W)"
  using assms(1)
proof induction
  case start
  show ?case by (simp add: budget_accounted_def empty_db_def)
next
  case (commit W now module r W')
  then show ?case using commit_keeps_account reachable_ok [OF _ assms(2,3)] assms(2) by blast
qed

lemma reachable_budget_bounds:
  assumes "reachable X data W" and "hex_hash (x_blake3 X)" and "budget_ok data"
    and "ix_budget (l_index W) = Some n"
  shows "0 \<le> n \<and> n < 2 ^ 63"
  using reachable_ok [OF assms(1-3)] assms(4) by (auto simp: ledger_ok_def index_ok_def)

end
