(* ===== verification/Constraints.thy ===== *)
theory Constraints
  imports Kernel_Canon Sealed_Evalue
begin

section \<open>Constraint specs (constraints.py)\<close>

text \<open>
  The spec of a safety constraint, its canonical form and hash, and the canonical form of the
  constraints an adoption carries.
\<close>

definition allowed_constraint_keys :: "string list" where
  "allowed_constraint_keys = [''banned_tools'', ''max_steps'', ''max_file_writes'', ''allow_path_escape'',
     ''allow_network'', ''allow_subprocess'']"

text \<open>\<open>set(d.keys()) - allowed\<close>.\<close>

fun extra_keys :: "json \<Rightarrow> string list \<Rightarrow> string list" where
  "extra_keys (JObj kvs) allowed = filter (\<lambda>k. k \<notin> set allowed) (map fst kvs)"
| "extra_keys _ allowed = []"

definition natural_int :: "json \<Rightarrow> bool" where
  "natural_int v \<longleftrightarrow> is_int v \<and> the_int v \<ge> 0"

definition canonicalize_constraint_spec :: "json \<Rightarrow> json res" where
  "canonicalize_constraint_spec spec =
     (if \<not> is_obj spec then Inl (ValueError ''constraint spec must be an object'')
      else if \<not> eq_int (jget spec ''schema_version'') 1
      then Inl (ValueError ''constraint spec schema_version must be 1'')
      else if jget spec ''kind'' \<noteq> JStr ''constraint_spec''
      then Inl (ValueError ''constraint spec kind must be constraint_spec'')
      else let domain = jget spec ''domain''; constraints = jget spec ''constraints'' in
        if \<not> is_str domain \<or> domain = JStr [] then Inl (ValueError ''constraint spec domain must be string'')
        else if \<not> is_obj constraints then Inl (ValueError ''constraint spec constraints must be object'')
        else if extra_keys constraints allowed_constraint_keys \<noteq> []
        then Inl (ValueError ''constraint spec unknown keys: '')
        else
          let banned_tools = jget_default constraints ''banned_tools'' (JList []);
              max_steps = jget constraints ''max_steps'';
              max_file_writes = jget constraints ''max_file_writes'';
              allow_path_escape = jget constraints ''allow_path_escape'';
              allow_network = jget constraints ''allow_network'';
              allow_subprocess = jget constraints ''allow_subprocess'' in
          if \<not> is_list banned_tools \<or> (\<exists>item \<in> set (the_list banned_tools). \<not> is_str item)
          then Inl (ValueError ''constraint spec banned_tools must be list of strings'')
          else if \<not> natural_int max_steps
          then Inl (ValueError ''constraint spec max_steps must be non-negative int'')
          else if \<not> natural_int max_file_writes
          then Inl (ValueError ''constraint spec max_file_writes must be non-negative int'')
          else if \<not> is_bool allow_path_escape
          then Inl (ValueError ''constraint spec allow_path_escape must be bool'')
          else if \<not> is_bool allow_network
          then Inl (ValueError ''constraint spec allow_network must be bool'')
          else if \<not> is_bool allow_subprocess
          then Inl (ValueError ''constraint spec allow_subprocess must be bool'')
          else Inr (JObj [(''schema_version'', JInt 1), (''kind'', JStr ''constraint_spec''), (''domain'', domain),
            (''constraints'', JObj
              [(''banned_tools'', JList (map JStr (sort (map the_str (the_list banned_tools))))),
               (''max_steps'', max_steps), (''max_file_writes'', max_file_writes),
               (''allow_path_escape'', allow_path_escape), (''allow_network'', allow_network),
               (''allow_subprocess'', allow_subprocess)])]))"

definition constraint_spec_hash :: "hash_fn \<Rightarrow> json \<Rightarrow> string res" where
  "constraint_spec_hash H spec =
     bindr (canonicalize_constraint_spec spec) (\<lambda>canon. Inr (H (canonical_json_bytes canon)))"

definition canonicalize_constraints_payload :: "hash_fn \<Rightarrow> json \<Rightarrow> json res" where
  "canonicalize_constraints_payload H constraints =
     (if \<not> is_obj constraints then Inl (ValueError ''constraints must be an object'')
      else if \<not> truthy constraints then Inr (JObj [])
      else if extra_keys constraints [''spec'', ''spec_hash'', ''safety_certificate''] \<noteq> []
      then Inl (ValueError ''constraints unknown keys: '')
      else let spec = jget constraints ''spec''; spec_hash = jget constraints ''spec_hash'';
               safety_cert = jget constraints ''safety_certificate'' in
        if \<not> is_obj spec then Inl (ValueError ''constraints spec must be object'')
        else if \<not> is_str spec_hash \<or> spec_hash = JStr []
        then Inl (ValueError ''constraints spec_hash must be string'')
        else
          bindr (canonicalize_constraint_spec spec) (\<lambda>canon_spec.
          bindr (constraint_spec_hash H canon_spec) (\<lambda>actual_hash.
          if JStr actual_hash \<noteq> spec_hash then Inl (ValueError ''constraints spec_hash mismatch'')
          else
            bindr (if safety_cert = JNull then Inr JNull
                   else if \<not> is_obj safety_cert
                   then Inl (ValueError ''constraints safety_certificate must be object'')
                   else if jget safety_cert ''kind'' = JStr ''stat_cert'' then canonicalize_spec safety_cert
                   else Inr safety_cert) (\<lambda>canon_safety.
              Inr (JObj [(''spec'', canon_spec), (''spec_hash'', spec_hash),
                (''safety_certificate'', canon_safety)])))))"

text \<open>A canonical spec is its own canonical form, so the hash of a spec is the hash of its
  canonical form.\<close>

lemma map_the_str_JStr [simp]: "map (the_str \<circ> JStr) ss = ss"
  by (induction ss) auto

definition constraint_spec_json :: "json \<Rightarrow> string list \<Rightarrow> json \<Rightarrow> json \<Rightarrow> json \<Rightarrow> json \<Rightarrow> json \<Rightarrow> json" where
  "constraint_spec_json domain tools max_steps max_file_writes path network sub =
     JObj [(''schema_version'', JInt 1), (''kind'', JStr ''constraint_spec''), (''domain'', domain),
       (''constraints'', JObj [(''banned_tools'', JList (map JStr tools)), (''max_steps'', max_steps),
         (''max_file_writes'', max_file_writes), (''allow_path_escape'', path), (''allow_network'', network),
         (''allow_subprocess'', sub)])]"

lemma canonicalize_constraint_spec_Inr:
  assumes "canonicalize_constraint_spec spec = Inr canon"
  shows "\<exists>domain tools n w a b c. canon = constraint_spec_json domain tools n w a b c \<and> sorted tools
    \<and> is_str domain \<and> domain \<noteq> JStr [] \<and> natural_int n \<and> natural_int w \<and> is_bool a \<and> is_bool b \<and> is_bool c"
proof -
  let ?c = "jget spec ''constraints''"
  let ?tools = "sort (map the_str (the_list (jget_default ?c ''banned_tools'' (JList []))))"
  from assms have "canon = constraint_spec_json (jget spec ''domain'') ?tools (jget ?c ''max_steps'')
      (jget ?c ''max_file_writes'') (jget ?c ''allow_path_escape'') (jget ?c ''allow_network'') (jget ?c ''allow_subprocess'')
    \<and> is_str (jget spec ''domain'') \<and> jget spec ''domain'' \<noteq> JStr [] \<and> natural_int (jget ?c ''max_steps'')
    \<and> natural_int (jget ?c ''max_file_writes'') \<and> is_bool (jget ?c ''allow_path_escape'')
    \<and> is_bool (jget ?c ''allow_network'') \<and> is_bool (jget ?c ''allow_subprocess'')"
    unfolding canonicalize_constraint_spec_def Let_def constraint_spec_json_def
    by (simp split: if_split_asm)
  moreover have "sorted ?tools" by simp
  ultimately show ?thesis by blast
qed

lemma canonicalize_constraint_spec_idem:
  assumes "canonicalize_constraint_spec spec = Inr canon"
  shows "canonicalize_constraint_spec canon = Inr canon"
proof -
  from canonicalize_constraint_spec_Inr [OF assms] obtain domain tools n w a b c where
    "canon = constraint_spec_json domain tools n w a b c" "sorted tools"
    "is_str domain" "domain \<noteq> JStr []" "natural_int n" "natural_int w" "is_bool a" "is_bool b" "is_bool c"
    by blast
  then show ?thesis
    by (simp add: canonicalize_constraint_spec_def constraint_spec_json_def Let_def allowed_constraint_keys_def
      jget_default_def sorted_sort_id)
qed

lemma constraint_spec_hash_canonical:
  assumes "canonicalize_constraint_spec spec = Inr canon"
  shows "constraint_spec_hash H canon = constraint_spec_hash H spec"
    and "constraint_spec_hash H spec = Inr (H (canonical_json_bytes canon))"
  using canonicalize_constraint_spec_idem [OF assms] assms by (simp_all add: constraint_spec_hash_def)

end
