(* ===== verification/Adoption_Store.thy ===== *)
theory Adoption_Store
  imports Constraints Ledger_Store
begin

section \<open>The adoption store (adoption/canon.py, adoption/storage.py)\<close>

text \<open>
  Adoptions have a content-addressed store of their own, with the operations of the ledger's.
  \<open>content_store\<close> is the interface the two share: what its client, a commit, needs of putting an
  object, appending to the log and reading back.
\<close>

subsection \<open>Canonical adoption payloads\<close>

definition adoption_canonicalize_payload :: "hash_fn \<Rightarrow> json \<Rightarrow> json res" where
  "adoption_canonicalize_payload H payload =
     (if \<not> is_obj payload then Inl (ValueError ''payload must be an object'')
      else let concept = jget payload ''concept''; chosen_symbol = jget payload ''chosen_symbol'';
               baseline_symbol = jget payload ''baseline_symbol'';
               certificate = jor (jget payload ''certificate'') (JObj []);
               constraints = jor (jget payload ''constraints'') (JObj []) in
        if \<not> is_str concept then Inl (ValueError ''concept must be a string'')
        else if \<not> is_str chosen_symbol then Inl (ValueError ''chosen_symbol must be a string'')
        else if baseline_symbol \<noteq> JNull \<and> \<not> is_str baseline_symbol
        then Inl (ValueError ''baseline_symbol must be a string or null'')
        else if \<not> is_obj certificate then Inl (ValueError ''certificate must be an object'')
        else if \<not> is_obj constraints then Inl (ValueError ''constraints must be an object'')
        else
          bindr (if jget certificate ''kind'' = JStr ''stat_cert'' then canonicalize_spec certificate
                 else Inr certificate) (\<lambda>canon_cert.
          bindr (canonicalize_constraints_payload H constraints) (\<lambda>canon_constraints.
            Inr (JObj [(''concept'', concept), (''chosen_symbol'', chosen_symbol),
              (''baseline_symbol'', baseline_symbol), (''certificate'', canon_cert),
              (''constraints'', canon_constraints)]))))"

definition adoption_payload_hash_hex :: "hash_fn \<Rightarrow> json \<Rightarrow> string" where
  "adoption_payload_hash_hex H payload = H (canonical_json_bytes payload)"

definition adoption_payload_bytes_and_hash :: "hash_fn \<Rightarrow> json \<Rightarrow> (string \<times> string) res" where
  "adoption_payload_bytes_and_hash H payload =
     bindr (adoption_canonicalize_payload H payload) (\<lambda>canon.
       let data = canonical_json_bytes canon in Inr (data, H data))"

subsection \<open>The store\<close>

record adoption_files =
  af_objects :: "string \<Rightarrow> string option"
  af_meta :: "string \<Rightarrow> string option"
  af_order_log :: "string option"
  af_head :: "string option"

definition adoption_init_storage :: "adoption_files \<Rightarrow> adoption_files" where
  "adoption_init_storage A =
     (let A1 = (if af_head A = None then A\<lparr>af_head := Some genesis_hash\<rparr> else A) in
      if af_order_log A1 = None then A1\<lparr>af_order_log := Some ''''\<rparr> else A1)"

definition adoption_object_path :: "string \<Rightarrow> string" where
  "adoption_object_path payload_hash = take 2 payload_hash @ ''/'' @ payload_hash @ ''.blob''"

definition adoption_write_object :: "string \<Rightarrow> string \<Rightarrow> adoption_files \<Rightarrow> adoption_files" where
  "adoption_write_object payload_hash payload_bytes A =
     A\<lparr>af_objects := (af_objects A)(adoption_object_path payload_hash := Some payload_bytes)\<rparr>"

definition adoption_append_order_log :: "string \<Rightarrow> adoption_files \<Rightarrow> bool \<times> adoption_files" where
  "adoption_append_order_log payload_hash A =
     (let text = (case af_order_log A of None \<Rightarrow> [] | Some t \<Rightarrow> t);
          lines = splitlines text;
          last_line = (if lines = [] then [] else strip (last lines))
      in if last_line = payload_hash then (False, A\<lparr>af_order_log := Some text\<rparr>)
         else (True, A\<lparr>af_order_log := Some (text @ payload_hash @ [CHR 0x0A])\<rparr>))"

definition adoption_iter_order_log :: "adoption_files \<Rightarrow> string list" where
  "adoption_iter_order_log A =
     (case af_order_log A of
        None \<Rightarrow> []
      | Some text \<Rightarrow> filter (\<lambda>l. l \<noteq> []) (map strip (splitlines text)))"

definition adoption_read_head :: "adoption_files \<Rightarrow> string" where
  "adoption_read_head A =
     (let order = adoption_iter_order_log A in
      if order \<noteq> [] then last order
      else case af_head A of
          None \<Rightarrow> genesis_hash
        | Some text \<Rightarrow> if strip text = [] then genesis_hash else strip text)"

definition adoption_write_head :: "string \<Rightarrow> adoption_files \<Rightarrow> adoption_files" where
  "adoption_write_head payload_hash A = A\<lparr>af_head := Some payload_hash\<rparr>"

definition adoption_read_object :: "adoption_files \<Rightarrow> string \<Rightarrow> string res" where
  "adoption_read_object A payload_hash =
     (case af_objects A (adoption_object_path payload_hash) of
        None \<Rightarrow> Inl (FileNotFoundError ''object'')
      | Some bytes \<Rightarrow> Inr bytes)"

definition adoption_meta_path :: "string \<Rightarrow> string" where
  "adoption_meta_path payload_hash = payload_hash @ ''.json''"

definition adoption_write_meta :: "string \<Rightarrow> json \<Rightarrow> adoption_files \<Rightarrow> adoption_files" where
  "adoption_write_meta payload_hash meta A =
     A\<lparr>af_meta := (af_meta A)(adoption_meta_path payload_hash := Some (dumps '', '' '': '' True meta))\<rparr>"

definition adoption_read_meta :: "adoption_files \<Rightarrow> string \<Rightarrow> json res" where
  "adoption_read_meta A payload_hash =
     (case af_meta A (adoption_meta_path payload_hash) of None \<Rightarrow> Inr JNull | Some text \<Rightarrow> loads text)"

subsection \<open>The adoption store is a ledger store\<close>

text \<open>\<open>as_ledger\<close> reads the adoption files as ledger files; every operation agrees with the ledger's.\<close>

definition as_ledger :: "adoption_files \<Rightarrow> ledger_files" where
  "as_ledger A = \<lparr>lf_objects = af_objects A, lf_meta = af_meta A, lf_order_log = af_order_log A,
     lf_head = af_head A, lf_cache = (\<lambda>_. None)\<rparr>"

lemma adoption_paths: "adoption_object_path = object_path" "adoption_meta_path = meta_path"
  by (simp_all add: fun_eq_iff adoption_object_path_def object_path_def adoption_meta_path_def meta_path_def)

lemma as_ledger_ops:
  "as_ledger (adoption_init_storage A) = init_storage (as_ledger A)"
  "as_ledger (adoption_write_object h b A) = write_object h b (as_ledger A)"
  "as_ledger (adoption_write_head h A) = write_head h (as_ledger A)"
  "as_ledger (adoption_write_meta h j A) = write_meta h j (as_ledger A)"
  "map_prod id as_ledger (adoption_append_order_log h A) = append_order_log h (as_ledger A)"
  "adoption_iter_order_log A = iter_order_log (as_ledger A)"
  "adoption_read_head A = read_head (as_ledger A)"
  "adoption_read_object A h = read_object (as_ledger A) h"
  "adoption_read_meta A h = read_meta (as_ledger A) h"
  by (simp_all add: as_ledger_def adoption_paths Let_def
    adoption_init_storage_def init_storage_def adoption_write_object_def write_object_def
    adoption_write_head_def write_head_def adoption_write_meta_def write_meta_def
    adoption_append_order_log_def append_order_log_def adoption_iter_order_log_def iter_order_log_def
    adoption_read_head_def read_head_def adoption_read_object_def read_object_def
    adoption_read_meta_def read_meta_def)

subsection \<open>The interface\<close>

locale content_store =
  fixes put :: "string \<Rightarrow> string \<Rightarrow> 's \<Rightarrow> 's"
    and get :: "'s \<Rightarrow> string \<Rightarrow> string res"
    and append_log :: "string \<Rightarrow> 's \<Rightarrow> bool \<times> 's"
    and log :: "'s \<Rightarrow> string list"
    and set_head :: "string \<Rightarrow> 's \<Rightarrow> 's"
    and head_of :: "'s \<Rightarrow> string"
    and log_is :: "'s \<Rightarrow> string list \<Rightarrow> bool"
  assumes get_put: "get (put h b s) h' = (if h' = h then Inr b else get s h')"
    and log_is_put: "log_is (put h b s) hs = log_is s hs"
    and log_is_set_head: "log_is (set_head h s) hs = log_is s hs"
    and get_set_head: "get (set_head h s) h' = get s h'"
    and get_append: "append_log h s = (a, s') \<Longrightarrow> get s' h' = get s h'"
    and append_new: "log_is s hs \<Longrightarrow> h \<notin> set hs \<Longrightarrow> clean h
      \<Longrightarrow> \<exists>s'. append_log h s = (True, s') \<and> log_is s' (hs @ [h])"
    and log_log_is: "log_is s hs \<Longrightarrow> log s = hs"
    and head_log_is: "log_is s hs \<Longrightarrow> hs \<noteq> [] \<Longrightarrow> head_of s = last hs"
begin

text \<open>Every hash of the log names an object that satisfies \<open>P\<close>.\<close>

lemma commit_object:
  assumes "log_is s hs" and "h \<notin> set hs" and "clean h"
    and "\<forall>k \<in> set hs. \<exists>b. get s k = Inr b \<and> P k b" and "P h b"
  obtains s' where "append_log h (put h b s) = (True, s')" "log_is (set_head h s') (hs @ [h])"
    "log (set_head h s') = hs @ [h]" "head_of (set_head h s') = h"
    "\<forall>k \<in> set (hs @ [h]). \<exists>b. get (set_head h s') k = Inr b \<and> P k b"
    "\<forall>k. get (set_head h s') k = (if k = h then Inr b else get s k)"
proof -
  have "log_is (put h b s) hs" using assms(1) by (simp add: log_is_put)
  from append_new [OF this assms(2,3)] obtain s' where
    s': "append_log h (put h b s) = (True, s')" "log_is s' (hs @ [h])" by blast
  have log: "log_is (set_head h s') (hs @ [h])" using s'(2) by (simp add: log_is_set_head)
  have get: "\<forall>k. get (set_head h s') k = (if k = h then Inr b else get s k)"
    using get_append [OF s'(1)] by (simp add: get_set_head get_put)
  show thesis
  proof (rule that [OF s'(1) log])
    show "log (set_head h s') = hs @ [h]" using log by (rule log_log_is)
    show "head_of (set_head h s') = h" using head_log_is [OF log] by simp
    show "\<forall>k \<in> set (hs @ [h]). \<exists>b. get (set_head h s') k = Inr b \<and> P k b"
      using get assms(2,4,5) by auto
  qed (rule get)
qed

end

definition ledger_log_is :: "ledger_files \<Rightarrow> string list \<Rightarrow> bool" where
  "ledger_log_is F hs \<longleftrightarrow> lf_order_log F = Some (log_text hs) \<and> (\<forall>h \<in> set hs. clean h)"

lemma read_head_log_is: "ledger_log_is F hs \<Longrightarrow> hs \<noteq> [] \<Longrightarrow> read_head F = last hs"
  using iter_order_log_text [of F hs] by (simp add: ledger_log_is_def read_head_def Let_def)

lemma ledger_append_new:
  assumes "ledger_log_is F hs" and "h \<notin> set hs" and "clean h"
  shows "append_order_log h F = (True, F\<lparr>lf_order_log := Some (log_text (hs @ [h]))\<rparr>)"
  using assms by (intro append_order_log_text) (auto simp: ledger_log_is_def clean_def)

interpretation ledger_store: content_store write_object read_object append_order_log iter_order_log
  write_head read_head ledger_log_is
proof
  show "\<exists>F'. append_order_log h F = (True, F') \<and> ledger_log_is F' (hs @ [h])"
    if "ledger_log_is F hs" "h \<notin> set hs" "clean h" for F hs h
    using ledger_append_new [OF that] that by (simp add: ledger_log_is_def)
  show "read_object F' h' = read_object F h'" if "append_order_log h F = (a, F')" for h F a F' h'
    using that by (auto simp: append_order_log_def read_object_def Let_def split: if_split_asm)
qed (auto simp: read_head_log_is iter_order_log_text ledger_log_is_def write_object_def write_head_def
  read_object_def object_path_inj)

definition adoption_log_is :: "adoption_files \<Rightarrow> string list \<Rightarrow> bool" where
  "adoption_log_is A hs \<longleftrightarrow> ledger_log_is (as_ledger A) hs"

interpretation adoption_store: content_store adoption_write_object adoption_read_object adoption_append_order_log
  adoption_iter_order_log adoption_write_head adoption_read_head adoption_log_is
proof
  show "\<exists>A'. adoption_append_order_log h A = (True, A') \<and> adoption_log_is A' (hs @ [h])"
    if "adoption_log_is A hs" "h \<notin> set hs" "clean h" for A hs h
  proof -
    obtain a A' where A': "adoption_append_order_log h A = (a, A')" by fastforce
    then have "append_order_log h (as_ledger A) = (a, as_ledger A')"
      using as_ledger_ops(5) [of h A] by simp
    with ledger_store.append_new [of "as_ledger A" hs h] that A' show ?thesis
      by (auto simp: adoption_log_is_def)
  qed
  show "adoption_read_object A' h' = adoption_read_object A h'"
    if "adoption_append_order_log h A = (a, A')" for h A a A' h'
    using that by (auto simp: adoption_append_order_log_def adoption_read_object_def Let_def split: if_split_asm)
qed (simp_all add: adoption_log_is_def as_ledger_ops ledger_store.get_put ledger_store.log_is_put
  ledger_store.log_is_set_head ledger_store.get_set_head ledger_store.log_log_is ledger_store.head_log_is)

end
