(* ===== verification/Adoption_Verifier.thy ===== *)
theory Adoption_Verifier
  imports Adoption_Store Ledger_Index Sealed_Config
begin

section \<open>Verifying and committing adoptions (adoption/verifier.py)\<close>

text \<open>
  An adoption makes a symbol the current choice for a concept. It must name the previous choice
  as its baseline, carry a signed certificate for the pair and, for the concepts that the
  configuration lists, a second certificate of the safety harness. As in the ledger, an early
  \<open>return _reject(...)\<close> is the stop \<open>Reject\<close> and an exception the stop \<open>Throw\<close>.
\<close>

record adoption_rejection =
  aj_code :: string
  aj_reason :: string
  aj_details :: "string option"

record accepted_adoption =
  aa_payload_hash :: string
  aa_payload_bytes :: string
  aa_payload :: json

datatype adoption_result = Adopted accepted_adoption | Not_adopted adoption_rejection

datatype adoption_stop = Throw exn | Reject adoption_rejection

type_synonym 'a adoption_checked = "adoption_stop + 'a"

definition adoption_reject :: "string \<Rightarrow> string \<Rightarrow> string option \<Rightarrow> adoption_rejection" where
  "adoption_reject code reason details = \<lparr>aj_code = code, aj_reason = reason, aj_details = details\<rparr>"

definition attempt :: "'a res \<Rightarrow> 'a adoption_checked" where
  "attempt m = (case m of Inl e \<Rightarrow> Inl (Throw e) | Inr x \<Rightarrow> Inr x)"

lemma attempt_Inr [simp]: "attempt m = Inr x \<longleftrightarrow> m = Inr x"
  by (auto simp: attempt_def split: sum.splits)

definition reject_when :: "bool \<Rightarrow> string \<Rightarrow> string \<Rightarrow> string \<Rightarrow> unit adoption_checked" where
  "reject_when b code reason details = (if b then Inl (Reject (adoption_reject code reason (Some details))) else Inr ())"

lemma reject_when_Inr [simp]: "reject_when b code reason details = Inr u \<longleftrightarrow> \<not> b"
  by (simp add: reject_when_def)

subsection \<open>Certificates\<close>

definition adoption_validate_schema :: "json \<Rightarrow> unit res" where
  "adoption_validate_schema rec =
     (if \<not> is_obj rec then Inl (ValueError ''record must be an object'')
      else if \<not> eq_int (jget rec ''schema_version'') 1 then Inl (ValueError ''unsupported schema_version'')
      else if \<not> jhas rec ''parent'' \<or> \<not> is_str (jget rec ''parent'')
      then Inl (ValueError ''record missing parent'')
      else if \<not> jhas rec ''payload'' \<or> \<not> is_obj (jget rec ''payload'')
      then Inl (ValueError ''record missing payload'')
      else Inr ())"

text \<open>What the certificate is about.\<close>

definition certificate_subject :: "json \<Rightarrow> string \<Rightarrow> string \<Rightarrow> json \<Rightarrow> unit res" where
  "certificate_subject cert concept chosen_symbol baseline_symbol =
     (if \<not> is_obj cert then Inl (ValueError ''certificate must be an object'')
      else if jget cert ''kind'' \<noteq> JStr ''stat_cert'' then Inl (ValueError ''certificate must be stat_cert'')
      else if jget cert ''candidate_symbol'' \<noteq> JStr chosen_symbol
      then Inl (ValueError ''certificate candidate_symbol mismatch'')
      else if baseline_symbol \<noteq> JNull \<and> jget cert ''baseline_symbol'' \<noteq> baseline_symbol
      then Inl (ValueError ''certificate baseline_symbol mismatch'')
      else if jget cert ''concept'' \<noteq> JStr concept then Inl (ValueError ''certificate concept mismatch'')
      else Inr ())"

text \<open>Harness, risk and alpha schedule, against the sealed settings.\<close>

definition certificate_settings :: "json \<Rightarrow> sealed_config \<Rightarrow> (decimal \<times> decimal) res" where
  "certificate_settings cert sc =
     (let eval_cfg = jor (jget cert ''eval'') (JObj []) in
      if \<not> is_obj eval_cfg then Inl (ValueError ''certificate eval must be object'')
      else if jget eval_cfg ''eval_harness_id'' \<noteq> JStr (sc_eval_harness_id sc)
      then Inl (ValueError ''certificate eval_harness_id mismatch'')
      else if jget eval_cfg ''eval_harness_hash'' \<noteq> JStr (sc_eval_harness_hash sc)
      then Inl (ValueError ''certificate eval_harness_hash mismatch'')
      else if jget eval_cfg ''eval_suite_hash'' \<noteq> JStr (sc_eval_suite_hash sc)
      then Inl (ValueError ''certificate eval_suite_hash mismatch'')
      else let risk = jor (jget cert ''risk'') (JObj []) in
        if \<not> is_obj risk then Inl (ValueError ''certificate risk must be an object'')
        else
          bindr (parse_decimal (py_str (jget risk ''alpha_i''))) (\<lambda>alpha_i.
          bindr (parse_decimal (py_str (jget risk ''evalue_threshold''))) (\<lambda>threshold.
          bindr (parse_alpha_schedule (jget risk ''alpha_schedule'')) (\<lambda>schedule.
          if as_name schedule \<noteq> as_name (sc_alpha_schedule sc)
             \<or> as_exponent schedule \<noteq> as_exponent (sc_alpha_schedule sc)
          then Inl (ValueError ''certificate alpha_schedule mismatch'')
          else
            bindr (format_decimal (as_coefficient schedule)) (\<lambda>c1.
            bindr (format_decimal (as_coefficient (sc_alpha_schedule sc))) (\<lambda>c2.
            if c1 \<noteq> c2 then Inl (ValueError ''certificate alpha_schedule coefficient mismatch'')
            else Inr (alpha_i, threshold)))))))"

text \<open>The e-value, the key and the signature.\<close>

definition certificate_signed :: "externals \<Rightarrow> json \<Rightarrow> sealed_config \<Rightarrow> decimal \<Rightarrow> decimal \<Rightarrow> unit res" where
  "certificate_signed X cert sc alpha_i threshold =
     (let cert_payload = jor (jget cert ''certificate'') (JObj []);
          schema_version = jget cert_payload ''evalue_schema_version'' in
      if \<not> is_obj cert_payload then Inl (ValueError ''certificate payload must be an object'')
      else if schema_version = JNull then Inl (ValueError ''certificate evalue_schema_version missing'')
      else if \<not> is_int schema_version then Inl (ValueError ''certificate evalue_schema_version must be int'')
      else if the_int schema_version \<noteq> 2 then Inl (ValueError ''certificate evalue_schema_version unsupported'')
      else
        bindr (case parse_evalue (jget cert_payload ''evalue'') of
                 Inl (ValueError m) \<Rightarrow> Inl (ValueError ''certificate evalue invalid'')
               | r \<Rightarrow> r) (\<lambda>evalue.
        let signature = jget cert_payload ''signature'';
            signature_scheme = jget cert_payload ''signature_scheme'';
            key_id = jget cert_payload ''key_id'' in
        if \<not> is_str signature \<or> \<not> is_str signature_scheme
        then Inl (ValueError ''certificate signature missing'')
        else if \<not> is_str key_id \<or> key_id = JStr [] then Inl (ValueError ''certificate key_id missing'')
        else if \<not> x_crypto_available X then Inl (ValueError ''crypto backend unavailable'')
        else case map_of (sc_allowed_keys sc) (the_str key_id) of
            None \<Rightarrow> Inl (ValueError ''certificate key_id not allowed'')
          | Some public_key \<Rightarrow>
              if public_key = [] then Inl (ValueError ''certificate key_id not allowed'')
              else
                bindr (encoded_evalue_to_decimal evalue) (\<lambda>d.
                bindr (dec_mul d alpha_i) (\<lambda>prod.
                bindr (dec_less prod threshold) (\<lambda>below.
                if below then Inl (ValueError ''certificate evalue below threshold'')
                else
                  bindr (stat_cert_signing_bytes cert) (\<lambda>signing_bytes.
                  if \<not> verify_signature X public_key signing_bytes (the_str signature) (the_str signature_scheme)
                  then Inl (ValueError ''certificate signature invalid'')
                  else Inr ()))))))"

definition validate_certificate :: "externals \<Rightarrow> json \<Rightarrow> json \<Rightarrow> string \<Rightarrow> string \<Rightarrow> json
    \<Rightarrow> sealed_config option \<Rightarrow> unit res" where
  "validate_certificate X data cert concept chosen_symbol baseline_symbol sealed_cfg_override =
     bindr (certificate_subject cert concept chosen_symbol baseline_symbol) (\<lambda>_.
     bindr (case sealed_cfg_override of Some sc \<Rightarrow> Inr sc | None \<Rightarrow> load_sealed_config data True) (\<lambda>sc.
     bindr (certificate_settings cert sc) (\<lambda>(alpha_i, threshold).
       certificate_signed X cert sc alpha_i threshold)))"

subsection \<open>Constraints\<close>

text \<open>\<open>concept.startswith(item)\<close> for one of the listed prefixes.\<close>

definition requires_constraints :: "string \<Rightarrow> json \<Rightarrow> bool" where
  "requires_constraints concept prefixes \<longleftrightarrow>
     (\<exists>item \<in> set (the_list prefixes). is_str item \<and> take (length (the_str item)) concept = the_str item)"

definition validate_constraints :: "externals \<Rightarrow> json \<Rightarrow> json \<Rightarrow> string \<Rightarrow> string \<Rightarrow> json \<Rightarrow> unit res" where
  "validate_constraints X data constraints concept chosen_symbol baseline_symbol =
     (let constraints_cfg = jor (jget data ''constraints'') (JObj []) in
      bindr (jgetr constraints_cfg ''required_concepts'') (\<lambda>rc.
      let required = jor rc (JList []) in
      if \<not> requires_constraints concept required then Inr ()
      else if \<not> truthy constraints then Inl (ValueError ''constraints required for concept'')
      else let expected_hash = jget constraints_cfg ''spec_hash'' in
        if \<not> is_str expected_hash \<or> expected_hash = JStr []
        then Inl (ValueError ''constraints.spec_hash missing'')
        else if jget constraints ''spec_hash'' \<noteq> expected_hash
        then Inl (ValueError ''constraints spec_hash mismatch'')
        else if \<not> is_obj (jget constraints ''spec'') then Inl (ValueError ''constraints spec missing'')
        else
          bindr (constraint_spec_hash (x_blake3 X) (jget constraints ''spec'')) (\<lambda>actual_hash.
          if JStr actual_hash \<noteq> expected_hash then Inl (ValueError ''constraints spec hash mismatch'')
          else let safety_cert = jget constraints ''safety_certificate'';
                   safety_block = jget data ''sealed_safety'' in
            if \<not> is_obj safety_cert then Inl (ValueError ''constraints safety_certificate missing'')
            else if \<not> is_obj safety_block \<or> safety_block = JObj []
            then Inl (ValueError ''sealed_safety missing'')
            else
              bindr (load_sealed_config (JObj [(''sealed'', safety_block)]) True) (\<lambda>safety_cfg.
                validate_certificate X data safety_cert concept chosen_symbol baseline_symbol (Some safety_cfg)))))"

subsection \<open>Verifying\<close>

text \<open>A JSON value that is a string or null, as an optional string.\<close>

definition json_opt :: "json \<Rightarrow> string option" where
  "json_opt v = (if is_str v then Some (the_str v) else None)"

text \<open>The first part needs no index: schema, canonical payload, parent and freshness.\<close>

definition adoption_payload_checks :: "externals \<Rightarrow> adoption_files \<Rightarrow> json \<Rightarrow> accepted_adoption adoption_checked" where
  "adoption_payload_checks X A rec =
     bindr (attempt (adoption_validate_schema rec)) (\<lambda>_.
     bindr (reject_when (af_head A = None) ''ADOPTION_NOT_INITIALIZED'' ''adoption ledger not initialized''
              ''run cdel init'') (\<lambda>_.
     bindr (attempt (adoption_canonicalize_payload (x_blake3 X) (jor (jget rec ''payload'') (JObj [])))) (\<lambda>payload.
     let payload_bytes = canonical_json_bytes payload;
         payload_hash = adoption_payload_hash_hex (x_blake3 X) payload;
         head = adoption_read_head A in
     bindr (reject_when (jget rec ''parent'' \<noteq> JStr head) ''PARENT_MISMATCH'' ''parent does not match head''
              (''expected '' @ head)) (\<lambda>_.
     bindr (reject_when (af_objects A (adoption_object_path payload_hash) \<noteq> None) ''HASH_EXISTS''
              ''payload already exists'' payload_hash) (\<lambda>_.
       Inr \<lparr>aa_payload_hash = payload_hash, aa_payload_bytes = payload_bytes, aa_payload = payload\<rparr>)))))"

text \<open>The second part looks the symbols and the current adoption up.\<close>

definition adoption_index_checks :: "index_db \<Rightarrow> string \<Rightarrow> string \<Rightarrow> json \<Rightarrow> unit adoption_checked" where
  "adoption_index_checks db concept chosen_symbol baseline_symbol =
     bindr (reject_when (\<not> symbol_exists db chosen_symbol) ''SYMBOL_UNKNOWN'' ''chosen_symbol not found''
              chosen_symbol) (\<lambda>_.
     bindr (reject_when (truthy baseline_symbol \<and> \<not> symbol_exists db (the_str baseline_symbol)) ''SYMBOL_UNKNOWN''
              ''baseline_symbol not found'' (the_str baseline_symbol)) (\<lambda>_.
     bindr (reject_when (\<not> concept_symbol_exists db concept chosen_symbol) ''CONCEPT_UNKNOWN''
              ''concept symbol not indexed'' concept) (\<lambda>_.
     case latest_adoption_for_concept db concept of
       None \<Rightarrow> reject_when (baseline_symbol \<noteq> JNull) ''BASELINE_MISMATCH''
                 ''baseline must be null for first adoption'' concept
     | Some (h, current, b) \<Rightarrow> reject_when (baseline_symbol \<noteq> JStr current) ''BASELINE_MISMATCH''
                 ''baseline does not match current adoption'' current)))"

definition adoption_checks :: "externals \<Rightarrow> json \<Rightarrow> index_db \<Rightarrow> accepted_adoption \<Rightarrow> unit adoption_checked" where
  "adoption_checks X data db m =
     (let payload = aa_payload m; concept = the_str (jget payload ''concept'');
          chosen_symbol = the_str (jget payload ''chosen_symbol''); baseline_symbol = jget payload ''baseline_symbol'' in
      bindr (adoption_index_checks db concept chosen_symbol baseline_symbol) (\<lambda>_.
      bindr (attempt (validate_certificate X data (jor (jget payload ''certificate'') (JObj [])) concept
                chosen_symbol baseline_symbol None)) (\<lambda>_.
        attempt (validate_constraints X data (jor (jget payload ''constraints'') (JObj [])) concept
                chosen_symbol baseline_symbol))))"

fun catch_adoption :: "adoption_stop \<Rightarrow> adoption_result res" where
  "catch_adoption (Reject r) = Inr (Not_adopted r)"
| "catch_adoption (Throw (ValueError m)) =
     Inr (Not_adopted (adoption_reject ''SCHEMA_INVALID'' ''schema validation failed'' (Some m)))"
| "catch_adoption (Throw e) = Inl e"

definition verify_adoption :: "externals \<Rightarrow> json \<Rightarrow> adoption_files \<Rightarrow> index_db \<Rightarrow> json
    \<Rightarrow> adoption_result res \<times> index_db" where
  "verify_adoption X data A db rec =
     (case adoption_payload_checks X A rec of
        Inl s \<Rightarrow> (catch_adoption s, db)
      | Inr m \<Rightarrow>
          (case init_schema db of
             Inl e \<Rightarrow> (catch_adoption (Throw e), db)
           | Inr db1 \<Rightarrow>
               (case adoption_checks X data db1 m of
                  Inl s \<Rightarrow> catch_adoption s
                | Inr _ \<Rightarrow> Inr (Adopted m), db1)))"

subsection \<open>Committing\<close>

definition adoption_commit_files :: "json \<Rightarrow> accepted_adoption \<Rightarrow> adoption_files \<Rightarrow> bool \<times> adoption_files" where
  "adoption_commit_files rec m A =
     (let A1 = adoption_write_object (aa_payload_hash m) (aa_payload_bytes m) A;
          meta = jget rec ''meta'';
          A2 = (if is_obj meta \<and> truthy meta then adoption_write_meta (aa_payload_hash m) meta A1 else A1);
          (appended, A3) = adoption_append_order_log (aa_payload_hash m) A2
      in (appended, if appended then adoption_write_head (aa_payload_hash m) A3 else A3))"

definition adoption_row_of :: "json \<Rightarrow> int \<Rightarrow> accepted_adoption \<Rightarrow> adoption_row" where
  "adoption_row_of rec now m =
     \<lparr>ar_hash = aa_payload_hash m, ar_parent_hash = the_str (jget rec ''parent''), ar_bytes = aa_payload_bytes m,
      ar_accepted_at = now, ar_concept = the_str (jget (aa_payload m) ''concept''),
      ar_chosen_symbol = the_str (jget (aa_payload m) ''chosen_symbol''),
      ar_baseline_symbol = json_opt (jget (aa_payload m) ''baseline_symbol'')\<rparr>"

definition commit_adoption :: "externals \<Rightarrow> json \<Rightarrow> int \<Rightarrow> adoption_files \<Rightarrow> index_db \<Rightarrow> json
    \<Rightarrow> adoption_result res \<times> adoption_files \<times> index_db" where
  "commit_adoption X data now A db rec =
     (case verify_adoption X data A db rec of
        (Inr (Adopted m), db1) \<Rightarrow>
          (let (appended, A') = adoption_commit_files rec m A in
           if \<not> appended then (Inr (Adopted m), A', db1)
           else
             (case init_schema db1 of
                Inl e \<Rightarrow> (Inl e, A', db1)
              | Inr db2 \<Rightarrow>
                  (Inr (Adopted m), A',
                   case insert_adoption (adoption_row_of rec now m) db2 of Inl e \<Rightarrow> db2 | Inr db3 \<Rightarrow> db3)))
      | (r, db1) \<Rightarrow> (r, A, db1))"

end
