(* ===== verification/Adoption_Props.thy ===== *)
theory Adoption_Props
  imports Adoption_Verifier Ledger_Reach Kernel_Spec_Props
begin

section \<open>Properties of adoptions\<close>

text \<open>
  What an accepted adoption has passed, what a commit does to the store and the index, and the
  chain of adoptions: in every reachable state each adoption names the one before it, provided
  that the clock advances from one adoption to the next.
\<close>

subsection \<open>Certificates\<close>

lemma value_error_Inr [simp]:
  "(case m of Inl (ValueError t) \<Rightarrow> Inl (g t) | r \<Rightarrow> r) = Inr x \<longleftrightarrow> m = Inr x" for m :: "'a res"
proof (cases m)
  case (Inl e)
  then show ?thesis by (cases e) simp_all
qed simp

lemma certificate_signed_Inr:
  assumes "certificate_signed X cert sc alpha_i threshold = Inr ()"
  shows "\<exists>pk bytes evalue d prod. map_of (sc_allowed_keys sc) (the_str (jget (cert_of cert) ''key_id'')) = Some pk
    \<and> stat_cert_signing_bytes cert = Inr bytes
    \<and> x_ed25519_verifies X pk bytes (the_str (jget (cert_of cert) ''signature''))
    \<and> parse_evalue (jget (cert_of cert) ''evalue'') = Inr evalue
    \<and> encoded_evalue_to_decimal evalue = Inr d \<and> dec_mul d alpha_i = Inr prod \<and> dec_less prod threshold = Inr False"
  using assms unfolding certificate_signed_def cert_of_def Let_def
  by (simp add: verify_signature_def split: if_split_asm option.split_asm)

text \<open>A certificate that counts for an adoption under the settings \<open>sc\<close>.\<close>

definition certifies :: "externals \<Rightarrow> sealed_config \<Rightarrow> json \<Rightarrow> string \<Rightarrow> string \<Rightarrow> bool" where
  "certifies X sc cert concept chosen \<longleftrightarrow>
     jget cert ''candidate_symbol'' = JStr chosen \<and> jget cert ''concept'' = JStr concept
     \<and> (\<exists>pk bytes. map_of (sc_allowed_keys sc) (the_str (jget (cert_of cert) ''key_id'')) = Some pk
          \<and> stat_cert_signing_bytes cert = Inr bytes
          \<and> x_ed25519_verifies X pk bytes (the_str (jget (cert_of cert) ''signature'')))"

lemma validate_certificate_Inr:
  assumes "validate_certificate X data cert concept chosen baseline over = Inr ()"
  shows "\<exists>sc. (case over of Some sc \<Rightarrow> Inr sc | None \<Rightarrow> load_sealed_config data True) = Inr sc
    \<and> certifies X sc cert concept chosen"
proof -
  from assms obtain sc alpha_i threshold where
    sc: "(case over of Some sc \<Rightarrow> Inr sc | None \<Rightarrow> load_sealed_config data True) = Inr sc"
    and subject: "certificate_subject cert concept chosen baseline = Inr ()"
    and signed: "certificate_signed X cert sc alpha_i threshold = Inr ()"
    unfolding validate_certificate_def by (auto elim!: bindrE simp del: bindr_Inr_iff)
  from subject have "jget cert ''candidate_symbol'' = JStr chosen" "jget cert ''concept'' = JStr concept"
    by (auto simp: certificate_subject_def split: if_split_asm)
  with certificate_signed_Inr [OF signed] sc show ?thesis unfolding certifies_def by blast
qed

definition required_concepts :: "json \<Rightarrow> json" where
  "required_concepts data = jor (jget (jor (jget data ''constraints'') (JObj [])) ''required_concepts'') (JList [])"

lemma validate_constraints_Inr:
  assumes "validate_constraints X data constraints concept chosen baseline = Inr ()"
    and "requires_constraints concept (required_concepts data)"
  shows "\<exists>sc h spec. load_sealed_config (JObj [(''sealed'', jget data ''sealed_safety'')]) True = Inr sc
    \<and> jget (jor (jget data ''constraints'') (JObj [])) ''spec_hash'' = JStr h
    \<and> jget constraints ''spec'' = spec \<and> constraint_spec_hash (x_blake3 X) spec = Inr h
    \<and> certifies X sc (jget constraints ''safety_certificate'') concept chosen"
  using assms unfolding validate_constraints_def required_concepts_def Let_def jgetr_def
  by (auto elim!: bindrE dest!: validate_certificate_Inr simp: is_str_iff simp del: bindr_Inr_iff
      split: if_split_asm)

subsection \<open>What an accepted adoption has passed\<close>

lemma catch_adoption_Adopted [simp]: "catch_adoption s \<noteq> Inr (Adopted m)"
  by (cases s rule: catch_adoption.cases) auto

lemma verify_adopted:
  assumes "verify_adoption X data A db rec = (Inr (Adopted m), db1)"
  shows "adoption_payload_checks X A rec = Inr m \<and> init_schema db = Inr db1 \<and> adoption_checks X data db1 m = Inr ()"
  using assms unfolding verify_adoption_def
  by (auto split: sum.split_asm)

lemma adoption_payload_checks_Inr:
  assumes "adoption_payload_checks X A rec = Inr m"
  shows "jget rec ''parent'' = JStr (adoption_read_head A) \<and> af_head A \<noteq> None
    \<and> af_objects A (adoption_object_path (aa_payload_hash m)) = None
    \<and> aa_payload_bytes m = canonical_json_bytes (aa_payload m)
    \<and> aa_payload_hash m = x_blake3 X (aa_payload_bytes m)
    \<and> (\<exists>raw. adoption_canonicalize_payload (x_blake3 X) raw = Inr (aa_payload m))"
  using assms unfolding adoption_payload_checks_def Let_def
  by (auto elim!: bindrE simp: adoption_payload_hash_hex_def simp del: bindr_Inr_iff)

lemma adoption_payload_strings:
  assumes "adoption_canonicalize_payload H raw = Inr p"
  shows "is_str (jget p ''concept'') \<and> is_str (jget p ''chosen_symbol'')
    \<and> (jget p ''baseline_symbol'' = JNull \<or> is_str (jget p ''baseline_symbol''))"
  using assms unfolding adoption_canonicalize_payload_def Let_def
  by (auto elim!: bindrE simp del: bindr_Inr_iff split: if_split_asm)

text \<open>The adoption an accepted record stands for.\<close>

definition aa_concept :: "accepted_adoption \<Rightarrow> string" where
  "aa_concept m = the_str (jget (aa_payload m) ''concept'')"

definition aa_chosen :: "accepted_adoption \<Rightarrow> string" where
  "aa_chosen m = the_str (jget (aa_payload m) ''chosen_symbol'')"

definition aa_baseline :: "accepted_adoption \<Rightarrow> string option" where
  "aa_baseline m = json_opt (jget (aa_payload m) ''baseline_symbol'')"

definition current_choice :: "index_db \<Rightarrow> string \<Rightarrow> string option" where
  "current_choice db concept = map_option (\<lambda>(h, s, b). s) (latest_adoption_for_concept db concept)"

lemma adoption_checks_Inr:
  assumes "adoption_checks X data db m = Inr ()"
  shows "symbol_exists db (aa_chosen m)" "concept_symbol_exists db (aa_concept m) (aa_chosen m)"
    "aa_baseline m = current_choice db (aa_concept m)"
    "validate_certificate X data (jor (jget (aa_payload m) ''certificate'') (JObj [])) (aa_concept m)
       (aa_chosen m) (jget (aa_payload m) ''baseline_symbol'') None = Inr ()"
    "validate_constraints X data (jor (jget (aa_payload m) ''constraints'') (JObj [])) (aa_concept m)
       (aa_chosen m) (jget (aa_payload m) ''baseline_symbol'') = Inr ()"
proof -
  from assms have index: "adoption_index_checks db (aa_concept m) (aa_chosen m) (jget (aa_payload m) ''baseline_symbol'') = Inr ()"
    and cert: "validate_certificate X data (jor (jget (aa_payload m) ''certificate'') (JObj [])) (aa_concept m)
       (aa_chosen m) (jget (aa_payload m) ''baseline_symbol'') None = Inr ()"
    and constraints: "validate_constraints X data (jor (jget (aa_payload m) ''constraints'') (JObj [])) (aa_concept m)
       (aa_chosen m) (jget (aa_payload m) ''baseline_symbol'') = Inr ()"
    unfolding adoption_checks_def Let_def aa_concept_def aa_chosen_def by simp_all
  show "symbol_exists db (aa_chosen m)" "concept_symbol_exists db (aa_concept m) (aa_chosen m)"
    using index by (simp_all add: adoption_index_checks_def)
  show "aa_baseline m = current_choice db (aa_concept m)"
    using index
    by (auto simp: adoption_index_checks_def aa_baseline_def json_opt_def current_choice_def split: option.split_asm)
  show "validate_certificate X data (jor (jget (aa_payload m) ''certificate'') (JObj [])) (aa_concept m)
       (aa_chosen m) (jget (aa_payload m) ''baseline_symbol'') None = Inr ()"
    by (rule cert)
  show "validate_constraints X data (jor (jget (aa_payload m) ''constraints'') (JObj [])) (aa_concept m)
       (aa_chosen m) (jget (aa_payload m) ''baseline_symbol'') = Inr ()"
    by (rule constraints)
qed

subsection \<open>The files\<close>

definition adoption_files_ok :: "externals \<Rightarrow> adoption_files \<Rightarrow> string list \<Rightarrow> bool" where
  "adoption_files_ok X A hs \<longleftrightarrow> adoption_log_is A hs \<and> distinct hs \<and> af_head A \<noteq> None
     \<and> (\<forall>h \<in> set hs. \<exists>b. adoption_read_object A h = Inr b \<and> x_blake3 X b = h
          \<and> (\<exists>raw p. adoption_canonicalize_payload (x_blake3 X) raw = Inr p \<and> canonical_json_bytes p = b))"

lemma adoption_log_is_meta: "adoption_log_is (adoption_write_meta h j A) hs = adoption_log_is A hs"
  by (simp add: adoption_log_is_def as_ledger_ops ledger_log_is_def write_meta_def)

lemma adoption_commit_files_split:
  "adoption_commit_files rec m A =
     (case adoption_append_order_log (aa_payload_hash m)
        (adoption_write_object (aa_payload_hash m) (aa_payload_bytes m)
          (if is_obj (jget rec ''meta'') \<and> truthy (jget rec ''meta'')
           then adoption_write_meta (aa_payload_hash m) (jget rec ''meta'') A else A)) of
      (appended, A') \<Rightarrow> (appended, if appended then adoption_write_head (aa_payload_hash m) A' else A'))"
proof -
  have "adoption_write_meta h j (adoption_write_object h b A) = adoption_write_object h b (adoption_write_meta h j A)"
    for h j b by (simp add: adoption_write_meta_def adoption_write_object_def)
  then show ?thesis by (simp add: adoption_commit_files_def Let_def)
qed

lemma adoption_commit_files_ok:
  assumes "adoption_files_ok X A hs" and "adoption_payload_checks X A rec = Inr m" and "hex_hash (x_blake3 X)"
  obtains A' where "adoption_commit_files rec m A = (True, A')" "adoption_files_ok X A' (hs @ [aa_payload_hash m])"
    "adoption_iter_order_log A' = hs @ [aa_payload_hash m]" "adoption_read_head A' = aa_payload_hash m"
    "\<forall>k. adoption_read_object A' k
      = (if k = aa_payload_hash m then Inr (aa_payload_bytes m) else adoption_read_object A k)"
    "aa_payload_hash m \<notin> set hs"
proof -
  note facts = adoption_payload_checks_Inr [OF assms(2)]
  let ?h = "aa_payload_hash m"
  let ?B = "if is_obj (jget rec ''meta'') \<and> truthy (jget rec ''meta'')
    then adoption_write_meta ?h (jget rec ''meta'') A else A"
  have log: "adoption_log_is ?B hs"
    using assms(1) by (simp add: adoption_files_ok_def adoption_log_is_meta)
  have get: "adoption_read_object ?B k = adoption_read_object A k" for k
    by (simp add: adoption_read_object_def adoption_write_meta_def)
  have head: "af_head ?B = af_head A" by (simp add: adoption_write_meta_def)
  have new: "?h \<notin> set hs"
  proof
    assume "?h \<in> set hs"
    then obtain b where "adoption_read_object A ?h = Inr b" using assms(1) by (auto simp: adoption_files_ok_def)
    moreover have "af_objects A (adoption_object_path ?h) = None" using facts by (elim conjE)
    ultimately show False by (simp add: adoption_read_object_def)
  qed
  have clean: "clean ?h" using facts hex_hash_clean(1) [OF assms(3)] by simp
  let ?P = "\<lambda>h b. x_blake3 X b = h
    \<and> (\<exists>raw p. adoption_canonicalize_payload (x_blake3 X) raw = Inr p \<and> canonical_json_bytes p = b)"
  have old: "\<forall>k \<in> set hs. \<exists>b. adoption_read_object ?B k = Inr b \<and> ?P k b"
    using assms(1) unfolding get by (simp add: adoption_files_ok_def)
  have "?P ?h (aa_payload_bytes m)" using facts by auto
  with log new clean old show thesis
  proof (rule adoption_store.commit_object)
    fix A1
    assume A1: "adoption_append_order_log ?h (adoption_write_object ?h (aa_payload_bytes m) ?B) = (True, A1)"
      "adoption_log_is (adoption_write_head ?h A1) (hs @ [?h])"
      "adoption_iter_order_log (adoption_write_head ?h A1) = hs @ [?h]"
      "adoption_read_head (adoption_write_head ?h A1) = ?h"
      "\<forall>k \<in> set (hs @ [?h]). \<exists>b. adoption_read_object (adoption_write_head ?h A1) k = Inr b \<and> ?P k b"
      "\<forall>k. adoption_read_object (adoption_write_head ?h A1) k
        = (if k = ?h then Inr (aa_payload_bytes m) else adoption_read_object ?B k)"
    have commit: "adoption_commit_files rec m A = (True, adoption_write_head ?h A1)"
      by (simp add: adoption_commit_files_split A1(1))
    have "distinct (hs @ [?h])" using assms(1) new by (simp add: adoption_files_ok_def)
    with A1 have ok: "adoption_files_ok X (adoption_write_head ?h A1) (hs @ [?h])"
      unfolding adoption_files_ok_def by (simp add: adoption_write_head_def)
    show thesis by (rule that [OF commit ok A1(3,4) A1(6) [unfolded get] new])
  qed
qed

subsection \<open>The rows\<close>

text \<open>The choice that the adoptions \<open>rows\<close>, in order, leave for a concept.\<close>

definition chosen_by :: "adoption_row list \<Rightarrow> string \<Rightarrow> string option" where
  "chosen_by rows concept =
     (case filter (\<lambda>r. ar_concept r = concept) rows of [] \<Rightarrow> None | rs \<Rightarrow> Some (ar_chosen_symbol (last rs)))"

text \<open>Each adoption's baseline is the choice that the ones before it left.\<close>

definition chained :: "adoption_row list \<Rightarrow> bool" where
  "chained rows \<longleftrightarrow> (\<forall>i < length rows. ar_baseline_symbol (rows ! i) = chosen_by (take i rows) (ar_concept (rows ! i)))"

lemma chained_Nil [simp]: "chained []"
  by (simp add: chained_def)

lemma chained_snoc:
  "chained (rows @ [r]) \<longleftrightarrow> chained rows \<and> ar_baseline_symbol r = chosen_by rows (ar_concept r)"
  by (auto simp: chained_def nth_append less_Suc_eq)

text \<open>When the times increase, the row that SQL finds latest is the last one.\<close>

lemma latest_increasing:
  "sorted_wrt (<) (map snd rows) \<Longrightarrow> latest rows = (if rows = [] then None else Some (fst (last rows)))"
proof (induction rows rule: latest.induct)
  case (2 x k rows)
  then show ?case by (cases rows) auto
qed simp

definition times_increase :: "adoption_row list \<Rightarrow> bool" where
  "times_increase rows \<longleftrightarrow> sorted_wrt (<) (map ar_accepted_at rows)"

lemma current_choice_chosen_by:
  assumes "times_increase (ix_adoptions db)"
  shows "current_choice db concept = chosen_by (ix_adoptions db) concept"
proof -
  let ?rows = "filter (\<lambda>r. ar_concept r = concept) (ix_adoptions db)"
  have "sorted_wrt (<) (map ar_accepted_at ?rows)"
    using assms by (auto simp: times_increase_def sorted_wrt_map intro: sorted_wrt_filter)
  then have "sorted_wrt (<) (map snd (map (\<lambda>r. ((ar_hash r, ar_chosen_symbol r, ar_baseline_symbol r), ar_accepted_at r)) ?rows))"
    by (simp add: comp_def)
  from latest_increasing [OF this] show ?thesis
    by (auto simp: current_choice_def latest_adoption_for_concept_def chosen_by_def last_map split: list.split)
qed

subsection \<open>Reachable states\<close>

text \<open>
  \<open>adopting X data t A W\<close>: the adoption files \<open>A\<close> and the ledger \<open>W\<close> can be reached by commits
  of modules and of adoptions, the last adoption at time \<open>t\<close> and each later than the one before.
\<close>

definition empty_adoptions :: adoption_files where
  "empty_adoptions = \<lparr>af_objects = (\<lambda>_. None), af_meta = (\<lambda>_. None), af_order_log = None, af_head = None\<rparr>"

inductive adopting :: "externals \<Rightarrow> json \<Rightarrow> int \<Rightarrow> adoption_files \<Rightarrow> ledger \<Rightarrow> bool" for X data where
  start: "adopting X data t (adoption_init_storage empty_adoptions)
    \<lparr>l_files = init_storage empty_files, l_index = empty_db\<rparr>"
| module: "adopting X data t A W \<Longrightarrow> commit_module X data now W module = (r, W') \<Longrightarrow> adopting X data t A W'"
| adoption: "adopting X data t A W \<Longrightarrow> t < now \<Longrightarrow>
    commit_adoption X data now A (l_index W) rec = (r, A', db) \<Longrightarrow> adopting X data now A' (W\<lparr>l_index := db\<rparr>)"

inductive_cases adoption_stepE: "adopting X data t A W"

definition adoption_rows_ok :: "index_db \<Rightarrow> string list \<Rightarrow> int \<Rightarrow> bool" where
  "adoption_rows_ok db hs t \<longleftrightarrow> chained (ix_adoptions db) \<and> times_increase (ix_adoptions db)
     \<and> ar_hash ` set (ix_adoptions db) \<subseteq> set hs
     \<and> (\<forall>r \<in> set (ix_adoptions db). ar_accepted_at r \<le> t
          \<and> concept_symbol_exists db (ar_concept r) (ar_chosen_symbol r))"

definition adoption_ok :: "externals \<Rightarrow> int \<Rightarrow> adoption_files \<Rightarrow> ledger \<Rightarrow> bool" where
  "adoption_ok X t A W \<longleftrightarrow> ledger_ok X W
     \<and> (\<exists>hs. adoption_files_ok X A hs \<and> adoption_rows_ok (l_index W) hs t)"

lemma adoption_files_start: "adoption_files_ok X (adoption_init_storage empty_adoptions) []"
  by (simp add: adoption_files_ok_def adoption_log_is_def as_ledger_def ledger_log_is_def log_text_def
    adoption_init_storage_def empty_adoptions_def Let_def)

text \<open>Committing a module keeps the adoptions and every concept.\<close>

lemma commit_module_adoptions:
  assumes "commit_module X data now W module = (r, W')" and "ledger_ok X W" and "hex_hash (x_blake3 X)"
  shows "ix_adoptions (l_index W') = ix_adoptions (l_index W)"
    and "concept_symbol_exists (l_index W) c s \<Longrightarrow> concept_symbol_exists (l_index W') c s"
proof -
  have opened: "ix_adoptions (snd (open_index data db)) = ix_adoptions db
      \<and> ix_concepts (snd (open_index data db)) = ix_concepts db" for db
    using open_index_fields [of data db] by (elim exE) simp
  obtain v W1 where v: "verify_module X data W module = (v, W1)" by fastforce
  have "ix_adoptions (l_index W') = ix_adoptions (l_index W)
    \<and> set (ix_concepts (l_index W)) \<subseteq> set (ix_concepts (l_index W'))"
  proof (cases "\<exists>m. v = Inr (Accepted m)")
    case False
    with assms(1) commit_not_accepted [OF v] have "W' = W1" by auto
    with verify_module_effect [OF v] opened [of "l_index W"] show ?thesis by auto
  next
    case True
    then obtain m where "verify_module X data W module = (Inr (Accepted m), W1)" using v by blast
    moreover obtain hs where "files_ok X (l_files W) hs" using assms(2) by (auto simp: ledger_ok_def)
    ultimately show ?thesis using assms(3)
    proof (rule commit_accepted [where now = now])
      fix n db F
      assume o: "open_index data (l_index W) = (Inr n, db)" and facts: "module_facts db m"
        and c: "commit_module X data now W module = (Inr (Accepted m), \<lparr>l_files = F, l_index =
          (case commit_index data (parent_of module) now m (def_hashes_of X m) n db of Inl e \<Rightarrow> db | Inr db' \<Rightarrow> db')\<rparr>)"
      have db: "ix_adoptions db = ix_adoptions (l_index W)" "ix_concepts db = ix_concepts (l_index W)"
        using opened [of "l_index W"] o by simp_all
      show ?thesis
      proof (cases "commit_index data (parent_of module) now m (def_hashes_of X m) n db")
        case (Inl e)
        with c assms(1) db show ?thesis by auto
      next
        case (Inr db')
        with commit_index_Inr [OF facts] obtain b st where
          "db' = (committed_rows X (parent_of module) now m db)\<lparr>ix_budget := b, ix_stat_cert_state := st\<rparr>" by blast
        moreover have "l_index W' = db'" using c assms(1) Inr by simp
        ultimately show ?thesis by (simp add: db committed_rows_def rows_added_def)
      qed
    qed
  qed
  then show "ix_adoptions (l_index W') = ix_adoptions (l_index W)"
    and "concept_symbol_exists (l_index W) c s \<Longrightarrow> concept_symbol_exists (l_index W') c s"
    by (auto simp: concept_symbol_exists_def)
qed

lemma ledger_ok_index:
  assumes "ledger_ok X W" and "db = (l_index W)\<lparr>ix_schema_version := v, ix_adoptions := rows\<rparr>"
  shows "ledger_ok X (W\<lparr>l_index := db\<rparr>)"
proof -
  from assms(1) obtain hs where "files_ok X (l_files W) hs" "index_ok (l_index W) hs" by (auto simp: ledger_ok_def)
  moreover from this(2) have "index_ok db hs"
    by (simp add: assms(2) index_ok_def names_def module_hashes_def)
  ultimately show ?thesis by (auto simp: ledger_ok_def)
qed

subsection \<open>Committing an adoption\<close>

lemma init_schema_idem: "init_schema db = Inr db1 \<Longrightarrow> init_schema db1 = Inr db1"
  by (drule init_schema_Inr) (simp add: init_schema_def schema_version_def)

lemma verify_adoption_db:
  assumes "verify_adoption X data A db rec = (r, db1)"
  shows "\<exists>v. db1 = db\<lparr>ix_schema_version := v\<rparr>"
proof -
  have "\<exists>v. db = db\<lparr>ix_schema_version := v\<rparr>" by (rule exI [of _ "ix_schema_version db"]) (cases db, simp)
  moreover from assms have "db1 = db \<or> db1 = db\<lparr>ix_schema_version := Some 2\<rparr>"
    by (auto simp: verify_adoption_def dest!: init_schema_Inr split: sum.split_asm)
  ultimately show ?thesis by blast
qed

lemma commit_not_adopted:
  assumes "verify_adoption X data A db rec = (r, db1)" and "\<forall>m. r \<noteq> Inr (Adopted m)"
  shows "commit_adoption X data now A db rec = (r, A, db1)"
proof (cases r)
  case (Inr v)
  with assms show ?thesis by (cases v) (simp_all add: commit_adoption_def)
qed (use assms in \<open>simp add: commit_adoption_def\<close>)

lemma commit_adopted:
  assumes "verify_adoption X data A db rec = (Inr (Adopted m), db1)"
    and "adoption_files_ok X A hs" and "hex_hash (x_blake3 X)"
  obtains A' where
    "commit_adoption X data now A db rec = (Inr (Adopted m), A',
       case insert_adoption (adoption_row_of rec now m) db1 of Inl e \<Rightarrow> db1 | Inr db' \<Rightarrow> db')"
    "adoption_files_ok X A' (hs @ [aa_payload_hash m])"
    "adoption_iter_order_log A' = hs @ [aa_payload_hash m]" "adoption_read_head A' = aa_payload_hash m"
    "\<forall>k. adoption_read_object A' k
      = (if k = aa_payload_hash m then Inr (aa_payload_bytes m) else adoption_read_object A k)"
    "aa_payload_hash m \<notin> set hs"
proof -
  from verify_adopted [OF assms(1)] have checks: "adoption_payload_checks X A rec = Inr m"
    and schema: "init_schema db1 = Inr db1" using init_schema_idem by blast+
  from assms(2) checks assms(3) show thesis
  proof (rule adoption_commit_files_ok)
    fix A'
    assume A': "adoption_commit_files rec m A = (True, A')" "adoption_files_ok X A' (hs @ [aa_payload_hash m])"
      "adoption_iter_order_log A' = hs @ [aa_payload_hash m]" "adoption_read_head A' = aa_payload_hash m"
      "\<forall>k. adoption_read_object A' k
        = (if k = aa_payload_hash m then Inr (aa_payload_bytes m) else adoption_read_object A k)"
      "aa_payload_hash m \<notin> set hs"
    have "commit_adoption X data now A db rec = (Inr (Adopted m), A',
       case insert_adoption (adoption_row_of rec now m) db1 of Inl e \<Rightarrow> db1 | Inr db' \<Rightarrow> db')"
      by (simp add: commit_adoption_def assms(1) A'(1) schema)
    then show thesis using A'(2-6) by (rule that)
  qed
qed

lemma adoption_row_fields:
  "ar_hash (adoption_row_of rec now m) = aa_payload_hash m"
  "ar_accepted_at (adoption_row_of rec now m) = now"
  "ar_concept (adoption_row_of rec now m) = aa_concept m"
  "ar_chosen_symbol (adoption_row_of rec now m) = aa_chosen m"
  "ar_baseline_symbol (adoption_row_of rec now m) = aa_baseline m"
  by (simp_all add: adoption_row_of_def aa_concept_def aa_chosen_def aa_baseline_def)

lemma insert_adoption_cases:
  obtains (failed) e where "insert_adoption row db = Inl e"
  | (inserted) "insert_adoption row db = Inr (db\<lparr>ix_adoptions := ix_adoptions db @ [row]\<rparr>)"
proof (cases "sql_int (ar_accepted_at row)")
  case (Inl e)
  then have "insert_adoption row db = Inl e" by (simp add: insert_adoption_def)
  then show thesis by (rule failed)
next
  case (Inr i)
  show thesis
  proof (cases "ar_hash row \<in> ar_hash ` set (ix_adoptions db)")
    case True
    with Inr have "insert_adoption row db = Inl (IntegrityError ''UNIQUE constraint failed'')"
      by (simp only: insert_adoption_def insert_unique_def bindr.simps if_True)
    then show thesis by (rule failed)
  next
    case False
    with Inr have "insert_adoption row db = Inr (db\<lparr>ix_adoptions := ix_adoptions db @ [row]\<rparr>)"
      by (simp only: insert_adoption_def insert_unique_def bindr.simps if_False)
    then show thesis by (rule inserted)
  qed
qed

lemma adoption_rows_ok_mono:
  "adoption_rows_ok db hs t \<Longrightarrow> set hs \<subseteq> set hs' \<Longrightarrow> t \<le> t' \<Longrightarrow> adoption_rows_ok db hs' t'"
  unfolding adoption_rows_ok_def by fastforce

lemma adoption_rows_ok_snoc:
  assumes "adoption_rows_ok db hs t" and "t < now"
    and "aa_baseline m = current_choice db (aa_concept m)"
    and "concept_symbol_exists db (aa_concept m) (aa_chosen m)"
  shows "adoption_rows_ok (db\<lparr>ix_adoptions := ix_adoptions db @ [adoption_row_of rec now m]\<rparr>)
    (hs @ [aa_payload_hash m]) now"
proof -
  note ok = assms(1) [unfolded adoption_rows_ok_def]
  have times: "\<forall>r \<in> set (ix_adoptions db). ar_accepted_at r < now"
    using ok assms(2) by (meson order.strict_trans1)
  have "chained (ix_adoptions db @ [adoption_row_of rec now m])"
    using ok assms(3) by (simp add: chained_snoc adoption_row_fields current_choice_chosen_by)
  moreover have "times_increase (ix_adoptions db @ [adoption_row_of rec now m])"
    using ok times by (simp add: times_increase_def sorted_wrt_append adoption_row_fields)
  moreover have "concept_symbol_exists (db\<lparr>ix_adoptions := rows\<rparr>) c s = concept_symbol_exists db c s" for rows c s
    by (simp add: concept_symbol_exists_def)
  ultimately show ?thesis
    using ok times assms(4) unfolding adoption_rows_ok_def
    by (auto simp: adoption_row_fields intro: less_imp_le)
qed

lemma commit_adoption_keeps_ok:
  assumes "commit_adoption X data now A (l_index W) rec = (r, A', db)" and "adoption_ok X t A W" and "t < now"
    and "hex_hash (x_blake3 X)"
  shows "adoption_ok X now A' (W\<lparr>l_index := db\<rparr>)"
proof -
  from assms(2) obtain hs where ledger: "ledger_ok X W" and files: "adoption_files_ok X A hs"
    and rows: "adoption_rows_ok (l_index W) hs t" by (auto simp: adoption_ok_def)
  obtain v db1 where v: "verify_adoption X data A (l_index W) rec = (v, db1)" by fastforce
  from verify_adoption_db [OF v] obtain sv where db1: "db1 = (l_index W)\<lparr>ix_schema_version := sv\<rparr>" by blast
  have rows1: "adoption_rows_ok db1 hs t"
    using rows by (simp add: adoption_rows_ok_def db1 concept_symbol_exists_def)
  have same: "db1 = (l_index W)\<lparr>ix_schema_version := sv, ix_adoptions := ix_adoptions (l_index W)\<rparr>"
    unfolding db1 by (cases "l_index W") simp
  show ?thesis
  proof (cases "\<exists>m. v = Inr (Adopted m)")
    case False
    with assms(1) commit_not_adopted [OF v] have "A' = A" "db = db1" by auto
    with ledger_ok_index [OF ledger same] files adoption_rows_ok_mono [OF rows1, of hs now] assms(3)
    show ?thesis by (auto simp: adoption_ok_def)
  next
    case True
    then obtain m where m: "verify_adoption X data A (l_index W) rec = (Inr (Adopted m), db1)" using v by blast
    note checks = verify_adopted [OF m, THEN conjunct2, THEN conjunct2]
    let ?row = "adoption_row_of rec now m"
    from m files assms(4) show ?thesis
    proof (rule commit_adopted [where now = now])
      fix A2
      assume c: "commit_adoption X data now A (l_index W) rec = (Inr (Adopted m), A2,
          case insert_adoption ?row db1 of Inl e \<Rightarrow> db1 | Inr db' \<Rightarrow> db')"
        and A2: "adoption_files_ok X A2 (hs @ [aa_payload_hash m])"
      from c assms(1) have A': "A' = A2"
        and db: "db = (case insert_adoption ?row db1 of Inl e \<Rightarrow> db1 | Inr db' \<Rightarrow> db')" by simp_all
      show ?thesis
      proof (cases rule: insert_adoption_cases [of ?row db1])
        case (failed e)
        with db have "db = db1" by simp
        with ledger_ok_index [OF ledger same] A2 adoption_rows_ok_mono [OF rows1, of "hs @ [aa_payload_hash m]" now]
          assms(3) show ?thesis by (auto simp: adoption_ok_def A')
      next
        case inserted
        with db have db: "db = db1\<lparr>ix_adoptions := ix_adoptions db1 @ [?row]\<rparr>" by simp
        from adoption_rows_ok_snoc [OF rows1 assms(3) adoption_checks_Inr(3) [OF checks] adoption_checks_Inr(2) [OF checks]]
        have "adoption_rows_ok db (hs @ [aa_payload_hash m]) now" by (simp add: db)
        moreover have "db = (l_index W)\<lparr>ix_schema_version := sv, ix_adoptions := ix_adoptions db1 @ [?row]\<rparr>"
          by (simp add: db db1)
        ultimately show ?thesis
          using ledger_ok_index [OF ledger] A2 by (auto simp: adoption_ok_def A')
      qed
    qed
  qed
qed

lemma commit_module_keeps_adoptions:
  assumes "commit_module X data now W module = (r, W')" and "adoption_ok X t A W"
    and "hex_hash (x_blake3 X)" and "budget_ok data"
  shows "adoption_ok X t A W'"
proof -
  from assms(2) obtain hs where ledger: "ledger_ok X W" and files: "adoption_files_ok X A hs"
    and rows: "adoption_rows_ok (l_index W) hs t" by (auto simp: adoption_ok_def)
  have "adoption_rows_ok (l_index W') hs t"
    using rows commit_module_adoptions [OF assms(1) ledger assms(3)] by (simp add: adoption_rows_ok_def)
  with commit_keeps_ok [OF assms(1) ledger assms(3,4)] files show ?thesis by (auto simp: adoption_ok_def)
qed

lemma adopting_ok:
  assumes "adopting X data t A W" and "hex_hash (x_blake3 X)" and "budget_ok data"
  shows "adoption_ok X t A W"
  using assms(1)
proof induction
  case (start t)
  have "ledger_ok X \<lparr>l_files = init_storage empty_files, l_index = empty_db\<rparr>"
    using files_ok_start index_ok_empty by (auto simp: ledger_ok_def)
  with adoption_files_start show ?case
    by (auto simp: adoption_ok_def adoption_rows_ok_def empty_db_def times_increase_def)
next
  case (module t A W now module r W')
  then show ?case using commit_module_keeps_adoptions assms(2,3) by blast
next
  case (adoption t A W now rec r A' db)
  then show ?case using commit_adoption_keeps_ok assms(2) by blast
qed

text \<open>Without that: an adoption committed at a time no later than the current one's is in the log
  and in the table, but the current choice does not change.\<close>

lemma latest_older:
  assumes "latest rows = Some x" and "\<exists>r \<in> set rows. k \<le> snd r"
  shows "latest (rows @ [(y, k)]) = Some x"
  using assms
proof (induction rows arbitrary: x)
  case (Cons r rows)
  obtain z l where r: "r = (z, l)" by fastforce
  show ?case
  proof (cases "\<exists>q \<in> set rows. snd q > l")
    case True
    with Cons.prems(1) r have "latest rows = Some x" by simp
    moreover have "\<exists>q \<in> set rows. k \<le> snd q" using Cons.prems(2) True r by force
    ultimately have "latest (rows @ [(y, k)]) = Some x" by (rule Cons.IH)
    with True r show ?thesis by auto
  next
    case False
    with Cons.prems r have "z = x" "k \<le> l" by force+
    with False r show ?thesis by auto
  qed
qed simp

lemma current_choice_older:
  assumes "current_choice db (ar_concept row) = Some s"
    and "\<exists>r \<in> set (ix_adoptions db). ar_concept r = ar_concept row \<and> ar_accepted_at row \<le> ar_accepted_at r"
  shows "current_choice (db\<lparr>ix_adoptions := ix_adoptions db @ [row]\<rparr>) (ar_concept row) = Some s"
proof -
  let ?key = "\<lambda>r. ((ar_hash r, ar_chosen_symbol r, ar_baseline_symbol r), ar_accepted_at r)"
  let ?rows = "map ?key (filter (\<lambda>r. ar_concept r = ar_concept row) (ix_adoptions db))"
  from assms(1) obtain x where x: "latest ?rows = Some x" "fst (snd x) = s"
    by (auto simp: current_choice_def latest_adoption_for_concept_def split_beta)
  have "\<exists>r \<in> set ?rows. ar_accepted_at row \<le> snd r" using assms(2) by auto
  from latest_older [OF x(1) this, of "fst (?key row)"] x(2) show ?thesis
    by (simp add: current_choice_def latest_adoption_for_concept_def split_beta)
qed

end
