(* ===== verification/Adoption_Instance.thy ===== *)
theory Adoption_Instance
  imports Adoption_Props
begin

section \<open>An adoption whose certificate shows nothing\<close>

text \<open>
  A signed certificate with an e-value of \<open>1e-50\<close> that names zero as its own threshold, and the
  evaluation of the checks on it.
\<close>

text \<open>A stand-in for the hash: 64 hexadecimal digits that depend on the length of the text.\<close>

definition length_hash :: "string \<Rightarrow> string" where
  "length_hash s = replicate 63 (CHR ''0'') @ [''0123456789abcdef'' ! (length s mod 16)]"

lemma length_hash_hex: "hex_hash length_hash"
proof -
  have "''0123456789abcdef'' ! (length s mod 16) \<in> set ''0123456789abcdef''" for s :: string
    by (intro nth_mem) simp
  then show ?thesis by (auto simp: hex_hash_def length_hash_def)
qed

definition sealed_settings :: json where
  "sealed_settings = JObj [(''public_key'', JStr ''pk''), (''key_id'', JStr ''k''), (''alpha_total'', JStr ''0.01''),
     (''alpha_schedule'', JObj [(''name'', JStr ''p_series''), (''exponent'', JInt 2), (''coefficient'', JStr ''0.6'')]),
     (''eval_harness_id'', JStr ''h''), (''eval_harness_hash'', JStr ''hh''), (''eval_suite_hash'', JStr ''sh'')]"

definition adoption_data :: json where
  "adoption_data = JObj [(''ledger'', JObj [(''budget'', JInt 100)]),
     (''evaluator'', JObj [(''step_limit'', JInt 20)]),
     (''cost'', JObj [(''alpha'', JInt 1), (''beta'', JInt 1), (''gamma'', JInt 1)]),
     (''sealed'', sealed_settings)]"

text \<open>A stand-in for the signatures: everything signed by the key \<open>pk\<close> is signed \<open>ok\<close>.\<close>

definition signing_externals :: externals where
  "signing_externals = \<lparr>x_blake3 = length_hash, x_crypto_available = True,
     x_ed25519_verifies = (\<lambda>pk bytes s. pk = ''pk'' \<and> s = ''ok'')\<rparr>"

text \<open>The certificate of \<open>id\<close>, with an e-value of \<open>1e-50\<close> and a threshold of zero.\<close>

definition weak_certificate :: json where
  "weak_certificate = JObj [(''kind'', JStr ''stat_cert''), (''concept'', JStr ''c''), (''metric'', JStr ''accuracy''),
     (''null'', JStr ''no_improvement''), (''baseline_symbol'', JStr ''old''), (''candidate_symbol'', JStr ''id''),
     (''eval'', JObj [(''episodes'', JInt 1), (''max_steps'', JInt 1), (''paired_seeds'', JBool True),
        (''oracle_symbol'', JStr ''id''), (''eval_harness_id'', JStr ''h''), (''eval_harness_hash'', JStr ''hh''),
        (''eval_suite_hash'', JStr ''sh'')]),
     (''risk'', JObj [(''alpha_i'', JStr ''0.001''), (''evalue_threshold'', JStr ''0''),
        (''alpha_schedule'', JObj [(''name'', JStr ''p_series''), (''exponent'', JInt 2), (''coefficient'', JStr ''0.6'')])]),
     (''certificate'', JObj [(''n'', JInt 1), (''baseline_successes'', JInt 1),
        (''candidate_successes'', JInt 0), (''diff_sum'', JInt (- 1)), (''diff_min'', JInt (- 1)), (''diff_max'', JInt 1),
        (''evalue'', JObj [(''mantissa'', JStr ''1.00000000000000000000000''), (''exponent10'', JInt (- 50))]),
        (''transcript_hash'', JStr ''t''), (''signature'', JStr ''ok''), (''signature_scheme'', JStr ''ed25519''),
        (''key_id'', JStr ''k''), (''evalue_schema_version'', JInt 2)])]"

definition weak_adoption :: "json \<Rightarrow> json" where
  "weak_adoption baseline = JObj [(''schema_version'', JInt 1), (''parent'', JStr ''GENESIS''),
     (''payload'', JObj [(''concept'', JStr ''c''), (''chosen_symbol'', JStr ''id''), (''baseline_symbol'', baseline),
        (''certificate'', weak_certificate)])]"

definition weak_payload :: "json \<Rightarrow> json" where
  "weak_payload baseline = JObj [(''concept'', JStr ''c''), (''chosen_symbol'', JStr ''id''), (''baseline_symbol'', baseline),
     (''certificate'', weak_certificate), (''constraints'', JObj [])]"

definition concept_db :: index_db where
  "concept_db = empty_db\<lparr>ix_schema_version := Some 2,
     ix_symbols := [\<lparr>sr_symbol = ''id'', sr_module_hash = ''m'', sr_type_norm = ''Int -> Int'', sr_def_hash = None\<rparr>],
     ix_concepts := [(''c'', ''id'', ''m'')]\<rparr>"

text \<open>The same index after an adoption of \<open>old\<close> at time 9.\<close>

definition adopted_db :: index_db where
  "adopted_db = concept_db\<lparr>
     ix_symbols := ix_symbols concept_db @ [\<lparr>sr_symbol = ''old'', sr_module_hash = ''m'', sr_type_norm = ''Int -> Int'',
       sr_def_hash = None\<rparr>],
     ix_adoptions := [\<lparr>ar_hash = ''a'', ar_parent_hash = ''GENESIS'', ar_bytes = [], ar_accepted_at = 9,
       ar_concept = ''c'', ar_chosen_symbol = ''old'', ar_baseline_symbol = None\<rparr>]\<rparr>"

definition no_adoptions :: adoption_files where
  "no_adoptions = adoption_init_storage empty_adoptions"

subsection \<open>Digits\<close>

lemma digit_table:
  "digit 0 = CHR ''0''" "digit 1 = CHR ''1''" "digit (Suc 0) = CHR ''1''" "digit 2 = CHR ''2''"
  "digit 3 = CHR ''3''" "digit 4 = CHR ''4''" "digit 5 = CHR ''5''" "digit 6 = CHR ''6''"
  "digit 7 = CHR ''7''" "digit 8 = CHR ''8''" "digit 9 = CHR ''9''"
  by code_simp+

lemma mantissa_digits:
  "nat_str 100000000000000000000000 = ''100000000000000000000000''" "ndigits 100000000000000000000000 = 24"
  "nat_str 600000000000000000000000 = ''600000000000000000000000''" "nat_str 6 = ''6''" "ndigits 6 = 1"
  by (simp_all add: nat_str.simps digit_table ndigits_def)

lemmas parse_decimal_simps = parse_decimal_def split_sign_def lower_def strip_def py_space_def starts_def
  is_digit_def exponent_part_def digits_val_def Let_def

lemma weak_decimals:
  "parse_decimal ''1.00000000000000000000000'' = Inr (Fin False 100000000000000000000000 (- 23))"
  "parse_decimal ''0.001'' = Inr (Fin False 1 (- 3))" "parse_decimal ''0'' = Inr (Fin False 0 0)"
  "parse_decimal ''0.6'' = Inr (Fin False 6 (- 1))" "parse_decimal ''0.01'' = Inr (Fin False 1 (- 2))"
  by (simp_all add: parse_decimal_simps)

lemma weak_evalue:
  "parse_evalue (JObj [(''mantissa'', JStr ''1.00000000000000000000000''), (''exponent10'', JInt (- 50))])
    = Inr \<lparr>ev_mantissa = Fin False 100000000000000000000000 (- 23), ev_exponent10 = - 50\<rparr>"
  by (simp add: parse_evalue_def weak_decimals dec_of_int_def of_scoeff_def scoeff_def Let_def
    format_mantissa_def evalue_mantissa_quant_def evalue_sig_digits_def prec_def mantissa_digits)

lemma weak_product:
  "encoded_evalue_to_decimal \<lparr>ev_mantissa = Fin False 100000000000000000000000 (- 23), ev_exponent10 = - 50\<rparr>
    = Inr (Fin False 100000000000000000000000 (- 73))"
  "dec_mul (Fin False 100000000000000000000000 (- 73)) (Fin False 1 (- 3)) = Inr (Fin False 100000000000000000000000 (- 76))"
  "dec_less (Fin False 100000000000000000000000 (- 76)) (Fin False 0 0) = Inr False"
  by (simp_all add: encoded_evalue_to_decimal_def prec_def emax_def mantissa_digits in_range_def Let_def
    dec_less_def scoeff_def)

lemma weak_coefficient: "format_decimal (Fin False 6 (- 1)) = Inr ''0.600000000000000000000000''"
  by (simp add: format_decimal_def alpha_quant_def prec_def mantissa_digits ndigits_def Let_def)

subsection \<open>The checks\<close>

definition weak_settings :: sealed_config where
  "weak_settings = \<lparr>sc_alpha_total = Fin False 1 (- 2),
     sc_alpha_schedule = \<lparr>as_name = ''p_series'', as_exponent = 2, as_coefficient = Fin False 6 (- 1)\<rparr>,
     sc_eval_harness_id = ''h'', sc_eval_harness_hash = ''hh'', sc_eval_suite_hash = ''sh'',
     sc_allowed_keys = [(''k'', ''pk'')]\<rparr>"

lemma weak_schedule:
  "parse_alpha_schedule (JObj [(''name'', JStr ''p_series''), (''exponent'', JInt 2), (''coefficient'', JStr ''0.6'')])
    = Inr \<lparr>as_name = ''p_series'', as_exponent = 2, as_coefficient = Fin False 6 (- 1)\<rparr>"
  by (simp add: parse_alpha_schedule_def weak_decimals jget_default_def)

lemma weak_settings_load: "load_sealed_config adoption_data True = Inr weak_settings"
  by (simp add: load_sealed_config_def adoption_data_def sealed_settings_def jor_def weak_decimals weak_schedule
    sealed_require_str_def load_key_list_def dict_update_def weak_settings_def)

definition weak_record :: "json \<Rightarrow> accepted_adoption" where
  "weak_record baseline = \<lparr>aa_payload_hash = length_hash (canonical_json_bytes (weak_payload baseline)),
     aa_payload_bytes = canonical_json_bytes (weak_payload baseline), aa_payload = weak_payload baseline\<rparr>"

lemma weak_canonical:
  "adoption_canonicalize_payload H (jget (weak_adoption JNull) ''payload'') = Inr (weak_payload JNull)"
  "adoption_canonicalize_payload H (jget (weak_adoption (JStr ''old'')) ''payload'') = Inr (weak_payload (JStr ''old''))"
  by code_simp+

lemma no_adoptions_start:
  "adoption_read_head no_adoptions = ''GENESIS''" "af_head no_adoptions \<noteq> None"
  "af_objects no_adoptions = (\<lambda>_. None)"
  by (simp_all add: no_adoptions_def adoption_init_storage_def empty_adoptions_def adoption_read_head_def
    adoption_iter_order_log_def Let_def genesis_hash_def strip_def py_space_def)

lemma weak_payload_checks:
  assumes "adoption_canonicalize_payload length_hash (jget (weak_adoption b) ''payload'') = Inr (weak_payload b)"
  shows "adoption_payload_checks signing_externals no_adoptions (weak_adoption b) = Inr (weak_record b)"
proof -
  have "adoption_validate_schema (weak_adoption b) = Inr ()"
    by (simp add: adoption_validate_schema_def weak_adoption_def)
  moreover have "jor (jget (weak_adoption b) ''payload'') (JObj []) = jget (weak_adoption b) ''payload''"
    by (simp add: weak_adoption_def jor_def)
  moreover have "jget (weak_adoption b) ''parent'' = JStr ''GENESIS''" by (simp add: weak_adoption_def)
  ultimately show ?thesis
    by (simp add: no_adoptions_start adoption_payload_checks_def assms signing_externals_def attempt_def reject_when_def
      adoption_payload_hash_hex_def weak_record_def Let_def)
qed

lemma weak_certificate_valid:
  assumes "b = JNull \<or> b = JStr ''old''"
  shows "validate_certificate signing_externals adoption_data weak_certificate ''c'' ''id'' b None = Inr ()"
proof -
  have "certificate_subject weak_certificate ''c'' ''id'' b = Inr ()"
    using assms by (auto simp: certificate_subject_def weak_certificate_def)
  moreover have "certificate_settings weak_certificate weak_settings = Inr (Fin False 1 (- 3), Fin False 0 0)"
    by (simp add: certificate_settings_def weak_certificate_def weak_settings_def jor_def weak_decimals weak_schedule
      weak_coefficient Let_def)
  moreover have "certificate_signed signing_externals weak_certificate weak_settings (Fin False 1 (- 3)) (Fin False 0 0) = Inr ()"
    by (simp add: certificate_signed_def weak_certificate_def weak_settings_def jor_def weak_evalue weak_product
      signing_externals_def verify_signature_def stat_cert_signing_bytes_def stat_cert_signing_payload_def Let_def
      del: dec_mul.simps One_nat_def)
  ultimately show ?thesis by (simp add: validate_certificate_def weak_settings_load)
qed

lemma weak_verified:
  assumes "b = JNull \<or> b = JStr ''old''" and "adoption_index_checks db ''c'' ''id'' b = Inr ()"
    and "ix_schema_version db = Some 2"
  shows "verify_adoption signing_externals adoption_data no_adoptions db (weak_adoption b)
    = (Inr (Adopted (weak_record b)), db)"
proof -
  have "init_schema db = Inr db" using assms(3) by (simp add: init_schema_def schema_version_def)
  moreover have "adoption_canonicalize_payload length_hash (jget (weak_adoption b) ''payload'') = Inr (weak_payload b)"
    using assms(1) weak_canonical by blast
  moreover have "validate_constraints signing_externals adoption_data (JObj []) ''c'' ''id'' b = Inr ()"
    by (simp add: validate_constraints_def adoption_data_def jor_def requires_constraints_def)
  moreover have "jget (weak_payload b) ''concept'' = JStr ''c''" "jget (weak_payload b) ''chosen_symbol'' = JStr ''id''"
    "jget (weak_payload b) ''baseline_symbol'' = b" "jor (jget (weak_payload b) ''certificate'') (JObj []) = weak_certificate"
    "jor (jget (weak_payload b) ''constraints'') (JObj []) = JObj []"
    by (simp_all add: weak_payload_def weak_certificate_def jor_def)
  ultimately show ?thesis
    using weak_certificate_valid [OF assms(1)] assms(2)
    by (simp add: verify_adoption_def weak_payload_checks adoption_checks_def attempt_def weak_record_def)
qed

lemma weak_adopted:
  "verify_adoption signing_externals adoption_data no_adoptions concept_db (weak_adoption JNull)
    = (Inr (Adopted (weak_record JNull)), concept_db)"
  "verify_adoption signing_externals adoption_data no_adoptions adopted_db (weak_adoption (JStr ''old''))
    = (Inr (Adopted (weak_record (JStr ''old''))), adopted_db)"
proof -
  have "adoption_index_checks concept_db ''c'' ''id'' JNull = Inr ()"
    "adoption_index_checks adopted_db ''c'' ''id'' (JStr ''old'') = Inr ()" by code_simp+
  moreover have "ix_schema_version concept_db = Some 2" "ix_schema_version adopted_db = Some 2"
    by (simp_all add: concept_db_def adopted_db_def)
  ultimately show "verify_adoption signing_externals adoption_data no_adoptions concept_db (weak_adoption JNull)
      = (Inr (Adopted (weak_record JNull)), concept_db)"
    and "verify_adoption signing_externals adoption_data no_adoptions adopted_db (weak_adoption (JStr ''old''))
      = (Inr (Adopted (weak_record (JStr ''old''))), adopted_db)"
    by (simp_all add: weak_verified)
qed

lemma weak_record_fields:
  "aa_concept (weak_record b) = ''c''" "aa_chosen (weak_record b) = ''id''"
  "jor (jget (aa_payload (weak_record b)) ''certificate'') (JObj []) = weak_certificate"
  by (simp_all add: weak_record_def aa_concept_def aa_chosen_def weak_payload_def weak_certificate_def jor_def)

lemma no_adoptions_ok: "adoption_files_ok X no_adoptions []"
  by (simp add: no_adoptions_def adoption_files_start)

subsection \<open>A concept that needs the safety harness\<close>

definition safe_spec :: json where
  "safe_spec = JObj [(''schema_version'', JInt 1), (''kind'', JStr ''constraint_spec''), (''domain'', JStr ''env''),
     (''constraints'', JObj [(''banned_tools'', JList []), (''max_steps'', JInt 5), (''max_file_writes'', JInt 0),
       (''allow_path_escape'', JBool False), (''allow_network'', JBool False), (''allow_subprocess'', JBool False)])]"

definition safe_hash :: string where
  "safe_hash = length_hash (canonical_json_bytes safe_spec)"

definition safe_constraints :: json where
  "safe_constraints = JObj [(''spec'', safe_spec), (''spec_hash'', JStr safe_hash), (''safety_certificate'', weak_certificate)]"

definition safe_data :: json where
  "safe_data = JObj [(''sealed'', sealed_settings), (''sealed_safety'', sealed_settings),
     (''constraints'', JObj [(''required_concepts'', JList [JStr ''c'']), (''spec_hash'', JStr safe_hash)])]"

definition safe_payload :: json where
  "safe_payload = JObj [(''concept'', JStr ''c''), (''chosen_symbol'', JStr ''id''), (''baseline_symbol'', JNull),
     (''certificate'', weak_certificate), (''constraints'', safe_constraints)]"

definition safe_adoption :: json where
  "safe_adoption = JObj [(''schema_version'', JInt 1), (''parent'', JStr ''GENESIS''), (''payload'', safe_payload)]"

definition safe_record :: accepted_adoption where
  "safe_record = \<lparr>aa_payload_hash = length_hash (canonical_json_bytes safe_payload),
     aa_payload_bytes = canonical_json_bytes safe_payload, aa_payload = safe_payload\<rparr>"

lemma safe_spec_hash: "constraint_spec_hash length_hash safe_spec = Inr safe_hash"
proof -
  have "canonicalize_constraint_spec safe_spec = Inr safe_spec" by code_simp
  then show ?thesis by (simp add: constraint_spec_hash_def safe_hash_def)
qed

lemma safe_canonical: "adoption_canonicalize_payload length_hash safe_payload = Inr safe_payload"
  by code_simp

lemma load_sealed_config_cong:
  assumes "jgetr d ''sealed'' = jgetr d' ''sealed''" and "jget d ''stat_cert'' = jget d' ''stat_cert''"
  shows "load_sealed_config d b = load_sealed_config d' b"
  unfolding load_sealed_config_def assms ..

lemma safe_settings_load:
  "load_sealed_config safe_data True = Inr weak_settings"
  "load_sealed_config (JObj [(''sealed'', sealed_settings)]) True = Inr weak_settings"
  using weak_settings_load load_sealed_config_cong [of safe_data adoption_data True]
    load_sealed_config_cong [of "JObj [(''sealed'', sealed_settings)]" adoption_data True]
  by (simp_all add: adoption_data_def safe_data_def)

lemma safe_constraints_valid:
  "validate_constraints signing_externals safe_data safe_constraints ''c'' ''id'' JNull = Inr ()"
proof -
  have "validate_certificate signing_externals safe_data weak_certificate ''c'' ''id'' JNull (Some weak_settings) = Inr ()"
    using weak_certificate_valid [of JNull] by (simp add: validate_certificate_def weak_settings_load)
  moreover have "requires_constraints ''c'' (JList [JStr ''c''])" by (simp add: requires_constraints_def)
  moreover have "safe_hash \<noteq> []" by (simp add: safe_hash_def length_hash_def)
  moreover have "is_obj sealed_settings" "sealed_settings \<noteq> JObj []" by (simp_all add: sealed_settings_def)
  moreover have "is_obj safe_spec" "is_obj weak_certificate" by (simp_all add: safe_spec_def weak_certificate_def)
  ultimately show ?thesis
    using safe_spec_hash
    by (simp add: validate_constraints_def safe_data_def safe_constraints_def jor_def jgetr_def signing_externals_def
      safe_settings_load Let_def)
qed

lemma safe_adopted:
  "verify_adoption signing_externals safe_data no_adoptions concept_db safe_adoption = (Inr (Adopted safe_record), concept_db)"
proof -
  have "adoption_validate_schema safe_adoption = Inr ()" "jget safe_adoption ''parent'' = JStr ''GENESIS''"
    "jor (jget safe_adoption ''payload'') (JObj []) = safe_payload"
    by (simp_all add: adoption_validate_schema_def safe_adoption_def safe_payload_def jor_def)
  then have "adoption_payload_checks signing_externals no_adoptions safe_adoption = Inr safe_record"
    using no_adoptions_start
    by (simp add: adoption_payload_checks_def safe_canonical signing_externals_def attempt_def reject_when_def
      adoption_payload_hash_hex_def safe_record_def Let_def)
  moreover have "init_schema concept_db = Inr concept_db" by (simp add: init_schema_def schema_version_def concept_db_def)
  moreover have "adoption_index_checks concept_db ''c'' ''id'' JNull = Inr ()" by code_simp
  moreover have "validate_certificate signing_externals safe_data weak_certificate ''c'' ''id'' JNull None = Inr ()"
    using weak_certificate_valid [of JNull] by (simp add: validate_certificate_def weak_settings_load safe_settings_load)
  moreover have "jget safe_payload ''concept'' = JStr ''c''" "jget safe_payload ''chosen_symbol'' = JStr ''id''"
    "jget safe_payload ''baseline_symbol'' = JNull" "jor (jget safe_payload ''certificate'') (JObj []) = weak_certificate"
    "jor (jget safe_payload ''constraints'') (JObj []) = safe_constraints"
    by (simp_all add: safe_payload_def safe_constraints_def weak_certificate_def jor_def)
  ultimately show ?thesis
    using safe_constraints_valid
    by (simp add: verify_adoption_def adoption_checks_def attempt_def safe_record_def)
qed

end
