(* ===== verification/Adoption_Behaviour.thy ===== *)
theory Adoption_Behaviour
  imports Adoption_Instance
begin

section \<open>What adoptions guarantee\<close>

text \<open>The properties of the adoption ledger, applied to one module and its first adoption.\<close>

subsection \<open>A ledger with an adoption\<close>

definition identity_json :: json where
  "identity_json = JObj [(''name'', JStr ''id''),
     (''params'', JList [JObj [(''name'', JStr ''x''), (''type'', JObj [(''tag'', JStr ''int'')])]]),
     (''ret_type'', JObj [(''tag'', JStr ''int'')]),
     (''body'', JObj [(''tag'', JStr ''var''), (''name'', JStr ''x'')]),
     (''termination'', JObj [(''kind'', JStr ''structural''), (''decreases_param'', JNull)])]"

definition identity_module :: json where
  "identity_module = JObj [(''schema_version'', JInt 1), (''dsl_version'', JInt 1),
     (''parent'', JStr ''GENESIS''), (''payload'', JObj [(''new_symbols'', JList [JStr ''id'']),
       (''definitions'', JList [identity_json]), (''declared_deps'', JList []), (''specs'', JList []),
       (''concepts'', JList [JObj [(''concept'', JStr ''c''), (''symbol'', JStr ''id'')]])])]"

definition fresh_ledger :: ledger where
  "fresh_ledger = \<lparr>l_files = init_storage empty_files, l_index = empty_db\<rparr>"

definition identity_ledger :: ledger where
  "identity_ledger = snd (commit_module signing_externals adoption_data 7 fresh_ledger identity_module)"

definition identity_view :: "index_db \<Rightarrow> unit adoption_checked \<times> int option \<times> adoption_row list" where
  "identity_view db = (adoption_index_checks db ''c'' ''id'' JNull, ix_schema_version db, ix_adoptions db)"

lemma identity_index:
  "adoption_index_checks (l_index identity_ledger) ''c'' ''id'' JNull = Inr ()"
  "ix_schema_version (l_index identity_ledger) = Some 2"
  "ix_adoptions (l_index identity_ledger) = []"
proof -
  have "identity_view (l_index identity_ledger) = (Inr (), Some 2, [])"
    by code_simp
  then show "adoption_index_checks (l_index identity_ledger) ''c'' ''id'' JNull = Inr ()"
    "ix_schema_version (l_index identity_ledger) = Some 2" "ix_adoptions (l_index identity_ledger) = []"
    by (simp_all add: identity_view_def)
qed

definition identity_adopted :: "adoption_result res \<times> adoption_files \<times> index_db" where
  "identity_adopted = commit_adoption signing_externals adoption_data 9 no_adoptions (l_index identity_ledger)
     (weak_adoption JNull)"

lemma signing_hex: "hex_hash (x_blake3 signing_externals)"
  by (simp add: signing_externals_def length_hash_hex)

lemma adoption_budget: "budget_ok adoption_data"
  by (simp add: budget_ok_def adoption_data_def config_int_def jitem_def)

lemma identity_reached:
  "adopting signing_externals adoption_data 9 (fst (snd identity_adopted))
     (identity_ledger\<lparr>l_index := snd (snd identity_adopted)\<rparr>)"
proof (rule adopting.adoption)
  show "adopting signing_externals adoption_data 8 no_adoptions identity_ledger"
    unfolding no_adoptions_def identity_ledger_def
    by (rule adopting.module [OF adopting.start, folded fresh_ledger_def]) (rule prod.collapse [symmetric])
  show "commit_adoption signing_externals adoption_data 9 no_adoptions (l_index identity_ledger) (weak_adoption JNull)
    = (fst identity_adopted, fst (snd identity_adopted), snd (snd identity_adopted))"
    by (simp add: identity_adopted_def)
qed simp

lemma identity_verified:
  "verify_adoption signing_externals adoption_data no_adoptions (l_index identity_ledger) (weak_adoption JNull)
    = (Inr (Adopted (weak_record JNull)), l_index identity_ledger)"
  using identity_index by (simp add: weak_verified)

subsection \<open>Properties\<close>

text \<open>C24: in every state that commits of modules and of adoptions can produce, at increasing times,
  each adoption replaces the choice that the ones before it left for its concept, its symbol is one
  the ledger holds for the concept, and its hash is in the adoption log, whose hashes are distinct
  and name the objects that hash to them.\<close>

theorem adoptions_chained:
  assumes "adopting X data t A W" and "hex_hash (x_blake3 X)" and "budget_ok data"
  shows "\<exists>hs. adoption_files_ok X A hs \<and> chained (ix_adoptions (l_index W))
    \<and> ar_hash ` set (ix_adoptions (l_index W)) \<subseteq> set hs
    \<and> (\<lambda>r. (ar_concept r, ar_chosen_symbol r)) ` set (ix_adoptions (l_index W))
        \<subseteq> {(c, s). concept_symbol_exists (l_index W) c s}"
  using adopting_ok [OF assms] by (auto simp: adoption_ok_def adoption_rows_ok_def)

theorem adoptions_chained_witness:
  "\<exists>hs. adoption_files_ok signing_externals (fst (snd identity_adopted)) hs
    \<and> chained (ix_adoptions (snd (snd identity_adopted)))
    \<and> ar_hash ` set (ix_adoptions (snd (snd identity_adopted))) \<subseteq> set hs
    \<and> (\<lambda>r. (ar_concept r, ar_chosen_symbol r)) ` set (ix_adoptions (snd (snd identity_adopted)))
        \<subseteq> {(c, s). concept_symbol_exists (snd (snd identity_adopted)) c s}"
  using adoptions_chained [OF identity_reached signing_hex adoption_budget] by simp

text \<open>C25: an adoption is accepted only if its symbol is indexed for its concept, its baseline is the
  current choice, its parent is the head of the adoption log and its certificate, for just this
  symbol and concept, carries a valid signature by a key of the sealed settings.\<close>

theorem adoption_requires_signature:
  assumes "verify_adoption X data A db rec = (Inr (Adopted m), db1)"
  shows "jget rec ''parent'' = JStr (adoption_read_head A)
    \<and> concept_symbol_exists db1 (aa_concept m) (aa_chosen m)
    \<and> aa_baseline m = current_choice db1 (aa_concept m)
    \<and> (\<exists>sc. load_sealed_config data True = Inr sc
        \<and> certifies X sc (jor (jget (aa_payload m) ''certificate'') (JObj [])) (aa_concept m) (aa_chosen m))"
proof -
  note accepted = verify_adopted [OF assms]
  note checks = adoption_checks_Inr [OF accepted [THEN conjunct2, THEN conjunct2]]
  from validate_certificate_Inr [OF checks(4)] have
    "\<exists>sc. load_sealed_config data True = Inr sc
        \<and> certifies X sc (jor (jget (aa_payload m) ''certificate'') (JObj [])) (aa_concept m) (aa_chosen m)"
    by simp
  with checks(2,3) adoption_payload_checks_Inr [OF accepted [THEN conjunct1]] show ?thesis by blast
qed

theorem adoption_requires_signature_witness:
  "concept_symbol_exists (l_index identity_ledger) ''c'' ''id''
    \<and> current_choice (l_index identity_ledger) ''c'' = aa_baseline (weak_record JNull)
    \<and> (\<exists>sc. load_sealed_config adoption_data True = Inr sc
        \<and> certifies signing_externals sc weak_certificate ''c'' ''id'')"
  using adoption_requires_signature [OF identity_verified] by (simp add: weak_record_fields)

text \<open>C26: for a concept that the configuration lists, an accepted adoption also carries a certificate
  signed under the settings of the safety harness and a constraint spec with the configured hash.\<close>

theorem constrained_adoption_is_safe:
  assumes "verify_adoption X data A db rec = (Inr (Adopted m), db1)"
    and "requires_constraints (aa_concept m) (required_concepts data)"
    and "constraints = jor (jget (aa_payload m) ''constraints'') (JObj [])"
  shows "\<exists>sc h. load_sealed_config (JObj [(''sealed'', jget data ''sealed_safety'')]) True = Inr sc
    \<and> jget (jor (jget data ''constraints'') (JObj [])) ''spec_hash'' = JStr h
    \<and> constraint_spec_hash (x_blake3 X) (jget constraints ''spec'') = Inr h
    \<and> certifies X sc (jget constraints ''safety_certificate'') (aa_concept m) (aa_chosen m)"
proof -
  note checks = adoption_checks_Inr(5) [OF verify_adopted [OF assms(1), THEN conjunct2, THEN conjunct2], folded assms(3)]
  from validate_constraints_Inr [OF checks assms(2)] show ?thesis by blast
qed

theorem constrained_adoption_is_safe_witness:
  "\<exists>sc h. load_sealed_config (JObj [(''sealed'', sealed_settings)]) True = Inr sc
    \<and> jget (jor (jget safe_data ''constraints'') (JObj [])) ''spec_hash'' = JStr h
    \<and> constraint_spec_hash (x_blake3 signing_externals) safe_spec = Inr h
    \<and> certifies signing_externals sc weak_certificate ''c'' ''id''"
proof -
  have fields: "aa_concept safe_record = ''c''" "aa_chosen safe_record = ''id''"
    "jor (jget (aa_payload safe_record) ''constraints'') (JObj []) = safe_constraints"
    "jget safe_data ''sealed_safety'' = sealed_settings"
    "jget safe_constraints ''spec'' = safe_spec" "jget safe_constraints ''safety_certificate'' = weak_certificate"
    by (simp_all add: safe_record_def aa_concept_def aa_chosen_def safe_payload_def safe_constraints_def
        safe_data_def jor_def)
  have "requires_constraints ''c'' (required_concepts safe_data)"
    by (simp add: requires_constraints_def required_concepts_def safe_data_def jor_def)
  then show ?thesis
    using constrained_adoption_is_safe [OF safe_adopted, of safe_constraints] by (simp only: fields)
qed

text \<open>The threshold is the certificate's own: an adoption whose certificate reports no success
  at all, an e-value of \<open>1e-50\<close> and a threshold of zero is accepted.\<close>

theorem zero_threshold_adopted:
  "jget (jget weak_certificate ''risk'') ''evalue_threshold'' = JStr ''0''
    \<and> jget (jget weak_certificate ''certificate'') ''candidate_successes'' = JInt 0
    \<and> verify_adoption signing_externals adoption_data no_adoptions concept_db (weak_adoption JNull)
      = (Inr (Adopted (weak_record JNull)), concept_db)"
  using weak_adopted(1) by (simp add: weak_certificate_def)



end
