(* ===== verification/Gen_Enum.thy ===== *)
theory Gen_Enum
  imports Kernel_Spec Kernel_Terminate Kernel_Canon
begin

section \<open>The enumerative generator (gen/enum.py)\<close>

text \<open>
  Proposes definitions of a given type: it enumerates terms by size, runs each candidate on a
  small domain and keeps one candidate for each behaviour. The generator is not trusted: what it
  proposes still goes through the verifier.
\<close>

subsection \<open>Terms\<close>

definition var_json :: "string \<Rightarrow> json" where
  "var_json name = JObj [(''tag'', JStr ''var''), (''name'', JStr name)]"

definition sym_json :: "string \<Rightarrow> json" where
  "sym_json name = JObj [(''tag'', JStr ''sym''), (''name'', JStr name)]"

definition int_json :: "int \<Rightarrow> json" where
  "int_json n = JObj [(''tag'', JStr ''int''), (''value'', JInt n)]"

definition bool_json :: "bool \<Rightarrow> json" where
  "bool_json b = JObj [(''tag'', JStr ''bool''), (''value'', JBool b)]"

definition nil_json :: json where
  "nil_json = JObj [(''tag'', JStr ''nil'')]"

definition none_json :: json where
  "none_json = JObj [(''tag'', JStr ''none'')]"

definition some_json :: "json \<Rightarrow> json" where
  "some_json v = JObj [(''tag'', JStr ''some''), (''value'', v)]"

definition cons_json :: "json \<Rightarrow> json \<Rightarrow> json" where
  "cons_json h t = JObj [(''tag'', JStr ''cons''), (''head'', h), (''tail'', t)]"

definition pair_json :: "json \<Rightarrow> json \<Rightarrow> json" where
  "pair_json l r = JObj [(''tag'', JStr ''pair''), (''left'', l), (''right'', r)]"

definition proj_json :: "string \<Rightarrow> json \<Rightarrow> json" where
  "proj_json tag p = JObj [(''tag'', JStr tag), (''pair'', p)]"

definition prim_json :: "string \<Rightarrow> json list \<Rightarrow> json" where
  "prim_json op args = JObj [(''tag'', JStr ''prim''), (''op'', JStr op), (''args'', JList args)]"

definition if_json :: "json \<Rightarrow> json \<Rightarrow> json \<Rightarrow> json" where
  "if_json c t e = JObj [(''tag'', JStr ''if''), (''cond'', c), (''then'', t), (''else'', e)]"

definition app_json :: "string \<Rightarrow> json list \<Rightarrow> json" where
  "app_json name args = JObj [(''tag'', JStr ''app''), (''fn'', sym_json name), (''args'', JList args)]"

type_synonym typed_names = "(string \<times> ktype) list"

definition base_terms :: "ktype \<Rightarrow> typed_names \<Rightarrow> typed_names \<Rightarrow> json list" where
  "base_terms typ env_vars fun_symbols =
     (if typ = IntType then map int_json [-1, 0, 1, 2] else [])
     @ (if typ = BoolType then [bool_json False, bool_json True] else [])
     @ (case typ of ListType e \<Rightarrow> [nil_json] | OptionType e \<Rightarrow> [none_json] | _ \<Rightarrow> [])
     @ map (\<lambda>(name, t). var_json name) (filter (\<lambda>(name, t). t = typ) env_vars)
     @ map (\<lambda>(name, t). sym_json name) (filter (\<lambda>(name, t). t = typ) fun_symbols)"

fun is_pair_type :: "ktype \<Rightarrow> bool" where
  "is_pair_type (PairType l r) = True"
| "is_pair_type _ = False"

text \<open>The pair types of the variables and symbols, each once, in order of first appearance.\<close>

definition pair_types_in_env :: "typed_names \<Rightarrow> typed_names \<Rightarrow> ktype list" where
  "pair_types_in_env env_vars fun_symbols =
     fold (\<lambda>typ seen. if is_pair_type typ \<and> typ \<notin> set seen then seen @ [typ] else seen)
       (map snd env_vars @ map snd fun_symbols) []"

text \<open>The ways to write \<open>t\<close> as a sum of \<open>n\<close> positive numbers.\<close>

fun split_sizes :: "nat \<Rightarrow> nat \<Rightarrow> nat list list" where
  "split_sizes n t =
     (if n = 0 then (if t = 0 then [[]] else [])
      else if n = 1 then (if t \<ge> 1 then [[t]] else [])
      else concat (map (\<lambda>first. map (\<lambda>rest. first # rest) (split_sizes (n - 1) (t - first))) [1..<t + 2 - n]))"

declare split_sizes.simps [simp del]

lemma split_sizes_bounds:
  "sizes \<in> set (split_sizes n t) \<Longrightarrow> length sizes = n \<and> sum_list sizes = t \<and> (\<forall>s \<in> set sizes. 1 \<le> s)"
proof (induction n t arbitrary: sizes rule: split_sizes.induct)
  case (1 n t)
  show ?case
  proof (cases "n \<le> 1")
    case True
    with "1.prems" show ?thesis by (auto simp: split_sizes.simps [of n] le_Suc_eq split: if_split_asm)
  next
    case False
    with "1.prems" obtain first rest where
      "first \<in> set [1..<t + 2 - n]" "rest \<in> set (split_sizes (n - 1) (t - first))" "sizes = first # rest"
      by (auto simp: split_sizes.simps [of n])
    moreover from this "1.IH" False have "length rest = n - 1 \<and> sum_list rest = t - first \<and> (\<forall>s \<in> set rest. 1 \<le> s)"
      by auto
    ultimately show ?thesis using False by auto
  qed
qed

lemma split_sizes_less:
  assumes "sizes \<in> set (split_sizes n t)" and "(x, s) \<in> set (zip xs sizes)"
  shows "1 \<le> s \<and> s \<le> t"
  using split_sizes_bounds [OF assms(1)] set_zip_rightD [OF assms(2)] member_le_sum_list by blast

text \<open>The sizes of the two operands: the loop over \<open>left_size\<close>, and \<open>right_size\<close>.\<close>

definition binary_sizes :: "nat \<Rightarrow> (nat \<times> nat) list" where
  "binary_sizes t = map (\<lambda>left_size. (left_size, t - left_size)) [1..<t]"

lemma binary_sizes_bounds: "(l, r) \<in> set (binary_sizes t) \<longleftrightarrow> 1 \<le> l \<and> 1 \<le> r \<and> l + r = t"
  by (auto simp: binary_sizes_def)

definition binary_prims :: "string \<Rightarrow> json list \<Rightarrow> json list \<Rightarrow> json list" where
  "binary_prims op as bs = map (\<lambda>(a, b). prim_json op [a, b]) (List.product as bs)"

text \<open>
  \<open>enum_terms\<close> is \<open>_enum_terms_of_size\<close>, \<open>app_terms\<close> is \<open>_app_terms_of_size\<close>. The source never
  asks for size zero, for which its recursion would not end. The terms in \<open>extra\<close> are
  taken at size one whatever type is asked for.
\<close>

function enum_terms :: "ktype \<Rightarrow> typed_names \<Rightarrow> typed_names \<Rightarrow> nat \<Rightarrow> json list \<Rightarrow> bool \<Rightarrow> json list"
and app_terms :: "ktype \<Rightarrow> typed_names \<Rightarrow> typed_names \<Rightarrow> nat \<Rightarrow> json list \<Rightarrow> bool \<Rightarrow> json list" where
  "enum_terms typ vs fs n extra prefer =
     (if n = 0 then []
      else if n = 1 then extra @ base_terms typ vs fs
      else
        (if prefer then app_terms typ vs fs n extra prefer else [])
        @ (if typ = IntType
           then concat (map (\<lambda>op. concat (map (\<lambda>(l, r).
               binary_prims op (enum_terms IntType vs fs l extra prefer) (enum_terms IntType vs fs r extra prefer))
               (binary_sizes (n - 1)))) [''add'', ''sub'', ''mul'', ''mod''])
           else [])
        @ (if typ = BoolType
           then concat (map (\<lambda>op. concat (map (\<lambda>(l, r).
               binary_prims op (enum_terms IntType vs fs l extra prefer) (enum_terms IntType vs fs r extra prefer))
               (binary_sizes (n - 1)))) [''eq_int'', ''lt_int'', ''le_int''])
             @ concat (map (\<lambda>op. concat (map (\<lambda>(l, r).
               binary_prims op (enum_terms BoolType vs fs l extra prefer) (enum_terms BoolType vs fs r extra prefer))
               (binary_sizes (n - 1)))) [''and'', ''or''])
             @ map (\<lambda>inner. prim_json ''not'' [inner]) (enum_terms BoolType vs fs (n - 1) extra prefer)
           else [])
        @ (case typ of
             ListType e \<Rightarrow>
               if n = 2 then map (\<lambda>h. cons_json h nil_json) (enum_terms e vs fs 1 extra prefer) else []
           | OptionType e \<Rightarrow> map some_json (enum_terms e vs fs (n - 1) extra prefer)
           | PairType lt rt \<Rightarrow> concat (map (\<lambda>(l, r). map (\<lambda>(a, b). pair_json a b)
               (List.product (enum_terms lt vs fs l extra prefer) (enum_terms rt vs fs r extra prefer)))
               (binary_sizes (n - 1)))
           | _ \<Rightarrow> [])
        @ (if n \<ge> 3
           then concat (map (\<lambda>c. concat (map (\<lambda>(l, r). map (\<lambda>(x, y, z). if_json x y z)
               (List.product (enum_terms BoolType vs fs c extra prefer)
                 (List.product (enum_terms typ vs fs l extra prefer) (enum_terms typ vs fs r extra prefer))))
               (binary_sizes (n - 1 - c)))) [1..<n - 2])
           else [])
        @ (if \<not> prefer then app_terms typ vs fs n extra prefer else [])
        @ concat (map (\<lambda>pt. case pt of
             PairType lt rt \<Rightarrow>
               (if lt = typ then map (proj_json ''fst'') (enum_terms pt vs fs (n - 1) extra prefer) else [])
               @ (if rt = typ then map (proj_json ''snd'') (enum_terms pt vs fs (n - 1) extra prefer) else [])
           | _ \<Rightarrow> []) (pair_types_in_env vs fs)))"
| "app_terms typ vs fs n extra prefer =
     concat (map (\<lambda>(name, ftype). case ftype of
         FunType args r \<Rightarrow>
           if r = typ then
             concat (map (\<lambda>sizes.
               let arg_terms = map (\<lambda>(t, s). enum_terms t vs fs s extra prefer) (zip args sizes) in
               if [] \<in> set arg_terms then [] else map (app_json name) (product_of arg_terms))
               (split_sizes (length args) (n - 1)))
           else []
       | _ \<Rightarrow> []) fs)"
  by pat_completeness auto
termination
proof (relation "measure (\<lambda>s. case s of Inl (t, v, f, n, x, p) \<Rightarrow> 2 * n + 1 | Inr (t, v, f, n, x, p) \<Rightarrow> 2 * n)",
    goal_cases)
  case 1
  show ?case by simp
qed (auto simp: binary_sizes_bounds dest!: split_sizes_less)

declare enum_terms.simps [simp del] app_terms.simps [simp del]

subsection \<open>The size of a term\<close>

fun term_size :: "json \<Rightarrow> int res" where
  "term_size node =
     (if \<not> is_obj node then Inr 0
      else let tag = jget node ''tag'' in
        bindr (in_strs tag [''int'', ''bool'', ''nil'', ''var'', ''sym'']) (\<lambda>leaf.
        if leaf then Inr 1
        else if tag = JStr ''cons'' then
          bindr (term_size (jget node ''head'')) (\<lambda>h.
          bindr (term_size (jget node ''tail'')) (\<lambda>t. Inr (1 + h + t)))
        else if tag = JStr ''if'' then
          bindr (term_size (jget node ''cond'')) (\<lambda>c.
          bindr (term_size (jget node ''then'')) (\<lambda>t.
          bindr (term_size (jget node ''else'')) (\<lambda>e. Inr (1 + c + t + e))))
        else if tag = JStr ''app'' then
          bindr (term_size (jget node ''fn'')) (\<lambda>f.
          bindr (mapr term_size (the_list (jor (jget node ''args'') (JList [])))) (\<lambda>as.
            Inr (1 + f + sum_list as)))
        else if tag = JStr ''prim'' then
          bindr (mapr term_size (the_list (jor (jget node ''args'') (JList [])))) (\<lambda>as. Inr (1 + sum_list as))
        else if tag = JStr ''match_list'' then
          bindr (term_size (jget node ''scrutinee'')) (\<lambda>s.
          bindr (term_size (jget node ''nil_case'')) (\<lambda>n.
          bindr (term_size (jget (jor (jget node ''cons_case'') (JObj [])) ''body'')) (\<lambda>c. Inr (1 + s + n + c))))
        else if tag = JStr ''none'' then Inr 1
        else if tag = JStr ''some'' then bindr (term_size (jget node ''value'')) (\<lambda>v. Inr (1 + v))
        else if tag = JStr ''match_option'' then
          bindr (term_size (jget node ''scrutinee'')) (\<lambda>s.
          bindr (term_size (jget node ''none_case'')) (\<lambda>n.
          bindr (term_size (jget (jor (jget node ''some_case'') (JObj [])) ''body'')) (\<lambda>b. Inr (1 + s + n + b))))
        else if tag = JStr ''pair'' then
          bindr (term_size (jget node ''left'')) (\<lambda>l.
          bindr (term_size (jget node ''right'')) (\<lambda>r. Inr (1 + l + r)))
        else bindr (in_strs tag [''fst'', ''snd'']) (\<lambda>proj.
          if proj then bindr (term_size (jget node ''pair'')) (\<lambda>p. Inr (1 + p)) else Inr 1)))"

declare term_size.simps [simp del]

subsection \<open>Parameters\<close>

fun gen_type_json :: "ktype \<Rightarrow> json" where
  "gen_type_json IntType = JObj [(''tag'', JStr ''int'')]"
| "gen_type_json BoolType = JObj [(''tag'', JStr ''bool'')]"
| "gen_type_json (ListType e) = JObj [(''tag'', JStr ''list''), (''of'', gen_type_json e)]"
| "gen_type_json (OptionType e) = JObj [(''tag'', JStr ''option''), (''of'', gen_type_json e)]"
| "gen_type_json (PairType l r) =
     JObj [(''tag'', JStr ''pair''), (''left'', gen_type_json l), (''right'', gen_type_json r)]"
| "gen_type_json (FunType ts r) =
     JObj [(''tag'', JStr ''fun''), (''args'', JList (map gen_type_json ts)), (''ret'', gen_type_json r)]"

text \<open>Unlike \<open>type_from_json\<close>, it takes function types without arguments.\<close>

fun gen_type_from_json :: "json \<Rightarrow> ktype res" where
  "gen_type_from_json obj =
     (if \<not> is_obj obj then Inl (AttributeError ''get'')
      else let tag = jget obj ''tag'' in
        if tag = JStr ''int'' then Inr IntType
        else if tag = JStr ''bool'' then Inr BoolType
        else if tag = JStr ''list'' then bindr (gen_type_from_json (jget obj ''of'')) (\<lambda>t. Inr (ListType t))
        else if tag = JStr ''option'' then bindr (gen_type_from_json (jget obj ''of'')) (\<lambda>t. Inr (OptionType t))
        else if tag = JStr ''pair'' then
          bindr (gen_type_from_json (jget obj ''left'')) (\<lambda>l.
          bindr (gen_type_from_json (jget obj ''right'')) (\<lambda>r. Inr (PairType l r)))
        else if tag = JStr ''fun'' then
          bindr (if is_list (jget obj ''args'') then mapr gen_type_from_json (the_list (jget obj ''args''))
                 else bindr (iter_json (jget obj ''args'')) (\<lambda>xs.
                   if xs = [] then Inr [] else Inl (AttributeError ''get''))) (\<lambda>args.
          bindr (gen_type_from_json (jget obj ''ret'')) (\<lambda>r. Inr (FunType args r)))
        else Inl (ValueError ''unsupported type''))"

declare gen_type_from_json.simps [simp del]

definition param_json :: "nat \<Rightarrow> ktype \<Rightarrow> json" where
  "param_json i arg = JObj [(''name'', JStr (''p'' @ nat_str i)), (''type'', gen_type_json arg)]"

fun params_for_type :: "ktype \<Rightarrow> json list" where
  "params_for_type (FunType args r) = map (\<lambda>(i, arg). param_json i arg) (enumerate 0 args)"
| "params_for_type _ = []"

fun find_decreases_param :: "json list \<Rightarrow> json" where
  "find_decreases_param [] = JNull"
| "find_decreases_param (param # ps) =
     (if jget (jget param ''type'') ''tag'' = JStr ''list'' then jget param ''name'' else find_decreases_param ps)"

definition recursive_call :: "string \<Rightarrow> json list \<Rightarrow> json \<Rightarrow> string \<Rightarrow> json" where
  "recursive_call symbol params dec_param tail_name =
     app_json symbol (map (\<lambda>param. let name = jget param ''name'' in
       if dec_param \<noteq> JNull \<and> name = dec_param then var_json tail_name else var_json (the_str name)) params)"

text \<open>The four buckets, in the order 0, 1, -1, 2, and the rest.\<close>

definition int_term :: "int \<Rightarrow> json \<Rightarrow> bool" where
  "int_term v term \<longleftrightarrow> jget term ''tag'' = JStr ''int'' \<and> eq_int (jget term ''value'') v"

definition prioritize_base_terms :: "ktype \<Rightarrow> json list \<Rightarrow> json list" where
  "prioritize_base_terms typ terms =
     (if typ \<noteq> IntType then terms
      else filter (int_term 0) terms @ filter (int_term 1) terms @ filter (int_term (-1)) terms
        @ filter (int_term 2) terms
        @ filter (\<lambda>t. \<not> (int_term 0 t \<or> int_term 1 t \<or> int_term (-1) t \<or> int_term 2 t)) terms)"

subsection \<open>The sample domain\<close>

record task_spec =
  ts_new_symbol :: string
  ts_typ :: ktype
  ts_specs :: "json list"
  ts_allowed_deps :: "string list"

record task_domain_rec =
  td_int_min :: int
  td_int_max :: int
  td_list_max_len :: int
  td_fun_symbols :: "json list"

definition task_domain :: "task_spec \<Rightarrow> task_domain_rec res" where
  "task_domain task =
     (if ts_specs task \<noteq> [] then
        bindr (jgetr (hd (ts_specs task)) ''domain'') (\<lambda>d.
        let domain = jor d (JObj []) in
        if \<not> is_obj domain then Inl (AttributeError ''get'')
        else
          bindr (py_int (jget_default domain ''int_min'' (JInt (- 1)))) (\<lambda>lo.
          bindr (py_int (jget_default domain ''int_max'' (JInt 1))) (\<lambda>hi.
          bindr (py_int (jget_default domain ''list_max_len'' (JInt 2))) (\<lambda>len.
          bindr (iter_json (jor (jget domain ''fun_symbols'') (JList []))) (\<lambda>fun_symbols.
            Inr \<lparr>td_int_min = lo, td_int_max = hi, td_list_max_len = len, td_fun_symbols = fun_symbols\<rparr>)))))
      else Inr \<lparr>td_int_min = -1, td_int_max = 1, td_list_max_len = 2, td_fun_symbols = []\<rparr>)"

definition gen_list_domain :: "val list \<Rightarrow> int \<Rightarrow> val list" where
  "gen_list_domain elems max_len =
     (if max_len \<le> 0 then [ListVal []]
      else ListVal [] # concat (map (\<lambda>n. map ListVal (product_of (replicate n elems))) [1..<Suc (nat max_len)]))"

text \<open>Names that are no strings do not sort against strings, or are no symbols: outside the model.\<close>

definition gen_fun_domain :: "ktype \<Rightarrow> json list \<Rightarrow> typed_names \<Rightarrow> val list res" where
  "gen_fun_domain typ fun_symbols env_symbols =
     (if \<exists>name \<in> set fun_symbols. \<not> is_str name then Inl (Unmodelled ''fun_symbols'')
      else Inr (map FunVal (filter (\<lambda>name. map_of env_symbols name = Some typ) (sort (map the_str fun_symbols)))))"

fun gen_domain_for_type :: "ktype \<Rightarrow> task_domain_rec \<Rightarrow> typed_names \<Rightarrow> val list res" where
  "gen_domain_for_type IntType D env_symbols = Inr (map IntVal [td_int_min D..td_int_max D])"
| "gen_domain_for_type BoolType D env_symbols = Inr [BoolVal False, BoolVal True]"
| "gen_domain_for_type (ListType e) D env_symbols =
     bindr (gen_domain_for_type e D env_symbols) (\<lambda>elems. Inr (gen_list_domain elems (td_list_max_len D)))"
| "gen_domain_for_type (OptionType e) D env_symbols =
     bindr (gen_domain_for_type e D env_symbols) (\<lambda>elems.
       Inr (OptionVal None # map (\<lambda>v. OptionVal (Some v)) elems))"
| "gen_domain_for_type (PairType l r) D env_symbols =
     bindr (gen_domain_for_type l D env_symbols) (\<lambda>left.
     bindr (gen_domain_for_type r D env_symbols) (\<lambda>right.
       Inr (map (\<lambda>(a, b). PairVal a b) (List.product left right))))"
| "gen_domain_for_type (FunType ts r) D env_symbols =
     gen_fun_domain (FunType ts r) (td_fun_symbols D) env_symbols"

definition sample_domain :: "task_spec \<Rightarrow> json list \<Rightarrow> typed_names \<Rightarrow> val list list res" where
  "sample_domain task params env_symbols =
     bindr (task_domain task) (\<lambda>domain.
     bindr (mapr (\<lambda>p. gen_type_from_json (jget p ''type'')) params) (\<lambda>param_types.
       mapr (\<lambda>typ. gen_domain_for_type typ domain env_symbols) param_types))"

subsection \<open>The behaviour of a candidate\<close>

fun value_to_json :: "val \<Rightarrow> json" where
  "value_to_json (IntVal i) = JInt i"
| "value_to_json (BoolVal b) = JBool b"
| "value_to_json (ListVal items) = JList (map value_to_json items)"
| "value_to_json (OptionVal None) = JObj [(''option'', JStr ''none'')]"
| "value_to_json (OptionVal (Some v)) = JObj [(''option'', JStr ''some''), (''value'', value_to_json v)]"
| "value_to_json (PairVal l r) = JObj [(''pair'', JList [value_to_json l, value_to_json r])]"
| "value_to_json (FunVal name) = JObj [(''fun'', JStr name)]"

definition output_hash :: "hash_fn \<Rightarrow> json \<Rightarrow> defs \<Rightarrow> val list list \<Rightarrow> int \<Rightarrow> string option" where
  "output_hash H defn_json env_defs domain step_limit =
     (case parse_definition defn_json of
        Inl e \<Rightarrow> None
      | Inr d \<Rightarrow>
          (case mapr (\<lambda>assignment. run_eval step_limit (env_defs(d_name d \<mapsto> d)) (d_body d) (push_front_all assignment))
              (product_of domain) of
             Inl e \<Rightarrow> None
           | Inr outputs \<Rightarrow> Some (H (dumps '','' '':'' True (JList (map value_to_json outputs))))))"

subsection \<open>Generating candidates\<close>

record enum_generator =
  eg_max_size :: int
  eg_max_candidates :: int
  eg_step_limit :: int
  eg_mode :: string
  eg_symbol_priority :: "string list"

record candidate =
  cd_definition :: json
  cd_declared_deps :: "string list"

record gen_stats =
  gs_bodies_enumerated :: nat
  gs_deduped :: nat
  gs_output_fail :: nat
  gs_min_size :: "int option"
  gs_max_size :: "int option"
  gs_candidates_returned :: nat

text \<open>Collecting until there are \<open>m\<close> results: the length is compared after each append.\<close>

definition collect :: "int \<Rightarrow> 'a list \<Rightarrow> 'a list" where
  "collect m xs = take (nat (max 1 m)) xs"

definition gen_enumerate_terms :: "enum_generator \<Rightarrow> ktype \<Rightarrow> typed_names \<Rightarrow> typed_names \<Rightarrow> int \<Rightarrow> json list \<Rightarrow> json list" where
  "gen_enumerate_terms G typ env_vars fun_symbols max_size extra =
     collect (eg_max_candidates G)
       ((if eg_mode G = ''reuse''
         then concat (map (\<lambda>n. app_terms typ env_vars fun_symbols n extra True) [1..<Suc (nat max_size)]) else [])
        @ concat (map (\<lambda>n. enum_terms typ env_vars fun_symbols n extra False) [1..<Suc (nat max_size)]))"

text \<open>The index of the last occurrence, as the dict comprehension leaves it; the number of keys for other names.\<close>

definition priority_of :: "string list \<Rightarrow> string \<Rightarrow> nat" where
  "priority_of names name =
     (case map_of (rev (zip names [0..<length names])) name of
        Some i \<Rightarrow> i
      | None \<Rightarrow> length (remdups names))"

text \<open>Sorting by the pair of priority and name is sorting by the name and then, stably, by the priority.\<close>

definition order_symbols :: "enum_generator \<Rightarrow> typed_names \<Rightarrow> typed_names" where
  "order_symbols G symbols =
     (if eg_symbol_priority G = [] then sort_key fst symbols
      else sort_key (\<lambda>(name, t). priority_of (eg_symbol_priority G) name) (sort_key fst symbols))"

definition match_list_json :: "string \<Rightarrow> string \<Rightarrow> string \<Rightarrow> json \<Rightarrow> json \<Rightarrow> json" where
  "match_list_json dec_param head_name tail_name base step =
     JObj [(''tag'', JStr ''match_list''), (''scrutinee'', var_json dec_param), (''nil_case'', base),
       (''cons_case'', JObj [(''head_var'', JStr head_name), (''tail_var'', JStr tail_name), (''body'', step)])]"

definition param_types :: "json list \<Rightarrow> typed_names res" where
  "param_types params = mapr (\<lambda>p. bindr (gen_type_from_json (jget p ''type'')) (\<lambda>t.
     Inr (the_str (jget p ''name''), t))) params"

definition recursive_bodies :: "enum_generator \<Rightarrow> string \<Rightarrow> ktype \<Rightarrow> json list \<Rightarrow> typed_names \<Rightarrow> typed_names \<Rightarrow> json list res" where
  "recursive_bodies G symbol typ params fun_symbols env_vars =
     (let dec_param = find_decreases_param params in
      if dec_param = JNull then Inr []
      else
        let dec_info = hd (filter (\<lambda>p. jget p ''name'' = dec_param) params);
            base_terms = prioritize_base_terms typ (gen_enumerate_terms G typ env_vars fun_symbols 3 []);
            rec_call = recursive_call symbol params dec_param ''t'' in
        bindr (gen_type_from_json (jget (jget dec_info ''type'') ''of'')) (\<lambda>head_type.
        bindr (gen_type_from_json (jget dec_info ''type'')) (\<lambda>tail_type.
          let cons_env = [(''h'', head_type), (''t'', tail_type)] @ env_vars;
              step_terms = gen_enumerate_terms G typ cons_env fun_symbols (eg_max_size G) [rec_call] in
          Inr (collect (eg_max_candidates G)
            (map (\<lambda>(base, step). match_list_json (the_str dec_param) ''h'' ''t'' base step)
              (List.product base_terms step_terms))))))"

definition enumerate_bodies :: "enum_generator \<Rightarrow> string \<Rightarrow> ktype \<Rightarrow> json list \<Rightarrow> typed_names \<Rightarrow> json list res" where
  "enumerate_bodies G symbol typ params fun_symbols =
     bindr (param_types params) (\<lambda>env_vars.
     bindr (recursive_bodies G symbol typ params fun_symbols env_vars) (\<lambda>candidates.
       if candidates \<noteq> [] \<and> int (length candidates) \<ge> eg_max_candidates G then Inr candidates
       else Inr (candidates @ gen_enumerate_terms G typ env_vars fun_symbols (eg_max_size G) [])))"

definition candidate_json :: "string \<Rightarrow> json list \<Rightarrow> ktype \<Rightarrow> json \<Rightarrow> json" where
  "candidate_json name params ret_type body =
     JObj [(''name'', JStr name), (''params'', JList params), (''ret_type'', gen_type_json ret_type), (''body'', body),
       (''termination'', JObj [(''kind'', JStr ''structural''), (''decreases_param'', find_decreases_param params)])]"

text \<open>The loop over the bodies, from the candidates, keys and counts so far. The printed type, the same for
  all, is left out of the keys.\<close>

fun select_candidates :: "hash_fn \<Rightarrow> enum_generator \<Rightarrow> task_spec \<Rightarrow> (json \<Rightarrow> json) \<Rightarrow> defs \<Rightarrow> val list list
    \<Rightarrow> string list \<Rightarrow> json list \<Rightarrow> candidate list \<Rightarrow> (int \<times> string) list \<Rightarrow> gen_stats \<Rightarrow> (candidate list \<times> gen_stats) res" where
  "select_candidates H G task mk env_defs domain srefs [] candidates seen stats = Inr (candidates, stats)"
| "select_candidates H G task mk env_defs domain srefs (body # bodies) candidates seen stats =
     bindr (term_size body) (\<lambda>sz.
     let stats1 = stats\<lparr>gs_bodies_enumerated := gs_bodies_enumerated stats + 1,
           gs_min_size := (case gs_min_size stats of None \<Rightarrow> Some sz | Some m \<Rightarrow> Some (min m sz)),
           gs_max_size := (case gs_max_size stats of None \<Rightarrow> Some sz | Some m \<Rightarrow> Some (max m sz))\<rparr>;
         defn = mk body in
     case output_hash H defn env_defs domain (eg_step_limit G) of
       None \<Rightarrow> select_candidates H G task mk env_defs domain srefs bodies candidates seen
                 (stats1\<lparr>gs_output_fail := gs_output_fail stats1 + 1\<rparr>)
     | Some h \<Rightarrow>
         if (sz, h) \<in> set seen
         then select_candidates H G task mk env_defs domain srefs bodies candidates seen
                (stats1\<lparr>gs_deduped := gs_deduped stats1 + 1\<rparr>)
         else
           bindr (collect_sym_refs body) (\<lambda>refs.
           let deps = sort (filter (\<lambda>s. s \<noteq> ts_new_symbol task \<and> s \<in> set (ts_allowed_deps task)) (set_update refs srefs));
               candidates1 = candidates @ [\<lparr>cd_definition = defn, cd_declared_deps = deps\<rparr>] in
           if int (length candidates1) \<ge> eg_max_candidates G then Inr (candidates1, stats1)
           else select_candidates H G task mk env_defs domain srefs bodies candidates1 (seen @ [(sz, h)]) stats1))"

definition return_type :: "ktype \<Rightarrow> ktype" where
  "return_type typ = (case typ of FunType args r \<Rightarrow> r | _ \<Rightarrow> typ)"

text \<open>\<open>EnumGenerator.generate\<close>, with the statistics it leaves in \<open>last_stats\<close>.\<close>

definition generate :: "hash_fn \<Rightarrow> enum_generator \<Rightarrow> task_spec \<Rightarrow> typed_names \<Rightarrow> defs \<Rightarrow> (candidate list \<times> gen_stats) res" where
  "generate H G task env_symbols env_defs =
     (let params = params_for_type (ts_typ task);
          filtered_symbols = filter (\<lambda>(name, t). name \<in> set (ts_allowed_deps task)) env_symbols;
          fun_symbols = order_symbols G filtered_symbols;
          ret_type = return_type (ts_typ task) in
      bindr (enumerate_bodies G (ts_new_symbol task) ret_type params fun_symbols) (\<lambda>bodies.
      bindr (sample_domain task params filtered_symbols) (\<lambda>domain.
      bindr (collect_sym_refs_in_specs (ts_specs task)) (\<lambda>srefs.
      bindr (select_candidates H G task (candidate_json (ts_new_symbol task) params ret_type) env_defs domain srefs
               bodies [] []
               \<lparr>gs_bodies_enumerated = 0, gs_deduped = 0, gs_output_fail = 0, gs_min_size = None, gs_max_size = None,
                gs_candidates_returned = 0\<rparr>) (\<lambda>(candidates, stats).
        Inr (candidates, stats\<lparr>gs_candidates_returned := length candidates\<rparr>))))))"

end
