(* ===== verification/Gen_Enum_Props.thy ===== *)
theory Gen_Enum_Props
  imports Gen_Enum Kernel_Spec_Props
begin

section \<open>What the generator proposes\<close>

text \<open>
  The enumeration is sound for a grammar of terms; the terms of the grammar parse, recur only on
  the tail of the list that is matched on, and, as long as no recursive call is offered, have
  the type that was asked for.
\<close>

subsection \<open>The grammar\<close>

lemma pair_types_sound:
  "set (pair_types_in_env vs fs) \<subseteq> {t. is_pair_type t \<and> t \<in> snd ` set vs \<union> snd ` set fs}"
proof -
  have "set (fold (\<lambda>t seen. if is_pair_type t \<and> t \<notin> set seen then seen @ [t] else seen) ts seen)
      \<subseteq> set seen \<union> {t \<in> set ts. is_pair_type t}" for ts seen
  proof (induction ts arbitrary: seen)
    case (Cons t ts)
    from Cons [of "if is_pair_type t \<and> t \<notin> set seen then seen @ [t] else seen"] show ?case by auto
  qed simp
  from this [of "map snd vs @ map snd fs" "[]"] show ?thesis by (auto simp: pair_types_in_env_def)
qed

inductive gen_term :: "typed_names \<Rightarrow> typed_names \<Rightarrow> json list \<Rightarrow> ktype \<Rightarrow> json \<Rightarrow> bool" for vs fs ex where
  extra: "x \<in> set ex \<Longrightarrow> gen_term vs fs ex T x"
| base: "x \<in> set (base_terms T vs fs) \<Longrightarrow> gen_term vs fs ex T x"
| prim2: "prim_sig (JStr op) = Some ([A, A], R) \<Longrightarrow> gen_term vs fs ex A x \<Longrightarrow> gen_term vs fs ex A y
    \<Longrightarrow> gen_term vs fs ex R (prim_json op [x, y])"
| not: "gen_term vs fs ex BoolType x \<Longrightarrow> gen_term vs fs ex BoolType (prim_json ''not'' [x])"
| cons: "gen_term vs fs ex T x \<Longrightarrow> gen_term vs fs ex (ListType T) (cons_json x nil_json)"
| some: "gen_term vs fs ex T x \<Longrightarrow> gen_term vs fs ex (OptionType T) (some_json x)"
| pair: "gen_term vs fs ex L x \<Longrightarrow> gen_term vs fs ex R y \<Longrightarrow> gen_term vs fs ex (PairType L R) (pair_json x y)"
| if_then: "gen_term vs fs ex BoolType c \<Longrightarrow> gen_term vs fs ex T x \<Longrightarrow> gen_term vs fs ex T y
    \<Longrightarrow> gen_term vs fs ex T (if_json c x y)"
| app: "(name, FunType Ts R) \<in> set fs \<Longrightarrow> list_all2 (gen_term vs fs ex) Ts xs
    \<Longrightarrow> gen_term vs fs ex R (app_json name xs)"
| fst_of: "PairType L R \<in> set (pair_types_in_env vs fs) \<Longrightarrow> gen_term vs fs ex (PairType L R) x
    \<Longrightarrow> gen_term vs fs ex L (proj_json ''fst'' x)"
| snd_of: "PairType L R \<in> set (pair_types_in_env vs fs) \<Longrightarrow> gen_term vs fs ex (PairType L R) x
    \<Longrightarrow> gen_term vs fs ex R (proj_json ''snd'' x)"

lemma binary_prims_iff: "x \<in> set (binary_prims op as bs) \<longleftrightarrow> (\<exists>a \<in> set as. \<exists>b \<in> set bs. x = prim_json op [a, b])"
  by (auto simp: binary_prims_def)

lemma prim_sigs:
  "op \<in> {''add'', ''sub'', ''mul'', ''mod''} \<Longrightarrow> prim_sig (JStr op) = Some ([IntType, IntType], IntType)"
  "op \<in> {''eq_int'', ''lt_int'', ''le_int''} \<Longrightarrow> prim_sig (JStr op) = Some ([IntType, IntType], BoolType)"
  "op \<in> {''and'', ''or''} \<Longrightarrow> prim_sig (JStr op) = Some ([BoolType, BoolType], BoolType)"
  by (auto simp: prim_sig_def)

lemma concat_mapE: "x \<in> set (concat (map f ys)) \<Longrightarrow> (\<And>y. y \<in> set ys \<Longrightarrow> x \<in> set (f y) \<Longrightarrow> P) \<Longrightarrow> P"
  by auto

lemma product_of_nil: "[] \<in> set xss \<Longrightarrow> product_of xss = []"
  by (induction xss) auto

lemma app_terms_sound:
  assumes "x \<in> set (app_terms T vs fs n ex p)"
  obtains name Ts sizes xs where "(name, FunType Ts T) \<in> set fs" "sizes \<in> set (split_sizes (length Ts) (n - 1))"
    "x = app_json name xs" "list_all2 (\<lambda>y (t, s). y \<in> set (enum_terms t vs fs s ex p)) xs (zip Ts sizes)"
  using assms [unfolded app_terms.simps]
proof (rule concat_mapE, goal_cases)
  case (1 nf)
  obtain name ft where nf: "nf = (name, ft)" by fastforce
  with 1(3) obtain Ts where Ts: "ft = FunType Ts T"
    by (auto split: ktype.split_asm if_split_asm)
  with 1(3) nf have "x \<in> set (concat (map (\<lambda>sizes.
      let arg_terms = map (\<lambda>(t, s). enum_terms t vs fs s ex p) (zip Ts sizes) in
      if [] \<in> set arg_terms then [] else map (app_json name) (product_of arg_terms)) (split_sizes (length Ts) (n - 1))))"
    by simp
  then obtain sizes xs where sizes: "sizes \<in> set (split_sizes (length Ts) (n - 1))" and xs: "x = app_json name xs"
    "xs \<in> set (product_of (map (\<lambda>(t, s). enum_terms t vs fs s ex p) (zip Ts sizes)))"
    by (elim concat_mapE) (auto simp: Let_def split: if_split_asm)
  from xs(2) have "list_all2 (\<lambda>y (t, s). y \<in> set (enum_terms t vs fs s ex p)) xs (zip Ts sizes)"
    by (simp add: set_product_of list.rel_map case_prod_unfold)
  with 1(2) nf Ts sizes xs(1) that show thesis by simp
qed

lemma set_if_subset: "(b \<Longrightarrow> set xs \<subseteq> S) \<Longrightarrow> set (if b then xs else []) \<subseteq> S"
  by (cases b) simp_all

lemma binary_sizes_less: "(l, r) \<in> set (binary_sizes (n - Suc 0)) \<Longrightarrow> l < n \<and> r < n"
  by (auto simp: binary_sizes_bounds)

lemma list_all2_zip_right:
  assumes "list_all2 P xs (zip Ts ss)" and "length ss = length Ts"
    and "\<And>x t s. (t, s) \<in> set (zip Ts ss) \<Longrightarrow> P x (t, s) \<Longrightarrow> Q t x"
  shows "list_all2 Q Ts xs"
proof (rule list_all2_all_nthI)
  from assms(1,2) show len: "length Ts = length xs" by (simp add: list_all2_lengthD)
  show "Q (Ts ! i) (xs ! i)" if "i < length Ts" for i
  proof (rule assms(3))
    show "(Ts ! i, ss ! i) \<in> set (zip Ts ss)" using that assms(2) by (auto simp: set_zip)
    show "P (xs ! i) (Ts ! i, ss ! i)" using list_all2_nthD [OF assms(1), of i] that assms(2) len by simp
  qed
qed

lemma enum_app_terms_sound:
  "(x \<in> set (enum_terms T vs fs n ex p) \<longrightarrow> gen_term vs fs ex T x)
    \<and> (x \<in> set (app_terms T vs fs n ex p) \<longrightarrow> gen_term vs fs ex T x)"
proof (induction n arbitrary: x T rule: less_induct)
  case (less n)
  have E: "gen_term vs fs ex t y" if "y \<in> set (enum_terms t vs fs m ex p)" "m < n" for m t y
    using less that by blast
  have A: "gen_term vs fs ex T x" if x: "x \<in> set (app_terms T vs fs n ex p)" for x T
    using x
  proof (rule app_terms_sound)
    fix name Ts sizes xs
    assume f: "(name, FunType Ts T) \<in> set fs" and sizes: "sizes \<in> set (split_sizes (length Ts) (n - 1))"
      and xs: "x = app_json name xs" "list_all2 (\<lambda>y (t, s). y \<in> set (enum_terms t vs fs s ex p)) xs (zip Ts sizes)"
    have "list_all2 (gen_term vs fs ex) Ts xs"
    proof (rule list_all2_zip_right [OF xs(2)])
      show "length sizes = length Ts" using split_sizes_bounds [OF sizes] by simp
      show "gen_term vs fs ex t y" if "(t, s) \<in> set (zip Ts sizes)"
        "case (t, s) of (t, s) \<Rightarrow> y \<in> set (enum_terms t vs fs s ex p)" for y t s
        using split_sizes_less [OF sizes that(1)] that(2) by (intro E [of _ _ s]) auto
    qed
    with f show ?thesis unfolding xs(1) by (rule gen_term.app)
  qed
  have B: "gen_term vs fs ex R y" if "y \<in> set (concat (map (\<lambda>op. concat (map (\<lambda>(l, r).
      binary_prims op (enum_terms T' vs fs l ex p) (enum_terms T' vs fs r ex p)) (binary_sizes (n - 1)))) ops))"
    "\<And>op. op \<in> set ops \<Longrightarrow> prim_sig (JStr op) = Some ([T', T'], R)" for T' R ops y
    using that(1)
  proof (elim concat_mapE)
    fix op lr
    assume op: "op \<in> set ops" and lr: "lr \<in> set (binary_sizes (n - 1))"
      and y: "y \<in> set (case lr of (l, r) \<Rightarrow> binary_prims op (enum_terms T' vs fs l ex p) (enum_terms T' vs fs r ex p))"
    obtain l r where "lr = (l, r)" by fastforce
    with lr have "l < n" "r < n" by (auto simp: binary_sizes_bounds)
    with y \<open>lr = (l, r)\<close> that(2) [OF op] show ?thesis by (auto simp: binary_prims_iff intro: gen_term.prim2 E)
  qed
  have "gen_term vs fs ex T x" if x: "x \<in> set (enum_terms T vs fs n ex p)"
  proof (cases "n \<le> 1")
    case True
    with x show ?thesis
      by (auto simp: enum_terms.simps [of T vs fs n] le_Suc_eq intro: gen_term.extra gen_term.base split: if_split_asm)
  next
    case False
    then have lt: "n - Suc 0 < n" by simp
    have int: "gen_term vs fs ex IntType y" if "y \<in> set (concat (map (\<lambda>op. concat (map (\<lambda>(l, r).
        binary_prims op (enum_terms IntType vs fs l ex p) (enum_terms IntType vs fs r ex p)) (binary_sizes (n - 1))))
        [''add'', ''sub'', ''mul'', ''mod'']))" for y
      using that by (rule B) (simp add: prim_sigs(1))
    have cmp: "gen_term vs fs ex BoolType y" if "y \<in> set (concat (map (\<lambda>op. concat (map (\<lambda>(l, r).
        binary_prims op (enum_terms IntType vs fs l ex p) (enum_terms IntType vs fs r ex p)) (binary_sizes (n - 1))))
        [''eq_int'', ''lt_int'', ''le_int'']))" for y
      using that by (rule B) (simp add: prim_sigs(2))
    have logic: "gen_term vs fs ex BoolType y" if "y \<in> set (concat (map (\<lambda>op. concat (map (\<lambda>(l, r).
        binary_prims op (enum_terms BoolType vs fs l ex p) (enum_terms BoolType vs fs r ex p)) (binary_sizes (n - 1))))
        [''and'', ''or'']))" for y
      using that by (rule B) (simp add: prim_sigs(3))
    have negated: "gen_term vs fs ex BoolType y"
      if "y \<in> set (map (\<lambda>inner. prim_json ''not'' [inner]) (enum_terms BoolType vs fs (n - 1) ex p))" for y
      using that lt by (auto intro: gen_term.not E)
    have struct: "gen_term vs fs ex T y" if "y \<in> set (case T of
             ListType e \<Rightarrow> if n = 2 then map (\<lambda>h. cons_json h nil_json) (enum_terms e vs fs 1 ex p) else []
           | OptionType e \<Rightarrow> map some_json (enum_terms e vs fs (n - 1) ex p)
           | PairType lt rt \<Rightarrow> concat (map (\<lambda>(l, r). map (\<lambda>(a, b). pair_json a b)
               (List.product (enum_terms lt vs fs l ex p) (enum_terms rt vs fs r ex p)))
               (binary_sizes (n - 1)))
           | _ \<Rightarrow> [])" for y
      using that False
      by (auto dest!: binary_sizes_less intro!: gen_term.cons gen_term.some gen_term.pair
          intro: E split: ktype.split_asm if_split_asm)
    have cond: "gen_term vs fs ex T y" if "y \<in> set (concat (map (\<lambda>c. concat (map (\<lambda>(l, r). map (\<lambda>(x, y, z). if_json x y z)
               (List.product (enum_terms BoolType vs fs c ex p)
                 (List.product (enum_terms T vs fs l ex p) (enum_terms T vs fs r ex p))))
               (binary_sizes (n - 1 - c)))) [1..<n - 2]))" for y
      using that
    proof (elim concat_mapE)
      fix c lr
      assume c: "c \<in> set [1..<n - 2]" and lr: "lr \<in> set (binary_sizes (n - 1 - c))"
        and y: "y \<in> set (case lr of (l, r) \<Rightarrow> map (\<lambda>(x, y, z). if_json x y z)
               (List.product (enum_terms BoolType vs fs c ex p)
                 (List.product (enum_terms T vs fs l ex p) (enum_terms T vs fs r ex p))))"
      obtain l r where lr_eq: "lr = (l, r)" by fastforce
      with lr c have "c < n" "l < n" "r < n" by (auto simp: binary_sizes_bounds)
      with y show ?thesis unfolding lr_eq by (auto intro!: gen_term.if_then intro: E)
    qed
    have proj: "gen_term vs fs ex T y" if "y \<in> set (concat (map (\<lambda>pt. case pt of
             PairType lt rt \<Rightarrow>
               (if lt = T then map (proj_json ''fst'') (enum_terms pt vs fs (n - 1) ex p) else [])
               @ (if rt = T then map (proj_json ''snd'') (enum_terms pt vs fs (n - 1) ex p) else [])
           | _ \<Rightarrow> []) (pair_types_in_env vs fs)))" for y
      using that
    proof (rule concat_mapE)
      fix pt
      assume pt: "pt \<in> set (pair_types_in_env vs fs)"
        and y: "y \<in> set (case pt of
             PairType lt rt \<Rightarrow>
               (if lt = T then map (proj_json ''fst'') (enum_terms pt vs fs (n - 1) ex p) else [])
               @ (if rt = T then map (proj_json ''snd'') (enum_terms pt vs fs (n - 1) ex p) else [])
           | _ \<Rightarrow> [])"
      from pt pair_types_sound obtain L R where LR: "pt = PairType L R"
        by (metis (no_types, lifting) is_pair_type.elims(2) mem_Collect_eq subsetD)
      with y False pt show ?thesis
        by (auto intro: gen_term.fst_of gen_term.snd_of E lt split: if_split_asm)
    qed
    have n: "n \<noteq> 0" "n \<noteq> 1" using False by auto
    have "set (enum_terms T vs fs n ex p) \<subseteq> Collect (gen_term vs fs ex T)"
      unfolding enum_terms.simps [of T vs fs n] if_not_P [OF n(1)] if_not_P [OF n(2)] set_append
    proof (intro Un_least set_if_subset, goal_cases)
      case 1
      show ?case by (auto intro: A)
    next
      case 2
      then show ?case by (auto simp del: set_concat intro: int)
    next
      case 3
      then show ?case by (auto simp only: set_append intro: cmp logic negated)
    next
      case 4
      show ?case by (intro subsetI CollectI struct)
    next
      case 5
      show ?case by (intro subsetI CollectI cond)
    next
      case 6
      show ?case by (auto intro: A)
    next
      case 7
      show ?case by (intro subsetI CollectI proj)
    qed
    with x show ?thesis by blast
  qed
  with A show ?case by blast
qed

lemma enum_terms_sound: "x \<in> set (enum_terms T vs fs n ex p) \<Longrightarrow> gen_term vs fs ex T x"
  and app_terms_gen: "x \<in> set (app_terms T vs fs n ex p) \<Longrightarrow> gen_term vs fs ex T x"
  using enum_app_terms_sound by blast+

subsection \<open>Generated terms parse\<close>

lemmas gen_json_defs = var_json_def sym_json_def int_json_def bool_json_def nil_json_def none_json_def
  some_json_def cons_json_def pair_json_def proj_json_def prim_json_def if_json_def app_json_def

lemma parse_gen_json:
  "parse_term (var_json n) env = (case list_index env (JStr n) of
      None \<Rightarrow> Inl (ValueError (''unbound var: '' @ n)) | Some i \<Rightarrow> Inr (Var (int i)))"
  "parse_term (sym_json n) env = Inr (Sym n)"
  "parse_term (int_json v) env = Inr (IntLit v)"
  "parse_term (bool_json b) env = Inr (BoolLit b)"
  "parse_term nil_json env = Inr NilT"
  "parse_term none_json env = Inr OptionNone"
  "parse_term (some_json x) env = bindr (parse_term x env) (\<lambda>v. Inr (OptionSome v))"
  "parse_term (cons_json h t) env = bindr (parse_term h env) (\<lambda>h. bindr (parse_term t env) (\<lambda>t. Inr (ConsT h t)))"
  "parse_term (pair_json l r) env = bindr (parse_term l env) (\<lambda>l. bindr (parse_term r env) (\<lambda>r. Inr (PairT l r)))"
  "parse_term (proj_json ''fst'' x) env = bindr (parse_term x env) (\<lambda>p. Inr (Fst p))"
  "parse_term (proj_json ''snd'' x) env = bindr (parse_term x env) (\<lambda>p. Inr (Snd p))"
  "parse_term (prim_json op xs) env = bindr (mapr (\<lambda>x. parse_term x env) xs) (\<lambda>ks. Inr (Prim (JStr op) ks))"
  "parse_term (if_json c t e) env = bindr (parse_term c env) (\<lambda>c. bindr (parse_term t env) (\<lambda>t.
     bindr (parse_term e env) (\<lambda>e. Inr (IfT c t e))))"
  "parse_term (app_json n xs) env = bindr (mapr (\<lambda>x. parse_term x env) xs) (\<lambda>ks. Inr (App (Sym n) ks))"
  by (simp_all add: gen_json_defs Let_def parse_term.simps [of "JObj kvs" for kvs] split: option.split)

text \<open>Terms built from the terms of \<open>E\<close> without binders, whose calls are of the symbols of \<open>S\<close>.\<close>

inductive built :: "kterm set \<Rightarrow> string set \<Rightarrow> kterm \<Rightarrow> bool" for E S where
  "k \<in> E \<Longrightarrow> built E S k"
| "built E S (Var i)" | "built E S (Sym n)" | "built E S (IntLit v)" | "built E S (BoolLit b)"
| "built E S NilT" | "built E S OptionNone"
| "built E S k \<Longrightarrow> built E S (OptionSome k)"
| "built E S k \<Longrightarrow> built E S k' \<Longrightarrow> built E S (ConsT k k')"
| "built E S k \<Longrightarrow> built E S k' \<Longrightarrow> built E S (PairT k k')"
| "built E S k \<Longrightarrow> built E S (Fst k)"
| "built E S k \<Longrightarrow> built E S (Snd k)"
| "(\<forall>k \<in> set ks. built E S k) \<Longrightarrow> built E S (Prim op ks)"
| "built E S k \<Longrightarrow> built E S k' \<Longrightarrow> built E S k'' \<Longrightarrow> built E S (IfT k k' k'')"
| "n \<in> S \<Longrightarrow> (\<forall>k \<in> set ks. built E S k) \<Longrightarrow> built E S (App (Sym n) ks)"

lemma mapr_built:
  assumes "list_all2 (\<lambda>T x. \<exists>k. parse_term x env = Inr k \<and> Q T k) Ts xs"
  shows "\<exists>ks. mapr (\<lambda>x. parse_term x env) xs = Inr ks \<and> list_all2 Q Ts ks"
  using assms by (induction Ts xs) auto

lemma list_all2_right_all: "list_all2 (\<lambda>T k. P k) Ts ks \<Longrightarrow> \<forall>k \<in> set ks. P k"
  by (induction Ts ks rule: list_all2_induct) auto

lemma base_terms_cases:
  assumes "x \<in> set (base_terms T vs fs)"
  obtains (int) v where "T = IntType" "x = int_json v"
  | (bool) b where "T = BoolType" "x = bool_json b"
  | (nil) e where "T = ListType e" "x = nil_json"
  | (none) e where "T = OptionType e" "x = none_json"
  | (var) n where "(n, T) \<in> set vs" "x = var_json n"
  | (sym) n where "(n, T) \<in> set fs" "x = sym_json n"
  using assms by (auto simp: base_terms_def split: if_split_asm ktype.split_asm)

lemma gen_parses:
  assumes "gen_term vs fs ex T x" and "JStr ` fst ` set vs \<subseteq> set env"
    and "\<forall>x \<in> set ex. \<exists>k \<in> E. parse_term x env = Inr k"
  shows "\<exists>k. parse_term x env = Inr k \<and> built E (fst ` set fs) k"
  using assms(1)
proof induction
  case (extra x T)
  with assms(3) show ?case by (auto intro: built.intros)
next
  case (base x T)
  then show ?case
  proof (cases rule: base_terms_cases)
    case (var n)
    with assms(2) have "JStr n \<in> set env" by force
    then obtain i where "list_index env (JStr n) = Some i" using list_index_None [of env "JStr n"] by auto
    with var show ?thesis by (auto simp: parse_gen_json intro: built.intros)
  qed (auto simp: parse_gen_json intro: built.intros)
next
  case (app name Ts R xs)
  from app(2) have "list_all2 (\<lambda>T x. \<exists>k. parse_term x env = Inr k \<and> built E (fst ` set fs) k) Ts xs"
    by (rule list_all2_mono) blast
  from mapr_built [OF this] obtain ks where ks: "mapr (\<lambda>x. parse_term x env) xs = Inr ks"
    "\<forall>k \<in> set ks. built E (fst ` set fs) k" using list_all2_right_all by blast
  moreover have "name \<in> fst ` set fs" using app(1) by force
  ultimately show ?case by (auto simp: parse_gen_json intro: built.intros)
next
  case (prim2 op A R x y)
  then show ?case by (auto simp: parse_gen_json intro!: built.intros(13))
next
  case (not x)
  then show ?case by (auto simp: parse_gen_json intro!: built.intros(13))
qed (auto simp: parse_gen_json intro: built.intros)

subsection \<open>Recursion on the tail only\<close>

lemma built_walks:
  assumes "built E S k" and "name \<notin> S" and "\<forall>k \<in> E. \<forall>found. \<exists>f. term_walk name pos k dec allowed found = Inr f"
  shows "\<exists>f. term_walk name pos k dec allowed found = Inr f"
proof -
  have walk_list: "\<exists>f. term_walk_list name pos ks dec allowed found = Inr f"
    if "\<forall>k \<in> set ks. \<forall>found. \<exists>f. term_walk name pos k dec allowed found = Inr f" for ks found
    using that by (induction ks arbitrary: found) (simp, metis bindr.simps(2) list.set_intros term_walk_list.simps(2))
  have "\<forall>found. \<exists>f. term_walk name pos k dec allowed found = Inr f"
    using assms(1)
  proof induction
    case (13 ks op)
    then show ?case by (simp add: walk_list)
  next
    case (15 n ks)
    with assms(2) have "n \<noteq> name" by auto
    with 15 show ?case by (simp add: walk_list)
  qed (use assms(3) in simp_all, (metis bindr.simps(2))+)
  then show ?thesis by blast
qed

lemma built_no_call:
  assumes "built {} S k" and "name \<notin> S"
  shows "\<not> has_rec_walk name k"
  using assms(1) by induction (use assms(2) in auto)

subsection \<open>Parameters\<close>

lemma gen_type_json: "gen_type_json t = type_to_json t"
  by (induction t) simp_all

lemma gen_type_roundtrip [simp]: "gen_type_from_json (gen_type_json t) = Inr t"
proof (induction t)
  case (FunType ts r)
  then have "mapr gen_type_from_json (map gen_type_json ts) = Inr ts"
    by (simp add: mapr_Inr_iff list_all2_conv_all_nth)
  with FunType show ?case by (simp add: gen_type_from_json.simps [of "JObj kvs" for kvs])
qed (simp_all add: gen_type_from_json.simps [of "JObj kvs" for kvs])

definition param_names :: "(nat \<times> ktype) list \<Rightarrow> typed_names" where
  "param_names its = map (\<lambda>(i, t). (''p'' @ nat_str i, t)) its"

definition param_docs :: "(nat \<times> ktype) list \<Rightarrow> json list" where
  "param_docs its = map (\<lambda>(i, t). param_json i t) its"

definition arg_types :: "ktype \<Rightarrow> ktype list" where
  "arg_types typ = (case typ of FunType ts r \<Rightarrow> ts | _ \<Rightarrow> [])"

lemma params_for_type_docs: "\<exists>its. params_for_type typ = param_docs its \<and> map snd its = arg_types typ"
proof (cases "typ")
  case (FunType ts r)
  then show ?thesis by (intro exI [of _ "enumerate 0 ts"]) (simp add: param_docs_def arg_types_def)
qed (auto simp: param_docs_def arg_types_def)

lemma param_names_docs: "map (\<lambda>p. jget p ''name'') (param_docs its) = map (JStr \<circ> fst) (param_names its)"
  by (simp add: param_docs_def param_names_def param_json_def split_beta)

lemma param_types_docs: "param_types (param_docs its) = Inr (param_names its)"
  by (induction its) (auto simp: param_types_def param_docs_def param_names_def param_json_def)

lemma find_decreases_param_docs:
  "find_decreases_param (param_docs its) = JNull
    \<or> find_decreases_param (param_docs its) \<in> set (map (JStr \<circ> fst) (param_names its))"
proof -
  have "find_decreases_param ps = JNull \<or> find_decreases_param ps \<in> set (map (\<lambda>p. jget p ''name'') ps)" for ps
    by (induction ps) auto
  then show ?thesis by (simp only: param_names_docs [symmetric])
qed

lemma parse_params_names:
  assumes "parse_params ps acc env seen = Inr (acc', env')"
  shows "env' = rev (map (\<lambda>p. jget p ''name'') ps) @ env"
  using assms
proof (induction ps arbitrary: acc env seen)
  case (Cons p ps)
  then show ?case by (auto simp: jgetr_def split: if_split_asm)
qed simp

lemma mapr_map: "mapr f (map g xs) = mapr (\<lambda>x. f (g x)) xs"
  by (induction xs) simp_all

text \<open>The parameters as \<open>parse_params\<close> reads them.\<close>

lemma mapr_identity:
  assumes "mapr f xs = Inr ys" and "\<And>x y. x \<in> set xs \<Longrightarrow> f x = Inr y \<Longrightarrow> h y = x"
  shows "map h ys = xs"
  using assms by (induction xs arbitrary: ys) auto

lemma type_from_to_json_Inr: "type_from_json (type_to_json t) = Inr t' \<Longrightarrow> t' = t"
proof (induction t arbitrary: t')
  case (FunType ts r)
  note D = FunType.prems [simplified, unfolded type_from_json.simps [of "JObj kvs" for kvs], simplified Let_def, simplified]
  from D obtain ts' r' where t': "t' = FunType ts' r'" "mapr type_from_json (map type_to_json ts) = Inr ts'"
    "type_from_json (type_to_json r) = Inr r'"
    by (auto split: if_split_asm)
  from t'(2) have "mapr (\<lambda>t. type_from_json (type_to_json t)) ts = Inr ts'" by (simp add: mapr_map)
  then have "map id ts' = ts" by (rule mapr_identity) (use FunType.IH(1) in auto)
  then have "ts' = ts" by simp
  with t' FunType.IH(2) show ?case by simp
qed (auto simp: type_from_json.simps [of "JObj kvs" for kvs])

lemma parse_params_types:
  assumes "parse_params (param_docs its) acc env seen = Inr (acc', env')"
  shows "map p_typ acc' = map p_typ acc @ map snd its"
  using assms
proof (induction its arbitrary: acc env seen)
  case Nil
  then show ?case by (simp add: param_docs_def)
next
  case (Cons it its)
  obtain i t where it: "it = (i, t)" by fastforce
  from Cons.prems obtain t' env1 seen1 n where "type_from_json (type_to_json t) = Inr t'"
    "parse_params (param_docs its) (acc @ [\<lparr>p_name = n, p_typ = t'\<rparr>]) env1 seen1 = Inr (acc', env')"
    by (auto simp: it param_docs_def param_json_def gen_type_json split: if_split_asm)
  with Cons.IH type_from_to_json_Inr show ?case by (fastforce simp: it)
qed

text \<open>What \<open>parse_definition\<close> makes of a candidate.\<close>

lemma parse_candidate:
  assumes "parse_definition (candidate_json name (param_docs its) T body) = Inr d"
  obtains env where "env = rev (map (JStr \<circ> fst) (param_names its))" "distinct env"
    "map (\<lambda>p. JStr (p_name p)) (d_params d) = rev env" "length (d_params d) = length env"
    "parse_term body env = Inr (d_body d)" "d_name d = name"
    "t_kind (d_term d) = JStr ''structural''" "t_decreases (d_term d) = find_decreases_param (param_docs its)"
    "map p_typ (d_params d) = map snd its" "d_ret d = T"
proof -
  have docs: "the_list (jor (JList (param_docs its)) (JList [])) = param_docs its" by (simp add: jor_def)
  from assms obtain ps env where pp: "parse_params (param_docs its) [] [] [] = Inr (ps, env)"
    and d: "parse_term body env = Inr (d_body d)" "d_name d = name" "d_params d = ps"
      "t_kind (d_term d) = JStr ''structural''" "t_decreases (d_term d) = find_decreases_param (param_docs its)" "d_ret d = T"
    by (auto simp: gen_type_json parse_definition_def candidate_json_def docs jor_def Let_def
        dest!: type_from_to_json_Inr split: if_split_asm)
  from parse_params_env [OF pp] have e: "map (\<lambda>p. JStr (p_name p)) ps = rev env" "distinct env" by simp_all
  then have "length ps = length env" by (metis length_map length_rev)
  moreover have "env = rev (map (JStr \<circ> fst) (param_names its))"
    using parse_params_names [OF pp] by (simp only: param_names_docs append_Nil2)
  moreover have "map p_typ ps = map snd its" using parse_params_types [OF pp] by simp
  ultimately show thesis using d e by (intro that) simp_all
qed

subsection \<open>Bodies\<close>

lemma set_collect: "set (collect m xs) \<subseteq> set xs"
  by (auto simp: collect_def dest: in_set_takeD)

lemma set_prioritize: "set (prioritize_base_terms typ terms) = set terms"
  by (auto simp: prioritize_base_terms_def)

lemma gen_enumerate_sound: "x \<in> set (gen_enumerate_terms G typ vs fs m ex) \<Longrightarrow> gen_term vs fs ex typ x"
  using set_collect by (fastforce simp: gen_enumerate_terms_def dest: enum_terms_sound app_terms_gen split: if_split_asm)

lemma recursive_bodies_sound:
  assumes "recursive_bodies G symbol typ params fs vs = Inr bodies" and "x \<in> set bodies"
  obtains dec ht tt base step where "find_decreases_param params = dec" "dec \<noteq> JNull"
    "x = match_list_json (the_str dec) ''h'' ''t'' base step" "gen_term vs fs [] typ base"
    "gen_term ([(''h'', ht), (''t'', tt)] @ vs) fs [recursive_call symbol params dec ''t''] typ step"
proof -
  let ?dec = "find_decreases_param params"
  from assms have dec: "?dec \<noteq> JNull" by (auto simp: recursive_bodies_def split: if_split_asm)
  with assms obtain ht tt where "x \<in> set (collect (eg_max_candidates G)
      (map (\<lambda>(base, step). match_list_json (the_str ?dec) ''h'' ''t'' base step)
        (List.product (prioritize_base_terms typ (gen_enumerate_terms G typ vs fs 3 []))
          (gen_enumerate_terms G typ ([(''h'', ht), (''t'', tt)] @ vs) fs (eg_max_size G)
            [recursive_call symbol params ?dec ''t'']))))"
    by (auto simp: recursive_bodies_def Let_def)
  then obtain base step where "x = match_list_json (the_str ?dec) ''h'' ''t'' base step"
    "base \<in> set (gen_enumerate_terms G typ vs fs 3 [])"
    "step \<in> set (gen_enumerate_terms G typ ([(''h'', ht), (''t'', tt)] @ vs) fs (eg_max_size G)
       [recursive_call symbol params ?dec ''t''])"
    using set_collect by (fastforce simp: set_prioritize)
  with dec show thesis using that [OF refl] gen_enumerate_sound by blast
qed

lemma enumerate_bodies_sound:
  assumes "enumerate_bodies G symbol typ (param_docs its) fs = Inr bodies" and "x \<in> set bodies"
  obtains (plain) "gen_term (param_names its) fs [] typ x"
  | (recursive) dec ht tt base step where "find_decreases_param (param_docs its) = dec" "dec \<noteq> JNull"
    "x = match_list_json (the_str dec) ''h'' ''t'' base step" "gen_term (param_names its) fs [] typ base"
    "gen_term ([(''h'', ht), (''t'', tt)] @ param_names its) fs [recursive_call symbol (param_docs its) dec ''t''] typ step"
proof -
  from assms(1) obtain rec where rec: "recursive_bodies G symbol typ (param_docs its) fs (param_names its) = Inr rec"
    and "set bodies \<subseteq> set rec \<union> set (gen_enumerate_terms G typ (param_names its) fs (eg_max_size G) [])"
    by (auto simp: enumerate_bodies_def param_types_docs split: if_split_asm)
  with assms(2) consider "x \<in> set rec" | "x \<in> set (gen_enumerate_terms G typ (param_names its) fs (eg_max_size G) [])"
    by blast
  then show thesis
  proof cases
    case 1
    from rec this recursive show thesis by (rule recursive_bodies_sound)
  next
    case 2
    then show thesis by (intro plain gen_enumerate_sound)
  qed
qed

subsection \<open>Every candidate passes the termination check\<close>

lemma parse_match_list_json:
  "parse_term (match_list_json dec ''h'' ''t'' base step) env = Inr k \<longleftrightarrow>
     (\<exists>i n c. list_index env (JStr dec) = Some i \<and> parse_term base env = Inr n
       \<and> parse_term step ([JStr ''t'', JStr ''h''] @ env) = Inr c \<and> k = MatchList (Var (int i)) n c)"
  by (auto simp: match_list_json_def parse_term.simps [of "JObj kvs" for kvs] parse_gen_json Let_def
      split: option.split_asm)

lemma list_index_rev:
  assumes "distinct xs" and "list_index xs x = Some i"
  shows "list_index (rev xs) x = Some (length xs - 1 - i)"
proof -
  from list_index_Some [OF assms(2)] have i: "i < length xs" "xs ! i = x" by simp_all
  then have "rev xs ! (length xs - 1 - i) = x" by (simp add: rev_nth)
  then show ?thesis using list_index_nth [of "rev xs" "length xs - 1 - i"] assms(1) i by simp
qed

text \<open>The recursive call, read below the binders of the match.\<close>

lemma parse_recursive_call:
  assumes "dec = JStr s"
  shows "\<exists>ks. parse_term (recursive_call symbol (param_docs its) dec ''t'')
        ([JStr ''t'', JStr ''h''] @ rev (map (JStr \<circ> fst) (param_names its))) = Inr (App (Sym symbol) ks)
      \<and> length ks = length its \<and> (\<forall>k \<in> set ks. \<exists>i. k = Var i)
      \<and> (\<forall>i < length its. fst (param_names its ! i) = s \<longrightarrow> ks ! i = Var 0)"
proof -
  let ?env = "[JStr ''t'', JStr ''h''] @ rev (map (JStr \<circ> fst) (param_names its))"
  let ?arg = "\<lambda>n. if n = s then var_json ''t'' else var_json n"
  let ?k = "\<lambda>n. if n = s then Var 0 else Var (int (the (list_index ?env (JStr n))))"
  have call: "recursive_call symbol (param_docs its) dec ''t'' = app_json symbol (map (?arg \<circ> fst) (param_names its))"
    by (simp add: recursive_call_def assms param_docs_def param_names_def param_json_def split_beta comp_def cong: if_cong)
  have "parse_term (?arg n) ?env = Inr (?k n)" if "n \<in> fst ` set (param_names its)" for n
  proof -
    have "JStr n \<in> set ?env" using that by auto
    then obtain i where "list_index ?env (JStr n) = Some i" using list_index_None [of ?env "JStr n"] by blast
    then show ?thesis by (simp add: parse_gen_json split: option.split)
  qed
  then have "mapr ((\<lambda>x. parse_term x ?env) \<circ> ?arg) (map fst (param_names its)) = Inr (map ?k (map fst (param_names its)))"
    by (intro mapr_all_Inr) auto
  then have "parse_term (recursive_call symbol (param_docs its) dec ''t'') ?env
    = Inr (App (Sym symbol) (map ?k (map fst (param_names its))))"
    unfolding call parse_gen_json(14) by (simp add: mapr_map comp_def)
  then show ?thesis by (intro exI conjI) (auto simp: param_names_def)
qed

lemma recursive_call_walks:
  assumes "pos < length ks" and "ks ! pos = Var 0" and "\<forall>k \<in> set ks. \<exists>i. k = Var i"
  shows "\<exists>f. term_walk name pos (App (Sym name) ks) dec (Some 0) found = Inr f"
proof -
  have "term_walk_list name pos ks dec (Some 0) f = Inr f" for f
    using assms(3) by (induction ks) auto
  with assms(1,2) show ?thesis by (intro exI [of _ True]) (simp add: check_self_call_def)
qed

lemma candidate_terminates:
  assumes "parse_definition (candidate_json name (param_docs its) T body) = Inr d"
    and "enumerate_bodies G name T (param_docs its) fs = Inr bodies" and "body \<in> set bodies"
    and "name \<notin> fst ` set fs"
  shows "check_termination d = Inr ()"
  using assms(1)
proof (rule parse_candidate)
  fix env
  assume env: "env = rev (map (JStr \<circ> fst) (param_names its))" "distinct env"
    and names: "map (\<lambda>p. JStr (p_name p)) (d_params d) = rev env" "length (d_params d) = length env"
    and body: "parse_term body env = Inr (d_body d)" and d: "d_name d = name"
    and kind: "t_kind (d_term d) = JStr ''structural''"
    and dec: "t_decreases (d_term d) = find_decreases_param (param_docs its)"
  have scope: "JStr ` fst ` set (param_names its) \<subseteq> set env" by (auto simp: env(1))
  let ?dec = "find_decreases_param (param_docs its)"
  have check: "check_termination d = (if ?dec = JNull then if has_rec_walk name (d_body d)
        then Inl (TerminationError ''recursive definition missing decreases_param'') else Inr ()
      else case list_index (rev env) ?dec of None \<Rightarrow> Inl (TerminationError ''decreases_param is not a parameter'')
        | Some pos \<Rightarrow> bindr (term_walk name pos (d_body d) (int (length env) - 1 - int pos) None False) (\<lambda>_. Inr ()))"
    by (simp add: check_termination_def dec kind names d has_recursive_call_def Let_def split: option.split)
  obtain pos where pos: "?dec = JNull \<or> list_index (rev env) ?dec = Some pos"
    using find_decreases_param_docs [of its] list_index_None [of "rev env" ?dec] by (auto simp: env(1))
  from assms(2,3) show ?thesis
  proof (cases rule: enumerate_bodies_sound)
    case plain
    from gen_parses [OF this scope, of "{}"] body have b: "built {} (fst ` set fs) (d_body d)" by simp
    have "\<exists>f. term_walk name pos (d_body d) (int (length env) - 1 - int pos) None False = Inr f"
      by (rule built_walks [OF b assms(4)]) simp
    with built_no_call [OF b assms(4)] pos show ?thesis by (auto simp: check)
  next
    case (recursive dec' ht tt base step)
    then obtain s where s: "dec' = JStr s" using find_decreases_param_docs [of its] by auto
    from recursive body obtain i n c where i: "list_index env (JStr s) = Some i" and n: "parse_term base env = Inr n"
      and c: "parse_term step ([JStr ''t'', JStr ''h''] @ env) = Inr c" and k: "d_body d = MatchList (Var (int i)) n c"
      by (auto simp: parse_match_list_json s)
    from pos recursive(1,2) s have p: "list_index (rev env) (JStr s) = Some pos" by simp
    then have lt: "pos < length env" and nth: "rev env ! pos = JStr s" using list_index_Some by fastforce+
    have i_pos: "int i = int (length env) - 1 - int pos"
    proof -
      have "list_index (rev (rev env)) (JStr s) = Some (length (rev env) - 1 - pos)"
        using env(2) p by (intro list_index_rev) simp_all
      with i lt show ?thesis by simp
    qed
    obtain ks where ks: "parse_term (recursive_call name (param_docs its) dec' ''t'') ([JStr ''t'', JStr ''h''] @ env)
        = Inr (App (Sym name) ks)" "length ks = length its" "\<forall>k \<in> set ks. \<exists>i. k = Var i"
      "\<forall>i < length its. fst (param_names its ! i) = s \<longrightarrow> ks ! i = Var 0"
      using parse_recursive_call [OF s] unfolding env(1) by blast
    have len: "length env = length its" by (simp add: env(1) param_names_def)
    with nth lt have "fst (param_names its ! pos) = s" by (simp add: env(1) param_names_def)
    with ks(2-4) lt len have call: "\<forall>found. \<exists>f. term_walk name pos (App (Sym name) ks) m (Some 0) found = Inr f" for m
      by (intro allI recursive_call_walks) simp_all
    from gen_parses [OF recursive(4) scope, of "{}"] n have bn: "built {} (fst ` set fs) n" by simp
    have "JStr ` fst ` set ([(''h'', ht), (''t'', tt)] @ param_names its) \<subseteq> set ([JStr ''t'', JStr ''h''] @ env)"
      using scope by auto
    from gen_parses [OF recursive(5) this, of "{App (Sym name) ks}"] c ks(1)
    have bc: "built {App (Sym name) ks} (fst ` set fs) c" by simp
    obtain f where f: "term_walk name pos n (int i) None False = Inr f"
      using built_walks [OF bn assms(4), where dec = "int i" and allowed = None and found = False] by auto
    obtain f' where "term_walk name pos c (int i + 2) (Some 0) f = Inr f'"
      using built_walks [OF bc assms(4)] call by blast
    with f have "term_walk name pos (d_body d) (int i) None False = Inr f'" by (simp add: k)
    with recursive(1,2) s p show ?thesis by (simp add: check i_pos)
  qed
qed

subsection \<open>Types of the generated terms\<close>

text \<open>The types whose terms the checker can type without being told the type.\<close>

fun inferable :: "ktype \<Rightarrow> bool" where
  "inferable (ListType e) = False"
| "inferable (OptionType e) = False"
| "inferable (PairType l r) = (inferable l \<and> inferable r)"
| "inferable _ = True"

definition typed_as :: "json list \<Rightarrow> ktype list \<Rightarrow> sym_types \<Rightarrow> ktype \<Rightarrow> json \<Rightarrow> bool" where
  "typed_as env \<Gamma> ST T x \<longleftrightarrow> (\<exists>k. parse_term x env = Inr k \<and> typecheck_term k \<Gamma> ST (Some T) = Inr T
     \<and> (inferable T \<longrightarrow> typecheck_term k \<Gamma> ST None = Inr T))"

lemma typecheck_args_all2:
  "list_all2 (\<lambda>T k. typecheck_term k \<Gamma> ST (Some T) = Inr T) Ts ks \<Longrightarrow> typecheck_args ks Ts \<Gamma> ST = Inr ()"
  by (induction Ts ks rule: list_all2_induct) auto

lemma prim_sig_inferable: "prim_sig op = Some (ts, R) \<Longrightarrow> hashable op \<and> inferable R \<and> (\<forall>t \<in> set ts. inferable t)"
proof (cases op)
  case (JStr s)
  assume "prim_sig op = Some (ts, R)"
  then have "ts = [IntType, IntType] \<or> ts = [BoolType, BoolType] \<or> ts = [BoolType]" "R = IntType \<or> R = BoolType"
    unfolding prim_sig_def by (simp_all split: if_split_asm)
  with JStr show ?thesis by auto
qed (simp_all add: prim_sig_def)

lemma gen_typed:
  assumes "gen_term vs fs [] T x"
    and vs: "\<And>n t. (n, t) \<in> set vs \<Longrightarrow> \<exists>i. list_index env (JStr n) = Some i \<and> py_index \<Gamma> (int i) = Some t"
    and fs: "\<And>n t. (n, t) \<in> set fs \<Longrightarrow> ST n = Some t"
    and pairs: "\<forall>t \<in> set (pair_types_in_env vs fs). inferable t"
  shows "typed_as env \<Gamma> ST T x"
  using assms(1)
proof induction
  case (base x T)
  then show ?case
  proof (cases rule: base_terms_cases)
    case (var n)
    from vs [OF var(1)] obtain i where "list_index env (JStr n) = Some i" "py_index \<Gamma> (int i) = Some T" by blast
    with var(2) show ?thesis by (simp add: typed_as_def parse_gen_json del: py_index_of_nat)
  next
    case (sym n)
    with fs show ?thesis by (auto simp: typed_as_def parse_gen_json)
  qed (simp_all add: typed_as_def parse_gen_json)
next
  case (prim2 op A R x y)
  with prim_sig_inferable [OF prim2(1)] show ?case by (auto simp: typed_as_def parse_gen_json)
next
  case (not x)
  then show ?case by (auto simp: typed_as_def parse_gen_json prim_sig_def)
next
  case (app name Ts R xs)
  from app(2) have "list_all2 (\<lambda>T x. \<exists>k. parse_term x env = Inr k \<and> typecheck_term k \<Gamma> ST (Some T) = Inr T) Ts xs"
    by (rule list_all2_mono) (auto simp: typed_as_def)
  from mapr_built [OF this] obtain ks where ks: "mapr (\<lambda>x. parse_term x env) xs = Inr ks"
    "list_all2 (\<lambda>T k. typecheck_term k \<Gamma> ST (Some T) = Inr T) Ts ks" by blast
  with typecheck_args_all2 [OF ks(2)] fs [OF app(1)] list_all2_lengthD [OF ks(2)] show ?case
    by (auto simp: typed_as_def parse_gen_json)
next
  case (fst_of L R x)
  with pairs show ?case by (fastforce simp: typed_as_def parse_gen_json)
next
  case (snd_of L R x)
  with pairs show ?case by (fastforce simp: typed_as_def parse_gen_json)
qed (auto simp: typed_as_def parse_gen_json)

text \<open>A candidate without recursion has the type it declares.\<close>

lemma candidate_typed:
  assumes "parse_definition (candidate_json name (param_docs its) T body) = Inr d"
    and "gen_term (param_names its) fs [] T body"
    and "\<And>n t. (n, t) \<in> set fs \<Longrightarrow> ST n = Some t"
    and "\<forall>t \<in> set (pair_types_in_env (param_names its) fs). inferable t"
  shows "d_ret d = T \<and> typecheck_definition d ST = Inr T"
  using assms(1)
proof (rule parse_candidate)
  fix env
  assume env: "env = rev (map (JStr \<circ> fst) (param_names its))" "distinct env"
    and body: "parse_term body env = Inr (d_body d)" and types: "map p_typ (d_params d) = map snd its" and ret: "d_ret d = T"
  have "\<exists>i. list_index env (JStr n) = Some i \<and> py_index (rev (map snd its)) (int i) = Some t"
    if nt: "(n, t) \<in> set (param_names its)" for n t
  proof -
    from nt obtain j where j: "j < length its" "param_names its ! j = (n, t)"
      by (auto simp: in_set_conv_nth param_names_def)
    let ?i = "length its - 1 - j"
    have len: "length env = length its" by (simp add: env(1) param_names_def)
    have "env ! ?i = JStr n" using j by (simp add: env(1) rev_nth param_names_def split_beta)
    then have "list_index env (JStr n) = Some ?i" using list_index_nth [OF env(2), of ?i] j(1) len by simp
    moreover have "snd (its ! j) = t" using j by (auto simp: param_names_def split_beta)
    then have "rev (map snd its) ! ?i = t" using j(1) by (simp add: rev_nth)
    ultimately show ?thesis using j(1) by auto
  qed
  from gen_typed [OF assms(2) this assms(3,4)] body have "typecheck_term (d_body d) (rev (map snd its)) ST (Some T) = Inr T"
    by (simp add: typed_as_def)
  then show ?thesis by (simp add: typecheck_definition_def types ret)
qed

subsection \<open>Selection\<close>

text \<open>The key of a candidate: its size and its outputs on the sample domain.\<close>

definition behaviour :: "hash_fn \<Rightarrow> enum_generator \<Rightarrow> defs \<Rightarrow> val list list \<Rightarrow> candidate \<Rightarrow> int res \<times> string option" where
  "behaviour H G env_defs domain c = (term_size (jget (cd_definition c) ''body''),
     output_hash H (cd_definition c) env_defs domain (eg_step_limit G))"

definition selected :: "hash_fn \<Rightarrow> enum_generator \<Rightarrow> task_spec \<Rightarrow> defs \<Rightarrow> val list list \<Rightarrow> (json \<Rightarrow> json) \<Rightarrow> json list \<Rightarrow> candidate \<Rightarrow> bool" where
  "selected H G task env_defs domain mk bodies c \<longleftrightarrow> cd_definition c \<in> mk ` set bodies
     \<and> output_hash H (cd_definition c) env_defs domain (eg_step_limit G) \<noteq> None
     \<and> set (cd_declared_deps c) \<subseteq> set (ts_allowed_deps task) - {ts_new_symbol task}"

lemma select_candidates_ok:
  assumes "select_candidates H G task mk env_defs domain srefs bodies cs seen st = Inr (cs', st')"
    and "\<And>b. jget (mk b) ''body'' = b" and "set bodies \<subseteq> set all"
    and "\<forall>c \<in> set cs. selected H G task env_defs domain mk all c"
    and "map (behaviour H G env_defs domain) cs = map (\<lambda>(z, h). (Inr z, Some h)) seen" and "distinct seen"
    and "int (length cs) < max 1 (eg_max_candidates G)"
  shows "(\<forall>c \<in> set cs'. selected H G task env_defs domain mk all c)
    \<and> distinct (map (behaviour H G env_defs domain) cs') \<and> int (length cs') \<le> max 1 (eg_max_candidates G)"
  using assms
proof (induction bodies arbitrary: cs seen st)
  case Nil
  then have "distinct (map (behaviour H G env_defs domain) cs)"
    by (auto simp: distinct_map inj_on_def)
  with Nil show ?case by simp
next
  case (Cons body bodies)
  from Cons.prems(3) have rest: "set bodies \<subseteq> set all" and in_all: "body \<in> set all" by auto
  note IH = Cons.IH [OF _ Cons.prems(2) rest]
  from Cons.prems(1) obtain sz where sz: "term_size body = Inr sz" by auto
  show ?case
  proof (cases "output_hash H (mk body) env_defs domain (eg_step_limit G)")
    case None
    with Cons.prems(1) sz obtain st1 where
      "select_candidates H G task mk env_defs domain srefs bodies cs seen st1 = Inr (cs', st')"
      by (auto simp: Let_def)
    then show ?thesis by (rule IH [OF _ Cons.prems(4-7)])
  next
    case (Some h)
    show ?thesis
    proof (cases "(sz, h) \<in> set seen")
      case True
      with Cons.prems(1) sz Some obtain st1 where
        "select_candidates H G task mk env_defs domain srefs bodies cs seen st1 = Inr (cs', st')"
        by (auto simp: Let_def)
      then show ?thesis by (rule IH [OF _ Cons.prems(4-7)])
    next
      case False
      from Cons.prems(1) sz Some False obtain refs where "collect_sym_refs body = Inr refs"
        by (auto simp: Let_def)
      define c where "c = \<lparr>cd_definition = mk body, cd_declared_deps = sort (filter
        (\<lambda>s. s \<noteq> ts_new_symbol task \<and> s \<in> set (ts_allowed_deps task)) (set_update refs srefs))\<rparr>"
      have sel: "\<forall>c' \<in> set (cs @ [c]). selected H G task env_defs domain mk all c'"
        using Cons.prems(4) in_all Some by (auto simp: selected_def c_def)
      have keys: "map (behaviour H G env_defs domain) (cs @ [c]) = map (\<lambda>(z, h). (Inr z, Some h)) (seen @ [(sz, h)])"
      proof -
        have "behaviour H G env_defs domain c = (Inr sz, Some h)"
          using sz Some by (simp add: behaviour_def c_def Cons.prems(2))
        with Cons.prems(5) show ?thesis by simp
      qed
      have dist: "distinct (seen @ [(sz, h)])" using Cons.prems(6) False by simp
      show ?thesis
      proof (cases "int (length (cs @ [c])) \<ge> eg_max_candidates G")
        case True
        with Cons.prems(1) sz Some False \<open>collect_sym_refs body = Inr refs\<close> have cs': "cs' = cs @ [c]"
          by (simp add: c_def Let_def)
        have "distinct (map (behaviour H G env_defs domain) cs')"
          unfolding cs' keys using dist by (auto simp: distinct_map inj_on_def)
        with sel Cons.prems(7) show ?thesis by (simp add: cs')
      next
        case False': False
        with Cons.prems(1) sz Some False \<open>collect_sym_refs body = Inr refs\<close>
        obtain st1 where
          "select_candidates H G task mk env_defs domain srefs bodies (cs @ [c]) (seen @ [(sz, h)]) st1 = Inr (cs', st')"
          by (auto simp: c_def Let_def)
        from IH [OF this sel keys dist] False' show ?thesis by simp
      qed
    qed
  qed
qed

lemma candidate_json_body: "jget (candidate_json n ps T b) ''body'' = b"
  by (simp add: candidate_json_def)

lemma output_hash_parses: "output_hash H j D ds L \<noteq> None \<Longrightarrow> \<exists>d. parse_definition j = Inr d"
  by (auto simp: output_hash_def split: sum.split_asm)

lemma set_order_symbols: "set (order_symbols G symbols) = set symbols"
  by (simp add: order_symbols_def)

lemma generate_candidates:
  assumes "generate H G task env_symbols env_defs = Inr (cs, st)"
  obtains its bodies domain where "params_for_type (ts_typ task) = param_docs its" "map snd its = arg_types (ts_typ task)"
    "enumerate_bodies G (ts_new_symbol task) (return_type (ts_typ task)) (param_docs its)
       (order_symbols G (filter (\<lambda>(n, t). n \<in> set (ts_allowed_deps task)) env_symbols)) = Inr bodies"
    "\<forall>c \<in> set cs. selected H G task env_defs domain
       (candidate_json (ts_new_symbol task) (param_docs its) (return_type (ts_typ task))) bodies c"
    "distinct (map (behaviour H G env_defs domain) cs)" "int (length cs) \<le> max 1 (eg_max_candidates G)"
    "sample_domain task (param_docs its) (filter (\<lambda>(n, t). n \<in> set (ts_allowed_deps task)) env_symbols) = Inr domain"
proof -
  obtain its where its: "params_for_type (ts_typ task) = param_docs its" "map snd its = arg_types (ts_typ task)"
    using params_for_type_docs by blast
  from assms obtain bodies domain srefs st0 where
    bodies: "enumerate_bodies G (ts_new_symbol task) (return_type (ts_typ task)) (param_docs its)
       (order_symbols G (filter (\<lambda>(n, t). n \<in> set (ts_allowed_deps task)) env_symbols)) = Inr bodies"
    and domain: "sample_domain task (param_docs its) (filter (\<lambda>(n, t). n \<in> set (ts_allowed_deps task)) env_symbols) = Inr domain"
    and sel: "select_candidates H G task (candidate_json (ts_new_symbol task) (param_docs its) (return_type (ts_typ task)))
        env_defs domain srefs bodies [] [] \<lparr>gs_bodies_enumerated = 0, gs_deduped = 0, gs_output_fail = 0,
          gs_min_size = None, gs_max_size = None, gs_candidates_returned = 0\<rparr> = Inr (cs, st0)"
    by (auto simp: generate_def its(1) Let_def)
  from select_candidates_ok [OF sel candidate_json_body order_refl] show thesis
    using that [OF its bodies _ _ _ domain] by simp
qed

text \<open>The candidates parse, carry the requested name and pass the termination check.\<close>

lemma generate_terminates:
  assumes "generate H G task env_symbols env_defs = Inr (cs, st)"
    and "ts_new_symbol task \<notin> set (ts_allowed_deps task)" and "c \<in> set cs"
  shows "\<exists>d. parse_definition (cd_definition c) = Inr d \<and> d_name d = ts_new_symbol task
    \<and> d_ret d = return_type (ts_typ task) \<and> check_termination d = Inr ()"
  using assms(1)
proof (rule generate_candidates)
  fix its bodies domain
  let ?fs = "order_symbols G (filter (\<lambda>(n, t). n \<in> set (ts_allowed_deps task)) env_symbols)"
  assume bodies: "enumerate_bodies G (ts_new_symbol task) (return_type (ts_typ task)) (param_docs its) ?fs = Inr bodies"
    and sel: "\<forall>c \<in> set cs. selected H G task env_defs domain
       (candidate_json (ts_new_symbol task) (param_docs its) (return_type (ts_typ task))) bodies c"
  from sel assms(3) obtain body where body: "body \<in> set bodies"
    "cd_definition c = candidate_json (ts_new_symbol task) (param_docs its) (return_type (ts_typ task)) body"
    and "output_hash H (cd_definition c) env_defs domain (eg_step_limit G) \<noteq> None"
    by (auto simp: selected_def)
  then obtain d where d: "parse_definition (cd_definition c) = Inr d" using output_hash_parses by blast
  have "ts_new_symbol task \<notin> fst ` set ?fs" using assms(2) by (auto simp: set_order_symbols)
  from candidate_terminates [OF d [unfolded body(2)] bodies body(1) this] have "check_termination d = Inr ()" .
  moreover from d [unfolded body(2)] have "d_name d = ts_new_symbol task" "d_ret d = return_type (ts_typ task)"
    by (auto elim: parse_candidate)
  ultimately show ?thesis using d by blast
qed

text \<open>Without a list parameter there is no recursion: the candidates have the type asked for.\<close>

lemma generate_typed:
  assumes "generate H G task env_symbols env_defs = Inr (cs, st)" and "c \<in> set cs"
    and "find_decreases_param (params_for_type (ts_typ task)) = JNull"
    and "\<And>n t. (n, t) \<in> set env_symbols \<Longrightarrow> ST n = Some t"
    and "\<forall>t \<in> snd ` set env_symbols \<union> set (arg_types (ts_typ task)). is_pair_type t \<longrightarrow> inferable t"
  shows "\<exists>d. parse_definition (cd_definition c) = Inr d
    \<and> typecheck_definition d ST = Inr (return_type (ts_typ task)) \<and> d_ret d = return_type (ts_typ task)"
  using assms(1)
proof (rule generate_candidates)
  fix its bodies domain
  let ?fs = "order_symbols G (filter (\<lambda>(n, t). n \<in> set (ts_allowed_deps task)) env_symbols)"
  assume its: "params_for_type (ts_typ task) = param_docs its" "map snd its = arg_types (ts_typ task)"
    and bodies: "enumerate_bodies G (ts_new_symbol task) (return_type (ts_typ task)) (param_docs its) ?fs = Inr bodies"
    and sel: "\<forall>c \<in> set cs. selected H G task env_defs domain
       (candidate_json (ts_new_symbol task) (param_docs its) (return_type (ts_typ task))) bodies c"
  from sel assms(2) obtain body where body: "body \<in> set bodies"
    "cd_definition c = candidate_json (ts_new_symbol task) (param_docs its) (return_type (ts_typ task)) body"
    and "output_hash H (cd_definition c) env_defs domain (eg_step_limit G) \<noteq> None"
    by (auto simp: selected_def)
  then obtain d where d: "parse_definition (cd_definition c) = Inr d" using output_hash_parses by blast
  from bodies body(1) have gen: "gen_term (param_names its) ?fs [] (return_type (ts_typ task)) body"
    by (rule enumerate_bodies_sound) (use assms(3) its in simp_all)
  have "snd ` set (param_names its) = set (arg_types (ts_typ task))"
    by (auto simp: param_names_def its(2) [symmetric] image_image split_beta)
  moreover have "snd ` set ?fs \<subseteq> snd ` set env_symbols" by (auto simp: set_order_symbols)
  ultimately have types: "snd ` set (param_names its) \<union> snd ` set ?fs
      \<subseteq> snd ` set env_symbols \<union> set (arg_types (ts_typ task))"
    by (simp only: Un_subset_iff Un_upper2 le_supI1 simp_thms)
  have pairs: "\<forall>t \<in> set (pair_types_in_env (param_names its) ?fs). inferable t"
  proof
    fix t
    assume "t \<in> set (pair_types_in_env (param_names its) ?fs)"
    with pair_types_sound [of "param_names its" ?fs] have "is_pair_type t" "t \<in> snd ` set (param_names its) \<union> snd ` set ?fs"
      by (auto simp only: mem_Collect_eq dest: subsetD)
    from this(1) subsetD [OF types this(2)] assms(5) show "inferable t" by simp
  qed
  have "d_ret d = return_type (ts_typ task) \<and> typecheck_definition d ST = Inr (return_type (ts_typ task))"
    by (rule candidate_typed [OF d [unfolded body(2)] gen _ pairs])
      (use assms(4) in \<open>simp add: set_order_symbols\<close>)
  with d show ?thesis by blast
qed

end
