(* ===== verification/Gen_Behaviour.thy ===== *)
theory Gen_Behaviour
  imports Gen_Enum_Props
begin

section \<open>What the generator guarantees\<close>

text \<open>The properties of the candidates, applied to two small tasks.\<close>

subsection \<open>Two tasks\<close>

text \<open>A predicate on integers, and a predicate on lists that is only run on the empty list.\<close>

definition small_generator :: "int \<Rightarrow> int \<Rightarrow> enum_generator" where
  "small_generator max_size max_candidates = \<lparr>eg_max_size = max_size, eg_max_candidates = max_candidates,
     eg_step_limit = 50, eg_mode = ''baseline'', eg_symbol_priority = []\<rparr>"

definition int_task :: task_spec where
  "int_task = \<lparr>ts_new_symbol = ''f'', ts_typ = FunType [IntType] BoolType, ts_specs = [], ts_allowed_deps = [''g'']\<rparr>"

definition list_task :: task_spec where
  "list_task = \<lparr>ts_new_symbol = ''f'', ts_typ = FunType [ListType BoolType] BoolType,
     ts_specs = [JObj [(''kind'', JStr ''forall''), (''domain'', JObj [(''list_max_len'', JInt 0)])]],
     ts_allowed_deps = []\<rparr>"

definition length_of :: "string \<Rightarrow> string" where
  "length_of s = s"

definition int_run :: "(candidate list \<times> gen_stats) res" where
  "int_run = generate length_of (small_generator 2 3) int_task [(''g'', FunType [IntType] BoolType)] (\<lambda>_. None)"

definition list_run :: "(candidate list \<times> gen_stats) res" where
  "list_run = generate length_of (small_generator 3 9) list_task [] (\<lambda>_. None)"

definition bodies_of :: "(candidate list \<times> gen_stats) res \<Rightarrow> json list" where
  "bodies_of r = (case r of Inl e \<Rightarrow> [] | Inr (cs, st) \<Rightarrow> map (\<lambda>c. jget (cd_definition c) ''body'') cs)"

definition self_call :: json where
  "self_call = app_json ''f'' [var_json ''t'']"

definition guessed :: "json \<Rightarrow> json" where
  "guessed step = match_list_json ''p0'' ''h'' ''t'' (bool_json False) step"

lemma int_run_bodies:
  "bodies_of int_run = [bool_json False, bool_json True, prim_json ''not'' [bool_json False]]"
  by code_simp

lemma list_run_bodies:
  "bodies_of list_run = map guessed [self_call, bool_json False, prim_json ''not'' [self_call],
     prim_json ''not'' [bool_json False], prim_json ''eq_int'' [self_call, self_call]]"
  by code_simp

definition candidates_of :: "(candidate list \<times> gen_stats) res \<Rightarrow> candidate list" where
  "candidates_of r = (case r of Inl e \<Rightarrow> [] | Inr (cs, st) \<Rightarrow> cs)"

lemma run_Inr: "bodies_of r \<noteq> [] \<Longrightarrow> \<exists>st. r = Inr (candidates_of r, st)"
  by (cases r) (auto simp: bodies_of_def candidates_of_def)

lemma int_run_Inr:
  "\<exists>st. generate length_of (small_generator 2 3) int_task [(''g'', FunType [IntType] BoolType)] (\<lambda>_. None)
    = Inr (candidates_of int_run, st)"
  using run_Inr [of int_run] by (simp add: int_run_bodies) (simp add: int_run_def)

lemma list_run_Inr:
  "\<exists>st. generate length_of (small_generator 3 9) list_task [] (\<lambda>_. None) = Inr (candidates_of list_run, st)"
  using run_Inr [of list_run] by (simp add: list_run_bodies) (simp add: list_run_def)

subsection \<open>Properties\<close>

text \<open>C38: every candidate parses, has the requested name and return type and passes the structural
  recursion check, so what is proposed never fails there: recursive calls are on the tail only.\<close>

theorem candidates_pass_termination:
  assumes "generate H G task env_symbols env_defs = Inr (cs, st)"
    and "ts_new_symbol task \<notin> set (ts_allowed_deps task)"
  shows "cd_definition ` set cs \<subseteq> {j. \<exists>d. parse_definition j = Inr d \<and> d_name d = ts_new_symbol task
    \<and> d_ret d = return_type (ts_typ task) \<and> check_termination d = Inr ()}"
  using generate_terminates [OF assms] by blast

theorem candidates_pass_termination_witness:
  "cd_definition ` set (candidates_of list_run) \<subseteq> {j. \<exists>d. parse_definition j = Inr d \<and> d_name d = ''f''
    \<and> d_ret d = BoolType \<and> check_termination d = Inr ()}"
proof -
  obtain st where "generate length_of (small_generator 3 9) list_task [] (\<lambda>_. None)
    = Inr (candidates_of list_run, st)" using list_run_Inr by blast
  from candidates_pass_termination [OF this] show ?thesis
    by (simp add: list_task_def return_type_def)
qed

text \<open>The candidates are pairwise different in size or in their outputs on the sample domain, there
  are no more of them than the configured number (one, when that is not positive), and their
  declared dependencies are allowed ones.\<close>

theorem candidates_distinct:
  assumes "generate H G task env_symbols env_defs = Inr (cs, st)"
  shows "\<exists>domain. sample_domain task (params_for_type (ts_typ task))
        (filter (\<lambda>(n, t). n \<in> set (ts_allowed_deps task)) env_symbols) = Inr domain
    \<and> distinct (map (behaviour H G env_defs domain) cs) \<and> int (length cs) \<le> max 1 (eg_max_candidates G)
    \<and> (\<Union>c \<in> set cs. set (cd_declared_deps c)) \<subseteq> set (ts_allowed_deps task) - {ts_new_symbol task}"
  using assms
proof (rule generate_candidates)
  fix its bodies domain
  assume "params_for_type (ts_typ task) = param_docs its"
    "distinct (map (behaviour H G env_defs domain) cs)" "int (length cs) \<le> max 1 (eg_max_candidates G)"
    "sample_domain task (param_docs its) (filter (\<lambda>(n, t). n \<in> set (ts_allowed_deps task)) env_symbols) = Inr domain"
    and sel: "\<forall>c \<in> set cs. selected H G task env_defs domain
       (candidate_json (ts_new_symbol task) (param_docs its) (return_type (ts_typ task))) bodies c"
  moreover from sel have "(\<Union>c \<in> set cs. set (cd_declared_deps c)) \<subseteq> set (ts_allowed_deps task) - {ts_new_symbol task}"
    unfolding selected_def by blast
  ultimately show ?thesis by auto
qed

theorem candidates_distinct_witness:
  "\<exists>domain. distinct (map (behaviour length_of (small_generator 2 3) (\<lambda>_. None) domain) (candidates_of int_run))
    \<and> int (length (candidates_of int_run)) \<le> 3
    \<and> (\<Union>c \<in> set (candidates_of int_run). set (cd_declared_deps c)) \<subseteq> {''g''}"
proof -
  obtain st where run: "generate length_of (small_generator 2 3) int_task [(''g'', FunType [IntType] BoolType)]
    (\<lambda>_. None) = Inr (candidates_of int_run, st)" using int_run_Inr by blast
  have task: "set (ts_allowed_deps int_task) - {ts_new_symbol int_task} = {''g''}"
    "max 1 (eg_max_candidates (small_generator 2 3)) = 3" by (auto simp: int_task_def small_generator_def)
  from candidates_distinct [OF run] show ?thesis
    unfolding task by blast
qed

text \<open>C39: for a type without a list parameter, whose pair types hold no lists or options, every
  candidate type checks at the type that was asked for.\<close>

theorem plain_candidates_typed:
  assumes "generate H G task env_symbols env_defs = Inr (cs, st)"
    and "find_decreases_param (params_for_type (ts_typ task)) = JNull"
    and "list_all (\<lambda>(n, t). ST n = Some t) env_symbols"
    and "\<forall>t \<in> snd ` set env_symbols \<union> set (arg_types (ts_typ task)). is_pair_type t \<longrightarrow> inferable t"
  shows "cd_definition ` set cs \<subseteq> {j. \<exists>d. parse_definition j = Inr d
    \<and> typecheck_definition d ST = Inr (return_type (ts_typ task)) \<and> d_ret d = return_type (ts_typ task)}"
proof -
  have "ST n = Some t" if "(n, t) \<in> set env_symbols" for n t
    using assms(3) that by (auto simp: list_all_iff)
  then have "\<exists>d. parse_definition (cd_definition c) = Inr d
      \<and> typecheck_definition d ST = Inr (return_type (ts_typ task)) \<and> d_ret d = return_type (ts_typ task)"
    if "c \<in> set cs" for c
    by (rule generate_typed [OF assms(1) that assms(2) _ assms(4)])
  then show ?thesis by blast
qed

theorem plain_candidates_typed_witness:
  "cd_definition ` set (candidates_of int_run) \<subseteq> {j. \<exists>d. parse_definition j = Inr d
    \<and> typecheck_definition d [''g'' \<mapsto> FunType [IntType] BoolType] = Inr BoolType \<and> d_ret d = BoolType}"
proof -
  obtain st where run: "generate length_of (small_generator 2 3) int_task [(''g'', FunType [IntType] BoolType)]
    (\<lambda>_. None) = Inr (candidates_of int_run, st)" using int_run_Inr by blast
  have ret: "return_type (ts_typ int_task) = BoolType" by (simp add: int_task_def return_type_def)
  show ?thesis
    unfolding ret [symmetric]
    by (rule plain_candidates_typed [OF run])
      (simp_all add: int_task_def arg_types_def param_json_def return_type_def)
qed


end
