(* ===== verification/Sealed_Crypto.thy ===== *)
theory Sealed_Crypto
  imports Sealed_Config
begin

section \<open>Keys and signatures (sealed/crypto.py)\<close>

text \<open>
  The Ed25519 operations of the \<open>cryptography\<close> package are outside the repository: \<open>signer\<close>
  carries the two the sealed worker needs, on raw bytes. The base64 coding around them is
  modelled. Proved: decoding an encoded byte string gives it back.
\<close>

record signer =
  sg_public :: "string \<Rightarrow> string res"
  sg_sign :: "string \<Rightarrow> string \<Rightarrow> string res"

subsection \<open>Base64\<close>

definition b64_alphabet :: string where
  "b64_alphabet = ''ABCDEFGHIJKLMNOPQRSTUVWXYZabcdefghijklmnopqrstuvwxyz0123456789+/''"

definition b64_digit :: "nat \<Rightarrow> char" where
  "b64_digit n = b64_alphabet ! n"

definition b64_value :: "char \<Rightarrow> nat option" where
  "b64_value c = list_index b64_alphabet c"

fun b64encode :: "string \<Rightarrow> string" where
  "b64encode [] = []"
| "b64encode [a] =
     (let x = of_char a in [b64_digit (x div 4), b64_digit (x mod 4 * 16), CHR ''='', CHR ''=''])"
| "b64encode [a, b] =
     (let x = of_char a; y = of_char b in
      [b64_digit (x div 4), b64_digit (x mod 4 * 16 + y div 16), b64_digit (y mod 16 * 4), CHR ''=''])"
| "b64encode (a # b # c # s) =
     (let x = of_char a; y = of_char b; z = of_char c in
      b64_digit (x div 4) # b64_digit (x mod 4 * 16 + y div 16) # b64_digit (y mod 16 * 4 + z div 64)
        # b64_digit (z mod 64) # b64encode s)"

definition b64_error :: "'a res" where
  "b64_error = Inl (ValueError ''binascii.Error'')"

text \<open>The padding closes the text. \<open>binascii.Error\<close> is a \<open>ValueError\<close>, as is the
  \<open>UnicodeEncodeError\<close> of a character that is not ASCII.\<close>

fun b64decode :: "string \<Rightarrow> string res" where
  "b64decode [] = Inr []"
| "b64decode (a # b # c # d # s) =
     (case (b64_value a, b64_value b) of
        (Some p, Some q) \<Rightarrow>
          if c = CHR ''='' \<and> d = CHR ''='' \<and> s = [] then Inr [char_of (p * 4 + q div 16)]
          else (case b64_value c of
              None \<Rightarrow> b64_error
            | Some r \<Rightarrow>
                if d = CHR ''='' \<and> s = []
                then Inr [char_of (p * 4 + q div 16), char_of (q mod 16 * 16 + r div 4)]
                else (case b64_value d of
                    None \<Rightarrow> b64_error
                  | Some t \<Rightarrow> bindr (b64decode s) (\<lambda>bytes.
                      Inr (char_of (p * 4 + q div 16) # char_of (q mod 16 * 16 + r div 4)
                        # char_of (r mod 4 * 64 + t) # bytes))))
      | _ \<Rightarrow> b64_error)"
| "b64decode _ = b64_error"

lemma b64_alphabet_distinct: "distinct b64_alphabet"
  by (simp add: b64_alphabet_def)

lemma b64_value_digit: "n < 64 \<Longrightarrow> b64_value (b64_digit n) = Some n"
  unfolding b64_value_def b64_digit_def
  by (rule list_index_nth [OF b64_alphabet_distinct]) (simp add: b64_alphabet_def)

lemma b64_digit_pad: "n < 64 \<Longrightarrow> b64_digit n \<noteq> CHR ''=''"
  using b64_value_digit [of n] by (auto simp: b64_value_def b64_alphabet_def)

lemma of_char_256: "of_char (c :: char) < (256 :: nat)"
  by (rule nat_of_char_less_256)

text \<open>The bytes a group of digits is cut into.\<close>

lemma join_split: "(r :: nat) < m \<Longrightarrow> (q * m + r) div m = q \<and> (q * m + r) mod m = r"
  by simp

lemma b64_ranges:
  fixes x y z :: nat
  assumes "x < 256" "y < 256" "z < 256"
  shows "x div 4 < 64" "x mod 4 * 16 < 64" "x mod 4 * 16 + y div 16 < 64" "y mod 16 * 4 < 64"
    "y mod 16 * 4 + z div 64 < 64" "z mod 64 < 64"
proof -
  have "x mod 4 \<le> 3" "y mod 16 \<le> 15" using mod_less_divisor [of 4 x] mod_less_divisor [of 16 y] by linarith+
  moreover have "x div 4 < 64" "y div 16 < 16" "z div 64 < 4" using assms by linarith+
  ultimately show "x div 4 < 64" "x mod 4 * 16 < 64" "x mod 4 * 16 + y div 16 < 64" "y mod 16 * 4 < 64"
    "y mod 16 * 4 + z div 64 < 64" "z mod 64 < 64" by simp_all
qed

lemma b64_bytes:
  fixes x y z :: nat
  assumes "x < 256" "y < 256" "z < 256"
  shows "x div 4 * 4 + x mod 4 * 16 div 16 = x" "x div 4 * 4 + (x mod 4 * 16 + y div 16) div 16 = x"
    "(x mod 4 * 16 + y div 16) mod 16 * 16 + y mod 16 * 4 div 4 = y"
    "(x mod 4 * 16 + y div 16) mod 16 * 16 + (y mod 16 * 4 + z div 64) div 4 = y"
    "(y mod 16 * 4 + z div 64) mod 4 * 64 + z mod 64 = z"
proof -
  have "y div 16 < 16" "z div 64 < 4" using assms by linarith+
  then have "(x mod 4 * 16 + y div 16) div 16 = x mod 4" "(x mod 4 * 16 + y div 16) mod 16 = y div 16"
    "(y mod 16 * 4 + z div 64) div 4 = y mod 16" "(y mod 16 * 4 + z div 64) mod 4 = z div 64"
    using join_split by blast+
  then show "x div 4 * 4 + x mod 4 * 16 div 16 = x" "x div 4 * 4 + (x mod 4 * 16 + y div 16) div 16 = x"
    "(x mod 4 * 16 + y div 16) mod 16 * 16 + y mod 16 * 4 div 4 = y"
    "(x mod 4 * 16 + y div 16) mod 16 * 16 + (y mod 16 * 4 + z div 64) div 4 = y"
    "(y mod 16 * 4 + z div 64) mod 4 * 64 + z mod 64 = z" by (simp_all del: mult.commute)
qed

lemma b64_char:
  "char_of (of_char a div 4 * 4 + of_char a mod 4 * 16 div (16 :: nat)) = a"
  "char_of (of_char a div 4 * 4 + (of_char a mod 4 * 16 + of_char b div 16) div (16 :: nat)) = a"
  "char_of ((of_char a mod 4 * 16 + of_char b div 16) mod 16 * 16 + of_char b mod 16 * 4 div (4 :: nat)) = b"
  "char_of ((of_char a mod 4 * 16 + of_char b div 16) mod 16 * 16
     + (of_char b mod 16 * 4 + of_char c div 64) div (4 :: nat)) = b"
  "char_of ((of_char b mod 16 * 4 + of_char c div 64) mod 4 * 64 + of_char c mod (64 :: nat)) = c"
  using b64_bytes [where x = "of_char a" and y = "of_char b" and z = "of_char c", OF of_char_256 of_char_256 of_char_256] by (simp_all only: char_of_char)

lemma b64_value_digits:
  "b64_value (b64_digit (of_char a div 4)) = Some (of_char a div 4)"
  "b64_value (b64_digit (of_char a mod 4 * 16)) = Some (of_char a mod 4 * 16)"
  "b64_value (b64_digit (of_char a mod 4 * 16 + of_char b div 16)) = Some (of_char a mod 4 * 16 + of_char b div 16)"
  "b64_value (b64_digit (of_char b mod 16 * 4)) = Some (of_char b mod 16 * 4)"
  "b64_value (b64_digit (of_char b mod 16 * 4 + of_char c div 64)) = Some (of_char b mod 16 * 4 + of_char c div 64)"
  "b64_value (b64_digit (of_char c mod 64)) = Some (of_char c mod 64)"
  using b64_ranges [where x = "of_char a" and y = "of_char b" and z = "of_char c", OF of_char_256 of_char_256 of_char_256] by (simp_all only: b64_value_digit)

lemma b64_no_pad:
  "b64_digit (of_char b mod 16 * 4) \<noteq> CHR ''=''"
  "b64_digit (of_char b mod 16 * 4 + of_char c div 64) \<noteq> CHR ''=''" "b64_digit (of_char c mod 64) \<noteq> CHR ''=''"
  using b64_ranges [where x = "of_char b" and y = "of_char b" and z = "of_char c", OF of_char_256 of_char_256 of_char_256] by (simp_all only: b64_digit_pad not_False_eq_True)

lemma b64_roundtrip: "b64decode (b64encode s) = Inr s"
  by (induction s rule: b64encode.induct)
    (simp_all only: b64encode.simps b64decode.simps Let_def b64_value_digits b64_no_pad b64_char
      option.case prod.case simp_thms if_True if_False bindr.simps)

lemma b64encode_Nil [simp]: "b64encode s = [] \<longleftrightarrow> s = []"
  by (cases s rule: b64encode.cases) (simp_all add: Let_def)

subsection \<open>Keys\<close>

definition crypto_available :: "externals \<Rightarrow> bool" where
  "crypto_available X = x_crypto_available X"

definition sign_bytes :: "externals \<Rightarrow> signer \<Rightarrow> string \<Rightarrow> string \<Rightarrow> string res" where
  "sign_bytes X S private_key_b64 payload =
     (if \<not> x_crypto_available X then Inl (RuntimeError ''cryptography is required for signing'')
      else bindr (b64decode private_key_b64) (\<lambda>private_bytes.
           bindr (sg_sign S private_bytes payload) (\<lambda>signature. Inr (b64encode signature))))"

definition public_key_from_private :: "externals \<Rightarrow> signer \<Rightarrow> string \<Rightarrow> string res" where
  "public_key_from_private X S private_key_b64 =
     (if \<not> x_crypto_available X then Inl (RuntimeError ''cryptography is required for public key derivation'')
      else bindr (b64decode private_key_b64) (\<lambda>private_bytes.
           bindr (sg_public S private_bytes) (\<lambda>public_bytes. Inr (b64encode public_bytes))))"

definition key_id_from_public_key :: "externals \<Rightarrow> string \<Rightarrow> string res" where
  "key_id_from_public_key X public_key_b64 =
     bindr (b64decode public_key_b64) (\<lambda>public_bytes. Inr (take 16 (x_blake3 X public_bytes)))"

text \<open>\<open>generate_keypair_from_seed\<close>: the seed bytes are the digest whose hexadecimal form is \<open>x_blake3\<close>.\<close>

fun unhex :: "string \<Rightarrow> string" where
  "unhex (a # b # s) = char_of (16 * the (hex_val a) + the (hex_val b)) # unhex s"
| "unhex _ = []"

definition generate_keypair_from_seed :: "externals \<Rightarrow> signer \<Rightarrow> string \<Rightarrow> (string \<times> string) res" where
  "generate_keypair_from_seed X S seed =
     (if \<not> x_crypto_available X then Inl (RuntimeError ''cryptography is required for key generation'')
      else let seed_bytes = unhex (x_blake3 X seed) in
        bindr (sg_public S seed_bytes) (\<lambda>public_bytes. Inr (b64encode seed_bytes, b64encode public_bytes)))"

text \<open>The contract of the signature scheme: a signature verifies under the public key of its
  private key, and neither is empty.\<close>

definition signs_verify :: "externals \<Rightarrow> signer \<Rightarrow> bool" where
  "signs_verify X S \<longleftrightarrow> (\<forall>priv pub payload sig.
     sg_public S priv = Inr pub \<longrightarrow> sg_sign S priv payload = Inr sig \<longrightarrow>
       pub \<noteq> [] \<and> sig \<noteq> [] \<and> x_ed25519_verifies X (b64encode pub) payload (b64encode sig))"

text \<open>A signature made by the holder of a private key verifies under its public key.\<close>

lemma signed_verifies:
  assumes "signs_verify X S" and "sign_bytes X S priv payload = Inr sig"
    and "public_key_from_private X S priv = Inr pub"
  shows "verify_signature X pub payload sig ''ed25519''" and "sig \<noteq> []" and "pub \<noteq> []"
  using assms unfolding signs_verify_def sign_bytes_def public_key_from_private_def verify_signature_def
  by (force split: if_split_asm)+

end
