(* ===== verification/Sealed_Harness.thy ===== *)
theory Sealed_Harness
  imports Sealed_Crypto Kernel_Eval Ledger_Closure
begin

section \<open>Evaluation harnesses (sealed/harnesses/base.py, toy_v1.py, __init__.py)\<close>

text \<open>
  A harness runs the baseline, the candidate and the oracle on random arguments and counts who
  agrees with the oracle. \<open>eval_harness\<close> is the interface of \<open>base.py\<close> with what the sealed
  worker relies on: the differences add up to the difference of the successes, and no count
  exceeds the number of episodes. The toy harness is modelled and interprets it. Its generator
  is Python's \<open>random.Random\<close>: the source uses it through \<open>randint\<close> and \<open>choice\<close>, which draw
  below a bound; \<open>blake2b\<close> is a parameter, too. Artifacts written for an audit are left out.
\<close>

record harness_request =
  hr_eval_cfg :: json
  hr_defs :: "(string \<times> kdef) list"
  hr_baseline :: string
  hr_candidate :: string
  hr_oracle :: string
  hr_seed_key :: string
  hr_int_min :: int
  hr_int_max :: int
  hr_list_max_len :: int
  hr_fun_symbols :: "string list"

record harness_report =
  rp_diffs :: "int list"
  rp_baseline_successes :: int
  rp_candidate_successes :: int
  rp_transcript :: string

record harness =
  hn_hash :: string
  hn_run_episodes :: "harness_request \<Rightarrow> harness_report res"

definition request_episodes :: "harness_request \<Rightarrow> int" where
  "request_episodes q = number_value (jget (hr_eval_cfg q) ''episodes'')"

subsection \<open>What the worker relies on\<close>

locale eval_harness =
  fixes run :: "harness_request \<Rightarrow> harness_report res"
  assumes run_counts: "run q = Inr r \<Longrightarrow> 0 \<le> request_episodes q \<Longrightarrow>
    0 \<le> rp_baseline_successes r \<and> rp_baseline_successes r \<le> request_episodes q
    \<and> 0 \<le> rp_candidate_successes r \<and> rp_candidate_successes r \<le> request_episodes q
    \<and> sum_list (rp_diffs r) = rp_candidate_successes r - rp_baseline_successes r"
begin

lemma diff_sum_bounds:
  "run q = Inr r \<Longrightarrow> 0 \<le> request_episodes q \<Longrightarrow> \<bar>sum_list (rp_diffs r)\<bar> \<le> request_episodes q"
  using run_counts by fastforce

end

subsection \<open>The toy harness\<close>

record 'g random_source =
  rs_seed :: "int \<Rightarrow> 'g"
  rs_below :: "nat \<Rightarrow> 'g \<Rightarrow> nat \<times> 'g"
  rs_blake2b :: "string \<Rightarrow> string"

definition randint :: "'g random_source \<Rightarrow> int \<Rightarrow> int \<Rightarrow> 'g \<Rightarrow> (int \<times> 'g) res" where
  "randint R lo hi g =
     (if hi < lo then Inl (ValueError ''empty range for randrange()'')
      else let (k, g') = rs_below R (nat (hi - lo + 1)) g in Inr (lo + int k, g'))"

fun draw_many :: "nat \<Rightarrow> ('g \<Rightarrow> ('a \<times> 'g) res) \<Rightarrow> 'g \<Rightarrow> ('a list \<times> 'g) res" where
  "draw_many 0 f g = Inr ([], g)"
| "draw_many (Suc n) f g =
     bindr (f g) (\<lambda>(x, g1). bindr (draw_many n f g1) (\<lambda>(xs, g2). Inr (x # xs, g2)))"

fun random_value :: "'g random_source \<Rightarrow> int \<Rightarrow> int \<Rightarrow> int \<Rightarrow> string list \<Rightarrow> ktype \<Rightarrow> 'g \<Rightarrow> (val \<times> 'g) res" where
  "random_value R lo hi len fs IntType g = bindr (randint R lo hi g) (\<lambda>(i, g). Inr (IntVal i, g))"
| "random_value R lo hi len fs BoolType g = bindr (randint R 0 1 g) (\<lambda>(i, g). Inr (BoolVal (i \<noteq> 0), g))"
| "random_value R lo hi len fs (ListType t) g =
     bindr (randint R 0 (max 0 len) g) (\<lambda>(n, g).
     bindr (draw_many (nat n) (random_value R lo hi len fs t) g) (\<lambda>(vs, g). Inr (ListVal vs, g)))"
| "random_value R lo hi len fs (OptionType t) g =
     bindr (randint R 0 1 g) (\<lambda>(i, g).
       if i = 0 then Inr (OptionVal None, g)
       else bindr (random_value R lo hi len fs t g) (\<lambda>(v, g). Inr (OptionVal (Some v), g)))"
| "random_value R lo hi len fs (PairType l r) g =
     bindr (random_value R lo hi len fs l g) (\<lambda>(a, g).
     bindr (random_value R lo hi len fs r g) (\<lambda>(b, g). Inr (PairVal a b, g)))"
| "random_value R lo hi len fs (FunType ts r) g =
     (if fs = [] then Inl (ValueError ''eval fun_symbols required for function arguments'')
      else let (k, g') = rs_below R (length fs) g in Inr (FunVal (fs ! k), g'))"

fun random_args :: "'g random_source \<Rightarrow> int \<Rightarrow> int \<Rightarrow> int \<Rightarrow> string list \<Rightarrow> param list \<Rightarrow> 'g \<Rightarrow> (val list \<times> 'g) res" where
  "random_args R lo hi len fs [] g = Inr ([], g)"
| "random_args R lo hi len fs (p # ps) g =
     bindr (random_value R lo hi len fs (p_typ p) g) (\<lambda>(v, g1).
     bindr (random_args R lo hi len fs ps g1) (\<lambda>(vs, g2). Inr (v # vs, g2)))"

text \<open>\<open>int.from_bytes(b, "big")\<close> and \<open>n.to_bytes(8, "big")\<close>.\<close>

definition bytes_value :: "string \<Rightarrow> int" where
  "bytes_value bs = foldl (\<lambda>n c. 256 * n + int (of_char c)) 0 bs"

definition to_bytes8 :: "int \<Rightarrow> string res" where
  "to_bytes8 n =
     (if n < 0 \<or> 2 ^ 64 \<le> n then Inl (OverflowError ''int too big to convert'')
      else Inr (map (\<lambda>i. char_of (nat (n div 256 ^ i mod 256))) (rev [0..<8])))"

definition episode_seed :: "'g random_source \<Rightarrow> string \<Rightarrow> string \<Rightarrow> string \<Rightarrow> string \<Rightarrow> int \<Rightarrow> int res" where
  "episode_seed R seed_key baseline candidate oracle episode =
     bindr (to_bytes8 episode) (\<lambda>e.
       Inr (bytes_value (rs_blake2b R (seed_key @ utf8 baseline @ utf8 candidate @ utf8 oracle @ e))))"

text \<open>\<open>EvalError\<close> and \<open>ValueError\<close> are caught, any other exception escapes.\<close>

definition safe_apply :: "string \<Rightarrow> val list \<Rightarrow> defs \<Rightarrow> int \<Rightarrow> val option res" where
  "safe_apply symbol args D max_steps =
     (case eval_apply (Suc (nat max_steps)) max_steps D (FunVal symbol) args 0 of
        Inr (v, s) \<Rightarrow> Inr (Some v)
      | Inl (EvalError m) \<Rightarrow> Inr None
      | Inl (ValueError m) \<Rightarrow> Inr None
      | Inl e \<Rightarrow> Inl e)"

text \<open>One episode: whether the baseline and the candidate agree with the oracle.\<close>

definition toy_episode :: "'g random_source \<Rightarrow> harness_request \<Rightarrow> kdef \<Rightarrow> int \<Rightarrow> (bool \<times> bool) res" where
  "toy_episode R q oracle_def episode =
     (let max_steps = number_value (jget (hr_eval_cfg q) ''max_steps''); D = map_of (hr_defs q) in
      bindr (episode_seed R (hr_seed_key q) (hr_baseline q) (hr_candidate q) (hr_oracle q) episode) (\<lambda>seed.
      bindr (random_args R (hr_int_min q) (hr_int_max q) (hr_list_max_len q) (hr_fun_symbols q)
               (d_params oracle_def) (rs_seed R seed)) (\<lambda>(args, g).
      bindr (safe_apply (hr_oracle q) args D max_steps) (\<lambda>oracle_val.
      bindr (safe_apply (hr_baseline q) args D max_steps) (\<lambda>baseline_val.
      bindr (safe_apply (hr_candidate q) args D max_steps) (\<lambda>candidate_val.
        Inr (oracle_val \<noteq> None \<and> baseline_val = oracle_val,
             oracle_val \<noteq> None \<and> candidate_val = oracle_val)))))))"

definition count_of :: "bool \<Rightarrow> int" where
  "count_of b = (if b then 1 else 0)"

fun toy_loop :: "'g random_source \<Rightarrow> harness_request \<Rightarrow> kdef \<Rightarrow> int list \<Rightarrow> int list \<Rightarrow> int \<Rightarrow> int
    \<Rightarrow> (int list \<times> int \<times> int) res" where
  "toy_loop R q od [] diffs bs cs = Inr (diffs, bs, cs)"
| "toy_loop R q od (e # es) diffs bs cs =
     bindr (toy_episode R q od e) (\<lambda>(b, c).
       toy_loop R q od es (diffs @ [count_of c - count_of b]) (bs + count_of b) (cs + count_of c))"

definition encode_diffs :: "int list \<Rightarrow> string" where
  "encode_diffs diffs = join [CHR 0x0A] (map int_str diffs)"

definition toy_run_episodes :: "'g random_source \<Rightarrow> harness_request \<Rightarrow> harness_report res" where
  "toy_run_episodes R q =
     (case map_of (hr_defs q) (hr_oracle q) of
        None \<Rightarrow> Inl (KeyError (hr_oracle q))
      | Some oracle_def \<Rightarrow>
          bindr (toy_loop R q oracle_def [0..request_episodes q - 1] [] 0 0) (\<lambda>(diffs, bs, cs).
            Inr \<lparr>rp_diffs = diffs, rp_baseline_successes = bs, rp_candidate_successes = cs,
              rp_transcript = encode_diffs diffs\<rparr>))"

definition toy_harness_id :: string where
  "toy_harness_id = ''toy-harness-v1''"

definition toy_harness :: "'g random_source \<Rightarrow> harness" where
  "toy_harness R = \<lparr>hn_hash = ''harness-hash'', hn_run_episodes = toy_run_episodes R\<rparr>"

text \<open>The registry: the toy harness and the others, which are a parameter.\<close>

definition harness_registry :: "'g random_source \<Rightarrow> (string \<Rightarrow> harness option) \<Rightarrow> string \<Rightarrow> harness option" where
  "harness_registry R others = others(toy_harness_id \<mapsto> toy_harness R)"

definition get_harness :: "(string \<Rightarrow> harness option) \<Rightarrow> string \<Rightarrow> harness res" where
  "get_harness registry harness_id =
     (case registry harness_id of None \<Rightarrow> Inl (ValueError ''unknown eval harness: '') | Some h \<Rightarrow> Inr h)"

subsection \<open>The toy harness keeps the contract\<close>

lemma toy_loop_counts:
  "toy_loop R q od es ds bs cs = Inr (ds', bs', cs') \<Longrightarrow>
     bs \<le> bs' \<and> bs' \<le> bs + int (length es) \<and> cs \<le> cs' \<and> cs' \<le> cs + int (length es)
     \<and> sum_list ds' - sum_list ds = (cs' - cs) - (bs' - bs) \<and> length ds' = length ds + length es"
proof (induction es arbitrary: ds bs cs)
  case Nil
  then show ?case by simp
next
  case (Cons e es)
  then obtain b c where "toy_loop R q od es (ds @ [count_of c - count_of b]) (bs + count_of b) (cs + count_of c)
      = Inr (ds', bs', cs')" by auto
  from Cons.IH [OF this] show ?case by (simp add: count_of_def split: if_split_asm)
qed

interpretation toy: eval_harness "toy_run_episodes R" for R
proof
  fix q r
  assume "toy_run_episodes R q = Inr r" and "0 \<le> request_episodes q"
  then show "0 \<le> rp_baseline_successes r \<and> rp_baseline_successes r \<le> request_episodes q
      \<and> 0 \<le> rp_candidate_successes r \<and> rp_candidate_successes r \<le> request_episodes q
      \<and> sum_list (rp_diffs r) = rp_candidate_successes r - rp_baseline_successes r"
    by (auto simp: toy_run_episodes_def split: option.split_asm dest!: toy_loop_counts)
qed

end
