(* ===== verification/Sealed_Worker.thy ===== *)
theory Sealed_Worker
  imports Sealed_Harness Ledger_Verifier
begin

section \<open>Issuing certificates (sealed/worker.py)\<close>

text \<open>
  The worker runs a harness on a request and signs what it reports. \<open>main\<close> reads files and
  environment variables and calls \<open>issue_stat_cert\<close>; it is left out.
\<close>

record worker_request =
  wr_sealed :: sealed_config
  wr_baseline :: string
  wr_candidate :: string
  wr_oracle :: string
  wr_episodes :: json
  wr_eval :: json
  wr_fun_symbols :: "string list"

fun fill_fields :: "(string \<times> string) list \<Rightarrow> json \<Rightarrow> json res" where
  "fill_fields [] cfg = Inr cfg"
| "fill_fields ((field, v) # fs) cfg =
     (if jhas cfg field \<and> jget cfg field \<noteq> JStr v then Inl (ValueError ''eval mismatch'')
      else fill_fields fs (obj_set cfg field (JStr v)))"

definition fill_eval_config :: "json \<Rightarrow> sealed_config \<Rightarrow> json res" where
  "fill_eval_config cfg sc =
     fill_fields [(''eval_harness_id'', sc_eval_harness_id sc), (''eval_harness_hash'', sc_eval_harness_hash sc),
       (''eval_suite_hash'', sc_eval_suite_hash sc)] cfg"

text \<open>The checks before the index is opened.\<close>

definition read_request :: "json \<Rightarrow> json \<Rightarrow> worker_request res" where
  "read_request data spec =
     bindr (jgetr spec ''kind'') (\<lambda>kind.
     if kind \<noteq> JStr ''stat_cert'' then Inl (ValueError ''request must be stat_cert spec'')
     else let concept = jget spec ''concept'' in
       if \<not> is_str concept \<or> concept = JStr [] then Inl (ValueError ''stat_cert concept missing'')
       else
         bindr (load_sealed_config data False) (\<lambda>sc.
         let baseline = jget spec ''baseline_symbol''; candidate = jget spec ''candidate_symbol'';
             cfg = jor (jget spec ''eval'') (JObj []) in
         if \<not> is_obj cfg then Inl (ValueError ''eval must be object'')
         else let oracle = jget cfg ''oracle_symbol''; episodes = jget cfg ''episodes'';
                  max_steps = jget cfg ''max_steps'' in
           if \<not> is_str baseline \<or> \<not> is_str candidate \<or> \<not> is_str oracle
           then Inl (ValueError ''baseline/candidate/oracle must be strings'')
           else if \<not> is_number episodes \<or> number_value episodes \<le> 0
           then Inl (ValueError ''eval episodes must be positive int'')
           else if \<not> is_number max_steps \<or> number_value max_steps \<le> 0
           then Inl (ValueError ''eval max_steps must be positive int'')
           else if \<not> is_bool (jget cfg ''paired_seeds'') then Inl (ValueError ''eval paired_seeds must be bool'')
           else
             bindr (fill_eval_config cfg sc) (\<lambda>full.
             let raw = jget full ''fun_symbols'' in
             if raw \<noteq> JNull \<and> (\<not> is_list raw \<or> (\<exists>f \<in> set (the_list raw). \<not> is_str f))
             then Inl (ValueError ''eval fun_symbols must be a list of strings'')
             else Inr \<lparr>wr_sealed = sc, wr_baseline = the_str baseline, wr_candidate = the_str candidate,
               wr_oracle = the_str oracle, wr_episodes = episodes, wr_eval = full,
               wr_fun_symbols = map the_str (the_list raw)\<rparr>)))"

definition require_matching_types :: "kdef \<Rightarrow> kdef \<Rightarrow> kdef \<Rightarrow> unit res" where
  "require_matching_types baseline candidate oracle =
     (if definition_type baseline \<noteq> definition_type candidate \<or> definition_type baseline \<noteq> definition_type oracle
      then Inl (ValueError ''type mismatch: '') else Inr ())"

text \<open>The definitions of the three symbols, from the ledger and the candidate's module.\<close>

definition worker_defs :: "ledger_files \<Rightarrow> index_db \<Rightarrow> worker_request \<Rightarrow> (string \<times> kdef) list
    \<Rightarrow> (string \<times> kdef) list res" where
  "worker_defs F db q extra_defs =
     (let names = [wr_baseline q, wr_candidate q, wr_oracle q]; symbols = filter (symbol_exists db) names in
      bindr (if symbols = [] then Inr [] else load_definitions F db symbols) (\<lambda>defs0.
      let defs = dict_update defs0 extra_defs in
      case (map_of defs (wr_baseline q), map_of defs (wr_candidate q), map_of defs (wr_oracle q)) of
        (Some b, Some c, Some r) \<Rightarrow> bindr (require_matching_types b c r) (\<lambda>_. Inr defs)
      | _ \<Rightarrow> Inl (ValueError ''symbol not found: '')))"

text \<open>\<open>except Exception\<close>, with what the model cannot say left as it is.\<close>

definition any_error :: "string \<Rightarrow> 'a res \<Rightarrow> 'a res" where
  "any_error m r = (case r of Inr x \<Rightarrow> Inr x | Inl (Unmodelled u) \<Rightarrow> Inl (Unmodelled u) | Inl e \<Rightarrow> Inl (ValueError m))"

definition stat_round :: "index_db \<Rightarrow> int" where
  "stat_round db = (case get_stat_cert_state db of None \<Rightarrow> 1 | Some (r, a) \<Rightarrow> r)"

text \<open>The schedule a request brings must be that of the settings.\<close>

definition check_risk_schedule :: "json \<Rightarrow> alpha_schedule \<Rightarrow> unit res" where
  "check_risk_schedule risk sched =
     (if \<not> jhas risk ''alpha_schedule'' then Inr ()
      else
        bindr (any_error ''risk alpha_schedule invalid'' (parse_alpha_schedule (jget risk ''alpha_schedule''))) (\<lambda>parsed.
        if as_name parsed \<noteq> as_name sched \<or> as_exponent parsed \<noteq> as_exponent sched
        then Inl (ValueError ''risk alpha_schedule mismatch'')
        else
          bindr (format_decimal (as_coefficient parsed)) (\<lambda>c1.
          bindr (format_decimal (as_coefficient sched)) (\<lambda>c2.
            if c1 \<noteq> c2 then Inl (ValueError ''risk alpha_schedule mismatch'') else Inr ()))))"

definition fill_risk :: "json \<Rightarrow> sealed_config \<Rightarrow> index_db \<Rightarrow> json res" where
  "fill_risk risk0 sc db =
     (let risk = (if risk0 = JNull then JObj [] else risk0); sched = sc_alpha_schedule sc in
      if \<not> is_obj risk then Inl (ValueError ''risk must be object'')
      else
        bindr (alpha_for_round (sc_alpha_total sc) (stat_round db) sched) (\<lambda>alpha_i.
        bindr (format_decimal (as_coefficient sched)) (\<lambda>coefficient.
        bindr (check_risk_schedule risk sched) (\<lambda>_.
        bindr (format_decimal alpha_i) (\<lambda>alpha_text.
        if jhas risk ''alpha_i'' \<and> jget risk ''alpha_i'' \<noteq> JStr alpha_text
        then Inl (ValueError ''risk alpha_i mismatch'')
        else let risk1 = obj_set risk ''alpha_i'' (JStr alpha_text);
                 risk2 = (if jhas risk1 ''evalue_threshold'' then risk1
                          else obj_set risk1 ''evalue_threshold'' (JStr ''1''))
          in Inr (obj_set risk2 ''alpha_schedule'' (JObj [(''name'', JStr (as_name sched)),
               (''exponent'', JInt (as_exponent sched)), (''coefficient'', JStr coefficient)])))))))"

text \<open>The certificate before it is signed.\<close>

definition unsigned_certificate :: "externals \<Rightarrow> signer \<Rightarrow> string \<Rightarrow> worker_request \<Rightarrow> harness_report
    \<Rightarrow> string \<Rightarrow> json res" where
  "unsigned_certificate X S private_key q r signature =
     (let diff_sum = sum_list (rp_diffs r) in
      bindr (hoeffding_mixture_evalue diff_sum (number_value (wr_episodes q))) (\<lambda>evalue.
      bindr (encode_evalue evalue) (\<lambda>encoded.
      bindr (evalue_to_dict encoded) (\<lambda>evalue_json.
      bindr (public_key_from_private X S private_key) (\<lambda>public_key.
      bindr (key_id_from_public_key X public_key) (\<lambda>key_id.
        Inr (JObj [(''evalue_schema_version'', JInt 2), (''n'', wr_episodes q),
          (''baseline_successes'', JInt (rp_baseline_successes r)),
          (''candidate_successes'', JInt (rp_candidate_successes r)), (''diff_sum'', JInt diff_sum),
          (''diff_min'', JInt (- 1)), (''diff_max'', JInt 1), (''evalue'', evalue_json),
          (''transcript_hash'', JStr (x_blake3 X (rp_transcript r))), (''signature'', JStr signature),
          (''signature_scheme'', JStr ''ed25519''), (''key_id'', JStr key_id)])))))))"

definition issued_spec :: "json \<Rightarrow> json \<Rightarrow> json \<Rightarrow> json \<Rightarrow> json" where
  "issued_spec spec cfg risk cert =
     obj_set (obj_set (obj_set spec ''eval'' cfg) ''risk'' risk) ''certificate'' cert"

definition run_and_sign :: "externals \<Rightarrow> signer \<Rightarrow> (string \<Rightarrow> harness option) \<Rightarrow> json \<Rightarrow> ledger_files
    \<Rightarrow> index_db \<Rightarrow> json \<Rightarrow> worker_request \<Rightarrow> string \<Rightarrow> string \<Rightarrow> (string \<times> kdef) list \<Rightarrow> json res" where
  "run_and_sign X S registry data F db spec q private_key seed_key extra_defs =
     bindr (worker_defs F db q extra_defs) (\<lambda>defs.
     bindr (jgetr data ''spec'') (\<lambda>domain0.
     let domain = jor domain0 (JObj []) in
     bindr (if is_obj domain then Inr () else Inl (AttributeError ''get'')) (\<lambda>_.
     bindr (py_int (jget_default domain ''int_min'' (JInt (- 3)))) (\<lambda>int_min.
     bindr (py_int (jget_default domain ''int_max'' (JInt 3))) (\<lambda>int_max.
     bindr (py_int (jget_default domain ''list_max_len'' (JInt 4))) (\<lambda>list_max_len.
     bindr (get_harness registry (the_str (jget (wr_eval q) ''eval_harness_id''))) (\<lambda>harness.
     if JStr (hn_hash harness) \<noteq> jget (wr_eval q) ''eval_harness_hash''
     then Inl (ValueError ''eval_harness_hash mismatch'')
     else
       bindr (hn_run_episodes harness \<lparr>hr_eval_cfg = wr_eval q, hr_defs = defs, hr_baseline = wr_baseline q,
          hr_candidate = wr_candidate q, hr_oracle = wr_oracle q, hr_seed_key = seed_key, hr_int_min = int_min,
          hr_int_max = int_max, hr_list_max_len = list_max_len, hr_fun_symbols = wr_fun_symbols q\<rparr>) (\<lambda>r.
       bindr (unsigned_certificate X S private_key q r '''') (\<lambda>unsigned.
       bindr (fill_risk (jget spec ''risk'') (wr_sealed q) db) (\<lambda>risk.
       bindr (stat_cert_signing_bytes (issued_spec spec (wr_eval q) risk unsigned)) (\<lambda>signing_bytes.
       bindr (sign_bytes X S private_key signing_bytes) (\<lambda>signature.
         Inr (issued_spec spec (wr_eval q) risk (obj_set unsigned ''signature'' (JStr signature)))))))))))))))"

definition issue_stat_cert :: "externals \<Rightarrow> signer \<Rightarrow> (string \<Rightarrow> harness option) \<Rightarrow> json \<Rightarrow> ledger_files
    \<Rightarrow> index_db \<Rightarrow> json \<Rightarrow> string \<Rightarrow> string \<Rightarrow> (string \<times> kdef) list \<Rightarrow> json res \<times> index_db" where
  "issue_stat_cert X S registry data F db spec private_key seed_key extra_defs =
     (case read_request data spec of
        Inl e \<Rightarrow> (Inl e, db)
      | Inr q \<Rightarrow>
          (case init_schema db of
             Inl e \<Rightarrow> (Inl e, db)
           | Inr db1 \<Rightarrow> (run_and_sign X S registry data F db1 spec q private_key seed_key extra_defs, db1)))"

text \<open>The candidate's definitions, from a module file.\<close>

definition load_candidate_defs :: "json \<Rightarrow> (string \<times> kdef) list res" where
  "load_candidate_defs payload =
     (let module = (if is_obj payload \<and> jhas payload ''payload'' then jget payload ''payload'' else payload) in
      if \<not> is_obj module then Inl (ValueError ''candidate module payload must be an object'')
      else let defs_raw = jor (jget module ''definitions'') (JList []) in
        if \<not> is_list defs_raw then Inl (ValueError ''candidate module definitions must be a list'')
        else add_parsed (the_list defs_raw) [])"

end
