(* ===== verification/Sealed_Roundtrip.thy ===== *)
theory Sealed_Roundtrip
  imports Sealed_Evalue Json_Roundtrip
begin

section \<open>Reading back what is printed: decimals and e-values\<close>

text \<open>
  \<open>format_decimal\<close> and \<open>format_mantissa\<close> print a fixed number of places. Proved: the printed
  text parses to the quantized number, whose text is the same; an encoded e-value written by
  \<open>to_dict\<close> is canonical for \<open>parse_evalue\<close> and parses to itself.
\<close>

subsection \<open>Digits\<close>

lemma nat_str_length: "length (nat_str n) = (if n < 10 then 1 else Suc (length (nat_str (n div 10))))"
  by (simp add: nat_str.simps [of n])

lemma ndigits_less: "n < 10 ^ ndigits n"
proof (induction n rule: nat_str.induct)
  case (1 n)
  show ?case
  proof (cases "n < 10")
    case True
    then show ?thesis by (simp add: ndigits_def nat_str_length [of n])
  next
    case False
    with 1 have "n div 10 < 10 ^ ndigits (n div 10)" by simp
    then have "n < 10 * 10 ^ ndigits (n div 10)" by linarith
    with False show ?thesis by (simp add: ndigits_def nat_str_length [of n])
  qed
qed

lemma ndigits_ge: "0 < n \<Longrightarrow> 10 ^ (ndigits n - 1) \<le> n"
proof (induction n rule: nat_str.induct)
  case (1 n)
  show ?case
  proof (cases "n < 10")
    case True
    with 1 show ?thesis by (simp add: ndigits_def nat_str_length [of n])
  next
    case False
    with 1 have "10 ^ (ndigits (n div 10) - 1) \<le> n div 10" by simp
    then have "10 * 10 ^ (ndigits (n div 10) - 1) \<le> n" by linarith
    moreover have "0 < ndigits (n div 10)" by (simp add: ndigits_def)
    ultimately show ?thesis using False
      by (simp add: ndigits_def nat_str_length [of n] flip: power_Suc)
  qed
qed

lemma ndigits_pos [simp]: "0 < ndigits n"
  by (simp add: ndigits_def)

lemma ndigits_le_iff: "0 < k \<Longrightarrow> ndigits n \<le> k \<longleftrightarrow> n < 10 ^ k"
proof
  assume k: "0 < k" "n < 10 ^ k"
  show "ndigits n \<le> k"
  proof (rule ccontr)
    assume "\<not> ndigits n \<le> k"
    then have "k \<le> ndigits n - 1" by simp
    then have "(10 :: nat) ^ k \<le> 10 ^ (ndigits n - 1)" by (intro power_increasing) auto
    moreover have "0 < n"
    proof (rule ccontr)
      assume "\<not> 0 < n"
      with \<open>k \<le> ndigits n - 1\<close> k(1) show False by (simp add: ndigits_def nat_str_length)
    qed
    ultimately show False using ndigits_ge [of n] k(2) by linarith
  qed
next
  assume "ndigits n \<le> k"
  then have "(10 :: nat) ^ ndigits n \<le> 10 ^ k" by (intro power_increasing) auto
  with ndigits_less [of n] show "n < 10 ^ k" by linarith
qed

lemma digits_val_zeros: "digits_val (replicate k (CHR ''0'') @ ds) = digits_val ds"
  by (induction k) (simp_all add: digits_val_def)

subsection \<open>Printed decimals parse\<close>

definition plain_char :: "char \<Rightarrow> bool" where
  "plain_char c \<longleftrightarrow> is_digit c \<or> c = CHR ''-'' \<or> c = CHR ''.''"

lemma plain_not_space: "plain_char c \<Longrightarrow> \<not> py_space c"
  by (auto simp: plain_char_def is_digit_def py_space_def Let_def)

lemma plain_not_underscore: "plain_char c \<Longrightarrow> c \<noteq> CHR ''_''"
  by (auto simp: plain_char_def is_digit_def)

lemma plain_lower: "list_all plain_char s \<Longrightarrow> lower s = s"
  by (induction s) (auto simp: lower_def plain_char_def is_digit_def Let_def)

lemma dropWhile_none: "list_all plain_char s \<Longrightarrow> dropWhile py_space s = s"
  by (cases s) (auto simp: plain_not_space)

lemma plain_strip: "list_all plain_char s \<Longrightarrow> strip s = s"
  by (simp add: strip_def dropWhile_none list_all_iff)

lemma plain_filter: "list_all plain_char s \<Longrightarrow> filter (\<lambda>c. c \<noteq> CHR ''_'') s = s"
  by (simp add: filter_id_conv list_all_iff plain_not_underscore)

lemma digit_chars: "is_digit c \<Longrightarrow> c \<noteq> CHR ''-'' \<and> c \<noteq> CHR ''+'' \<and> c \<noteq> CHR ''i'' \<and> c \<noteq> CHR ''n''
    \<and> c \<noteq> CHR ''s'' \<and> c \<noteq> CHR ''.''"
  by (auto simp: is_digit_def)

lemma takeWhile_digits: "list_all is_digit a \<Longrightarrow> takeWhile is_digit (a @ CHR ''.'' # b) = a
    \<and> dropWhile is_digit (a @ CHR ''.'' # b) = CHR ''.'' # b"
  by (induction a) (simp_all add: is_digit_def)

lemma all_digits: "list_all is_digit b \<Longrightarrow> takeWhile is_digit b = b \<and> dropWhile is_digit b = []"
  by (simp add: list_all_iff takeWhile_eq_all_conv dropWhile_eq_Nil_conv)

lemma parse_pointed:
  assumes a: "list_all is_digit a" "a \<noteq> []" and b: "list_all is_digit b"
  shows "parse_decimal ((if s then ''-'' else []) @ a @ ''.'' @ b)
    = Inr (Fin s (digits_val (a @ b)) (- int (length b)))"
proof -
  let ?t = "(if s then ''-'' else []) @ a @ ''.'' @ b" and ?u = "a @ CHR ''.'' # b"
  from a obtain c a' where c: "a = c # a'" "is_digit c" by (cases a) auto
  from a b have plain: "list_all plain_char ?t" by (auto simp: plain_char_def list_all_iff)
  have "lower (filter (\<lambda>c. c \<noteq> CHR ''_'') (strip ?t)) = ?t"
    by (simp only: plain_strip [OF plain] plain_filter [OF plain] plain_lower [OF plain])
  then have sp: "split_sign (lower (filter (\<lambda>c. c \<noteq> CHR ''_'') (strip ?t))) = (s, ?u)"
    using digit_chars [OF c(2)] c(1) by (simp only:) (simp add: split_sign_def)
  have tb: "takeWhile is_digit b = b" "dropWhile is_digit b = []"
    using all_digits [OF b] by blast+
  have ta: "takeWhile is_digit ?u = a" "dropWhile is_digit ?u = CHR ''.'' # b"
    using takeWhile_digits [OF a(1)] by blast+
  have nn: "\<not> starts ''nan'' ?u" "\<not> starts ''snan'' ?u" "?u \<noteq> ''inf''" "?u \<noteq> ''infinity''"
    using digit_chars [OF c(2)] c(1) by (auto simp: starts_def)
  have "starts ''.'' (CHR ''.'' # b)" by (simp add: starts_def)
  then show ?thesis unfolding parse_decimal_def sp
    using a(2) by (simp add: exponent_part_def ta tb nn)
qed

lemma parse_format:
  assumes "e < 0"
  shows "parse_decimal (format_f (Fin s c e)) = Inr (Fin s c e)"
proof -
  define k where "k = nat (- e)"
  define ds where "ds = replicate (k + 1 - ndigits c) (CHR ''0'') @ nat_str c"
  have len: "k < length ds" by (simp add: ds_def ndigits_def)
  have "is_digit (CHR ''0'')" by (simp add: is_digit_def)
  then have dig: "list_all is_digit ds" using nat_str_digits [of c] by (auto simp: ds_def list_all_iff)
  have "list_all is_digit (take (length ds - k) ds)" "list_all is_digit (drop (length ds - k) ds)"
    using dig by (auto simp: list_all_iff dest: in_set_takeD in_set_dropD)
  moreover have "take (length ds - k) ds \<noteq> []" using len by auto
  moreover have "digits_val ds = c" by (simp add: ds_def digits_val_zeros nat_str_val)
  moreover have "int (length (drop (length ds - k) ds)) = - e" using len assms by (simp add: k_def)
  moreover have "format_f (Fin s c e) = (if s then ''-'' else []) @ take (length ds - k) ds @ ''.'' @ drop (length ds - k) ds"
    using assms by (simp add: Let_def k_def ds_def)
  ultimately show ?thesis using parse_pointed by simp
qed

subsection \<open>Formatting is stable\<close>

lemma quantize_Fin: "quantize p r (Fin s c e) qe = Inr d \<Longrightarrow> \<exists>q. d = Fin s q qe"
  by (auto simp: invalid_def Let_def split: if_split_asm)

lemma quantize_again: "ndigits q \<le> p \<Longrightarrow> quantize p r (Fin s q qe) qe = Inr (Fin s q qe)"
  by (simp add: Let_def)

lemma format_decimal_parse:
  assumes "format_decimal d = Inr t"
  shows "\<exists>s q. parse_decimal t = Inr (Fin s q alpha_quant) \<and> format_decimal (Fin s q alpha_quant) = Inr t
    \<and> t \<noteq> []"
proof -
  from assms obtain s c e where d: "d = Fin s c e"
    by (cases d) (auto simp: format_decimal_def invalid_def)
  from assms obtain q where t: "t = format_f (Fin s q alpha_quant)"
    by (auto simp: d format_decimal_def simp del: quantize.simps format_f.simps dest!: quantize_Fin)
  have "format_decimal (Fin s q alpha_quant) = Inr t"
  proof -
    have "ndigits q \<le> max prec (nat (max (adjusted (Fin s q alpha_quant) + 1) 1 + \<bar>alpha_quant\<bar>))"
      using ndigits_pos [of q] by (simp add: alpha_quant_def)
    then show ?thesis unfolding t
      by (simp add: format_decimal_def Let_def quantize_again del: quantize.simps format_f.simps)
  qed
  moreover have "parse_decimal t = Inr (Fin s q alpha_quant)"
    unfolding t by (rule parse_format) (simp add: alpha_quant_def)
  moreover have "t \<noteq> []" using calculation(2) by (auto simp: parse_decimal_def split_sign_def lower_def strip_def
      starts_def invalid_def Let_def)
  ultimately show ?thesis by blast
qed

subsection \<open>Results keep to the precision\<close>

lemma round_off_le: "round_off r c k \<le> c div 10 ^ k + 1"
  by (simp add: round_off_def Let_def split: rounding.split)

lemma round_off_ge: "c div 10 ^ k \<le> round_off r c k"
  by (simp add: round_off_def Let_def split: rounding.split)

lemma div_digits: "ndigits c = p + k \<Longrightarrow> c div 10 ^ k < 10 ^ p"
  using ndigits_less [of c] by (simp add: less_mult_imp_div_less power_add)

lemma in_range_Inr: "in_range d = Inr d' \<Longrightarrow> d' = d"
  by (simp add: in_range_def split: if_split_asm)

lemma fix_prec_digits:
  assumes "fix_prec p (Fin s c e) = Inr d" and "0 < p"
  shows "\<exists>s c e. d = Fin s c e \<and> ndigits c \<le> p"
proof (cases "ndigits c \<le> p")
  case True
  with assms show ?thesis by (auto dest: in_range_Inr)
next
  case False
  define k where "k = ndigits c - p"
  define q where "q = round_off HalfEven c k"
  have "ndigits c = p + k" using False by (simp add: k_def)
  from div_digits [OF this] have q: "q \<le> 10 ^ p" using round_off_le [of HalfEven c k] by (simp add: q_def)
  from assms(1) False
  have d: "d = (if ndigits q > p then Fin s (q div 10) (e + int k + 1) else Fin s q (e + int k))"
    by (auto simp: Let_def q_def k_def dest: in_range_Inr)
  have "q < 10 ^ p * 10" by (rule le_less_trans [OF q]) simp
  then have "q div 10 < 10 ^ p" by (rule less_mult_imp_div_less)
  then have "ndigits (q div 10) \<le> p" using assms(2) by (simp add: ndigits_le_iff)
  with d show ?thesis by (auto split: if_splits)
qed

lemma prec_pos [simp]: "0 < prec"
  by (simp add: prec_def)

lemma dec_div_digits:
  assumes "dec_div a b = Inr d"
  shows "\<exists>s c e. d = Fin s c e \<and> ndigits c \<le> prec"
proof -
  obtain s c e s' c' e' where ab: "a = Fin s c e" "b = Fin s' c' e'"
    using assms by (cases a; cases b) (auto simp: beyond_finite_def)
  have z: "ndigits 0 \<le> prec" by (simp add: ndigits_def nat_str_length prec_def)
  show ?thesis using assms z unfolding ab
    by (auto simp: invalid_def Let_def case_prod_unfold simp del: fix_prec.simps
        split: if_split_asm dest!: in_range_Inr fix_prec_digits)
qed

lemma hoeffding_digits:
  "hoeffding_mixture_evalue sum_diff n = Inr d \<Longrightarrow> 0 < n \<Longrightarrow> \<exists>s c e. d = Fin s c e \<and> ndigits c \<le> prec"
  unfolding hoeffding_mixture_evalue_def by (auto dest!: dec_div_digits simp del: dec_div.simps)

subsection \<open>Encoded e-values are canonical\<close>

definition canonical_mantissa :: "decimal \<Rightarrow> bool" where
  "canonical_mantissa m \<longleftrightarrow> (\<exists>q. m = Fin False q evalue_mantissa_quant \<and> 0 < q \<and> q < 10 ^ 24)"

lemma mantissa_quant: "evalue_mantissa_quant = -23"
  by (simp add: evalue_mantissa_quant_def evalue_sig_digits_def)

lemma format_canonical:
  assumes "canonical_mantissa m"
  shows "format_mantissa m = Inr (format_f m)" and "parse_decimal (format_f m) = Inr m"
    and "is_finite m" and "fin_less (dec_of_int 0) m" and "fin_less m (dec_of_int 10)"
proof -
  from assms obtain q where m: "m = Fin False q (-23)" and q: "0 < q" "q < 10 ^ 24"
    by (auto simp: canonical_mantissa_def mantissa_quant)
  have "ndigits q \<le> max prec (evalue_sig_digits + 4)"
    using q by (simp add: ndigits_le_iff prec_def evalue_sig_digits_def)
  then show "format_mantissa m = Inr (format_f m)"
    by (simp add: m format_mantissa_def mantissa_quant quantize_again del: quantize.simps format_f.simps)
  show "parse_decimal (format_f m) = Inr m" unfolding m by (rule parse_format) simp
  show "is_finite m" "fin_less (dec_of_int 0) m" "fin_less m (dec_of_int 10)"
    using q by (simp_all add: m dec_of_int_def of_scoeff_def scoeff_def Let_def)
qed

lemma parse_canonical:
  assumes "canonical_mantissa m"
  shows "evalue_to_dict \<lparr>ev_mantissa = m, ev_exponent10 = k\<rparr>
      = Inr (JObj [(''mantissa'', JStr (format_f m)), (''exponent10'', JInt k)])"
    and "parse_evalue (JObj [(''mantissa'', JStr (format_f m)), (''exponent10'', JInt k)])
      = Inr \<lparr>ev_mantissa = m, ev_exponent10 = k\<rparr>"
  using format_canonical [OF assms]
  by (auto simp: evalue_to_dict_def parse_evalue_def parse_decimal_def split_sign_def lower_def strip_def
      starts_def invalid_def Let_def simp del: format_f.simps fin_less.simps)

lemma quantize_mantissa:
  assumes c: "0 < c" and q: "quantize p HalfUp (Fin s c (1 - int (ndigits c))) (-23) = Inr (Fin s q (-23))"
  shows "10 ^ 23 \<le> q \<and> q \<le> 10 ^ 24"
proof -
  have lo: "10 ^ (ndigits c - 1) \<le> c" and hi: "c < 10 ^ ndigits c"
    using ndigits_ge [OF c] ndigits_less [of c] by auto
  show ?thesis
  proof (cases "ndigits c \<le> 24")
    case True
    define j where "j = 24 - ndigits c"
    have "q = c * 10 ^ j" using q c True
      by (auto simp: Let_def invalid_def j_def nat_diff_distrib split: if_split_asm intro!: arg_cong [where f = "\<lambda>x. 10 ^ x"])
    moreover have "ndigits c - 1 + j = 23" "ndigits c + j = 24"
      using True ndigits_pos [of c] unfolding j_def by linarith+
    then have "10 ^ (ndigits c - 1) * 10 ^ j = (10 :: nat) ^ 23" "10 ^ ndigits c * 10 ^ j = (10 :: nat) ^ 24"
      by (simp_all only: flip: power_add)
    ultimately show ?thesis using mult_le_mono1 [OF lo, of "10 ^ j"] mult_le_mono1 [OF less_imp_le [OF hi], of "10 ^ j"] by simp
  next
    case False
    define j where "j = ndigits c - 24"
    have "q = round_off HalfUp c j" using q c False
      by (auto simp: Let_def invalid_def j_def split: if_split_asm intro!: arg_cong [where f = "round_off HalfUp c"])
    moreover have "c div 10 ^ j < 10 ^ 24" by (rule div_digits) (use False in \<open>simp add: j_def\<close>)
    moreover have "10 ^ 23 \<le> c div 10 ^ j"
    proof -
      have "23 + j = ndigits c - 1" using False by (simp add: j_def)
      then have "(10 :: nat) ^ 23 * 10 ^ j = 10 ^ (ndigits c - 1)" by (simp only: flip: power_add)
      with lo show ?thesis by (simp add: less_eq_div_iff_mult_less_eq)
    qed
    ultimately show ?thesis using round_off_le [of HalfUp c j] round_off_ge [of c j HalfUp] by simp
  qed
qed

lemma encode_evalue_canonical:
  assumes "encode_evalue d = Inr ev" and "d = Fin s c e" and "ndigits c \<le> prec"
  shows "canonical_mantissa (ev_mantissa ev)"
proof -
  let ?m = "Fin False c (1 - int (ndigits c))"
  from assms(1) have "fin_less (dec_of_int 0) d"
    by (auto simp: encode_evalue_def invalid_def simp del: fin_less.simps split: if_split_asm)
  then have pos: "\<not> s" "0 < c"
    by (auto simp: assms(2) dec_of_int_def of_scoeff_def scoeff_def Let_def zero_less_mult_iff split: if_split_asm)
  have sc: "scaleb d (- adjusted d) = Inr m0 \<Longrightarrow> m0 = ?m" for m0
    using pos assms(2,3) by (auto simp: invalid_def split: if_split_asm dest: in_range_Inr)
  from assms(1) obtain m0 m where m: "scaleb d (- adjusted d) = Inr m0"
    "quantize (max prec (evalue_sig_digits + 6)) HalfUp m0 (-23) = Inr m"
    and ev: "(if dec_eq m (dec_of_int 10) then
        bindr (quantize prec HalfEven (dec_of_int 1) evalue_mantissa_quant) (\<lambda>one.
          Inr \<lparr>ev_mantissa = one, ev_exponent10 = adjusted d + 1\<rparr>)
      else Inr \<lparr>ev_mantissa = m, ev_exponent10 = adjusted d\<rparr>) = Inr ev"
    by (auto simp: encode_evalue_def invalid_def Let_def mantissa_quant simp del: quantize.simps scaleb.simps
        split: if_split_asm)
  from sc [OF m(1)] m(2) obtain q where q: "m = Fin False q (-23)" by (auto dest: quantize_Fin simp del: quantize.simps)
  with sc [OF m(1)] m(2) pos(2) have b: "10 ^ 23 \<le> q \<and> q \<le> 10 ^ 24"
    by (intro quantize_mantissa [of c "max prec (evalue_sig_digits + 6)" False]) (simp_all del: quantize.simps)
  show ?thesis
  proof (cases "dec_eq m (dec_of_int 10)")
    case True
    with ev show ?thesis
      by (auto simp: canonical_mantissa_def dec_of_int_def of_scoeff_def mantissa_quant invalid_def Let_def
          split: if_split_asm)
  next
    case False
    then have "q \<noteq> 10 ^ 24"
      by (auto simp: q dec_eq_def dec_of_int_def of_scoeff_def scoeff_def Let_def)
    with b False ev q show ?thesis by (auto simp: canonical_mantissa_def mantissa_quant)
  qed
qed

lemma encoded_equal_self:
  "canonical_mantissa (ev_mantissa ev) \<Longrightarrow> encoded_evalue_equal ev ev = Inr True"
  by (simp add: encoded_evalue_equal_def format_canonical)

text \<open>The e-value the worker writes is one the verifier reads back and recognises.\<close>

lemma hoeffding_roundtrip:
  assumes "hoeffding_mixture_evalue sum_diff n = Inr d" and "0 < n" and "encode_evalue d = Inr ev"
  shows "\<exists>j. evalue_to_dict ev = Inr j \<and> is_obj j \<and> parse_evalue j = Inr ev \<and> encoded_evalue_equal ev ev = Inr True"
proof -
  from hoeffding_digits [OF assms(1,2)] obtain s c e where d: "d = Fin s c e" "ndigits c \<le> prec" by blast
  have can: "canonical_mantissa (ev_mantissa ev)" by (rule encode_evalue_canonical [OF assms(3) d])
  show ?thesis
    using parse_canonical [OF can, of "ev_exponent10 ev"] encoded_equal_self [OF can] by (cases ev) simp
qed

end
