(* ===== verification/Sealed_Worker_Props.thy ===== *)
theory Sealed_Worker_Props
  imports Sealed_Worker Sealed_Roundtrip "HOL-Library.Multiset"
begin

section \<open>What the verifier makes of an issued certificate\<close>

text \<open>
  The verifier checks the canonical form of a spec, and canonicalisation keeps the fields it
  knows. Proved: on a request with known fields only, the canonical form of the issued spec has
  the bytes that were signed, and its certificate passes; a request with \<open>fun_symbols\<close> has not.
\<close>

subsection \<open>Bytes and the order of fields\<close>

lemma dumps_sorted: "dumps i k a (sort_keys j) = dumps i k a j"
proof (induction j rule: sort_keys.induct)
  case (1 xs)
  then have "map (dumps i k a) (map sort_keys xs) = map (dumps i k a) xs" by simp
  then show ?case by (simp only: sort_keys.simps dumps.simps)
next
  case (2 kvs)
  let ?g = "\<lambda>(key, v). (key, sort_keys v)"
  have "sort_key fst (map ?g (sort_key fst kvs)) = map ?g (sort_key fst kvs)"
    by (simp add: sort_key_map_comm case_prod_unfold sort_key_id_if_sorted)
  moreover have "map (\<lambda>(key, v). dumps_str a key @ k @ dumps i k a v) (map ?g (sort_key fst kvs))
    = map (\<lambda>(key, v). dumps_str a key @ k @ dumps i k a v) (sort_key fst kvs)"
    using 2 by auto
  ultimately show ?case by (simp only: sort_keys_JObj dumps_JObj)
qed simp_all

lemma canon_bytes_cong: "sort_keys a = sort_keys b \<Longrightarrow> canon_bytes a = canon_bytes b"
  unfolding canon_bytes_def by (metis dumps_sorted)

text \<open>An object is determined by the values of its keys.\<close>

lemma kvs_jget:
  assumes "distinct (map fst kvs)"
  shows "(k, v) \<in> set kvs \<longleftrightarrow> k \<in> fst ` set kvs \<and> v = jget (JObj kvs) k"
proof -
  have "(k, v) \<in> set kvs \<longleftrightarrow> map_of kvs k = Some v" by (rule map_of_eq_Some_iff [OF assms, symmetric])
  moreover have "k \<in> fst ` set kvs \<longleftrightarrow> map_of kvs k \<noteq> None" by (simp add: map_of_eq_None_iff)
  ultimately show ?thesis by (cases "map_of kvs k") auto
qed

lemma sort_key_unique:
  assumes "distinct (map fst kvs)" and "distinct ks" and "fst ` set kvs = set ks"
  shows "sort_key fst kvs = sort_key fst (map (\<lambda>k. (k, jget (JObj kvs) k)) ks)"
proof -
  let ?ms = "map (\<lambda>k. (k, jget (JObj kvs) k)) ks"
  have "map fst ?ms = ks" by (induction ks) auto
  then have d: "distinct (map fst ?ms)" using assms(2) by (simp only:)
  have "(k, v) \<in> set kvs \<longleftrightarrow> (k, v) \<in> set ?ms" for k v
    unfolding kvs_jget [OF assms(1)] assms(3) by auto
  then have "set kvs = set ?ms" by auto
  moreover have "distinct kvs" "distinct ?ms"
    using distinct_map [THEN iffD1, OF assms(1)] distinct_map [THEN iffD1, OF d] by blast+
  ultimately have "mset kvs = mset ?ms"
    by (metis set_eq_iff_mset_eq_distinct)
  then have "mset kvs = mset (sort_key fst ?ms)" by simp
  moreover have "inj_on fst (set kvs)" using distinct_map [THEN iffD1, OF assms(1)] by blast
  ultimately show ?thesis by (rule sort_key_inj_key_eq) simp
qed

definition known_fields :: "json \<Rightarrow> string list \<Rightarrow> bool" where
  "known_fields j ks \<longleftrightarrow> (case j of JObj kvs \<Rightarrow> distinct (map fst kvs) \<and> list_all (\<lambda>kv. fst kv \<in> set ks) kvs | _ \<Rightarrow> False)"

definition with_fields :: "json \<Rightarrow> string list \<Rightarrow> json" where
  "with_fields j ks = JObj (map (\<lambda>k. (k, jget j k)) ks)"

lemma sort_keys_fields:
  assumes "known_fields j ks" and "distinct ks" and "list_all (jhas j) ks"
  shows "sort_keys j = sort_keys (with_fields j ks)"
proof -
  from assms(1) obtain kvs where j: "j = JObj kvs" "distinct (map fst kvs)" "fst ` set kvs \<subseteq> set ks"
    by (cases j) (auto simp: known_fields_def list_all_iff)
  with assms(3) have "fst ` set kvs = set ks" by (auto simp: list_all_iff)
  from sort_key_unique [OF j(2) assms(2) this] show ?thesis
    by (simp only: j(1) with_fields_def sort_keys_JObj)
qed

subsection \<open>Setting fields\<close>

lemma known_fields_obj_set [simp]: "known_fields j ks \<Longrightarrow> k \<in> set ks \<Longrightarrow> known_fields (obj_set j k v) ks"
proof (cases j)
  case (JObj kvs)
  assume "known_fields j ks" and "k \<in> set ks"
  moreover have "fst ` set (dict_set kvs k v) = insert k (fst ` set kvs)" by (rule keys_dict_set)
  ultimately show ?thesis using distinct_dict_set [of kvs k v] unfolding JObj
    by (auto simp: known_fields_def list_all_iff) (metis fst_conv image_eqI insertE image_iff)
qed (simp_all add: known_fields_def)

lemma known_fields_obj: "known_fields j ks \<Longrightarrow> is_obj j"
  by (cases j) (simp_all add: known_fields_def)

lemma jhas_jget: "jget j k \<noteq> JNull \<Longrightarrow> jhas j k"
  by (cases j) (force split: option.split_asm dest: map_of_SomeD)+

definition eval_fields :: "string list" where
  "eval_fields = [''episodes'', ''max_steps'', ''paired_seeds'', ''oracle_symbol'', ''eval_harness_id'',
     ''eval_harness_hash'', ''eval_suite_hash'']"

definition risk_fields :: "string list" where
  "risk_fields = [''alpha_i'', ''evalue_threshold'', ''alpha_schedule'']"

lemma fill_eval_config_Inr:
  assumes "fill_eval_config cfg sc = Inr full"
  shows "full = obj_set (obj_set (obj_set cfg ''eval_harness_id'' (JStr (sc_eval_harness_id sc)))
    ''eval_harness_hash'' (JStr (sc_eval_harness_hash sc))) ''eval_suite_hash'' (JStr (sc_eval_suite_hash sc))"
  using assms by (simp add: fill_eval_config_def split: if_split_asm)

lemma jor_obj: "jor a (JObj []) = b \<Longrightarrow> jget b k \<noteq> JNull \<Longrightarrow> b = a"
  by (auto simp: jor_def split: if_split_asm)

lemma read_request_Inr:
  assumes "read_request data spec = Inr q"
  obtains sc cfg where "is_obj spec" "jget spec ''kind'' = JStr ''stat_cert''" "nonempty_str (jget spec ''concept'')"
    "load_sealed_config data False = Inr sc" "wr_sealed q = sc" "jget spec ''eval'' = cfg" "is_obj cfg"
    "jget spec ''baseline_symbol'' = JStr (wr_baseline q)" "jget spec ''candidate_symbol'' = JStr (wr_candidate q)"
    "jget cfg ''oracle_symbol'' = JStr (wr_oracle q)" "jget cfg ''episodes'' = wr_episodes q"
    "0 < number_value (wr_episodes q)" "is_bool (jget cfg ''paired_seeds'')"
    "fill_eval_config cfg sc = Inr (wr_eval q)"
proof -
  from assms obtain sc full where r: "is_obj spec" "jget spec ''kind'' = JStr ''stat_cert''"
    "nonempty_str (jget spec ''concept'')" "load_sealed_config data False = Inr sc"
    and cfg: "is_obj (jor (jget spec ''eval'') (JObj []))"
    and s: "is_str (jget spec ''baseline_symbol'')" "is_str (jget spec ''candidate_symbol'')"
      "is_str (jget (jor (jget spec ''eval'') (JObj [])) ''oracle_symbol'')"
      "0 < number_value (jget (jor (jget spec ''eval'') (JObj [])) ''episodes'')"
      "is_bool (jget (jor (jget spec ''eval'') (JObj [])) ''paired_seeds'')"
    and full: "fill_eval_config (jor (jget spec ''eval'') (JObj [])) sc = Inr full"
    and q: "wr_sealed q = sc" "wr_baseline q = the_str (jget spec ''baseline_symbol'')"
      "wr_candidate q = the_str (jget spec ''candidate_symbol'')"
      "wr_oracle q = the_str (jget (jor (jget spec ''eval'') (JObj [])) ''oracle_symbol'')"
      "wr_episodes q = jget (jor (jget spec ''eval'') (JObj [])) ''episodes''" "wr_eval q = full"
    unfolding read_request_def Let_def
    by (auto simp: jgetr_def nonempty_str_def elim!: bindrE simp del: bindr_Inr_iff split: if_split_asm)
  from s(3) have "jor (jget spec ''eval'') (JObj []) = jget spec ''eval''"
    by (intro jor_obj [OF refl, of _ "''oracle_symbol''"]) auto
  with r cfg s full q that show ?thesis by (auto simp: is_str_iff)
qed

text \<open>The risk it fills in: alpha for the current round, and the schedule of the settings.\<close>

lemma fill_risk_Inr:
  assumes "fill_risk risk0 sc db = Inr risk"
  obtains alpha_i a c where
    "alpha_for_round (sc_alpha_total sc) (stat_round db) (sc_alpha_schedule sc) = Inr alpha_i"
    "format_decimal alpha_i = Inr a" "format_decimal (as_coefficient (sc_alpha_schedule sc)) = Inr c"
    "is_obj risk" "jget risk ''alpha_i'' = JStr a" "list_all (jhas risk) risk_fields"
    "jget risk ''alpha_schedule'' = JObj [(''name'', JStr (as_name (sc_alpha_schedule sc))),
       (''exponent'', JInt (as_exponent (sc_alpha_schedule sc))), (''coefficient'', JStr c)]"
    "risk0 = JNull \<or> known_fields risk0 risk_fields \<Longrightarrow> known_fields risk risk_fields"
proof -
  define risk1 where "risk1 = (if risk0 = JNull then JObj [] else risk0)"
  from assms obtain alpha_i a c where ok:
    "alpha_for_round (sc_alpha_total sc) (stat_round db) (sc_alpha_schedule sc) = Inr alpha_i"
    "format_decimal alpha_i = Inr a" "format_decimal (as_coefficient (sc_alpha_schedule sc)) = Inr c" "is_obj risk1"
    and risk: "risk = obj_set (if jhas (obj_set risk1 ''alpha_i'' (JStr a)) ''evalue_threshold''
        then obj_set risk1 ''alpha_i'' (JStr a)
        else obj_set (obj_set risk1 ''alpha_i'' (JStr a)) ''evalue_threshold'' (JStr ''1'')) ''alpha_schedule''
      (JObj [(''name'', JStr (as_name (sc_alpha_schedule sc))),
        (''exponent'', JInt (as_exponent (sc_alpha_schedule sc))), (''coefficient'', JStr c)])"
    unfolding fill_risk_def Let_def risk1_def by (auto elim!: bindrE simp del: bindr_Inr_iff split: if_split_asm)
  from ok(4) have "is_obj risk" "jget risk ''alpha_i'' = JStr a" "list_all (jhas risk) risk_fields"
    "jget risk ''alpha_schedule'' = JObj [(''name'', JStr (as_name (sc_alpha_schedule sc))),
       (''exponent'', JInt (as_exponent (sc_alpha_schedule sc))), (''coefficient'', JStr c)]"
    by (simp_all add: risk risk_fields_def)
  moreover have "known_fields risk risk_fields" if "risk0 = JNull \<or> known_fields risk0 risk_fields"
  proof -
    have "known_fields risk1 risk_fields" using that by (auto simp: risk1_def known_fields_def)
    then show ?thesis by (simp add: risk risk_fields_def)
  qed
  ultimately show ?thesis using that ok by blast
qed

text \<open>The fields of the certificate before it is signed.\<close>

lemma unsigned_certificate_Inr:
  assumes "unsigned_certificate X S priv q r sig = Inr cert"
  obtains d ev ej pub kid where
    "hoeffding_mixture_evalue (sum_list (rp_diffs r)) (number_value (wr_episodes q)) = Inr d"
    "encode_evalue d = Inr ev" "evalue_to_dict ev = Inr ej"
    "public_key_from_private X S priv = Inr pub" "key_id_from_public_key X pub = Inr kid"
    "cert = JObj [(''evalue_schema_version'', JInt 2), (''n'', wr_episodes q),
      (''baseline_successes'', JInt (rp_baseline_successes r)),
      (''candidate_successes'', JInt (rp_candidate_successes r)), (''diff_sum'', JInt (sum_list (rp_diffs r))),
      (''diff_min'', JInt (- 1)), (''diff_max'', JInt 1), (''evalue'', ej),
      (''transcript_hash'', JStr (x_blake3 X (rp_transcript r))), (''signature'', JStr sig),
      (''signature_scheme'', JStr ''ed25519''), (''key_id'', JStr kid)]"
  using assms unfolding unsigned_certificate_def Let_def
  by (elim bindrE) (auto simp del: bindr_Inr_iff)

definition signed_certificate :: "json \<Rightarrow> string \<Rightarrow> json" where
  "signed_certificate cert signature = obj_set cert ''signature'' (JStr signature)"

lemma run_and_sign_Inr:
  assumes "run_and_sign X S registry data F db spec q priv seed extra = Inr out"
  obtains harness defs lo hi len r cert risk bytes sig where
    "worker_defs F db q extra = Inr defs"
    "get_harness registry (the_str (jget (wr_eval q) ''eval_harness_id'')) = Inr harness"
    "hn_run_episodes harness \<lparr>hr_eval_cfg = wr_eval q, hr_defs = defs, hr_baseline = wr_baseline q,
       hr_candidate = wr_candidate q, hr_oracle = wr_oracle q, hr_seed_key = seed, hr_int_min = lo,
       hr_int_max = hi, hr_list_max_len = len, hr_fun_symbols = wr_fun_symbols q\<rparr> = Inr r"
    "unsigned_certificate X S priv q r '''' = Inr cert" "fill_risk (jget spec ''risk'') (wr_sealed q) db = Inr risk"
    "stat_cert_signing_bytes (issued_spec spec (wr_eval q) risk cert) = Inr bytes"
    "sign_bytes X S priv bytes = Inr sig" "out = issued_spec spec (wr_eval q) risk (signed_certificate cert sig)"
  using assms unfolding run_and_sign_def Let_def signed_certificate_def
  by (elim bindrE) (auto simp del: bindr_Inr_iff elim!: bindrE split: if_split_asm)

subsection \<open>The settings\<close>

lemma bindr_mono_Inr: "bindr m f = Inr y \<Longrightarrow> (\<And>x. f x = Inr y \<Longrightarrow> g x = Inr y) \<Longrightarrow> bindr m g = Inr y"
  by auto

lemma if_Inl_mono: "(if b then Inl e else m) = Inr y \<Longrightarrow> (m = Inr y \<Longrightarrow> m' = Inr y)
    \<Longrightarrow> (if b then Inl e else m') = Inr y"
  by (simp split: if_split_asm)

lemma load_sealed_config_keys: "load_sealed_config data True = Inr sc \<Longrightarrow> load_sealed_config data False = Inr sc"
  unfolding load_sealed_config_def Let_def
  by ((erule bindr_mono_Inr | erule if_Inl_mono)+, simp split: if_split_asm)

lemma parse_alpha_schedule_Inr:
  "parse_alpha_schedule j = Inr sched \<Longrightarrow> as_name sched = ''p_series'' \<and> 1 < as_exponent sched"
  unfolding parse_alpha_schedule_def Let_def by (auto split: if_split_asm)

lemma load_sealed_config_schedule:
  assumes "load_sealed_config data keys = Inr sc"
  shows "as_name (sc_alpha_schedule sc) = ''p_series'' \<and> 1 < as_exponent (sc_alpha_schedule sc)"
proof -
  from assms have "\<exists>j. parse_alpha_schedule j = Inr (sc_alpha_schedule sc)"
    unfolding load_sealed_config_def Let_def by (auto simp only: bindr_Inr_iff split: if_split_asm) auto
  then show ?thesis by (blast dest: parse_alpha_schedule_Inr)
qed

subsection \<open>The canonical form\<close>

definition spec_form :: "json \<Rightarrow> json \<Rightarrow> json \<Rightarrow> json \<Rightarrow> json" where
  "spec_form spec cfg risk cert = JObj [(''kind'', JStr ''stat_cert''), (''concept'', jget spec ''concept''),
     (''metric'', jget spec ''metric''), (''null'', jget spec ''null''),
     (''baseline_symbol'', jget spec ''baseline_symbol''), (''candidate_symbol'', jget spec ''candidate_symbol''),
     (''eval'', cfg), (''risk'', risk), (''certificate'', cert)]"

text \<open>The entries of a certificate in the order of the worker and of the canonical form.\<close>

definition worker_certificate :: "json \<Rightarrow> harness_report \<Rightarrow> json \<Rightarrow> string \<Rightarrow> string \<Rightarrow> string \<Rightarrow> json" where
  "worker_certificate n r ej th sig kid = JObj [(''evalue_schema_version'', JInt 2), (''n'', n),
      (''baseline_successes'', JInt (rp_baseline_successes r)),
      (''candidate_successes'', JInt (rp_candidate_successes r)), (''diff_sum'', JInt (sum_list (rp_diffs r))),
      (''diff_min'', JInt (- 1)), (''diff_max'', JInt 1), (''evalue'', ej),
      (''transcript_hash'', JStr th), (''signature'', JStr sig),
      (''signature_scheme'', JStr ''ed25519''), (''key_id'', JStr kid)]"

definition canonical_certificate :: "json \<Rightarrow> harness_report \<Rightarrow> json \<Rightarrow> string \<Rightarrow> string \<Rightarrow> string \<Rightarrow> json" where
  "canonical_certificate n r ej th sig kid = JObj [(''n'', n),
      (''baseline_successes'', JInt (rp_baseline_successes r)),
      (''candidate_successes'', JInt (rp_candidate_successes r)), (''diff_sum'', JInt (sum_list (rp_diffs r))),
      (''diff_min'', JInt (- 1)), (''diff_max'', JInt 1), (''evalue'', ej),
      (''transcript_hash'', JStr th), (''signature'', JStr sig),
      (''signature_scheme'', JStr ''ed25519''), (''key_id'', JStr kid), (''evalue_schema_version'', JInt 2)]"

lemma sort_keys_perm:
  assumes "distinct (map fst kvs)" and "mset kvs = mset kvs'"
  shows "sort_keys (JObj kvs) = sort_keys (JObj kvs')"
proof -
  from assms(2) have "mset kvs = mset (sort_key fst kvs')" by simp
  moreover have "inj_on fst (set kvs)" using distinct_map [THEN iffD1, OF assms(1)] by blast
  ultimately have "sort_key fst kvs = sort_key fst kvs'" by (rule sort_key_inj_key_eq) simp
  then show ?thesis by (simp only: sort_keys_JObj)
qed

text \<open>What is signed: the nine fields, and the certificate without its signature.\<close>

definition unsign :: "json \<Rightarrow> json" where
  "unsign cert = JObj (filter (\<lambda>(k, v). k \<noteq> ''signature'') (case cert of JObj kvs \<Rightarrow> kvs | _ \<Rightarrow> []))"

lemma signing_bytes_form:
  assumes "is_obj spec" and "jget spec ''certificate'' = JObj (kv # kvs)"
  shows "stat_cert_signing_bytes spec = Inr (canon_bytes
    (spec_form spec (jget spec ''eval'') (jget spec ''risk'') (unsign (jget spec ''certificate''))))"
  using assms by (cases spec)
    (simp_all add: stat_cert_signing_bytes_def stat_cert_signing_payload_def jor_def spec_form_def unsign_def)

lemma sort_keys_form:
  "sort_keys cfg = sort_keys cfg' \<Longrightarrow> sort_keys risk = sort_keys risk' \<Longrightarrow> sort_keys cert = sort_keys cert'
    \<Longrightarrow> sort_keys (spec_form spec cfg risk cert) = sort_keys (spec_form spec cfg' risk' cert')"
  by (simp only: spec_form_def sort_keys.simps list.map prod.case)

lemma sort_keys_certificate:
  "sort_keys (unsign (worker_certificate n r ej th sig kid)) = sort_keys (unsign (canonical_certificate n r ej th sig' kid))"
  unfolding unsign_def worker_certificate_def canonical_certificate_def
  by (simp only: json.case filter.simps prod.case) (rule sort_keys_perm; simp)

lemma jget_form [simp]:
  "jget (spec_form spec cfg risk cert) ''kind'' = JStr ''stat_cert''"
  "jget (spec_form spec cfg risk cert) ''concept'' = jget spec ''concept''"
  "jget (spec_form spec cfg risk cert) ''metric'' = jget spec ''metric''"
  "jget (spec_form spec cfg risk cert) ''null'' = jget spec ''null''"
  "jget (spec_form spec cfg risk cert) ''baseline_symbol'' = jget spec ''baseline_symbol''"
  "jget (spec_form spec cfg risk cert) ''candidate_symbol'' = jget spec ''candidate_symbol''"
  "jget (spec_form spec cfg risk cert) ''eval'' = cfg" "jget (spec_form spec cfg risk cert) ''risk'' = risk"
  "jget (spec_form spec cfg risk cert) ''certificate'' = cert" "is_obj (spec_form spec cfg risk cert)"
  by (simp_all add: spec_form_def)

lemma jget_issued [simp]:
  "is_obj spec \<Longrightarrow> jget (issued_spec spec cfg risk cert) k = (if k = ''certificate'' then cert
     else if k = ''risk'' then risk else if k = ''eval'' then cfg else jget spec k)"
  "is_obj (issued_spec spec cfg risk cert) \<longleftrightarrow> is_obj spec"
  by (simp_all add: issued_spec_def)

text \<open>A request whose certificate the verifier can take: known fields, integers as such, and the
  metric and null hypothesis it knows.\<close>

definition plain_request :: "json \<Rightarrow> bool" where
  "plain_request spec \<longleftrightarrow> known_fields (jget spec ''eval'') eval_fields
     \<and> (jget spec ''risk'' = JNull \<or> known_fields (jget spec ''risk'') risk_fields)
     \<and> is_int (jget (jget spec ''eval'') ''episodes'') \<and> is_int (jget (jget spec ''eval'') ''max_steps'')
     \<and> jget spec ''metric'' = JStr ''accuracy''
     \<and> (jget spec ''null'' = JStr ''no_improvement'' \<or> jget spec ''null'' = JStr ''no_regression'')"

lemma jgetr_obj [simp]: "is_obj j \<Longrightarrow> jgetr j k = Inr (jget j k)"
  by (simp add: jgetr_def)

lemma eval_fields_full:
  assumes "known_fields cfg eval_fields" and "fill_eval_config cfg sc = Inr full"
    and "is_int (jget cfg ''episodes'')" "is_int (jget cfg ''max_steps'')" "is_bool (jget cfg ''paired_seeds'')"
    "is_str (jget cfg ''oracle_symbol'')"
  shows "canon_eval_cfg full (jget full ''paired_seeds'') (jget full ''oracle_symbol'') = Inr (with_fields full eval_fields)"
    and "sort_keys full = sort_keys (with_fields full eval_fields)" and "is_obj full"
proof -
  note full = fill_eval_config_Inr [OF assms(2)]
  have obj: "is_obj cfg" by (rule known_fields_obj [OF assms(1)])
  show "canon_eval_cfg full (jget full ''paired_seeds'') (jget full ''oracle_symbol'') = Inr (with_fields full eval_fields)"
    using assms obj by (simp add: full canon_eval_cfg_def require_int_def require_str_from_def with_fields_def eval_fields_def Let_def)
  show "is_obj full" using obj by (simp add: full)
  have "known_fields full eval_fields" using assms(1) by (simp add: full) (simp add: eval_fields_def)
  moreover have "list_all (jhas full) eval_fields"
    using assms obj by (auto simp: full eval_fields_def intro!: jhas_jget)
  ultimately show "sort_keys full = sort_keys (with_fields full eval_fields)"
    by (intro sort_keys_fields) (simp_all add: eval_fields_def)
qed

definition schedule_json :: "alpha_schedule \<Rightarrow> string \<Rightarrow> json" where
  "schedule_json sched c = JObj [(''name'', JStr (as_name sched)), (''exponent'', JInt (as_exponent sched)),
     (''coefficient'', JStr c)]"

lemma canon_risk_fields:
  assumes "is_obj risk" and "nonempty_str (jget risk ''alpha_i'')" "nonempty_str (jget risk ''evalue_threshold'')"
    and "jget risk ''alpha_schedule'' = schedule_json sched c" "1 < as_exponent sched"
  shows "canon_risk risk = Inr (with_fields risk risk_fields)"
  using assms by (simp add: canon_risk_def require_decimal_str_def require_str_from_def canonicalize_alpha_schedule_def schedule_json_def
      with_fields_def risk_fields_def nonempty_str_def Let_def)

lemma canon_certificate_fields:
  assumes "is_int n" and "evalue_to_dict ev = Inr ej" "parse_evalue ej = Inr ev"
  shows "canon_certificate (worker_certificate n r ej th sig kid) = Inr (canonical_certificate n r ej th sig kid)"
proof -
  obtain m where ej0: "ej = JObj [(''mantissa'', JStr m), (''exponent10'', JInt (ev_exponent10 ev))]"
    using assms(2) unfolding evalue_to_dict_def by (elim bindrE) auto
  have "m \<noteq> []"
  proof
    assume "m = []"
    then show False using assms(3) by (simp add: ej0 parse_evalue_def)
  qed
  with ej0 have ej: "ej = JObj [(''mantissa'', JStr m), (''exponent10'', JInt (ev_exponent10 ev))]" "m \<noteq> []" by auto
  let ?w = "worker_certificate n r ej th sig kid"
  have ints: "require_int ''n'' ?w = Inr n"
    "require_int ''baseline_successes'' ?w = Inr (JInt (rp_baseline_successes r))"
    "require_int ''candidate_successes'' ?w = Inr (JInt (rp_candidate_successes r))"
    "require_int ''diff_sum'' ?w = Inr (JInt (sum_list (rp_diffs r)))"
    "require_int ''diff_min'' ?w = Inr (JInt (- 1))" "require_int ''diff_max'' ?w = Inr (JInt 1)"
    using assms(1) by (simp_all add: worker_certificate_def require_int_def Let_def)
  have strs: "require_str_from ?w ''transcript_hash'' = Inr (JStr th)" "require_str_from ?w ''signature'' = Inr (JStr sig)"
    "require_str_from ?w ''signature_scheme'' = Inr (JStr ''ed25519'')" "require_str_from ?w ''key_id'' = Inr (JStr kid)"
    by (simp_all add: worker_certificate_def require_str_from_def Let_def)
  have ev: "require_evalue ?w = Inr ej" using ej by (simp add: worker_certificate_def require_evalue_def Let_def)
  have "jhas ?w ''evalue_schema_version''" "jget ?w ''evalue_schema_version'' = JInt 2"
    by (simp_all add: worker_certificate_def)
  then show ?thesis
    by (simp only: canon_certificate_def ints strs ev bindr.simps if_True append.simps canonical_certificate_def)
qed

lemma canonicalize_issued:
  assumes "is_obj spec" "jget spec ''kind'' = JStr ''stat_cert''" "nonempty_str (jget spec ''concept'')"
    "is_str (jget spec ''metric'')" "is_str (jget spec ''null'')" "is_str (jget spec ''baseline_symbol'')"
    "is_str (jget spec ''candidate_symbol'')"
    and cfg: "is_obj cfg" "is_bool (jget cfg ''paired_seeds'')" "is_str (jget cfg ''oracle_symbol'')"
    "canon_eval_cfg cfg (jget cfg ''paired_seeds'') (jget cfg ''oracle_symbol'') = Inr ccfg"
    and risk: "is_obj risk" "canon_risk risk = Inr crisk"
    and cert: "is_obj cert" "canon_certificate cert = Inr ccert"
  shows "canonicalize_spec (issued_spec spec cfg risk cert) = Inr (spec_form spec ccfg crisk ccert)"
proof -
  have "jor cfg (JObj []) = cfg" "jor risk (JObj []) = risk" "jor cert (JObj []) = cert"
    using cfg(1) risk(1) cert(1) by (auto simp: jor_def is_obj_iff)
  then show ?thesis using assms
    by (simp add: canonicalize_spec_def canonicalize_stat_cert_def require_str_from_def spec_form_def nonempty_str_def Let_def)
qed

subsection \<open>The checks pass\<close>

lemma check_subject_form:
  assumes "nonempty_str (jget spec ''concept'')" "jget spec ''metric'' = JStr ''accuracy''"
    "jget spec ''null'' = JStr ''no_improvement'' \<or> jget spec ''null'' = JStr ''no_regression''"
    "jget spec ''baseline_symbol'' = JStr b" "jget spec ''candidate_symbol'' = JStr c" "D b \<noteq> None" "D c \<noteq> None"
  shows "check_cert_subject (spec_form spec cfg risk cert) D = Inr ()"
  using assms by (auto simp: check_cert_subject_def nonempty_str_def in_strs_def Let_def)

lemma check_eval_form:
  assumes "jget cfg ''episodes'' = JInt n" "0 < n" "is_int (jget cfg ''max_steps'')" "is_bool (jget cfg ''paired_seeds'')"
    "jget cfg ''oracle_symbol'' = JStr r" "D r \<noteq> None"
    "jget cfg ''eval_harness_id'' = JStr (sc_eval_harness_id sc)"
    "jget cfg ''eval_harness_hash'' = JStr (sc_eval_harness_hash sc)"
    "jget cfg ''eval_suite_hash'' = JStr (sc_eval_suite_hash sc)"
  shows "check_cert_eval (spec_form spec (with_fields cfg eval_fields) risk cert) D (stat_context_of sc k) = Inr n"
  using assms by (simp add: check_cert_eval_def stat_context_of_def with_fields_def eval_fields_def jor_def
      require_int_field_def Let_def)

lemma check_risk_form:
  assumes alpha: "alpha_for_round (sc_alpha_total sc) k (sc_alpha_schedule sc) = Inr alpha_i" "format_decimal alpha_i = Inr a"
    and sched: "format_decimal (as_coefficient (sc_alpha_schedule sc)) = Inr c"
      "as_name (sc_alpha_schedule sc) = ''p_series''" "1 < as_exponent (sc_alpha_schedule sc)"
    and risk: "jget risk ''alpha_i'' = JStr a" "jget risk ''evalue_threshold'' = JStr t" "parse_decimal t = Inr threshold"
      "jget risk ''alpha_schedule'' = schedule_json (sc_alpha_schedule sc) c"
  shows "\<exists>p. parse_decimal a = Inr p \<and>
    check_cert_risk (spec_form spec cfg (with_fields risk risk_fields) cert) (stat_context_of sc j) k = Inr (p, threshold)"
proof -
  from format_decimal_parse [OF alpha(2)] obtain p where p: "parse_decimal a = Inr p" "format_decimal p = Inr a" by blast
  from format_decimal_parse [OF sched(1)] obtain q where q: "parse_decimal c = Inr q" "format_decimal q = Inr c" by blast
  have "parse_alpha_schedule (schedule_json (sc_alpha_schedule sc) c)
      = Inr \<lparr>as_name = ''p_series'', as_exponent = as_exponent (sc_alpha_schedule sc), as_coefficient = q\<rparr>"
    using sched q by (simp add: parse_alpha_schedule_def schedule_json_def jget_default_def Let_def)
  then show ?thesis using assms p q
    by (simp add: check_cert_risk_def stat_context_of_def with_fields_def risk_fields_def jor_def
        parse_decimal_field_def Let_def)
qed

lemma check_counts_form:
  assumes "0 \<le> rp_baseline_successes r \<and> rp_baseline_successes r \<le> n \<and> 0 \<le> rp_candidate_successes r
      \<and> rp_candidate_successes r \<le> n
      \<and> sum_list (rp_diffs r) = rp_candidate_successes r - rp_baseline_successes r"
    and "hoeffding_mixture_evalue (sum_list (rp_diffs r)) n = Inr d" "encode_evalue d = Inr ev"
    and "parse_evalue ej = Inr ev" "encoded_evalue_equal ev ev = Inr True"
  shows "check_cert_counts (canonical_certificate (JInt n) r ej th sig kid) n = Inr ev"
  using assms by (simp add: check_cert_counts_def canonical_certificate_def require_int_field_def Let_def)

subsection \<open>An issued certificate is accepted\<close>

text \<open>The e-value times alpha reaches the threshold of the certificate.\<close>

definition clears_threshold :: "json \<Rightarrow> bool" where
  "clears_threshold spec \<longleftrightarrow>
     bindr (parse_decimal_field (jget (jget spec ''risk'') ''alpha_i'')) (\<lambda>alpha.
     bindr (parse_decimal_field (jget (jget spec ''risk'') ''evalue_threshold'')) (\<lambda>threshold.
     bindr (parse_evalue (jget (jget spec ''certificate'') ''evalue'')) (\<lambda>ev.
     bindr (encoded_evalue_to_decimal ev) (\<lambda>d.
     bindr (dec_mul d alpha) (\<lambda>prod. dec_less prod threshold))))) = Inr False"

text \<open>The worker's key is one the settings allow.\<close>

definition trusted_key :: "externals \<Rightarrow> signer \<Rightarrow> string \<Rightarrow> sealed_config \<Rightarrow> bool" where
  "trusted_key X S priv sc \<longleftrightarrow> x_crypto_available X \<and>
     bindr (public_key_from_private X S priv) (\<lambda>pub.
     bindr (key_id_from_public_key X pub) (\<lambda>kid.
       Inr (kid \<noteq> [] \<and> map_of (sc_allowed_keys sc) kid = Some pub))) = Inr True"

lemma spec_form_form [simp]:
  "spec_form (spec_form spec a b c) cfg risk cert = spec_form spec cfg risk cert"
  by (simp add: spec_form_def)

lemma spec_form_issued [simp]:
  "is_obj spec \<Longrightarrow> spec_form (issued_spec spec a b c) cfg risk cert = spec_form spec cfg risk cert"
  by (simp add: spec_form_def)

lemma signed_worker_certificate [simp]:
  "signed_certificate (worker_certificate n r ej th sig kid) sig' = worker_certificate n r ej th sig' kid"
  by (simp add: signed_certificate_def worker_certificate_def)

text \<open>The last part of the check: signature and threshold.\<close>

lemma check_signed_form:
  assumes spec: "check_cert_subject c D = Inr ()" "check_cert_eval c D ctx = Inr n"
      "check_cert_risk c ctx k = Inr (alpha, threshold)"
      "check_cert_counts cert n = Inr ev" "jget c ''certificate'' = cert" "is_obj cert" "jget cert ''signature'' = JStr sig"
      "sig \<noteq> []" "jget cert ''signature_scheme'' = JStr ''ed25519''" "jget cert ''key_id'' = JStr kid" "kid \<noteq> []"
    and less: "encoded_evalue_to_decimal ev = Inr d" "dec_mul d alpha = Inr pr" "dec_less pr threshold = Inr False"
    and key: "x_crypto_available X" "map_of (ctx_allowed_keys ctx) kid = Some pub" "pub \<noteq> []"
    and sign: "stat_cert_signing_bytes c = Inr bytes" "verify_signature X pub bytes sig ''ed25519''"
  shows "check_stat_cert_spec X c D ctx k = Inr n"
proof -
  have cert: "jor (jget c ''certificate'') (JObj []) = cert"
    using spec(5,6) by (auto simp: jor_def is_obj_iff)
  have strs: "nonempty_str (JStr sig)" "nonempty_str (JStr ''ed25519'')" "nonempty_str (JStr kid)"
    using spec(8,11) by (simp_all add: nonempty_str_def)
  show ?thesis
    by (simp only: check_stat_cert_spec_def Let_def cert spec(1-4,6,7,9,10) strs less key sign bindr.simps prod.case
        simp_thms if_True if_False option.case the_str.simps not_True_eq_False)
qed

text \<open>The canonical form of a plain request's issued spec, and its signature.\<close>

lemma issued_canonical:
  assumes q: "read_request data spec = Inr q" and plain: "plain_request spec"
    and load: "load_sealed_config data True = Inr sc"
    and risk: "fill_risk (jget spec ''risk'') sc db = Inr risk" "nonempty_str (jget risk ''evalue_threshold'')"
    and ev: "evalue_to_dict ev = Inr ej" "parse_evalue ej = Inr ev"
  shows "canonicalize_spec (issued_spec spec (wr_eval q) risk (worker_certificate (wr_episodes q) r ej th sig kid))
      = Inr (spec_form spec (with_fields (wr_eval q) eval_fields) (with_fields risk risk_fields)
          (canonical_certificate (wr_episodes q) r ej th sig kid))" (is ?canon)
    and "stat_cert_signing_bytes (issued_spec spec (wr_eval q) risk (worker_certificate (wr_episodes q) r ej th sig0 kid))
      = stat_cert_signing_bytes (spec_form spec (with_fields (wr_eval q) eval_fields) (with_fields risk risk_fields)
          (canonical_certificate (wr_episodes q) r ej th sig kid))" (is ?bytes)
proof -
  from read_request_Inr [OF q] load_sealed_config_keys [OF load]
  obtain cfg where spec: "is_obj spec" "jget spec ''kind'' = JStr ''stat_cert''" "nonempty_str (jget spec ''concept'')"
    "jget spec ''eval'' = cfg" "jget spec ''baseline_symbol'' = JStr (wr_baseline q)"
    "jget spec ''candidate_symbol'' = JStr (wr_candidate q)" and cfg: "is_obj cfg" "fill_eval_config cfg sc = Inr (wr_eval q)"
    "jget cfg ''episodes'' = wr_episodes q" "is_bool (jget cfg ''paired_seeds'')" "jget cfg ''oracle_symbol'' = JStr (wr_oracle q)"
    by (metis sum.inject(2))
  have fields: "known_fields cfg eval_fields" "is_int (jget cfg ''episodes'')" "is_int (jget cfg ''max_steps'')"
    "is_str (jget spec ''metric'')" "is_str (jget spec ''null'')"
    "jget spec ''risk'' = JNull \<or> known_fields (jget spec ''risk'') risk_fields"
    using plain spec(4) by (auto simp: plain_request_def)
  have "is_str (jget cfg ''oracle_symbol'')" using cfg(5) by simp
  note full = eval_fields_full [OF fields(1) cfg(2) fields(2,3) cfg(4) this]
  have full_vals: "jget (wr_eval q) ''paired_seeds'' = jget cfg ''paired_seeds''"
    "jget (wr_eval q) ''oracle_symbol'' = jget cfg ''oracle_symbol''"
    using cfg(1) by (simp_all add: fill_eval_config_Inr [OF cfg(2)])
  from fill_risk_Inr [OF risk(1)] fields(6) obtain a c where r: "is_obj risk" "jget risk ''alpha_i'' = JStr a"
    "known_fields risk risk_fields" "list_all (jhas risk) risk_fields"
    "jget risk ''alpha_schedule'' = schedule_json (sc_alpha_schedule sc) c" "\<exists>d. format_decimal d = Inr a"
    unfolding schedule_json_def by metis
  then have "nonempty_str (jget risk ''alpha_i'')" by (auto simp: nonempty_str_def dest: format_decimal_parse)
  with load_sealed_config_schedule [OF load] r risk(2) have crisk: "canon_risk risk = Inr (with_fields risk risk_fields)"
    by (intro canon_risk_fields) auto
  have ccert: "canon_certificate (worker_certificate (wr_episodes q) r ej th sig kid)
      = Inr (canonical_certificate (wr_episodes q) r ej th sig kid)"
    by (rule canon_certificate_fields [OF _ ev]) (use fields(2) cfg(3) in simp)
  show ?canon
    by (rule canonicalize_issued) (use spec fields full full_vals cfg r crisk ccert in \<open>auto simp: worker_certificate_def\<close>)
  have "sort_keys risk = sort_keys (with_fields risk risk_fields)"
    by (rule sort_keys_fields [OF r(3) _ r(4)]) (simp add: risk_fields_def)
  note forms = canon_bytes_cong [OF sort_keys_form [OF full(2) this sort_keys_certificate]]
  show ?bytes
    using spec(1) forms [of spec "wr_episodes q" r ej th sig0 kid sig]
    by (simp add: signing_bytes_form worker_certificate_def canonical_certificate_def)
qed

text \<open>Every issued spec, taken apart.\<close>

definition report_json :: "externals \<Rightarrow> worker_request \<Rightarrow> harness_report \<Rightarrow> json \<Rightarrow> string \<Rightarrow> string \<Rightarrow> json" where
  "report_json X q r ej sig kid = worker_certificate (wr_episodes q) r ej (x_blake3 X (rp_transcript r)) sig kid"

lemma issue_stat_cert_Inr:
  assumes "issue_stat_cert X S registry data F db spec priv seed extra = (Inr out, db1)"
  obtains q harness defs lo hi len r d ev ej pub kid risk bytes sig where
    "read_request data spec = Inr q" "init_schema db = Inr db1"
    "get_harness registry (the_str (jget (wr_eval q) ''eval_harness_id'')) = Inr harness"
    "hn_run_episodes harness \<lparr>hr_eval_cfg = wr_eval q, hr_defs = defs, hr_baseline = wr_baseline q,
       hr_candidate = wr_candidate q, hr_oracle = wr_oracle q, hr_seed_key = seed, hr_int_min = lo,
       hr_int_max = hi, hr_list_max_len = len, hr_fun_symbols = wr_fun_symbols q\<rparr> = Inr r"
    "hoeffding_mixture_evalue (sum_list (rp_diffs r)) (number_value (wr_episodes q)) = Inr d" "encode_evalue d = Inr ev"
    "evalue_to_dict ev = Inr ej" "public_key_from_private X S priv = Inr pub" "key_id_from_public_key X pub = Inr kid"
    "fill_risk (jget spec ''risk'') (wr_sealed q) db1 = Inr risk"
    "stat_cert_signing_bytes (issued_spec spec (wr_eval q) risk (report_json X q r ej '''' kid)) = Inr bytes"
    "sign_bytes X S priv bytes = Inr sig"
    "out = issued_spec spec (wr_eval q) risk (report_json X q r ej sig kid)"
proof -
  from assms obtain q where q: "read_request data spec = Inr q" "init_schema db = Inr db1"
    "run_and_sign X S registry data F db1 spec q priv seed extra = Inr out"
    by (auto simp: issue_stat_cert_def split: sum.split_asm)
  from q(3) obtain harness defs lo hi len r cert risk bytes sig where run:
    "get_harness registry (the_str (jget (wr_eval q) ''eval_harness_id'')) = Inr harness"
    "hn_run_episodes harness \<lparr>hr_eval_cfg = wr_eval q, hr_defs = defs, hr_baseline = wr_baseline q,
       hr_candidate = wr_candidate q, hr_oracle = wr_oracle q, hr_seed_key = seed, hr_int_min = lo,
       hr_int_max = hi, hr_list_max_len = len, hr_fun_symbols = wr_fun_symbols q\<rparr> = Inr r"
    "unsigned_certificate X S priv q r '''' = Inr cert" "fill_risk (jget spec ''risk'') (wr_sealed q) db1 = Inr risk"
    "stat_cert_signing_bytes (issued_spec spec (wr_eval q) risk cert) = Inr bytes"
    "sign_bytes X S priv bytes = Inr sig" "out = issued_spec spec (wr_eval q) risk (signed_certificate cert sig)"
    by (rule run_and_sign_Inr)
  from run(3) obtain d ev ej pub kid where cert:
    "hoeffding_mixture_evalue (sum_list (rp_diffs r)) (number_value (wr_episodes q)) = Inr d" "encode_evalue d = Inr ev"
    "evalue_to_dict ev = Inr ej" "public_key_from_private X S priv = Inr pub" "key_id_from_public_key X pub = Inr kid"
    "cert = report_json X q r ej '''' kid"
    by (rule unsigned_certificate_Inr) (auto simp: report_json_def worker_certificate_def)
  have "out = issued_spec spec (wr_eval q) risk (report_json X q r ej sig kid)"
    using run(7) cert(6) by (simp add: report_json_def)
  with that q run cert show ?thesis by blast
qed

text \<open>Subject, evaluation and risk of the canonical form, for any certificate.\<close>

lemma issued_eval:
  assumes q: "read_request data spec = Inr q" and load: "load_sealed_config data True = Inr sc"
    and plain: "plain_request spec"
    and known: "\<And>s. jget spec ''baseline_symbol'' = JStr s \<Longrightarrow> D s \<noteq> None"
      "\<And>s. jget spec ''candidate_symbol'' = JStr s \<Longrightarrow> D s \<noteq> None"
      "\<And>s. jget (jget spec ''eval'') ''oracle_symbol'' = JStr s \<Longrightarrow> D s \<noteq> None"
  obtains n where "is_obj spec" "wr_sealed q = sc" "wr_episodes q = JInt n" "0 < n"
    "jget (jget spec ''eval'') ''episodes'' = JInt n" "jget (wr_eval q) ''episodes'' = JInt n"
    "jget (wr_eval q) ''eval_harness_id'' = JStr (sc_eval_harness_id sc)"
    "\<And>risk cert. check_cert_subject (spec_form spec (with_fields (wr_eval q) eval_fields) risk cert) D = Inr ()"
    "\<And>risk cert k. check_cert_eval (spec_form spec (with_fields (wr_eval q) eval_fields) risk cert) D
       (stat_context_of sc k) = Inr n"
proof -
  from read_request_Inr [OF q] load_sealed_config_keys [OF load]
  obtain cfg where spec: "is_obj spec" "nonempty_str (jget spec ''concept'')" "wr_sealed q = sc"
    "jget spec ''eval'' = cfg" "jget spec ''baseline_symbol'' = JStr (wr_baseline q)"
    "jget spec ''candidate_symbol'' = JStr (wr_candidate q)" and cfg: "is_obj cfg" "fill_eval_config cfg sc = Inr (wr_eval q)"
    "jget cfg ''episodes'' = wr_episodes q" "0 < number_value (wr_episodes q)" "is_bool (jget cfg ''paired_seeds'')"
    "jget cfg ''oracle_symbol'' = JStr (wr_oracle q)"
    by (metis sum.inject(2))
  from plain spec(4) cfg(3,4) obtain n where n: "wr_episodes q = JInt n" "0 < n" by (auto simp: plain_request_def is_int_iff)
  have vals: "jget (wr_eval q) ''eval_harness_id'' = JStr (sc_eval_harness_id sc)"
    "jget (wr_eval q) ''eval_harness_hash'' = JStr (sc_eval_harness_hash sc)"
    "jget (wr_eval q) ''eval_suite_hash'' = JStr (sc_eval_suite_hash sc)" "jget (wr_eval q) ''episodes'' = JInt n"
    "is_int (jget (wr_eval q) ''max_steps'')" "is_bool (jget (wr_eval q) ''paired_seeds'')"
    "jget (wr_eval q) ''oracle_symbol'' = JStr (wr_oracle q)"
    using cfg n plain spec(4) by (simp_all add: fill_eval_config_Inr [OF cfg(2)] plain_request_def)
  have "check_cert_subject (spec_form spec (with_fields (wr_eval q) eval_fields) risk cert) D = Inr ()" for risk cert
    by (rule check_subject_form [OF spec(2) _ _ spec(5,6) known(1) known(2)])
      (use plain spec(5,6) in \<open>auto simp: plain_request_def\<close>)
  moreover have "check_cert_eval (spec_form spec (with_fields (wr_eval q) eval_fields) risk cert) D
      (stat_context_of sc k) = Inr n" for risk cert k
    by (rule check_eval_form [OF vals(4) n(2) vals(5-7) known(3) vals(1-3)]) (use spec(4) cfg(6) in simp)
  ultimately show ?thesis using that spec(1,3,4) n cfg(3) vals(1,4) by simp
qed

lemma issued_risk:
  assumes risk: "fill_risk risk0 sc db = Inr risk" and load: "load_sealed_config data True = Inr sc"
    and t: "jget risk ''evalue_threshold'' = JStr t" "parse_decimal t = Inr threshold"
    and alpha: "parse_decimal_field (jget risk ''alpha_i'') = Inr alpha"
  shows "check_cert_risk (spec_form spec cfg (with_fields risk risk_fields) cert) (stat_context_of sc j) (stat_round db)
    = Inr (alpha, threshold)"
proof -
  from fill_risk_Inr [OF risk] obtain alpha_i a c where ri:
    "alpha_for_round (sc_alpha_total sc) (stat_round db) (sc_alpha_schedule sc) = Inr alpha_i"
    "format_decimal alpha_i = Inr a" "format_decimal (as_coefficient (sc_alpha_schedule sc)) = Inr c"
    "jget risk ''alpha_i'' = JStr a" "jget risk ''alpha_schedule'' = schedule_json (sc_alpha_schedule sc) c"
    unfolding schedule_json_def by metis
  from check_risk_form [OF ri(1-3) _ _ ri(4) t ri(5)] load_sealed_config_schedule [OF load] alpha ri(4)
  show ?thesis by (fastforce simp: parse_decimal_field_def)
qed

lemma parse_decimal_nonempty: "parse_decimal s = Inr d \<Longrightarrow> s \<noteq> []"
  by (auto simp: parse_decimal_def split_sign_def lower_def strip_def starts_def invalid_def Let_def)

lemma clears_threshold_issued:
  assumes "clears_threshold (issued_spec spec cfg risk (report_json X q r ej sig kid))" and "is_obj spec"
    and "parse_evalue ej = Inr ev"
  obtains t threshold alpha d pr where "jget risk ''evalue_threshold'' = JStr t" "parse_decimal t = Inr threshold"
    "parse_decimal_field (jget risk ''alpha_i'') = Inr alpha" "encoded_evalue_to_decimal ev = Inr d"
    "dec_mul d alpha = Inr pr" "dec_less pr threshold = Inr False" "nonempty_str (jget risk ''evalue_threshold'')"
proof -
  from assms obtain t threshold alpha d pr where "jget risk ''evalue_threshold'' = JStr t" "parse_decimal t = Inr threshold"
    "parse_decimal_field (jget risk ''alpha_i'') = Inr alpha" "encoded_evalue_to_decimal ev = Inr d"
    "dec_mul d alpha = Inr pr" "dec_less pr threshold = Inr False"
    by (auto simp: clears_threshold_def report_json_def worker_certificate_def parse_decimal_field_def is_str_iff
        split: if_split_asm sum.split_asm exn.split_asm)
  with that parse_decimal_nonempty show ?thesis by (simp add: nonempty_str_def)
qed

context eval_harness
begin

text \<open>The certificate of a run under the contract passes every check.\<close>

lemma issued_accepted:
  assumes issue: "issue_stat_cert X S registry data F db spec priv seed extra = (Inr out, db1)"
    and harness: "\<And>h. registry (sc_eval_harness_id sc) = Some h \<Longrightarrow> hn_run_episodes h = run"
    and load: "load_sealed_config data True = Inr sc" and plain: "plain_request spec"
    and contract: "signs_verify X S" and key: "trusted_key X S priv sc" and clears: "clears_threshold out"
    and known: "\<And>s. jget spec ''baseline_symbol'' = JStr s \<Longrightarrow> D s \<noteq> None"
      "\<And>s. jget spec ''candidate_symbol'' = JStr s \<Longrightarrow> D s \<noteq> None"
      "\<And>s. jget (jget spec ''eval'') ''oracle_symbol'' = JStr s \<Longrightarrow> D s \<noteq> None"
  shows "\<exists>c n. canonicalize_spec out = Inr c \<and> jget (jget spec ''eval'') ''episodes'' = JInt n
    \<and> check_stat_cert_spec X c D (stat_context_of sc (stat_round db1)) (stat_round db1) = Inr n"
proof -
  from issue obtain q h defs lo hi len r d ev ej pub kid risk bytes sig where q: "read_request data spec = Inr q"
    and h: "get_harness registry (the_str (jget (wr_eval q) ''eval_harness_id'')) = Inr h"
    and ran: "hn_run_episodes h \<lparr>hr_eval_cfg = wr_eval q, hr_defs = defs, hr_baseline = wr_baseline q,
       hr_candidate = wr_candidate q, hr_oracle = wr_oracle q, hr_seed_key = seed, hr_int_min = lo,
       hr_int_max = hi, hr_list_max_len = len, hr_fun_symbols = wr_fun_symbols q\<rparr> = Inr r" (is "hn_run_episodes h ?q = _")
    and cert: "hoeffding_mixture_evalue (sum_list (rp_diffs r)) (number_value (wr_episodes q)) = Inr d"
      "encode_evalue d = Inr ev" "evalue_to_dict ev = Inr ej"
    and pub: "public_key_from_private X S priv = Inr pub" "key_id_from_public_key X pub = Inr kid"
    and risk: "fill_risk (jget spec ''risk'') (wr_sealed q) db1 = Inr risk"
    and bytes: "stat_cert_signing_bytes (issued_spec spec (wr_eval q) risk (report_json X q r ej '''' kid)) = Inr bytes"
    and sig: "sign_bytes X S priv bytes = Inr sig"
    and out: "out = issued_spec spec (wr_eval q) risk (report_json X q r ej sig kid)"
    by (rule issue_stat_cert_Inr)
  from issued_eval [OF q load plain, of D] known obtain n where n: "is_obj spec" "wr_sealed q = sc" "wr_episodes q = JInt n"
    "0 < n" "jget (jget spec ''eval'') ''episodes'' = JInt n" "jget (wr_eval q) ''episodes'' = JInt n"
    "jget (wr_eval q) ''eval_harness_id'' = JStr (sc_eval_harness_id sc)"
    and subject: "\<And>risk cert. check_cert_subject (spec_form spec (with_fields (wr_eval q) eval_fields) risk cert) D = Inr ()"
    and eval: "\<And>risk cert k. check_cert_eval (spec_form spec (with_fields (wr_eval q) eval_fields) risk cert) D
       (stat_context_of sc k) = Inr n" by blast
  from hoeffding_roundtrip [OF cert(1) _ cert(2)] cert(3) n(3,4)
  have ej: "parse_evalue ej = Inr ev" "encoded_evalue_equal ev ev = Inr True" by auto
  from clears_threshold_issued [OF clears [unfolded out] n(1) ej(1)] obtain t threshold alpha dd pr where
    clr: "jget risk ''evalue_threshold'' = JStr t" "parse_decimal t = Inr threshold"
    "parse_decimal_field (jget risk ''alpha_i'') = Inr alpha" "encoded_evalue_to_decimal ev = Inr dd"
    "dec_mul dd alpha = Inr pr" "dec_less pr threshold = Inr False" "nonempty_str (jget risk ''evalue_threshold'')" by blast
  note canon = issued_canonical [OF q plain load risk [unfolded n(2)] clr(7) cert(3) ej(1)]
  have "registry (sc_eval_harness_id sc) = Some h" using h by (auto simp: n(7) get_harness_def split: option.split_asm)
  from run_counts [OF ran [unfolded harness [OF this]]] n(4)
  have "check_cert_counts (canonical_certificate (JInt n) r ej th sig kid) n = Inr ev" for th
    by (intro check_counts_form [OF _ _ cert(2) ej]) (use cert(1) n(3) in \<open>simp_all add: request_episodes_def n(6)\<close>)
  note counts = this [of "x_blake3 X (rp_transcript r)", folded n(3)]
  from key pub have tk: "x_crypto_available X" "kid \<noteq> []" "map_of (sc_allowed_keys sc) kid = Some pub"
    by (simp_all add: trusted_key_def)
  note verified = signed_verifies [OF contract sig pub(1)]
  note signed = trans [OF canon(2) [symmetric] bytes [unfolded report_json_def]]
  note checks = check_signed_form [OF subject eval issued_risk [OF risk [unfolded n(2)] load clr(1-3)] counts _ _ _
      verified(2) _ _ tk(2) clr(4-6) tk(1) _ verified(3) signed verified(1)]
  let ?c = "spec_form spec (with_fields (wr_eval q) eval_fields) (with_fields risk risk_fields)
     (canonical_certificate (wr_episodes q) r ej (x_blake3 X (rp_transcript r)) sig kid)"
  have "check_stat_cert_spec X ?c D (stat_context_of sc (stat_round db1)) (stat_round db1) = Inr n"
    by (rule checks; simp add: canonical_certificate_def stat_context_of_def tk(3))
  with canon(1) n(5) show ?thesis unfolding out report_json_def by blast
qed

end

end
