(* ===== verification/Sealed_Refusal.thy ===== *)
theory Sealed_Refusal
  imports Sealed_Worker_Props Kernel_Spec_Props
begin

section \<open>Fields that canonicalisation drops\<close>

text \<open>
  The worker signs the evaluation settings it was given; the verifier checks the signature over
  the canonical form, which has no \<open>fun_symbols\<close>. Proved: a spec issued with \<open>fun_symbols\<close> has
  other bytes than its canonical form.
\<close>

subsection \<open>The bytes determine the document\<close>

definition utf8_char :: "char \<Rightarrow> string" where
  "utf8_char c = (let n = of_char c :: nat in
     if n < 128 then [c] else [char_of (192 + n div 64), char_of (128 + n mod 64)])"

lemma utf8_Cons: "utf8 (c # s) = utf8_char c @ utf8 s" and utf8_Nil: "utf8 [] = []"
  by (simp_all add: utf8_def utf8_char_def Let_def)

lemma utf8_char_head: "\<exists>h t. utf8_char c = h # t \<and> (of_char h < (128 :: nat) \<longleftrightarrow> of_char c < (128 :: nat))"
proof -
  have "of_char c div (64 :: nat) < 4" by (rule less_mult_imp_div_less) simp
  then show ?thesis by (auto simp: utf8_char_def Let_def)
qed

lemma utf8_char_inj: "utf8_char c @ s = utf8_char d @ t \<Longrightarrow> c = d \<and> s = t"
proof -
  assume eq: "utf8_char c @ s = utf8_char d @ t"
  then have same: "of_char c < (128 :: nat) \<longleftrightarrow> of_char d < (128 :: nat)"
    using utf8_char_head [of c] utf8_char_head [of d] by auto
  show ?thesis
  proof (cases "of_char c < (128 :: nat)")
    case True
    with same eq show ?thesis by (simp add: utf8_char_def Let_def)
  next
    case False
    let ?m = "of_char c :: nat" and ?n = "of_char d :: nat"
    from False same eq have st: "s = t" "char_of (192 + ?m div 64) = (char_of (192 + ?n div 64) :: char)"
      "char_of (128 + ?m mod 64) = (char_of (128 + ?n mod 64) :: char)"
      by (simp_all add: utf8_char_def Let_def del: char_of_eq_iff)
    have "?m div 64 < 4" "?n div 64 < 4" by (rule less_mult_imp_div_less; simp)+
    moreover have "?m mod 64 < 64" "?n mod 64 < 64" by simp_all
    ultimately have "?m div 64 = ?n div 64" "?m mod 64 = ?n mod 64"
      using arg_cong [OF st(2), of "of_char :: char \<Rightarrow> nat"] arg_cong [OF st(3), of "of_char :: char \<Rightarrow> nat"]
    by simp_all
    then have "?m = ?n" by (metis div_mult_mod_eq)
    with st(1) show ?thesis by simp
  qed
qed

lemma utf8_inj: "utf8 s = utf8 t \<Longrightarrow> s = t"
proof (induction s arbitrary: t)
  case Nil
  then show ?case using utf8_char_head by (cases t) (auto simp: utf8_Cons utf8_Nil, metis append_Cons list.distinct(1))
next
  case (Cons c s)
  show ?case
  proof (cases t)
    case Nil
    with Cons.prems utf8_char_head [of c] show ?thesis by (auto simp: utf8_Cons utf8_Nil)
  next
    case (Cons d t')
    with Cons.prems have "utf8_char c @ utf8 s = utf8_char d @ utf8 t'" by (simp add: utf8_Cons)
    from utf8_char_inj [OF this] Cons.IH Cons show ?thesis by blast
  qed
qed

lemma canon_bytes_inj:
  assumes "canon_bytes a = canon_bytes b" and "wf_json a" "wf_json b"
  shows "sort_keys a = sort_keys b"
proof -
  from assms(1) have "dumps '','' '':'' False a = dumps '','' '':'' False b"
    by (simp add: canon_bytes_def utf8_inj)
  moreover have "loads (dumps '','' '':'' False j) = Inr (sort_keys j)" if "wf_json j" for j
    by (rule loads_dumps [OF _ _ that]) (simp_all add: is_sep_def)
  ultimately show ?thesis using assms(2,3) by (metis sum.inject(2))
qed

lemma map_of_sort_key:
  assumes "distinct (map fst kvs)"
  shows "map_of (sort_key fst kvs) k = map_of kvs k"
proof -
  have "distinct (map fst (sort_key fst kvs))"
    using assms by (metis mset_map mset_sort mset_eq_imp_distinct_iff)
  then have "map_of (sort_key fst kvs) k = Some v \<longleftrightarrow> map_of kvs k = Some v" for v
    using assms by (simp add: map_of_eq_Some_iff)
  then show ?thesis by (metis not_None_eq)
qed

lemma jget_sort_keys: "wf_json j \<Longrightarrow> jget (sort_keys j) k = sort_keys (jget j k)"
proof (cases j)
  case (JObj kvs)
  assume "wf_json j"
  with JObj have "map_of (sort_key fst kvs) k = map_of kvs k" by (simp add: map_of_sort_key)
  then show ?thesis unfolding JObj sort_keys_JObj
    by (simp add: map_of_map split: option.split)
qed simp_all

lemma sort_keys_JNull [simp]: "sort_keys j = JNull \<longleftrightarrow> j = JNull"
  by (cases j) simp_all

lemma wf_jget: "wf_json j \<Longrightarrow> wf_json (jget j k)"
  by (cases j) (auto split: option.split dest!: map_of_SomeD)

lemma wf_obj_set: "wf_json j \<Longrightarrow> wf_json v \<Longrightarrow> wf_json (obj_set j k v)"
proof (cases j)
  case (JObj kvs)
  have "set (dict_set kvs k v) \<subseteq> insert (k, v) (set kvs)"
    by (induction kvs) (auto split: if_split_asm)
  moreover assume "wf_json j" "wf_json v"
  ultimately show ?thesis using distinct_dict_set [of kvs k v] unfolding JObj by fastforce
qed simp_all

lemma wf_jor: "wf_json a \<Longrightarrow> wf_json b \<Longrightarrow> wf_json (jor a b)"
  by (simp add: jor_def)

subsection \<open>The signed payload\<close>

lemma signing_payload_eval:
  assumes "stat_cert_signing_payload spec = Inr p" and "wf_json spec"
  shows "wf_json p \<and> jget p ''eval'' = jget spec ''eval''"
proof -
  from assms(1) obtain items where items: "jor (jget spec ''certificate'') (JObj []) = JObj items"
    and obj: "is_obj spec"
    by (auto simp: stat_cert_signing_payload_def jgetr_def split: if_split_asm json.split_asm)
  have "wf_json (JObj items)" unfolding items [symmetric] by (intro wf_jor wf_jget assms(2)) simp
  then have "wf_json (JObj (filter (\<lambda>(k, v). k \<noteq> ''signature'') items))"
    by (auto simp: distinct_map_filter)
  moreover have "p = spec_form spec (jget spec ''eval'') (jget spec ''risk'')
      (JObj (filter (\<lambda>(k, v). k \<noteq> ''signature'') items))"
    using assms(1) items obj by (simp add: stat_cert_signing_payload_def spec_form_def)
  ultimately show ?thesis using assms(2) by (simp add: spec_form_def wf_jget)
qed

lemma signing_bytes_eval:
  assumes "stat_cert_signing_bytes a = Inr bytes" "stat_cert_signing_bytes b = Inr bytes"
    and "wf_json a" "wf_json b"
  shows "sort_keys (jget a ''eval'') = sort_keys (jget b ''eval'')"
proof -
  from assms(1,2) obtain p q where p: "stat_cert_signing_payload a = Inr p" "stat_cert_signing_payload b = Inr q"
    "canon_bytes p = canon_bytes q" by (auto simp: stat_cert_signing_bytes_def)
  note wf = signing_payload_eval [OF p(1) assms(3)] signing_payload_eval [OF p(2) assms(4)]
  from canon_bytes_inj [OF p(3)] wf have "sort_keys p = sort_keys q" by blast
  then have "jget (sort_keys p) ''eval'' = jget (sort_keys q) ''eval''" by simp
  with wf show ?thesis by (simp add: jget_sort_keys)
qed

lemma wf_scalars: "is_int j \<Longrightarrow> wf_json j" "is_str j \<Longrightarrow> wf_json j" "is_bool j \<Longrightarrow> wf_json j"
  by (cases j; simp)+

lemma require_wf:
  "require_int k j = Inr x \<Longrightarrow> wf_json x" "require_str_from j k = Inr x \<Longrightarrow> wf_json x"
  "require_decimal_str k j = Inr x \<Longrightarrow> wf_json x" "canonicalize_alpha_schedule j = Inr x \<Longrightarrow> wf_json x"
  "require_evalue j = Inr x \<Longrightarrow> wf_json x"
  by (auto simp: require_int_def require_str_from_def require_decimal_str_def canonicalize_alpha_schedule_def
      require_evalue_def Let_def wf_scalars split: if_split_asm)

lemma canon_eval_cfg_Inr:
  assumes "canon_eval_cfg cfg paired oracle = Inr x" and "is_bool paired" "is_str oracle"
  shows "wf_json x \<and> jget x ''fun_symbols'' = JNull"
  using assms unfolding canon_eval_cfg_def by (elim bindrE) (auto simp: wf_scalars dest!: require_wf)

lemma canon_risk_Inr: "canon_risk risk = Inr x \<Longrightarrow> wf_json x"
  unfolding canon_risk_def by (elim bindrE) (auto dest!: require_wf)

lemma canon_certificate_Inr:
  assumes "canon_certificate cert = Inr x" and "wf_json cert"
  shows "wf_json x \<and> jget x ''signature'' = jget cert ''signature''"
  using assms unfolding canon_certificate_def
  by (elim bindrE) (auto simp: wf_jget require_str_from_def jgetr_def dest!: require_wf split: if_split_asm)

text \<open>The canonical form is a proper document, has the signature and no \<open>fun_symbols\<close>.\<close>

lemma canonicalize_stat_cert_Inr:
  assumes "canonicalize_stat_cert spec = Inr c" and "wf_json spec"
  shows "wf_json c \<and> jget (jget c ''eval'') ''fun_symbols'' = JNull
    \<and> jget (cert_of c) ''signature'' = jget (cert_of spec) ''signature''"
proof -
  let ?cfg = "jor (jget spec ''eval'') (JObj [])" and ?cert = "jor (jget spec ''certificate'') (JObj [])"
  from assms(1) obtain e r k a b n x y where e: "canon_eval_cfg ?cfg (jget ?cfg ''paired_seeds'') (jget ?cfg ''oracle_symbol'') = Inr e"
      "is_bool (jget ?cfg ''paired_seeds'')" "is_str (jget ?cfg ''oracle_symbol'')"
    and r: "canon_risk (jor (jget spec ''risk'') (JObj [])) = Inr r" and k: "canon_certificate ?cert = Inr k"
    and s: "require_str_from spec ''concept'' = Inr a" "require_str_from spec ''metric'' = Inr b"
      "require_str_from spec ''null'' = Inr n" "require_str_from spec ''baseline_symbol'' = Inr x"
      "require_str_from spec ''candidate_symbol'' = Inr y"
    and c: "c = JObj [(''kind'', JStr ''stat_cert''), (''concept'', a), (''metric'', b), (''null'', n),
      (''baseline_symbol'', x), (''candidate_symbol'', y), (''eval'', e), (''risk'', r), (''certificate'', k)]"
    unfolding canonicalize_stat_cert_def Let_def by (auto elim!: bindrE simp del: bindr_Inr_iff split: if_split_asm)
  have "wf_json ?cert" by (intro wf_jor wf_jget assms(2)) simp
  from canon_certificate_Inr [OF k this] have kw: "wf_json k" "jget k ''signature'' = jget ?cert ''signature''" by auto
  moreover have "jor k (JObj []) = k"
    using k unfolding canon_certificate_def by (elim bindrE) (auto simp: jor_def)
  ultimately show ?thesis using canon_eval_cfg_Inr [OF e] canon_risk_Inr [OF r] require_wf(2) [OF s(1)]
      require_wf(2) [OF s(2)] require_wf(2) [OF s(3)] require_wf(2) [OF s(4)] require_wf(2) [OF s(5)]
    by (simp add: c cert_of_def)
qed

subsection \<open>An issued spec\<close>

lemma fill_risk_wf:
  assumes "fill_risk risk0 sc db = Inr risk" and "wf_json risk0"
  shows "wf_json risk"
  using assms unfolding fill_risk_def Let_def
  by (auto elim!: bindrE simp del: bindr_Inr_iff split: if_split_asm intro!: wf_obj_set)

lemma evalue_to_dict_wf: "evalue_to_dict ev = Inr j \<Longrightarrow> wf_json j"
  by (auto simp: evalue_to_dict_def)

lemma issued_wf:
  assumes issue: "issue_stat_cert X S registry data F db spec priv seed extra = (Inr out, db1)" and "wf_json spec"
  shows "wf_json out" and "jget (jget out ''eval'') ''fun_symbols'' = jget (jget spec ''eval'') ''fun_symbols''"
    and "jget out ''kind'' = JStr ''stat_cert''" and "is_obj out"
proof -
  from issue obtain q r ev ej kid risk sig where q: "read_request data spec = Inr q" "evalue_to_dict ev = Inr ej"
    "fill_risk (jget spec ''risk'') (wr_sealed q) db1 = Inr risk"
    and out: "out = issued_spec spec (wr_eval q) risk (report_json X q r ej sig kid)"
    by (rule issue_stat_cert_Inr)
  from read_request_Inr [OF q(1)] obtain sc cfg where spec: "is_obj spec" "jget spec ''kind'' = JStr ''stat_cert''"
    "jget spec ''eval'' = cfg" "is_obj cfg" "jget cfg ''episodes'' = wr_episodes q" "fill_eval_config cfg sc = Inr (wr_eval q)"
    by metis
  note full = fill_eval_config_Inr [OF spec(6)]
  have wf: "wf_json cfg" "wf_json (wr_episodes q)"
    using wf_jget [OF assms(2), of "''eval''"] wf_jget [of cfg "''episodes''"] spec(3,5) by auto
  have "wf_json (wr_eval q)" unfolding full by (intro wf_obj_set wf) simp_all
  moreover have "wf_json risk" by (rule fill_risk_wf [OF q(3) wf_jget [OF assms(2)]])
  moreover have "wf_json (report_json X q r ej sig kid)"
    using wf evalue_to_dict_wf [OF q(2)] by (simp add: report_json_def worker_certificate_def)
  ultimately show "wf_json out" unfolding out issued_spec_def by (intro wf_obj_set assms(2))
  show "jget (jget out ''eval'') ''fun_symbols'' = jget (jget spec ''eval'') ''fun_symbols''"
    and "jget out ''kind'' = JStr ''stat_cert''" and "is_obj out"
    using spec by (simp_all add: out full)
qed

text \<open>With a signature that verifies for the signed bytes alone, the canonical form is refused.\<close>

lemma fun_symbols_refused:
  assumes issue: "issue_stat_cert X S registry data F db spec priv seed extra = (Inr out, db1)" and wf: "wf_json spec"
    and fs: "jget (jget spec ''eval'') ''fun_symbols'' \<noteq> JNull" and canon: "canonicalize_spec out = Inr c"
    and binds: "\<And>pk bytes. x_ed25519_verifies X pk bytes (the_str (jget (cert_of out) ''signature''))
      \<Longrightarrow> stat_cert_signing_bytes out = Inr bytes"
  shows "check_stat_cert_spec X c D ctx k \<noteq> Inr n"
proof
  assume "check_stat_cert_spec X c D ctx k = Inr n"
  from check_stat_cert_signed [OF this] obtain pk bytes where b: "stat_cert_signing_bytes c = Inr bytes"
    "x_ed25519_verifies X pk bytes (the_str (jget (cert_of c) ''signature''))" by blast
  note out = issued_wf [OF issue wf]
  from canon out(3,4) have "canonicalize_stat_cert out = Inr c" by (simp add: canonicalize_spec_def)
  note c = canonicalize_stat_cert_Inr [OF this out(1)]
  with b(2) binds have "stat_cert_signing_bytes out = Inr bytes" by simp
  from signing_bytes_eval [OF this b(1) out(1)] c
  have "jget (sort_keys (jget out ''eval'')) ''fun_symbols'' = jget (sort_keys (jget c ''eval'')) ''fun_symbols''" by simp
  with c out(1,2) fs show False by (simp add: jget_sort_keys wf_jget)
qed

end
