(* ===== verification/Sealed_Demo.thy ===== *)
theory Sealed_Demo
  imports Sealed_Refusal Adoption_Instance
begin

section \<open>A worker to apply the properties to\<close>

text \<open>
  Three episodes of the toy harness on constant functions: nobody gains, so the e-value is
  \<open>1 / sqrt 4\<close>. The request names zero as its threshold.
\<close>

definition demo_signer :: signer where
  "demo_signer = \<lparr>sg_public = (\<lambda>priv. Inr ''pk''), sg_sign = (\<lambda>priv payload. Inr (''s'' @ payload))\<rparr>"

definition worker_externals :: externals where
  "worker_externals = \<lparr>x_blake3 = length_hash, x_crypto_available = True,
     x_ed25519_verifies = (\<lambda>pk bytes s. s = b64encode (''s'' @ bytes))\<rparr>"

definition demo_random :: "int random_source" where
  "demo_random = \<lparr>rs_seed = (\<lambda>i. i), rs_below = (\<lambda>n g. (0, g)), rs_blake2b = (\<lambda>s. s)\<rparr>"

definition worker_data :: json where
  "worker_data = JObj [(''sealed'', JObj [(''public_key'', JStr ''cGs=''), (''key_id'', JStr ''0000000000000000''),
     (''alpha_total'', JStr ''0.01''),
     (''alpha_schedule'', JObj [(''name'', JStr ''p_series''), (''exponent'', JInt 2), (''coefficient'', JStr ''0.6'')]),
     (''eval_harness_id'', JStr ''toy-harness-v1''), (''eval_harness_hash'', JStr ''harness-hash''),
     (''eval_suite_hash'', JStr ''sh'')])]"

definition worker_settings :: sealed_config where
  "worker_settings = \<lparr>sc_alpha_total = Fin False 1 (- 2),
     sc_alpha_schedule = \<lparr>as_name = ''p_series'', as_exponent = 2, as_coefficient = Fin False 6 (- 1)\<rparr>,
     sc_eval_harness_id = ''toy-harness-v1'', sc_eval_harness_hash = ''harness-hash'', sc_eval_suite_hash = ''sh'',
     sc_allowed_keys = [(''0000000000000000'', ''cGs='')]\<rparr>"

text \<open>A request, with further evaluation settings.\<close>

definition demo_request :: "(string \<times> json) list \<Rightarrow> json" where
  "demo_request extra = JObj [(''kind'', JStr ''stat_cert''), (''concept'', JStr ''c''), (''metric'', JStr ''accuracy''),
     (''null'', JStr ''no_improvement''), (''baseline_symbol'', JStr ''old''), (''candidate_symbol'', JStr ''new''),
     (''eval'', JObj ([(''episodes'', JInt 3), (''max_steps'', JInt 5), (''paired_seeds'', JBool True),
        (''oracle_symbol'', JStr ''oracle'')] @ extra)),
     (''risk'', JObj [(''evalue_threshold'', JStr ''0'')])]"

definition constant_def :: "string \<Rightarrow> kdef" where
  "constant_def name = \<lparr>d_name = name, d_params = [], d_ret = IntType, d_body = IntLit 0, d_term = \<lparr>t_kind = JStr ''structural'', t_decreases = JNull\<rparr>\<rparr>"

definition demo_defs :: "(string \<times> kdef) list" where
  "demo_defs = map (\<lambda>n. (n, constant_def n)) [''old'', ''new'', ''oracle'']"

abbreviation demo_registry :: "string \<Rightarrow> harness option" where
  "demo_registry \<equiv> harness_registry demo_random (\<lambda>_. None)"

lemma demo_settings: "load_sealed_config worker_data True = Inr worker_settings"
  by (simp add: worker_data_def worker_settings_def load_sealed_config_def jor_def weak_decimals parse_alpha_schedule_def
      jget_default_def sealed_require_str_def load_key_list_def dict_update_def Let_def)

lemma demo_contract: "signs_verify worker_externals demo_signer"
  by (simp add: signs_verify_def worker_externals_def demo_signer_def)

lemma demo_public: "public_key_from_private worker_externals demo_signer ''AAAA'' = Inr ''cGs=''"
  by code_simp

lemma demo_key_id: "key_id_from_public_key worker_externals ''cGs='' = Inr ''0000000000000000''"
  by code_simp

lemma demo_key: "trusted_key worker_externals demo_signer ''AAAA'' worker_settings"
  by (simp add: trusted_key_def demo_public demo_key_id) (simp add: worker_externals_def worker_settings_def)

subsection \<open>The e-value and alpha\<close>

lemma isqrt_unique: "m ^ 2 \<le> n \<Longrightarrow> n < (m + 1) ^ 2 \<Longrightarrow> isqrt n = m"
  using isqrt_correct [of n] power_less_imp_less_base [of "isqrt n" 2 "m + 1"]
    power_less_imp_less_base [of m 2 "isqrt n + 1"] by fastforce

lemma isqrt_demo: "isqrt (4 * 10 ^ 100) = 2 * 10 ^ 50"
  by (rule isqrt_unique) simp_all

lemma half_digits: "ndigits 5 = 1" "ndigits 2 = 1" "ndigits 8 = 1" "ndigits 4 = 1" "ndigits 1 = 1" "ndigits (Suc 0) = 1" "ndigits 0 = 1"
  "ndigits 3 = 1" "ndigits 6 = 1" "ndigits 12 = 2" "ndigits 600 = 3"
  "ndigits 500000000000000000000000 = 24" "ndigits 6000000000000000000000 = 22"
  "ndigits 3000000000000000000000000000000000000000000000 = 46"
  by (simp_all add: ndigits_def nat_str_length)

lemma demo_sqrt: "dec_sqrt (Fin False 4 0) = Inr (Fin False 2 0)"
  using isqrt_demo by (simp add: half_digits prec_def in_range_def emax_def Let_def)

lemma strip_zeros_step: "e < ideal \<Longrightarrow> 0 < c \<Longrightarrow> strip_zeros (c * 10 ^ Suc k) e ideal = strip_zeros (c * 10 ^ k) (e + 1) ideal"
  by (subst strip_zeros.simps) simp

lemma strip_zeros_all:
  assumes "0 < c" and "e + int k \<le> ideal" and "c mod 10 \<noteq> 0 \<or> e + int k = ideal"
  shows "strip_zeros (c * 10 ^ k) e ideal = (c, e + int k)"
  using assms(2,3)
proof (induction k arbitrary: e)
  case 0
  then show ?case by (subst strip_zeros.simps) auto
next
  case (Suc k)
  then show ?case using strip_zeros_step [of e ideal c k] assms(1) by (simp add: add.assoc)
qed

lemma strip_demo: "strip_zeros (5 * 10 ^ 50) (- 51) 0 = (5, - 1)" "strip_zeros (6 * 10 ^ 51) (- 54) (- 3) = (6, - 3)"
  using strip_zeros_all [of 5 "- 51" 50 0] strip_zeros_all [of 6 "- 54" 51 "- 3"] by simp_all

lemmas strip_demo_numerals = strip_demo [simplified]

lemma demo_half: "dec_div (Fin False 1 0) (Fin False 2 0) = Inr (Fin False 5 (- 1))"
  by (simp add: half_digits prec_def in_range_def emax_def Let_def strip_demo_numerals)

lemma demo_evalue: "hoeffding_mixture_evalue 0 3 = Inr (Fin False 5 (- 1))"
  using demo_sqrt demo_half
  by (simp add: hoeffding_mixture_evalue_def dec_of_int_def of_scoeff_def scoeff_def half_digits prec_def in_range_def
      emax_def Let_def del: dec_sqrt.simps)

lemma demo_encode: "encode_evalue (Fin False 5 (- 1))
    = Inr \<lparr>ev_mantissa = Fin False 500000000000000000000000 (- 23), ev_exponent10 = - 1\<rparr>"
  by (simp add: encode_evalue_def dec_of_int_def of_scoeff_def scoeff_def half_digits prec_def in_range_def
      emax_def mantissa_quant evalue_sig_digits_def dec_eq_def Let_def)

lemma demo_alpha: "alpha_for_round (Fin False 1 (- 2)) 1 (sc_alpha_schedule worker_settings)
    = Inr (Fin False 6000000000000000000000 (- 24))"
  by (simp add: alpha_for_round_def worker_settings_def half_digits prec_def in_range_def emax_def Let_def
      dec_int_pow_def alpha_quant_def strip_demo_numerals)

subsection \<open>The run\<close>

definition demo_query :: "json \<Rightarrow> string list \<Rightarrow> harness_request" where
  "demo_query cfg fs = \<lparr>hr_eval_cfg = cfg, hr_defs = demo_defs, hr_baseline = ''old'', hr_candidate = ''new'',
     hr_oracle = ''oracle'', hr_seed_key = [], hr_int_min = - 3, hr_int_max = 3, hr_list_max_len = 4, hr_fun_symbols = fs\<rparr>"

definition demo_report :: harness_report where
  "demo_report = \<lparr>rp_diffs = [0, 0, 0], rp_baseline_successes = 3, rp_candidate_successes = 3,
     rp_transcript = encode_diffs [0, 0, 0]\<rparr>"

lemma demo_apply:
  "safe_apply ''old'' [] (map_of demo_defs) 5 = Inr (Some (IntVal 0))"
  "safe_apply ''new'' [] (map_of demo_defs) 5 = Inr (Some (IntVal 0))"
  "safe_apply ''oracle'' [] (map_of demo_defs) 5 = Inr (Some (IntVal 0))"
  by code_simp+

lemma demo_episode:
  assumes "jget cfg ''max_steps'' = JInt 5" and "0 \<le> e" "e < 2 ^ 64"
  shows "toy_episode demo_random (demo_query cfg fs) (constant_def ''oracle'') e = Inr (True, True)"
  using assms by (simp add: toy_episode_def demo_query_def episode_seed_def to_bytes8_def demo_apply constant_def_def Let_def)

lemma demo_run:
  assumes "jget cfg ''max_steps'' = JInt 5" and "jget cfg ''episodes'' = JInt 3"
  shows "toy_run_episodes demo_random (demo_query cfg fs) = Inr demo_report"
proof -
  have "map_of (hr_defs (demo_query cfg fs)) (hr_oracle (demo_query cfg fs)) = Some (constant_def ''oracle'')"
    by (simp add: demo_query_def demo_defs_def)
  moreover have "[0..request_episodes (demo_query cfg fs) - 1] = [0, 1, 2]"
    using assms by (simp add: request_episodes_def demo_query_def upto.simps)
  ultimately show ?thesis using demo_episode [OF assms(1)]
    by (simp add: toy_run_episodes_def demo_report_def count_of_def)
qed

definition demo_eval :: "(string \<times> json) list \<Rightarrow> json" where
  "demo_eval extra = JObj ([(''episodes'', JInt 3), (''max_steps'', JInt 5), (''paired_seeds'', JBool True),
     (''oracle_symbol'', JStr ''oracle'')] @ extra @ [(''eval_harness_id'', JStr ''toy-harness-v1''),
     (''eval_harness_hash'', JStr ''harness-hash''), (''eval_suite_hash'', JStr ''sh'')])"

definition demo_worker :: "(string \<times> json) list \<Rightarrow> string list \<Rightarrow> worker_request" where
  "demo_worker extra fs = \<lparr>wr_sealed = worker_settings, wr_baseline = ''old'', wr_candidate = ''new'', wr_oracle = ''oracle'',
     wr_episodes = JInt 3, wr_eval = demo_eval extra, wr_fun_symbols = fs\<rparr>"

lemma demo_read:
  "read_request worker_data (demo_request []) = Inr (demo_worker [] [])"
  "read_request worker_data (demo_request [(''fun_symbols'', JList [JStr ''id''])])
    = Inr (demo_worker [(''fun_symbols'', JList [JStr ''id''])] [''id''])"
  using load_sealed_config_keys [OF demo_settings]
  by (simp_all add: read_request_def demo_request_def fill_eval_config_def jor_def demo_worker_def demo_eval_def
      worker_settings_def Let_def)

definition demo_risk :: json where
  "demo_risk = JObj [(''evalue_threshold'', JStr ''0''), (''alpha_i'', JStr ''0.006000000000000000000000''),
     (''alpha_schedule'', schedule_json (sc_alpha_schedule worker_settings) ''0.600000000000000000000000'')]"

definition demo_db :: index_db where
  "demo_db = empty_db\<lparr>ix_schema_version := Some 2\<rparr>"

lemma two_zeros: "replicate 2 c = [c, c]"
  by (simp add: numeral_2_eq_2)

lemma demo_alpha_text: "format_decimal (Fin False 6000000000000000000000 (- 24)) = Inr ''0.006000000000000000000000''"
  by (simp add: format_decimal_def alpha_quant_def prec_def half_digits Let_def nat_str.simps digit_table two_zeros)

lemma demo_fill_risk: "fill_risk (JObj [(''evalue_threshold'', JStr ''0'')]) worker_settings demo_db = Inr demo_risk"
proof -
  have "stat_round demo_db = 1" by (simp add: stat_round_def demo_db_def empty_db_def get_stat_cert_state_def)
  moreover have "sc_alpha_total worker_settings = Fin False 1 (- 2)" by (simp add: worker_settings_def)
  moreover have "format_decimal (as_coefficient (sc_alpha_schedule worker_settings)) = Inr ''0.600000000000000000000000''"
    using weak_coefficient by (simp add: worker_settings_def)
  ultimately show ?thesis using demo_alpha
    by (simp add: fill_risk_def demo_alpha_text demo_risk_def check_risk_schedule_def schedule_json_def Let_def)
qed

subsection \<open>The issued spec\<close>

definition demo_evalue_json :: json where
  "demo_evalue_json = JObj [(''mantissa'', JStr (format_f (Fin False 500000000000000000000000 (- 23)))), (''exponent10'', JInt (- 1))]"

definition demo_cert :: "string \<Rightarrow> json" where
  "demo_cert sig = worker_certificate (JInt 3) demo_report demo_evalue_json (length_hash (encode_diffs [0, 0, 0])) sig
     ''0000000000000000''"

definition demo_bytes :: "(string \<times> json) list \<Rightarrow> string" where
  "demo_bytes extra = canon_bytes (spec_form (demo_request extra) (demo_eval extra) demo_risk (unsign (demo_cert [])))"

definition demo_issued :: "(string \<times> json) list \<Rightarrow> json" where
  "demo_issued extra = issued_spec (demo_request extra) (demo_eval extra) demo_risk (demo_cert (b64encode (''s'' @ demo_bytes extra)))"

lemma demo_mantissa: "canonical_mantissa (Fin False 500000000000000000000000 (- 23))"
  by (simp add: canonical_mantissa_def mantissa_quant)

lemma demo_unsigned:
  "unsigned_certificate worker_externals demo_signer ''AAAA'' (demo_worker extra fs) demo_report [] = Inr (demo_cert [])"
proof -
  have "sum_list (rp_diffs demo_report) = 0" by (simp add: demo_report_def)
  moreover have "evalue_to_dict \<lparr>ev_mantissa = Fin False 500000000000000000000000 (- 23), ev_exponent10 = - 1\<rparr>
      = Inr demo_evalue_json"
    unfolding demo_evalue_json_def by (rule parse_canonical(1) [OF demo_mantissa])
  moreover have "x_blake3 worker_externals = length_hash" by (simp add: worker_externals_def)
  moreover have "rp_transcript demo_report = encode_diffs [0, 0, 0]" by (simp add: demo_report_def)
  ultimately show ?thesis
    by (simp add: unsigned_certificate_def demo_worker_def demo_evalue demo_encode demo_public demo_key_id demo_cert_def
        worker_certificate_def)
qed

lemma demo_signing:
  "stat_cert_signing_bytes (issued_spec (demo_request extra) (demo_eval extra) demo_risk (demo_cert sig)) = Inr (demo_bytes extra)"
proof -
  have "is_obj (demo_request extra)" by (simp add: demo_request_def)
  then show ?thesis
    by (simp add: signing_bytes_form demo_cert_def worker_certificate_def demo_bytes_def unsign_def)
qed

lemma demo_sign: "sign_bytes worker_externals demo_signer ''AAAA'' bytes = Inr (b64encode (''s'' @ bytes))"
proof -
  have "b64decode ''AAAA'' = Inr [CHR 0x00, CHR 0x00, CHR 0x00]" by code_simp
  then show ?thesis by (simp add: sign_bytes_def worker_externals_def demo_signer_def)
qed

lemma demo_issue:
  assumes "read_request worker_data (demo_request extra) = Inr (demo_worker extra fs)"
    and "jget (demo_eval extra) ''max_steps'' = JInt 5" "jget (demo_eval extra) ''episodes'' = JInt 3"
      "jget (demo_eval extra) ''eval_harness_id'' = JStr ''toy-harness-v1''"
      "jget (demo_eval extra) ''eval_harness_hash'' = JStr ''harness-hash''"
  shows "issue_stat_cert worker_externals demo_signer demo_registry worker_data F empty_db (demo_request extra)
    ''AAAA'' [] demo_defs = (Inr (demo_issued extra), demo_db)"
proof -
  have defs: "worker_defs F demo_db (demo_worker extra fs) demo_defs = Inr demo_defs"
    by (simp add: worker_defs_def demo_worker_def demo_db_def empty_db_def symbol_exists_def dict_update_def demo_defs_def
        constant_def_def require_matching_types_def definition_type_def Let_def)
  have harness: "get_harness demo_registry ''toy-harness-v1'' = Inr (toy_harness demo_random)"
    by (simp add: get_harness_def harness_registry_def toy_harness_id_def)
  have run: "hn_run_episodes (toy_harness demo_random) (demo_query (demo_eval extra) fs) = Inr demo_report"
    using demo_run [OF assms(2,3)] by (simp add: toy_harness_def)
  have db: "init_schema empty_db = Inr demo_db" by (simp add: init_schema_def demo_db_def empty_db_def schema_version_def)
  have risk: "jget (demo_request extra) ''risk'' = JObj [(''evalue_threshold'', JStr ''0'')]" by (simp add: demo_request_def)
  have sel: "wr_baseline (demo_worker extra fs) = ''old''" "wr_candidate (demo_worker extra fs) = ''new''"
    "wr_oracle (demo_worker extra fs) = ''oracle''" "wr_eval (demo_worker extra fs) = demo_eval extra"
    "wr_fun_symbols (demo_worker extra fs) = fs" "wr_sealed (demo_worker extra fs) = worker_settings"
    by (simp_all add: demo_worker_def)
  have sign: "obj_set (demo_cert []) ''signature'' (JStr sig) = demo_cert sig" for sig
    by (simp add: demo_cert_def worker_certificate_def)
  have "jgetr worker_data ''spec'' = Inr JNull" "hn_hash (toy_harness demo_random) = ''harness-hash''"
    by (simp_all add: worker_data_def toy_harness_def)
  then have "run_and_sign worker_externals demo_signer demo_registry worker_data F demo_db (demo_request extra)
      (demo_worker extra fs) ''AAAA'' [] demo_defs = Inr (demo_issued extra)"
    using run assms(4,5) unfolding run_and_sign_def Let_def demo_query_def
    by (simp add: sel defs jor_def jget_default_def harness risk demo_fill_risk demo_signing demo_sign demo_unsigned
        sign demo_issued_def)
  then show ?thesis by (simp add: issue_stat_cert_def assms(1) db)
qed

end
