(* ===== verification/Sealed_Behaviour.thy ===== *)
theory Sealed_Behaviour
  imports Sealed_Demo
begin

section \<open>What the sealed worker guarantees\<close>

text \<open>The properties that span the worker, the canonicaliser and the spec checker.\<close>

subsection \<open>Honest certificates get through\<close>

lemma demo_registry_run:
  "harness_registry R others toy_harness_id = Some h \<Longrightarrow> hn_run_episodes h = toy_run_episodes R"
  by (auto simp: harness_registry_def toy_harness_def)

text \<open>C27: a certificate the worker issues on the toy harness for a request with known fields only
  passes the check of its canonical form in the round it was issued for, when the worker's key is
  trusted and the e-value clears the threshold.\<close>

theorem issued_certificates_accepted:
  assumes "issue_stat_cert X S (harness_registry R others) data F db spec priv seed extra = (Inr out, db1)"
    and "load_sealed_config data True = Inr sc" and "sc_eval_harness_id sc = toy_harness_id"
    and "plain_request spec" and "signs_verify X S" and "trusted_key X S priv sc" and "clears_threshold out"
    and "D (the_str (jget spec ''baseline_symbol'')) \<noteq> None" "D (the_str (jget spec ''candidate_symbol'')) \<noteq> None"
      "D (the_str (jget (jget spec ''eval'') ''oracle_symbol'')) \<noteq> None"
  shows "\<exists>c n. canonicalize_spec out = Inr c \<and> jget (jget spec ''eval'') ''episodes'' = JInt n
    \<and> check_stat_cert_spec X c D (stat_context_of sc (stat_round db1)) (stat_round db1) = Inr n"
  by (rule toy.issued_accepted [OF assms(1) _ assms(2,4-7)]) (use assms(3,8-10) demo_registry_run in auto)

lemma demo_clears: "clears_threshold (demo_issued [])"
proof -
  have "parse_decimal ''0.006000000000000000000000'' = Inr (Fin False 6000000000000000000000 (- 24))"
    by (simp add: parse_decimal_simps)
  moreover have "parse_evalue demo_evalue_json
      = Inr \<lparr>ev_mantissa = Fin False 500000000000000000000000 (- 23), ev_exponent10 = - 1\<rparr>"
    unfolding demo_evalue_json_def by (rule parse_canonical(2) [OF demo_mantissa])
  moreover have "encoded_evalue_to_decimal \<lparr>ev_mantissa = Fin False 500000000000000000000000 (- 23), ev_exponent10 = - 1\<rparr>
      = Inr (Fin False 500000000000000000000000 (- 24))"
    by (simp add: encoded_evalue_to_decimal_def half_digits prec_def emax_def in_range_def Let_def)
  moreover have "dec_mul (Fin False 500000000000000000000000 (- 24)) (Fin False 6000000000000000000000 (- 24))
      = Inr (Fin False 3000000000000000000000000000000000000000000000 (- 48))"
    by (simp add: half_digits prec_def emax_def in_range_def Let_def)
  moreover have "dec_less (Fin False 3000000000000000000000000000000000000000000000 (- 48)) (Fin False 0 0) = Inr False"
    by (simp add: dec_less_def scoeff_def Let_def)
  moreover have "is_obj (demo_request [])" by (simp add: demo_request_def)
  ultimately show ?thesis
    by (simp add: clears_threshold_def demo_issued_def demo_risk_def demo_cert_def worker_certificate_def
        parse_decimal_field_def weak_decimals del: dec_mul.simps)
qed

theorem issued_certificates_accepted_witness:
  "\<exists>c n. canonicalize_spec (demo_issued []) = Inr c \<and> jget (jget (demo_request []) ''eval'') ''episodes'' = JInt n
    \<and> check_stat_cert_spec worker_externals c (map_of demo_defs) (stat_context_of worker_settings (stat_round demo_db))
        (stat_round demo_db) = Inr n"
  by (rule issued_certificates_accepted [OF demo_issue [OF demo_read(1)] demo_settings _ _ demo_contract demo_key demo_clears])
    (simp_all add: demo_eval_def worker_settings_def toy_harness_id_def plain_request_def demo_request_def known_fields_def
      eval_fields_def risk_fields_def demo_defs_def)

subsection \<open>Certificates for higher-order tasks do not\<close>

text \<open>C28: a certificate issued for a request with \<open>fun_symbols\<close> is refused: the signature is over
  the settings with that field, the check over the canonical form without it.\<close>

theorem fun_symbols_break_signature:
  assumes "issue_stat_cert X S registry data F db spec priv seed extra = (Inr out, db1)" and "wf_json spec"
    and "jget (jget spec ''eval'') ''fun_symbols'' \<noteq> JNull" and "canonicalize_spec out = Inr c"
    and "\<And>pk bytes. x_ed25519_verifies X pk bytes (the_str (jget (cert_of out) ''signature''))
      \<Longrightarrow> stat_cert_signing_bytes out = Inr bytes"
  shows "check_stat_cert_spec X c D ctx k \<noteq> Inr n"
  by (rule fun_symbols_refused [OF assms])

definition higher_eval :: "(string \<times> json) list" where
  "higher_eval = [(''fun_symbols'', JList [JStr ''id''])]"

definition higher_canonical :: json where
  "higher_canonical = spec_form (demo_request higher_eval) (with_fields (demo_eval higher_eval) eval_fields)
     (with_fields demo_risk risk_fields)
     (canonical_certificate (JInt 3) demo_report demo_evalue_json (length_hash (encode_diffs [0, 0, 0]))
        (b64encode (''s'' @ demo_bytes higher_eval)) ''0000000000000000'')"

lemma higher_canonicalize: "canonicalize_spec (demo_issued higher_eval) = Inr higher_canonical"
  unfolding demo_issued_def demo_cert_def higher_canonical_def
proof (rule canonicalize_issued)
  show "canon_certificate (worker_certificate (JInt 3) demo_report demo_evalue_json (length_hash (encode_diffs [0, 0, 0]))
      (b64encode (''s'' @ demo_bytes higher_eval)) ''0000000000000000'')
    = Inr (canonical_certificate (JInt 3) demo_report demo_evalue_json (length_hash (encode_diffs [0, 0, 0]))
        (b64encode (''s'' @ demo_bytes higher_eval)) ''0000000000000000'')"
    using parse_canonical [OF demo_mantissa, of "- 1"]
    by (intro canon_certificate_fields [of _ "\<lparr>ev_mantissa = Fin False 500000000000000000000000 (- 23), ev_exponent10 = - 1\<rparr>"])
      (simp_all add: demo_evalue_json_def del: format_f.simps)
  show "canon_risk demo_risk = Inr (with_fields demo_risk risk_fields)"
    by (rule canon_risk_fields [of _ "sc_alpha_schedule worker_settings" "''0.600000000000000000000000''"])
      (simp_all add: demo_risk_def nonempty_str_def worker_settings_def)
qed (simp_all add: demo_request_def demo_eval_def higher_eval_def demo_risk_def worker_certificate_def nonempty_str_def
    canon_eval_cfg_def require_int_def require_str_from_def with_fields_def eval_fields_def Let_def)

theorem fun_symbols_break_signature_witness:
  "check_stat_cert_spec worker_externals higher_canonical (map_of demo_defs)
     (stat_context_of worker_settings 1) 1 \<noteq> Inr 3"
proof (rule fun_symbols_break_signature [OF demo_issue [OF demo_read(2) [folded higher_eval_def]] _ _ higher_canonicalize])
  fix pk bytes
  assume "x_ed25519_verifies worker_externals pk bytes (the_str (jget (cert_of (demo_issued higher_eval)) ''signature''))"
  moreover have "jget (cert_of (demo_issued higher_eval)) ''signature'' = JStr (b64encode (''s'' @ demo_bytes higher_eval))"
    by (simp add: cert_of_def demo_issued_def demo_request_def jor_def demo_cert_def worker_certificate_def)
  ultimately have "b64encode (''s'' @ demo_bytes higher_eval) = b64encode (''s'' @ bytes)"
    by (simp add: worker_externals_def)
  then have "b64decode (b64encode (''s'' @ demo_bytes higher_eval)) = b64decode (b64encode (''s'' @ bytes))" by simp
  then have "demo_bytes higher_eval = bytes" by (simp add: b64_roundtrip)
  then show "stat_cert_signing_bytes (demo_issued higher_eval) = Inr bytes" by (simp add: demo_issued_def demo_signing)
qed (simp_all add: demo_eval_def higher_eval_def demo_request_def)

end
