(* ===== verification/Omega_Common.thy ===== *)
theory Omega_Common
  imports Kernel_Spec Kernel_Canon "HOL-Library.Product_Lexorder"
begin

section \<open>Shared helpers of the Omega daemon (cdel/v18_0/omega_common_v1.py, cdel/v1_7r/canon.py)\<close>

text \<open>
  The Omega daemon schedules campaigns. Its documents are canonical JSON files named by their
  SHA-256 hash, and its numbers are fixed point: an integer \<open>q\<close> stands for \<open>q / 2^32\<close>.
  \<open>hashlib\<close> and \<open>jsonschema\<close> are outside the repository: \<open>omega_env\<close> carries the hash and
  the verdict of a schema on a document. The native acceleration of \<open>canon_bytes\<close>, which an
  environment variable switches on, is left out.
\<close>

record omega_env =
  oe_sha256 :: "string \<Rightarrow> string"
  oe_schema_ok :: "string \<Rightarrow> json \<Rightarrow> bool"

definition omega_fail :: "string \<Rightarrow> 'a res" where
  "omega_fail reason =
     Inl (ValueError (if starts ''INVALID:'' reason \<or> starts ''SAFE_HALT:'' reason then reason
                      else ''INVALID:'' @ reason))"

definition validate_doc :: "omega_env \<Rightarrow> json \<Rightarrow> string \<Rightarrow> unit res" where
  "validate_doc E obj schema_name =
     (if oe_schema_ok E schema_name obj then Inr () else Inl (ValidationError schema_name))"

subsection \<open>Python on documents\<close>

text \<open>\<open>str(v)\<close>; the text of a list or a dict is outside the model.\<close>

fun str_of :: "json \<Rightarrow> string res" where
  "str_of (JStr s) = Inr s"
| "str_of (JInt i) = Inr (int_str i)"
| "str_of (JBool b) = Inr (if b then ''True'' else ''False'')"
| "str_of JNull = Inr ''None''"
| "str_of _ = Inl (Unmodelled ''str of a container'')"

text \<open>\<open>str(d.get(k, "")).strip()\<close>.\<close>

definition str_field :: "json \<Rightarrow> string \<Rightarrow> string res" where
  "str_field d k = bindr (str_of (jget_default d k (JStr []))) (\<lambda>s. Inr (strip s))"

fun obj_keys :: "json \<Rightarrow> string list" where
  "obj_keys (JObj kvs) = map fst kvs"
| "obj_keys j = []"

text \<open>\<open>d.pop(k, None)\<close> on a copy.\<close>

fun obj_pop :: "json \<Rightarrow> string \<Rightarrow> json" where
  "obj_pop (JObj kvs) k = JObj (filter (\<lambda>(l, v). l \<noteq> k) kvs)"
| "obj_pop j k = j"

subsection \<open>Fixed point numbers\<close>

definition q32_one :: int where
  "q32_one = 2 ^ 32"

definition q32_int :: "json \<Rightarrow> int res" where
  "q32_int value =
     (if \<not> is_obj value \<or> obj_keys value \<noteq> [''q''] then omega_fail ''SCHEMA_FAIL''
      else if \<not> is_number (jget value ''q'') then omega_fail ''SCHEMA_FAIL''
      else Inr (number_value (jget value ''q'')))"

definition q32_obj :: "int \<Rightarrow> json" where
  "q32_obj value = JObj [(''q'', JInt value)]"

definition rat_q32 :: "int \<Rightarrow> int \<Rightarrow> int res" where
  "rat_q32 num_u64 den_u64 =
     (if den_u64 \<le> 0 \<or> num_u64 < 0 then omega_fail ''SCHEMA_FAIL''
      else Inr ((num_u64 * q32_one) div den_u64))"

text \<open>A shift to the right rounds towards minus infinity.\<close>

definition q32_mul :: "int \<Rightarrow> int \<Rightarrow> int" where
  "q32_mul lhs_q rhs_q = (lhs_q * rhs_q) div 2 ^ 32"

definition cmp_q32 :: "int \<Rightarrow> string \<Rightarrow> int \<Rightarrow> bool res" where
  "cmp_q32 lhs_q comparator rhs_q =
     (if comparator = ''GT'' then Inr (lhs_q > rhs_q)
      else if comparator = ''GE'' then Inr (lhs_q \<ge> rhs_q)
      else if comparator = ''LT'' then Inr (lhs_q < rhs_q)
      else if comparator = ''LE'' then Inr (lhs_q \<le> rhs_q)
      else if comparator = ''EQ'' then Inr (lhs_q = rhs_q)
      else omega_fail ''SCHEMA_FAIL'')"

lemma q32_int_obj [simp]: "q32_int (q32_obj v) = Inr v"
  by (simp add: q32_int_def q32_obj_def)

lemma q32_mul_nonneg: "0 \<le> a \<Longrightarrow> 0 \<le> b \<Longrightarrow> 0 \<le> q32_mul a b"
  by (simp add: q32_mul_def pos_imp_zdiv_nonneg_iff)

lemma q32_mul_le_left: "0 \<le> a \<Longrightarrow> b \<le> q32_one \<Longrightarrow> q32_mul a b \<le> a"
proof -
  assume "0 \<le> a" and "b \<le> q32_one"
  then have "a * b \<le> a * 2 ^ 32" by (intro mult_left_mono) (simp_all add: q32_one_def)
  then have "(a * b) div 2 ^ 32 \<le> (a * 2 ^ 32) div 2 ^ 32" by (rule zdiv_mono1) simp
  then show ?thesis by (simp add: q32_mul_def)
qed

lemma q32_mul_le_right: "0 \<le> b \<Longrightarrow> a \<le> q32_one \<Longrightarrow> q32_mul a b \<le> b"
  using q32_mul_le_left [of b a] by (simp add: q32_mul_def mult.commute)

lemma q32_mul_one [simp]: "q32_mul a q32_one = a" "q32_mul q32_one a = a"
  by (simp_all add: q32_mul_def q32_one_def)

lemma q32_mul_zero [simp]: "q32_mul a 0 = 0" "q32_mul 0 a = 0"
  by (simp_all add: q32_mul_def)

subsection \<open>Canonical bytes and hashes\<close>

definition gcj_bytes :: "json \<Rightarrow> string" where
  "gcj_bytes payload = utf8 (dumps '','' '':'' False payload)"

definition sha256_prefixed :: "omega_env \<Rightarrow> string \<Rightarrow> string" where
  "sha256_prefixed E data = ''sha256:'' @ oe_sha256 E data"

definition canon_hash_obj :: "omega_env \<Rightarrow> json \<Rightarrow> string" where
  "canon_hash_obj E obj = sha256_prefixed E (gcj_bytes obj)"

definition zero_hash :: string where
  "zero_hash = ''sha256:'' @ replicate 64 (CHR ''0'')"

text \<open>\<open>sha256:[0-9a-f]{64}\<close> matches the whole text.\<close>

definition sha256_text :: "string \<Rightarrow> bool" where
  "sha256_text s \<longleftrightarrow> starts ''sha256:'' s \<and> length s = 71
     \<and> list_all (\<lambda>c. c \<in> set ''0123456789abcdef'') (drop 7 s)"

definition ensure_sha256 :: "json \<Rightarrow> string \<Rightarrow> string res" where
  "ensure_sha256 value reason =
     (if \<not> is_str value \<or> \<not> sha256_text (the_str value) then omega_fail reason else Inr (the_str value))"

text \<open>A document that carries the hash of itself without that field.\<close>

definition with_id_field :: "omega_env \<Rightarrow> json \<Rightarrow> string \<Rightarrow> json" where
  "with_id_field E payload id_field =
     obj_set payload id_field (JStr (canon_hash_obj E (obj_pop payload id_field)))"

lemma obj_pop_set [simp]: "obj_pop (obj_set j k v) k = obj_pop j k"
proof (cases j)
  case (JObj kvs)
  have "filter (\<lambda>(l, v). l \<noteq> k) (dict_set kvs k v) = filter (\<lambda>(l, v). l \<noteq> k) kvs"
    by (induction kvs k v rule: dict_set.induct) auto
  with JObj show ?thesis by simp
qed simp_all

lemma with_id_field_self:
  "is_obj j \<Longrightarrow> jget (with_id_field E j k) k = JStr (canon_hash_obj E (obj_pop (with_id_field E j k) k))"
  by (simp add: with_id_field_def)

end
