(* ===== verification/Omega_Market.thy ===== *)
theory Omega_Market
  imports Omega_Common
begin

section \<open>The bid market (orchestrator/omega_bid_market_v1.py)\<close>

text \<open>
  Each campaign of the registry has a bankroll and a credibility. At every tick the winner of
  the tick before is settled against the objective it predicted, campaigns whose bankroll stays
  low are disabled, the enabled ones bid, and the best eligible bid is run. The package
  cdel keeps a second copy of the module (cdel/v18_0/omega_bid_market_v1.py) for replay without the
  orchestrator; where it differs the definitions are called \<open>vendored\<close>.
\<close>

subsection \<open>Settings\<close>

definition bid_market_enabled :: "json \<Rightarrow> bool" where
  "bid_market_enabled cfg \<longleftrightarrow> is_obj cfg \<and> truthy (jget cfg ''enabled'')"

definition cfg_q32 :: "json \<Rightarrow> string \<Rightarrow> int \<Rightarrow> int option \<Rightarrow> int option \<Rightarrow> int res" where
  "cfg_q32 cfg key default_q min_q max_q =
     bindr (if jget cfg key = JNull then Inr default_q else q32_int (jget cfg key)) (\<lambda>q.
     let q1 = (case min_q of None \<Rightarrow> q | Some m \<Rightarrow> max m q) in
       Inr (case max_q of None \<Rightarrow> q1 | Some m \<Rightarrow> min m q1))"

definition cfg_u64 :: "json \<Rightarrow> string \<Rightarrow> int \<Rightarrow> int option \<Rightarrow> int res" where
  "cfg_u64 cfg key default_u64 min_u64 =
     bindr (if jget cfg key = JNull then Inr default_u64 else py_int (jget cfg key)) (\<lambda>value.
       Inr (case min_u64 of None \<Rightarrow> value | Some m \<Rightarrow> max m value))"

text \<open>The first override of the campaign replaces the defaults it mentions.\<close>

fun bidder_override :: "json list \<Rightarrow> string \<Rightarrow> int \<times> int \<times> int \<Rightarrow> (int \<times> int \<times> int) res" where
  "bidder_override [] campaign_id defaults = Inr defaults"
| "bidder_override (row # rows) campaign_id (roi, conf, horizon) =
     (if \<not> is_obj row then omega_fail ''SCHEMA_FAIL''
      else
        bindr (str_field row ''campaign_id'') (\<lambda>cid.
        if cid \<noteq> campaign_id then bidder_override rows campaign_id (roi, conf, horizon)
        else
          bindr (if jget row ''predicted_roi_q32'' = JNull then Inr roi
                 else bindr (q32_int (jget row ''predicted_roi_q32'')) (\<lambda>q. Inr (max 0 q))) (\<lambda>roi1.
          bindr (if jget row ''confidence_q32'' = JNull then Inr conf
                 else bindr (q32_int (jget row ''confidence_q32'')) (\<lambda>q. Inr (max 0 (min q32_one q)))) (\<lambda>conf1.
          bindr (if jget row ''horizon_ticks_u64'' = JNull then Inr horizon
                 else bindr (py_int (jget row ''horizon_ticks_u64'')) (\<lambda>h. Inr (max 1 h))) (\<lambda>horizon1.
            Inr (roi1, conf1, horizon1))))))"

definition resolve_bidder_params :: "json \<Rightarrow> string \<Rightarrow> (int \<times> int \<times> int) res" where
  "resolve_bidder_params cfg campaign_id =
     bindr (cfg_q32 cfg ''default_predicted_roi_q32'' q32_one (Some 0) None) (\<lambda>roi.
     bindr (cfg_q32 cfg ''default_confidence_q32'' (q32_one div 2) (Some 0) (Some q32_one)) (\<lambda>conf.
     bindr (cfg_u64 cfg ''default_horizon_ticks_u64'' 1 (Some 1)) (\<lambda>horizon.
     let overrides = jor (jget cfg ''campaign_overrides'') (JList []) in
     if \<not> is_list overrides then omega_fail ''SCHEMA_FAIL''
     else bidder_override (the_list overrides) campaign_id (roi, conf, horizon))))"

record settlement_params =
  sp_initial_bankroll :: int
  sp_initial_credibility :: int
  sp_credibility_lr :: int
  sp_min_credibility :: int
  sp_error_cap :: int
  sp_penalty_rate :: int
  sp_reward_rate :: int
  sp_disable_threshold :: int
  sp_disable_after :: int

definition resolve_settlement_params :: "json \<Rightarrow> settlement_params res" where
  "resolve_settlement_params cfg =
     bindr (cfg_q32 cfg ''initial_bankroll_q32'' q32_one (Some 0) None) (\<lambda>bankroll.
     bindr (cfg_q32 cfg ''initial_credibility_q32'' (q32_one div 2) (Some 0) (Some q32_one)) (\<lambda>credibility.
     bindr (cfg_q32 cfg ''credibility_lr_q32'' (q32_one div 2) (Some 0) (Some q32_one)) (\<lambda>lr.
     bindr (cfg_q32 cfg ''min_credibility_q32'' 0 (Some 0) (Some q32_one)) (\<lambda>lowest.
     bindr (cfg_q32 cfg ''error_cap_q32'' q32_one (Some 1) None) (\<lambda>cap.
     bindr (cfg_q32 cfg ''bankroll_penalty_rate_q32'' (q32_one div 2) (Some 0) (Some q32_one)) (\<lambda>penalty.
     bindr (cfg_q32 cfg ''bankroll_reward_rate_q32'' (q32_one div 20) (Some 0) (Some q32_one)) (\<lambda>reward.
     bindr (cfg_q32 cfg ''bankroll_disable_threshold_q32'' (q32_one div 4) (Some 0) None) (\<lambda>threshold.
     bindr (cfg_u64 cfg ''disable_after_ticks_u64'' 3 (Some 1)) (\<lambda>after.
       Inr \<lparr>sp_initial_bankroll = bankroll, sp_initial_credibility = credibility, sp_credibility_lr = lr,
         sp_min_credibility = lowest, sp_error_cap = cap, sp_penalty_rate = penalty, sp_reward_rate = reward,
         sp_disable_threshold = threshold, sp_disable_after = after\<rparr>)))))))))"

subsection \<open>The first state\<close>

fun registry_ids :: "json list \<Rightarrow> string list res" where
  "registry_ids [] = Inr []"
| "registry_ids (row # rows) =
     (if \<not> is_obj row then registry_ids rows
      else bindr (str_field row ''campaign_id'') (\<lambda>cid.
           bindr (registry_ids rows) (\<lambda>ids. Inr (if cid = [] then ids else cid # ids))))"

definition campaign_ids_from_registry :: "json \<Rightarrow> string list res" where
  "campaign_ids_from_registry registry =
     (let caps = jget registry ''capabilities'' in
      if \<not> is_list caps then omega_fail ''SCHEMA_FAIL''
      else bindr (registry_ids (the_list caps)) (\<lambda>ids. Inr (sort (remdups ids))))"

definition initial_campaign_state :: "settlement_params \<Rightarrow> string \<Rightarrow> json" where
  "initial_campaign_state params campaign_id =
     JObj [(''campaign_id'', JStr campaign_id), (''bankroll_q32'', q32_obj (sp_initial_bankroll params)),
       (''credibility_q32'', q32_obj (sp_initial_credibility params)), (''bankruptcy_streak_u64'', JInt 0),
       (''disabled_b'', JBool False), (''disabled_reason'', JStr ''N/A'')]"

definition market_state_doc :: "omega_env \<Rightarrow> int \<Rightarrow> json \<Rightarrow> string \<Rightarrow> string \<Rightarrow> json list \<Rightarrow> json" where
  "market_state_doc E tick_u64 prev_state_id config_hash registry_hash states =
     with_id_field E (JObj [(''schema_version'', JStr ''bid_market_state_v1''), (''state_id'', JStr zero_hash),
       (''tick_u64'', JInt tick_u64), (''prev_state_id'', prev_state_id), (''config_hash'', JStr config_hash),
       (''registry_hash'', JStr registry_hash), (''campaign_states'', JList states)]) ''state_id''"

definition bootstrap_market_state :: "omega_env \<Rightarrow> int \<Rightarrow> string \<Rightarrow> string \<Rightarrow> json \<Rightarrow> json \<Rightarrow> json res" where
  "bootstrap_market_state E tick_u64 config_hash registry_hash registry cfg =
     bindr (resolve_settlement_params cfg) (\<lambda>params.
     bindr (campaign_ids_from_registry registry) (\<lambda>ids.
     let obj = market_state_doc E tick_u64 JNull config_hash registry_hash
                 (map (initial_campaign_state params) ids) in
     bindr (validate_doc E obj ''bid_market_state_v1'') (\<lambda>_. Inr obj)))"

end
