(* ===== verification/Omega_Settle.thy ===== *)
theory Omega_Settle
  imports Omega_Market
begin

section \<open>Settling the market (orchestrator/omega_bid_market_v1.py)\<close>

text \<open>
  \<open>settle_and_advance_market_state\<close>: the winner of the tick before is rewarded or punished for its
  prediction, then the bankruptcy rules run over all campaigns. The function returns a receipt and
  the next state, both documents that carry their own hash.
\<close>

subsection \<open>The objective\<close>

fun objective_ids :: "json list \<Rightarrow> string list res" where
  "objective_ids [] = Inr []"
| "objective_ids (row # rows) =
     (if \<not> is_obj row then omega_fail ''SCHEMA_FAIL''
      else bindr (str_field row ''metric_id'') (\<lambda>metric_id.
           if metric_id = [] then omega_fail ''SCHEMA_FAIL''
           else bindr (objective_ids rows) (\<lambda>ids. Inr (metric_id # ids))))"

definition objective_metric_ids :: "json \<Rightarrow> string list res" where
  "objective_metric_ids objectives =
     (if \<not> is_list (jget objectives ''metrics'') then omega_fail ''SCHEMA_FAIL''
      else objective_ids (the_list (jget objectives ''metrics'')))"

fun sum_metrics :: "json \<Rightarrow> string list \<Rightarrow> int \<Rightarrow> int res" where
  "sum_metrics metrics [] acc = Inr acc"
| "sum_metrics metrics (metric_id # ids) acc =
     (let row = jget metrics metric_id in
      if \<not> is_obj row \<or> \<not> jhas row ''q'' then omega_fail ''SCHEMA_FAIL''
      else bindr (py_int (jget row ''q'')) (\<lambda>q. sum_metrics metrics ids (acc + q)))"

definition J_from_observation :: "json \<Rightarrow> json \<Rightarrow> int res" where
  "J_from_observation observation_report objectives =
     (if \<not> is_obj (jget observation_report ''metrics'') then omega_fail ''SCHEMA_FAIL''
      else bindr (objective_metric_ids objectives) (\<lambda>ids.
             sum_metrics (jget observation_report ''metrics'') ids 0))"

text \<open>The value before, from the last but one entry of each series; a series that is too short ends it.\<close>

fun sum_series :: "json \<Rightarrow> string list \<Rightarrow> int \<Rightarrow> bool \<Rightarrow> int option res" where
  "sum_series series [] acc any_found = Inr (if any_found then Some acc else None)"
| "sum_series series (metric_id # ids) acc any_found =
     (let rows = the_list (jget series metric_id) in
      if \<not> is_list (jget series metric_id) \<or> length rows < 2 then Inr None
      else let prev = rows ! (length rows - 2) in
        if \<not> is_obj prev \<or> \<not> jhas prev ''q'' then omega_fail ''SCHEMA_FAIL''
        else bindr (py_int (jget prev ''q'')) (\<lambda>q. sum_series series ids (acc + q) True))"

definition J_prev_from_series :: "json \<Rightarrow> json \<Rightarrow> int option res" where
  "J_prev_from_series observation_report objectives =
     (if \<not> is_obj (jget observation_report ''metric_series'') then Inr None
      else bindr (objective_metric_ids objectives) (\<lambda>ids.
             sum_series (jget observation_report ''metric_series'') ids 0 False))"

subsection \<open>The rows of a state\<close>

fun state_rows :: "json list \<Rightarrow> (string \<times> json) list \<Rightarrow> (string \<times> json) list res" where
  "state_rows [] out = Inr out"
| "state_rows (row # rows) out =
     (if \<not> is_obj row then omega_fail ''SCHEMA_FAIL''
      else bindr (str_field row ''campaign_id'') (\<lambda>cid.
           if cid = [] then omega_fail ''SCHEMA_FAIL'' else state_rows rows (dict_set out cid row)))"

definition market_state_map :: "json \<Rightarrow> (string \<times> json) list res" where
  "market_state_map market_state =
     (if \<not> is_list (jget market_state ''campaign_states'') then omega_fail ''SCHEMA_FAIL''
      else state_rows (the_list (jget market_state ''campaign_states'')) [])"

definition clamp_q32 :: "int \<Rightarrow> int \<Rightarrow> int \<Rightarrow> int" where
  "clamp_q32 v lo hi = max lo (min hi v)"

subsection \<open>The winner\<close>

text \<open>How far the prediction was off decides credibility and bankroll.\<close>

definition error_norm :: "settlement_params \<Rightarrow> int \<Rightarrow> int \<Rightarrow> int" where
  "error_norm params realized_delta pred =
     min q32_one ((\<bar>realized_delta - pred\<bar> * 2 ^ 32) div max 1 (sp_error_cap params))"

definition settled_credibility :: "settlement_params \<Rightarrow> int \<Rightarrow> int \<Rightarrow> string \<Rightarrow> int" where
  "settled_credibility params cred_old err effect_class =
     (let accuracy = q32_one - err;
          cred_new = clamp_q32 (cred_old + q32_mul (sp_credibility_lr params) (accuracy - cred_old))
                       (sp_min_credibility params) q32_one
      in if effect_class \<in> {''EFFECT_HEAVY_NO_UTILITY'', ''EFFECT_REJECTED''} \<and> cred_new > cred_old
         then cred_old else cred_new)"

definition settled_bankroll :: "settlement_params \<Rightarrow> int \<Rightarrow> int \<Rightarrow> int \<Rightarrow> string \<Rightarrow> int" where
  "settled_bankroll params bankroll_old conf err effect_class =
     (let accuracy = q32_one - err;
          penalty0 = q32_mul (q32_mul (sp_penalty_rate params) conf) err;
          reward0 = q32_mul (q32_mul (sp_reward_rate params) conf) accuracy;
          (penalty, reward) =
            (if effect_class = ''EFFECT_HEAVY_NO_UTILITY'' then (min q32_one (penalty0 + q32_one div 100), 0)
             else if effect_class = ''EFFECT_REJECTED'' then (min q32_one (penalty0 + q32_one div 200), 0)
             else (penalty0, reward0));
          factor = max 0 (q32_one - penalty + reward)
      in max 0 (q32_mul bankroll_old factor))"

record winner_change =
  wc_bankroll_before :: int
  wc_bankroll_after :: int
  wc_credibility_before :: int
  wc_credibility_after :: int

definition settle_winner :: "settlement_params \<Rightarrow> json \<Rightarrow> json \<Rightarrow> int \<Rightarrow> string \<Rightarrow> winner_change res" where
  "settle_winner params cstate winner_bid realized_delta effect_class =
     bindr (q32_int (jget cstate ''bankroll_q32'')) (\<lambda>b.
     bindr (q32_int (jget cstate ''credibility_q32'')) (\<lambda>c.
     bindr (q32_int (jget winner_bid ''predicted_delta_J_q32'')) (\<lambda>p.
     bindr (q32_int (jget winner_bid ''confidence_q32'')) (\<lambda>f.
     let bankroll_old = max 0 b; cred_old = clamp_q32 c 0 q32_one; pred = max 0 p; conf = clamp_q32 f 0 q32_one;
         err = error_norm params realized_delta pred in
       Inr \<lparr>wc_bankroll_before = bankroll_old,
         wc_bankroll_after = settled_bankroll params bankroll_old conf err effect_class,
         wc_credibility_before = cred_old,
         wc_credibility_after = settled_credibility params cred_old err effect_class\<rparr>))))"

subsection \<open>Bankruptcy\<close>

definition apply_bankruptcy_rules :: "json \<Rightarrow> int \<Rightarrow> int \<Rightarrow> int \<Rightarrow> (int \<times> bool \<times> string \<times> int) res" where
  "apply_bankruptcy_rules campaign_state bankroll disable_threshold disable_after =
     bindr (py_int (jget_default campaign_state ''bankruptcy_streak_u64'' (JInt 0))) (\<lambda>s.
     if truthy (jget campaign_state ''disabled_b'') then
       bindr (str_of (jor (jget_default campaign_state ''disabled_reason'' (JStr [])) (JStr ''N/A''))) (\<lambda>reason.
         Inr (max 0 s, True, reason, bankroll))
     else let streak = (if bankroll < disable_threshold then max 0 s + 1 else 0) in
       if streak \<ge> disable_after then Inr (streak, True, ''BANKROLL_BELOW_THRESHOLD'', bankroll)
       else Inr (streak, False, ''N/A'', bankroll))"

definition advance_row :: "settlement_params \<Rightarrow> json \<Rightarrow> (json \<times> bool) res" where
  "advance_row params row =
     bindr (q32_int (jget row ''bankroll_q32'')) (\<lambda>b.
     bindr (apply_bankruptcy_rules row (max 0 b) (sp_disable_threshold params) (sp_disable_after params))
       (\<lambda>(streak, disabled, reason, bankroll).
       let row1 = obj_set row ''bankruptcy_streak_u64'' (JInt streak);
           row2 = obj_set row1 ''disabled_b'' (JBool disabled);
           row3 = obj_set row2 ''disabled_reason'' (JStr (if reason = [] then ''N/A'' else reason));
           row4 = obj_set row3 ''bankroll_q32'' (q32_obj bankroll)
       in Inr (row4, \<not> truthy (jget row ''disabled_b'') \<and> disabled)))"

fun advance_rows :: "settlement_params \<Rightarrow> (string \<times> json) list \<Rightarrow> (json list \<times> string list) res" where
  "advance_rows params [] = Inr ([], [])"
| "advance_rows params ((campaign_id, row) # rows) =
     bindr (advance_row params row) (\<lambda>(row', newly).
     bindr (advance_rows params rows) (\<lambda>(rows', ids).
       Inr (row' # rows', if newly then campaign_id # ids else ids)))"

subsection \<open>One settlement\<close>

record settle_input =
  si_tick :: int
  si_config_hash :: string
  si_registry_hash :: string
  si_cfg :: json
  si_registry :: json
  si_objectives :: json
  si_prev_state :: "json option"
  si_prev_state_hash :: "string option"
  si_prev_selection :: "json option"
  si_prev_selection_hash :: "string option"
  si_prev_observation :: "json option"
  si_prev_observation_hash :: "string option"
  si_cur_observation :: json
  si_cur_observation_hash :: string
  si_effect_class :: "string option"

definition dict_of :: "json option \<Rightarrow> json option" where
  "dict_of j = (case j of Some d \<Rightarrow> if is_obj d then Some d else None | None \<Rightarrow> None)"

definition opt_json :: "('a \<Rightarrow> json) \<Rightarrow> 'a option \<Rightarrow> json" where
  "opt_json f v = (case v of None \<Rightarrow> JNull | Some x \<Rightarrow> f x)"

definition previous_objective :: "settle_input \<Rightarrow> int option res" where
  "previous_objective I =
     (case dict_of (si_prev_observation I) of
        Some report \<Rightarrow> bindr (J_from_observation report (si_objectives I)) (\<lambda>J. Inr (Some J))
      | None \<Rightarrow> J_prev_from_series (si_cur_observation I) (si_objectives I))"

record settled_bid =
  sb_tick :: "int option"
  sb_campaign :: "string option"
  sb_bid :: "json option"
  sb_outcome :: string

text \<open>What the receipt of the last selection says.\<close>

definition previous_winner :: "settle_input \<Rightarrow> settled_bid res" where
  "previous_winner I =
     (case (dict_of (si_prev_selection I), si_prev_selection_hash I) of
        (Some receipt, Some h) \<Rightarrow>
          bindr (py_int (jget_default receipt ''tick_u64'' (JInt 0))) (\<lambda>t.
          let winner = jget receipt ''winner'' in
          bindr (if is_obj winner then str_of (jget_default receipt ''outcome'' (JStr [])) else Inr []) (\<lambda>outcome.
          if outcome = ''OK'' then
            bindr (str_field winner ''campaign_id'') (\<lambda>cid.
              Inr \<lparr>sb_tick = Some (max 0 t), sb_campaign = (if cid = [] then None else Some cid),
                sb_bid = Some winner, sb_outcome = ''OK''\<rparr>)
          else Inr \<lparr>sb_tick = Some (max 0 t), sb_campaign = None, sb_bid = None, sb_outcome = ''OK''\<rparr>))
      | _ \<Rightarrow> Inr \<lparr>sb_tick = None, sb_campaign = None, sb_bid = None, sb_outcome = ''GENESIS''\<rparr>)"

text \<open>The rows after the winner is settled, and what changed.\<close>

definition update_winner :: "settlement_params \<Rightarrow> settle_input \<Rightarrow> settled_bid \<Rightarrow> int option
    \<Rightarrow> (string \<times> json) list \<Rightarrow> ((string \<times> json) list \<times> winner_change) res" where
  "update_winner params I b realized cmap =
     (case (sb_campaign b, sb_bid b, realized) of
        (Some cid, Some bid, Some delta) \<Rightarrow>
          (case map_of cmap cid of
             None \<Rightarrow> omega_fail ''SCHEMA_FAIL''
           | Some cstate \<Rightarrow>
               bindr (settle_winner params cstate bid delta
                 (strip (case si_effect_class I of None \<Rightarrow> [] | Some e \<Rightarrow> e))) (\<lambda>w.
               let row1 = obj_set cstate ''bankroll_q32'' (q32_obj (wc_bankroll_after w));
                   row2 = obj_set row1 ''credibility_q32'' (q32_obj (wc_credibility_after w))
               in Inr (dict_set cmap cid row2, w)))
      | _ \<Rightarrow> Inr (cmap, \<lparr>wc_bankroll_before = 0, wc_bankroll_after = 0,
                    wc_credibility_before = 0, wc_credibility_after = 0\<rparr>))"

definition state_before :: "omega_env \<Rightarrow> settle_input \<Rightarrow> json res" where
  "state_before E I =
     (case dict_of (si_prev_state I) of
        Some s \<Rightarrow> Inr s
      | None \<Rightarrow> bootstrap_market_state E (max 0 (si_tick I - 1)) (si_config_hash I) (si_registry_hash I)
                  (si_registry I) (si_cfg I))"

definition settlement_receipt :: "omega_env \<Rightarrow> settle_input \<Rightarrow> settled_bid \<Rightarrow> int option \<Rightarrow> int \<Rightarrow> string
    \<Rightarrow> winner_change \<Rightarrow> string list \<Rightarrow> json" where
  "settlement_receipt E I b J_prev J_cur state_after_hash w newly_disabled =
     with_id_field E (JObj [(''schema_version'', JStr ''bid_settlement_receipt_v1''), (''receipt_id'', JStr zero_hash),
       (''tick_u64'', JInt (si_tick I)), (''settled_tick_u64'', opt_json JInt (sb_tick b)),
       (''selection_receipt_hash'', opt_json JStr (si_prev_selection_hash I)),
       (''prev_observation_report_hash'', opt_json JStr (si_prev_observation_hash I)),
       (''cur_observation_report_hash'', JStr (si_cur_observation_hash I)),
       (''J_prev_q32'', opt_json q32_obj J_prev), (''J_cur_q32'', q32_obj J_cur),
       (''realized_delta_J_q32'', opt_json (\<lambda>J. q32_obj (J_cur - J)) J_prev),
       (''winner_campaign_id'', opt_json JStr (sb_campaign b)), (''winner_bid'', opt_json id (sb_bid b)),
       (''market_state_before_hash'', opt_json JStr (si_prev_state_hash I)),
       (''market_state_after_hash'', JStr state_after_hash),
       (''updates'', JObj [(''winner_bankroll_before_q32'', q32_obj (wc_bankroll_before w)),
          (''winner_bankroll_after_q32'', q32_obj (wc_bankroll_after w)),
          (''winner_credibility_before_q32'', q32_obj (wc_credibility_before w)),
          (''winner_credibility_after_q32'', q32_obj (wc_credibility_after w)),
          (''disabled_campaign_ids'', JList (map JStr newly_disabled))]),
       (''outcome'', JStr (sb_outcome b))]) ''receipt_id''"

definition settle_and_advance :: "omega_env \<Rightarrow> settle_input \<Rightarrow> (json \<times> json) res" where
  "settle_and_advance E I =
     bindr (resolve_settlement_params (si_cfg I)) (\<lambda>params.
     bindr (J_from_observation (si_cur_observation I) (si_objectives I)) (\<lambda>J_cur.
     bindr (previous_objective I) (\<lambda>J_prev.
     bindr (previous_winner I) (\<lambda>b.
     bindr (state_before E I) (\<lambda>before.
     bindr (market_state_map before) (\<lambda>cmap0.
     bindr (update_winner params I b (map_option (\<lambda>J. J_cur - J) J_prev) cmap0) (\<lambda>(cmap, w).
     bindr (advance_rows params (sort_key fst cmap)) (\<lambda>(next_states, newly_disabled).
     let state_after = market_state_doc E (si_tick I)
           (if si_prev_state I = None then JNull else jget before ''state_id'')
           (si_config_hash I) (si_registry_hash I) next_states in
     bindr (validate_doc E state_after ''bid_market_state_v1'') (\<lambda>_.
     let receipt = settlement_receipt E I b J_prev J_cur (canon_hash_obj E state_after) w newly_disabled in
     bindr (validate_doc E receipt ''bid_settlement_receipt_v1'') (\<lambda>_.
       Inr (receipt, state_after)))))))))))"

end
