(* ===== verification/Omega_Select.thy ===== *)
theory Omega_Select
  imports Omega_Settle
begin

section \<open>Bids and selection (orchestrator/omega_bid_market_v1.py, cdel/v18_0/omega_budgets_v1.py)\<close>

text \<open>
  A bid names what a campaign predicts it gains and costs. \<open>select_winner\<close> ranks the bids and
  takes the best one that is not disabled, not cooling down and within the budget;
  \<open>build_decision_plan_from_selection\<close> makes a plan of it.
\<close>

subsection \<open>Budgets\<close>

definition default_remaining :: "json \<Rightarrow> json res" where
  "default_remaining budgets =
     bindr (q32_int (jget budgets ''max_cpu_cost_q32_per_day'')) (\<lambda>cpu.
     bindr (q32_int (jget budgets ''max_build_cost_q32_per_day'')) (\<lambda>build.
     bindr (q32_int (jget budgets ''max_verifier_cost_q32_per_day'')) (\<lambda>verifier.
     bindr (py_int (jget_default budgets ''max_disk_bytes_per_day'' (JInt 0))) (\<lambda>disk.
       Inr (JObj [(''cpu_cost_q32'', q32_obj cpu), (''build_cost_q32'', q32_obj build),
         (''verifier_cost_q32'', q32_obj verifier), (''disk_bytes_u64'', JInt disk)])))))"

definition has_budget :: "json \<Rightarrow> int \<Rightarrow> bool res" where
  "has_budget remaining cost =
     bindr (q32_int (jget remaining ''cpu_cost_q32'')) (\<lambda>cpu.
     bindr (q32_int (jget remaining ''build_cost_q32'')) (\<lambda>build.
     bindr (q32_int (jget remaining ''verifier_cost_q32'')) (\<lambda>verify.
       Inr (cpu \<ge> cost \<and> build \<ge> cost \<and> verify \<ge> cost))))"

definition debit_budget :: "json \<Rightarrow> int \<Rightarrow> int \<Rightarrow> json res" where
  "debit_budget remaining cost disk_bytes =
     bindr (q32_int (jget remaining ''cpu_cost_q32'')) (\<lambda>cpu.
     bindr (q32_int (jget remaining ''build_cost_q32'')) (\<lambda>build.
     bindr (q32_int (jget remaining ''verifier_cost_q32'')) (\<lambda>verifier.
     bindr (py_int (jget_default remaining ''disk_bytes_u64'' (JInt 0))) (\<lambda>disk.
       Inr (JObj [(''cpu_cost_q32'', q32_obj (max 0 (cpu - cost))), (''build_cost_q32'', q32_obj (max 0 (build - cost))),
         (''verifier_cost_q32'', q32_obj (max 0 (verifier - cost))),
         (''disk_bytes_u64'', JInt (max 0 (disk - max 0 disk_bytes)))])))))"

subsection \<open>Bids\<close>

definition build_bid :: "omega_env \<Rightarrow> int \<Rightarrow> string \<Rightarrow> string \<Rightarrow> string \<Rightarrow> string \<Rightarrow> string \<Rightarrow> string \<Rightarrow> int \<Rightarrow> int \<Rightarrow> int \<Rightarrow> int
    \<Rightarrow> json res" where
  "build_bid E tick_u64 campaign_id capability_id observation_report_hash market_state_hash config_hash
      registry_hash roi confidence horizon cost =
     (let predicted_cost = max 1 cost; roi_q = max 0 roi; conf = clamp_q32 confidence 0 q32_one; h = max 1 horizon;
          inputs_hash = canon_hash_obj E (JObj [(''tick_u64'', JInt tick_u64), (''campaign_id'', JStr campaign_id),
            (''capability_id'', JStr capability_id), (''observation_report_hash'', JStr observation_report_hash),
            (''market_state_hash'', JStr market_state_hash), (''config_hash'', JStr config_hash),
            (''registry_hash'', JStr registry_hash)]);
          evidence_hash = canon_hash_obj E (JObj [(''inputs_hash'', JStr inputs_hash), (''roi_q32'', q32_obj roi_q),
            (''confidence_q32'', q32_obj conf), (''horizon_ticks_u64'', JInt h),
            (''predicted_cost_q32'', q32_obj predicted_cost)]);
          predicted_delta = max 0 (q32_mul roi_q predicted_cost);
          obj = with_id_field E (JObj [(''schema_version'', JStr ''bid_v1''), (''bid_id'', JStr zero_hash),
            (''tick_u64'', JInt tick_u64), (''campaign_id'', JStr campaign_id), (''capability_id'', JStr capability_id),
            (''inputs_hash'', JStr inputs_hash), (''observation_report_hash'', JStr observation_report_hash),
            (''market_state_hash'', JStr market_state_hash), (''config_hash'', JStr config_hash),
            (''registry_hash'', JStr registry_hash), (''predicted_delta_J_q32'', q32_obj predicted_delta),
            (''predicted_cost_q32'', q32_obj predicted_cost), (''confidence_q32'', q32_obj conf),
            (''horizon_ticks_u64'', JInt h), (''evidence_hash'', JStr evidence_hash)]) ''bid_id'' in
      bindr (validate_doc E obj ''bid_v1'') (\<lambda>_. Inr obj))"

definition build_bid_set :: "omega_env \<Rightarrow> int \<Rightarrow> string \<Rightarrow> string \<Rightarrow> string \<Rightarrow> string \<Rightarrow> (string \<times> string) list \<Rightarrow> json res" where
  "build_bid_set E tick_u64 observation_report_hash market_state_hash config_hash registry_hash bids_by_campaign =
     (let rows = map (\<lambda>(cid, h). JObj [(''campaign_id'', JStr cid), (''bid_hash'', JStr h)])
            (sort_key fst bids_by_campaign);
          obj = with_id_field E (JObj [(''schema_version'', JStr ''bid_set_v1''), (''bid_set_id'', JStr zero_hash),
            (''tick_u64'', JInt tick_u64), (''observation_report_hash'', JStr observation_report_hash),
            (''market_state_hash'', JStr market_state_hash), (''config_hash'', JStr config_hash),
            (''registry_hash'', JStr registry_hash), (''bids'', JList rows)]) ''bid_set_id'' in
      bindr (validate_doc E obj ''bid_set_v1'') (\<lambda>_. Inr obj))"

subsection \<open>Ranking\<close>

record market_candidate =
  mc_campaign :: string
  mc_bid_hash :: string
  mc_skip :: string
  mc_score :: int
  mc_roi :: int
  mc_credibility :: int
  mc_confidence :: int
  mc_delta :: int
  mc_cost :: int
  mc_horizon :: int
  mc_evidence :: string

definition mc_eligible :: "market_candidate \<Rightarrow> bool" where
  "mc_eligible c \<longleftrightarrow> mc_skip c = ''N/A''"

definition rank_key :: "market_candidate \<Rightarrow> int \<times> int \<times> int \<times> int \<times> string" where
  "rank_key c = (- mc_score c, - mc_roi c, - mc_credibility c, - mc_confidence c, mc_campaign c)"

text \<open>The score, and the reason to skip a bid, in the orchestrator and in the copy of cdel.\<close>

definition market_score :: "int \<Rightarrow> int \<Rightarrow> int \<Rightarrow> int" where
  "market_score roi credibility confidence = q32_mul (q32_mul roi credibility) confidence"

definition vendored_score :: "int \<Rightarrow> int \<Rightarrow> int \<Rightarrow> int" where
  "vendored_score roi credibility confidence = q32_mul roi credibility"

definition vendored_skip_reason :: "json \<Rightarrow> int \<Rightarrow> int \<Rightarrow> json \<Rightarrow> int \<Rightarrow> string res" where
  "vendored_skip_reason cstate cooldown_next tick_u64 budget_remaining pred_cost =
     (if cooldown_next > tick_u64 then Inr ''COOLDOWN''
      else bindr (has_budget budget_remaining pred_cost) (\<lambda>ok. Inr (if ok then ''N/A'' else ''BUDGET'')))"

definition skip_reason :: "json \<Rightarrow> int \<Rightarrow> int \<Rightarrow> json \<Rightarrow> int \<Rightarrow> string res" where
  "skip_reason cstate cooldown_next tick_u64 budget_remaining pred_cost =
     (if truthy (jget cstate ''disabled_b'') then Inr ''DISABLED''
      else if cooldown_next > tick_u64 then Inr ''COOLDOWN''
      else bindr (has_budget budget_remaining pred_cost) (\<lambda>ok. Inr (if ok then ''N/A'' else ''BUDGET'')))"

type_synonym scoring = "int \<Rightarrow> int \<Rightarrow> int \<Rightarrow> int"

type_synonym skipping = "json \<Rightarrow> int \<Rightarrow> int \<Rightarrow> json \<Rightarrow> int \<Rightarrow> string res"

text \<open>One turn of the loop over the bids.\<close>

definition market_candidate_of :: "scoring \<Rightarrow> skipping \<Rightarrow> omega_env \<Rightarrow> int \<Rightarrow> (string \<times> json) list \<Rightarrow> json \<Rightarrow> json
    \<Rightarrow> string \<Rightarrow> json \<Rightarrow> market_candidate res" where
  "market_candidate_of score skip E tick_u64 cmap cooldowns budget_remaining campaign_id bid =
     (case map_of cmap campaign_id of
        None \<Rightarrow> omega_fail ''SCHEMA_FAIL''
      | Some cstate \<Rightarrow>
          bindr (q32_int (jget cstate ''credibility_q32'')) (\<lambda>cred.
          bindr (q32_int (jget bid ''confidence_q32'')) (\<lambda>conf.
          bindr (q32_int (jget bid ''predicted_delta_J_q32'')) (\<lambda>delta.
          bindr (q32_int (jget bid ''predicted_cost_q32'')) (\<lambda>cost.
          let credibility = clamp_q32 cred 0 q32_one; confidence = clamp_q32 conf 0 q32_one;
              pred_delta = max 0 delta; pred_cost = max 1 cost;
              roi = (pred_delta * 2 ^ 32) div pred_cost in
          bindr (jgetr (jor (jget cooldowns campaign_id) (JObj [])) ''next_tick_allowed_u64'') (\<lambda>_.
          bindr (py_int (jget_default (jor (jget cooldowns campaign_id) (JObj [])) ''next_tick_allowed_u64'' (JInt 0)))
            (\<lambda>cooldown_next.
          bindr (skip cstate cooldown_next tick_u64 budget_remaining pred_cost) (\<lambda>reason.
          bindr (if reason = ''N/A'' then py_int (jget_default bid ''horizon_ticks_u64'' (JInt 1)) else Inr 1) (\<lambda>horizon.
          bindr (if reason = ''N/A'' then str_of (jget_default bid ''evidence_hash'' (JStr [])) else Inr []) (\<lambda>evidence.
            Inr \<lparr>mc_campaign = campaign_id, mc_bid_hash = canon_hash_obj E bid, mc_skip = reason,
              mc_score = score roi credibility confidence, mc_roi = roi, mc_credibility = credibility,
              mc_confidence = confidence, mc_delta = pred_delta, mc_cost = pred_cost, mc_horizon = horizon,
              mc_evidence = evidence\<rparr>))))))))))"

fun market_candidates :: "scoring \<Rightarrow> skipping \<Rightarrow> omega_env \<Rightarrow> int \<Rightarrow> (string \<times> json) list \<Rightarrow> json \<Rightarrow> json
    \<Rightarrow> (string \<times> json) list \<Rightarrow> market_candidate list res" where
  "market_candidates score skip E tick_u64 cmap cooldowns budget_remaining [] = Inr []"
| "market_candidates score skip E tick_u64 cmap cooldowns budget_remaining ((campaign_id, bid) # bids) =
     bindr (market_candidate_of score skip E tick_u64 cmap cooldowns budget_remaining campaign_id bid) (\<lambda>c.
     bindr (market_candidates score skip E tick_u64 cmap cooldowns budget_remaining bids) (\<lambda>cs. Inr (c # cs)))"


subsection \<open>Selection\<close>

definition candidate_doc :: "market_candidate \<Rightarrow> json" where
  "candidate_doc c =
     JObj [(''campaign_id'', JStr (mc_campaign c)), (''bid_hash'', JStr (mc_bid_hash c)),
       (''eligible_b'', JBool (mc_eligible c)), (''skip_reason'', JStr (mc_skip c)),
       (''score_q32'', q32_obj (mc_score c)), (''roi_q32'', q32_obj (mc_roi c))]"

definition winner_doc :: "market_candidate \<Rightarrow> json" where
  "winner_doc c =
     JObj [(''campaign_id'', JStr (mc_campaign c)), (''bid_hash'', JStr (mc_bid_hash c)),
       (''score_q32'', q32_obj (mc_score c)), (''roi_q32'', q32_obj (mc_roi c)),
       (''credibility_q32'', q32_obj (mc_credibility c)), (''confidence_q32'', q32_obj (mc_confidence c)),
       (''predicted_delta_J_q32'', q32_obj (mc_delta c)), (''predicted_cost_q32'', q32_obj (mc_cost c)),
       (''horizon_ticks_u64'', JInt (max 1 (mc_horizon c))), (''evidence_hash'', JStr (mc_evidence c))]"

definition tie_break_path :: "market_candidate list \<Rightarrow> market_candidate option \<Rightarrow> json list" where
  "tie_break_path ranked winner =
     map JStr ([''MARKET_RANK:score_q32_desc'', ''MARKET_RANK:roi_q32_desc'', ''MARKET_RANK:credibility_q32_desc'',
       ''MARKET_RANK:confidence_q32_desc'', ''MARKET_RANK:campaign_id_asc'']
       @ map (\<lambda>c. ''MARKET_CANDIDATE:'' @ mc_campaign c @ '':''
              @ (if mc_eligible c then ''ELIGIBLE'' else ''SKIP'') @ '':'' @ mc_skip c) ranked
       @ [case winner of Some c \<Rightarrow> ''MARKET_WINNER:'' @ mc_campaign c | None \<Rightarrow> ''MARKET_NO_ELIGIBLE:NOOP''])"

text \<open>The best of the eligible candidates.\<close>

definition best_candidate :: "market_candidate list \<Rightarrow> market_candidate option" where
  "best_candidate cs =
     (case sort_key rank_key (filter mc_eligible cs) of [] \<Rightarrow> None | c # _ \<Rightarrow> Some c)"

record select_input =
  se_tick :: int
  se_observation_hash :: string
  se_market_state :: json
  se_market_state_hash :: string
  se_config_hash :: string
  se_registry_hash :: string
  se_bid_set_hash :: string
  se_bids :: "(string \<times> json) list"
  se_prev_state :: json

definition selection_receipt :: "omega_env \<Rightarrow> select_input \<Rightarrow> market_candidate list \<Rightarrow> json" where
  "selection_receipt E I cs =
     (let ranked = sort_key rank_key cs; winner = best_candidate cs in
      with_id_field E (JObj [(''schema_version'', JStr ''bid_selection_receipt_v1''), (''receipt_id'', JStr zero_hash),
        (''tick_u64'', JInt (se_tick I)), (''observation_report_hash'', JStr (se_observation_hash I)),
        (''market_state_hash'', JStr (se_market_state_hash I)), (''bid_set_hash'', JStr (se_bid_set_hash I)),
        (''config_hash'', JStr (se_config_hash I)), (''registry_hash'', JStr (se_registry_hash I)),
        (''winner'', opt_json winner_doc winner), (''candidates'', JList (map candidate_doc ranked)),
        (''tie_break_path'', JList (tie_break_path ranked winner)),
        (''outcome'', JStr (if winner = None then ''NOOP'' else ''OK''))]) ''receipt_id'')"

definition selection_candidates :: "scoring \<Rightarrow> skipping \<Rightarrow> omega_env \<Rightarrow> select_input \<Rightarrow> market_candidate list res" where
  "selection_candidates score skip E I =
     bindr (market_state_map (se_market_state I)) (\<lambda>cmap.
     let cooldowns = jor (jget (se_prev_state I) ''cooldowns'') (JObj []);
         budget_remaining = jor (jget (se_prev_state I) ''budget_remaining'') (JObj []) in
     if \<not> is_obj cooldowns \<or> \<not> is_obj budget_remaining then omega_fail ''SCHEMA_FAIL''
     else market_candidates score skip E (se_tick I) cmap cooldowns budget_remaining (sort_key fst (se_bids I)))"

definition select_with :: "scoring \<Rightarrow> skipping \<Rightarrow> omega_env \<Rightarrow> select_input \<Rightarrow> json res" where
  "select_with score skip E I =
     bindr (selection_candidates score skip E I) (\<lambda>cs.
     let receipt = selection_receipt E I cs in
     bindr (validate_doc E receipt ''bid_selection_receipt_v1'') (\<lambda>_. Inr receipt))"

definition select_winner :: "omega_env \<Rightarrow> select_input \<Rightarrow> json res" where
  "select_winner = select_with market_score skip_reason"

definition vendored_select_winner :: "omega_env \<Rightarrow> select_input \<Rightarrow> json res" where
  "vendored_select_winner = select_with vendored_score vendored_skip_reason"

subsection \<open>The plan\<close>

definition decision_inputs_hash :: "omega_env \<Rightarrow> json \<Rightarrow> string" where
  "decision_inputs_hash E plan =
     canon_hash_obj E (JObj (map (\<lambda>k. (k, jget plan k))
       [''tick_u64'', ''observation_report_hash'', ''issue_bundle_hash'', ''policy_hash'', ''registry_hash'',
        ''budgets_hash'', ''action_kind'', ''campaign_id'', ''capability_id'', ''goal_id'',
        ''assigned_capability_id'', ''runaway_selected_metric_id'', ''runaway_escalation_level_u64'',
        ''runaway_env_overrides'']))"

fun find_capability :: "json list \<Rightarrow> string \<Rightarrow> json res" where
  "find_capability [] campaign_id = omega_fail ''CAPABILITY_NOT_FOUND''"
| "find_capability (row # rows) campaign_id =
     (if \<not> is_obj row then find_capability rows campaign_id
      else bindr (str_of (jget row ''campaign_id'')) (\<lambda>cid.
           if cid = campaign_id then Inr row else find_capability rows campaign_id))"

fun obj_update :: "json \<Rightarrow> (string \<times> json) list \<Rightarrow> json" where
  "obj_update j [] = j"
| "obj_update j ((k, v) # kvs) = obj_update (obj_set j k v) kvs"

text \<open>The fields that run the winner.\<close>

definition run_campaign_fields :: "omega_env \<Rightarrow> json \<Rightarrow> string \<Rightarrow> (string \<times> json) list res" where
  "run_campaign_fields E registry campaign_id =
     (if \<not> is_list (jget registry ''capabilities'') then omega_fail ''SCHEMA_FAIL''
      else
        bindr (find_capability (the_list (jget registry ''capabilities'')) campaign_id) (\<lambda>cap_row.
        bindr (str_of (jget cap_row ''campaign_pack_rel'')) (\<lambda>pack_rel.
        bindr (str_of (jget cap_row ''capability_id'')) (\<lambda>capability_id.
        bindr (str_of (jget cap_row ''verifier_module'')) (\<lambda>verifier.
          Inr [(''action_kind'', JStr ''RUN_CAMPAIGN''), (''campaign_id'', JStr campaign_id),
            (''capability_id'', JStr capability_id),
            (''campaign_pack_hash'', JStr (canon_hash_obj E (JObj [(''campaign_pack_rel'', JStr pack_rel)]))),
            (''expected_verifier_module'', JStr verifier), (''priority_q32'', q32_obj q32_one)])))))"

definition decision_fields :: "omega_env \<Rightarrow> json \<Rightarrow> json \<Rightarrow> (string \<times> json) list res" where
  "decision_fields E registry receipt =
     (let winner = jget receipt ''winner'' in
      bindr (if is_obj winner then str_of (jget_default receipt ''outcome'' (JStr [])) else Inr []) (\<lambda>outcome.
      if outcome \<noteq> ''OK'' then Inr []
      else bindr (str_field winner ''campaign_id'') (\<lambda>campaign_id.
           if campaign_id = [] then Inr [] else run_campaign_fields E registry campaign_id)))"

definition proof_doc :: "string \<Rightarrow> string \<Rightarrow> json" where
  "proof_doc inputs_hash plan_hash = JObj [(''inputs_hash'', JStr inputs_hash), (''plan_hash'', JStr plan_hash)]"

text \<open>The plan is hashed with a zero \<open>plan_hash\<close>; the hash is put into both places.\<close>

definition finish_plan :: "omega_env \<Rightarrow> json \<Rightarrow> json" where
  "finish_plan E plan =
     (let inputs_hash = decision_inputs_hash E plan;
          plan1 = obj_set plan ''recompute_proof'' (proof_doc inputs_hash zero_hash);
          plan_id = canon_hash_obj E (obj_pop plan1 ''plan_id'')
      in obj_set (obj_set plan1 ''plan_id'' (JStr plan_id)) ''recompute_proof'' (proof_doc inputs_hash plan_id))"

definition build_decision_plan :: "omega_env \<Rightarrow> int \<Rightarrow> string \<Rightarrow> string \<Rightarrow> string \<Rightarrow> string \<Rightarrow> string \<Rightarrow> json \<Rightarrow> json
    \<Rightarrow> json res" where
  "build_decision_plan E tick_u64 observation_report_hash issue_bundle_hash policy_hash registry_hash budgets_hash
      registry receipt =
     bindr (iter_json (jor (jget receipt ''tie_break_path'') (JList []))) (\<lambda>path.
     bindr (decision_fields E registry receipt) (\<lambda>fields.
     let plan = finish_plan E (obj_update (JObj [(''schema_version'', JStr ''omega_decision_plan_v1''),
           (''plan_id'', JStr zero_hash), (''tick_u64'', JInt tick_u64),
           (''observation_report_hash'', JStr observation_report_hash), (''issue_bundle_hash'', JStr issue_bundle_hash),
           (''policy_hash'', JStr policy_hash), (''registry_hash'', JStr registry_hash),
           (''budgets_hash'', JStr budgets_hash), (''action_kind'', JStr ''NOOP''), (''tie_break_path'', JList path),
           (''recompute_proof'', proof_doc zero_hash zero_hash)]) fields) in
     bindr (validate_doc E plan ''omega_decision_plan_v1'') (\<lambda>_. Inr plan)))"

end
