(* ===== verification/Omega_Market_Props.thy ===== *)
theory Omega_Market_Props
  imports Omega_Select
begin

section \<open>What a settlement does to the market\<close>

text \<open>
  Abstractly a market maps campaigns to accounts. A settlement refines the step on accounts: pay
  the winner, then apply the bankruptcy rule to everyone. The invariant is \<open>market_ok\<close>.
\<close>

subsection \<open>Accounts\<close>

record account =
  ac_bankroll :: int
  ac_credibility :: int
  ac_streak :: int
  ac_disabled :: bool

definition account_ok :: "account \<Rightarrow> bool" where
  "account_ok a \<longleftrightarrow> 0 \<le> ac_bankroll a \<and> 0 \<le> ac_credibility a \<and> ac_credibility a \<le> q32_one \<and> 0 \<le> ac_streak a"

definition row_account :: "json \<Rightarrow> account \<Rightarrow> bool" where
  "row_account row a \<longleftrightarrow> is_obj row \<and> jget row ''bankroll_q32'' = q32_obj (ac_bankroll a)
     \<and> jget row ''credibility_q32'' = q32_obj (ac_credibility a)
     \<and> jget row ''bankruptcy_streak_u64'' = JInt (ac_streak a) \<and> jget row ''disabled_b'' = JBool (ac_disabled a)
     \<and> (\<exists>r. jget row ''disabled_reason'' = JStr r)"

definition row_names :: "json \<Rightarrow> string \<Rightarrow> bool" where
  "row_names row cid \<longleftrightarrow> jget row ''campaign_id'' = JStr cid \<and> strip cid = cid \<and> cid \<noteq> []"

text \<open>A state that stands for the accounts of a list of campaigns.\<close>

definition market_rows :: "json list \<Rightarrow> (string \<times> account) list \<Rightarrow> bool" where
  "market_rows rows as \<longleftrightarrow> list_all2 (\<lambda>row (cid, a). row_names row cid \<and> row_account row a \<and> account_ok a) rows as
     \<and> sorted (map fst as) \<and> distinct (map fst as)"

definition stands_for :: "json \<Rightarrow> (string \<times> account) list \<Rightarrow> bool" where
  "stands_for doc as \<longleftrightarrow> is_obj doc \<and> (\<exists>rows. jget doc ''campaign_states'' = JList rows \<and> market_rows rows as)"

subsection \<open>The step on accounts\<close>

record verdict =
  vd_campaign :: string
  vd_predicted :: int
  vd_confidence :: int
  vd_realized :: int
  vd_effect :: string

definition pay :: "settlement_params \<Rightarrow> verdict option \<Rightarrow> string \<Rightarrow> account \<Rightarrow> account" where
  "pay P v cid a =
     (case v of
        None \<Rightarrow> a
      | Some w \<Rightarrow>
          if vd_campaign w \<noteq> cid then a
          else let err = error_norm P (vd_realized w) (vd_predicted w) in
            a\<lparr>ac_bankroll := settled_bankroll P (ac_bankroll a) (vd_confidence w) err (vd_effect w),
              ac_credibility := settled_credibility P (ac_credibility a) err (vd_effect w)\<rparr>)"

definition bankrupt :: "settlement_params \<Rightarrow> account \<Rightarrow> account" where
  "bankrupt P a =
     (if ac_disabled a then a
      else let s = (if ac_bankroll a < sp_disable_threshold P then ac_streak a + 1 else 0)
        in a\<lparr>ac_streak := s, ac_disabled := (s \<ge> sp_disable_after P)\<rparr>)"

definition market_step :: "settlement_params \<Rightarrow> verdict option \<Rightarrow> (string \<times> account) list \<Rightarrow> (string \<times> account) list" where
  "market_step P v as = map (\<lambda>(cid, a). (cid, bankrupt P (pay P v cid a))) as"

definition verdict_ok :: "verdict option \<Rightarrow> bool" where
  "verdict_ok v \<longleftrightarrow> (case v of None \<Rightarrow> True | Some w \<Rightarrow> 0 \<le> vd_predicted w \<and> 0 \<le> vd_confidence w \<and> vd_confidence w \<le> q32_one)"

subsection \<open>Bounds of a payment\<close>

definition params_ok :: "settlement_params \<Rightarrow> bool" where
  "params_ok P \<longleftrightarrow> 0 \<le> sp_initial_bankroll P \<and> 0 \<le> sp_initial_credibility P \<and> sp_initial_credibility P \<le> q32_one
     \<and> 0 \<le> sp_credibility_lr P \<and> sp_credibility_lr P \<le> q32_one \<and> 0 \<le> sp_min_credibility P
     \<and> sp_min_credibility P \<le> q32_one \<and> 1 \<le> sp_error_cap P \<and> 0 \<le> sp_penalty_rate P \<and> sp_penalty_rate P \<le> q32_one
     \<and> 0 \<le> sp_reward_rate P \<and> sp_reward_rate P \<le> q32_one \<and> 0 \<le> sp_disable_threshold P \<and> 1 \<le> sp_disable_after P"

lemma q32_one_pos [simp]: "0 < q32_one" "0 \<le> q32_one"
  by (simp_all add: q32_one_def)

lemma cfg_q32_bounds:
  "cfg_q32 cfg k d (Some lo) None = Inr v \<Longrightarrow> lo \<le> v"
  "cfg_q32 cfg k d (Some lo) (Some hi) = Inr v \<Longrightarrow> lo \<le> hi \<Longrightarrow> lo \<le> v \<and> v \<le> hi"
  by (auto simp: cfg_q32_def Let_def)

lemma cfg_u64_bound: "cfg_u64 cfg k d (Some lo) = Inr v \<Longrightarrow> lo \<le> v"
  by (auto simp: cfg_u64_def)

lemma resolve_params_ok: "resolve_settlement_params cfg = Inr P \<Longrightarrow> params_ok P"
  unfolding resolve_settlement_params_def
  by (elim bindrE,
      (drule cfg_q32_bounds(1) cfg_q32_bounds(2) [OF _ q32_one_pos(2)] cfg_u64_bound)+,
      simp add: params_ok_def, clarsimp)

lemma error_norm_bounds: "0 \<le> error_norm P d p" "error_norm P d p \<le> q32_one"
  by (auto simp: error_norm_def pos_imp_zdiv_nonneg_iff)

lemma settled_credibility_bounds:
  assumes "params_ok P" and "0 \<le> c" and "c \<le> q32_one"
  shows "0 \<le> settled_credibility P c err e \<and> settled_credibility P c err e \<le> q32_one"
  using assms by (auto simp: settled_credibility_def Let_def clamp_q32_def params_ok_def)

lemma settled_bankroll_nonneg: "0 \<le> settled_bankroll P b f err e"
  by (simp add: settled_bankroll_def Let_def)


text \<open>A penalised effect never pays, and no reward exceeds the reward rate.\<close>

definition penalised :: "string \<Rightarrow> bool" where
  "penalised e \<longleftrightarrow> e \<in> {''EFFECT_HEAVY_NO_UTILITY'', ''EFFECT_REJECTED''}"

lemma penalised_bankroll:
  assumes "penalised e" and "0 \<le> b" and "params_ok P" and "0 \<le> f" and "0 \<le> err"
  shows "settled_bankroll P b f err e \<le> b"
proof -
  let ?p = "q32_mul (q32_mul (sp_penalty_rate P) f) err"
  have "0 \<le> ?p" using assms by (intro q32_mul_nonneg) (simp_all add: params_ok_def)
  then have "q32_mul b (max 0 (q32_one - min q32_one (?p + q32_one div 100))) \<le> b"
    "q32_mul b (max 0 (q32_one - min q32_one (?p + q32_one div 200))) \<le> b"
    using assms(2) by (auto intro!: q32_mul_le_left simp: q32_one_def)
  with assms(1,2) show ?thesis by (auto simp: settled_bankroll_def penalised_def Let_def)
qed

lemma q32_mul_mono: "0 \<le> a \<Longrightarrow> b \<le> c \<Longrightarrow> q32_mul a b \<le> q32_mul a c"
  unfolding q32_mul_def by (intro zdiv_mono1 mult_left_mono) simp_all

lemma reward_bounded:
  assumes "0 \<le> b" and "params_ok P" and "0 \<le> f" "f \<le> q32_one" and "0 \<le> err" "err \<le> q32_one"
  shows "settled_bankroll P b f err e \<le> q32_mul b (q32_one + sp_reward_rate P)"
proof -
  let ?p = "q32_mul (q32_mul (sp_penalty_rate P) f) err"
    and ?r = "q32_mul (q32_mul (sp_reward_rate P) f) (q32_one - err)"
  have "0 \<le> ?p" using assms by (intro q32_mul_nonneg) (simp_all add: params_ok_def)
  moreover have "?r \<le> sp_reward_rate P"
  proof -
    have "0 \<le> q32_mul (sp_reward_rate P) f" using assms by (intro q32_mul_nonneg) (simp_all add: params_ok_def)
    then have "?r \<le> q32_mul (sp_reward_rate P) f" using assms by (intro q32_mul_le_left) simp_all
    also have "\<dots> \<le> sp_reward_rate P" using assms by (intro q32_mul_le_left) (simp_all add: params_ok_def)
    finally show ?thesis .
  qed
  moreover have "0 \<le> q32_mul b (q32_one + sp_reward_rate P)"
    using assms by (intro q32_mul_nonneg) (simp_all add: params_ok_def add_nonneg_nonneg)
  ultimately show ?thesis using assms
    by (auto simp: settled_bankroll_def Let_def params_ok_def intro!: q32_mul_mono)
qed

lemma penalised_credibility: "penalised e \<Longrightarrow> settled_credibility P c err e \<le> c"
  by (simp add: settled_credibility_def penalised_def Let_def)

subsection \<open>Refinement\<close>

lemma jget_default_some [simp]: "jget j k = v \<Longrightarrow> v \<noteq> JNull \<Longrightarrow> jget_default j k d = v"
  by (cases j) (auto simp: jget_default_def split: option.splits)

lemma bankruptcy_rules_account:
  assumes "row_account row a" and "account_ok a"
  obtains r where "apply_bankruptcy_rules row (ac_bankroll a) (sp_disable_threshold P) (sp_disable_after P)
    = Inr (ac_streak (bankrupt P a), ac_disabled (bankrupt P a), r, ac_bankroll a)"
proof -
  obtain r where "jget row ''disabled_reason'' = JStr r"
    and f: "jget row ''bankruptcy_streak_u64'' = JInt (ac_streak a)" "jget row ''disabled_b'' = JBool (ac_disabled a)"
    using assms(1) by (auto simp: row_account_def)
  then have "apply_bankruptcy_rules row (ac_bankroll a) (sp_disable_threshold P) (sp_disable_after P)
    = Inr (ac_streak (bankrupt P a), ac_disabled (bankrupt P a),
        (if ac_disabled a then if r = [] then ''N/A'' else r
         else if ac_disabled (bankrupt P a) then ''BANKROLL_BELOW_THRESHOLD'' else ''N/A''), ac_bankroll a)"
    using assms(2) by (simp add: apply_bankruptcy_rules_def bankrupt_def Let_def account_ok_def jor_def)
  then show thesis by (rule that)
qed

lemma bankrupt_keeps [simp]:
  "ac_bankroll (bankrupt P a) = ac_bankroll a" "ac_credibility (bankrupt P a) = ac_credibility a"
  by (simp_all add: bankrupt_def Let_def)

lemma advance_row_account:
  assumes "row_account row a" and "account_ok a"
  obtains row' where "advance_row P row = Inr (row', \<not> ac_disabled a \<and> ac_disabled (bankrupt P a))"
    and "row_account row' (bankrupt P a)" and "jget row' ''campaign_id'' = jget row ''campaign_id''"
proof -
  obtain r where r: "apply_bankruptcy_rules row (ac_bankroll a) (sp_disable_threshold P) (sp_disable_after P)
      = Inr (ac_streak (bankrupt P a), ac_disabled (bankrupt P a), r, ac_bankroll a)"
    using bankruptcy_rules_account [OF assms] .
  let ?row = "obj_set (obj_set (obj_set (obj_set row ''bankruptcy_streak_u64'' (JInt (ac_streak (bankrupt P a))))
    ''disabled_b'' (JBool (ac_disabled (bankrupt P a))))
    ''disabled_reason'' (JStr (if r = [] then ''N/A'' else r))) ''bankroll_q32'' (q32_obj (ac_bankroll a))"
  have "advance_row P row = Inr (?row, \<not> ac_disabled a \<and> ac_disabled (bankrupt P a))"
    using assms r by (simp add: advance_row_def row_account_def account_ok_def Let_def)
  moreover have "row_account ?row (bankrupt P a)" using assms(1) by (simp add: row_account_def)
  moreover have "jget ?row ''campaign_id'' = jget row ''campaign_id''" using assms(1) by (simp add: row_account_def)
  ultimately show thesis by (rule that)
qed


lemma bankrupt_ok: "account_ok a \<Longrightarrow> account_ok (bankrupt P a)"
  by (simp add: account_ok_def bankrupt_def Let_def)

lemma pay_ok: "params_ok P \<Longrightarrow> account_ok a \<Longrightarrow> account_ok (pay P v cid a)"
  using settled_credibility_bounds [of P "ac_credibility a"]
  by (auto simp: account_ok_def pay_def Let_def settled_bankroll_nonneg split: option.split)

text \<open>Rows with the names they are looked up by.\<close>

definition named_rows :: "(string \<times> json) list \<Rightarrow> (string \<times> account) list \<Rightarrow> bool" where
  "named_rows cmap as \<longleftrightarrow>
     list_all2 (\<lambda>(c, row) (cid, a). c = cid \<and> row_names row cid \<and> row_account row a \<and> account_ok a) cmap as
     \<and> sorted (map fst as) \<and> distinct (map fst as)"

lemma named_rows_keys: "named_rows cmap as \<Longrightarrow> map fst cmap = map fst as"
proof -
  have "list_all2 (\<lambda>(c, row) (cid, a). c = cid \<and> row_names row cid \<and> row_account row a \<and> account_ok a) cmap as
      \<Longrightarrow> map fst cmap = map fst as" by (induction rule: list_all2_induct) auto
  then show "named_rows cmap as \<Longrightarrow> map fst cmap = map fst as" by (simp add: named_rows_def)
qed

lemma state_rows_named:
  assumes "list_all2 (\<lambda>row (cid, a). row_names row cid \<and> row_account row a \<and> account_ok a) rows as"
    and "distinct (map fst as)" and "fst ` set out \<inter> fst ` set as = {}"
  shows "state_rows rows out = Inr (out @ zip (map fst as) rows)"
  using assms
proof (induction rows as arbitrary: out rule: list_all2_induct)
  case (Cons row rows p as)
  obtain cid a where p: "p = (cid, a)" by (cases p)
  from Cons.hyps p have row: "is_obj row" "jget row ''campaign_id'' = JStr cid" "strip cid = cid" "cid \<noteq> []"
    by (auto simp: row_names_def row_account_def)
  then have "str_field row ''campaign_id'' = Inr cid" by (simp add: str_field_def)
  moreover have "dict_set out cid row = out @ [(cid, row)]"
    using Cons.prems(2) p by (intro dict_set_new) auto
  ultimately show ?case using Cons.prems p row by (simp add: Cons.IH)
qed simp

lemma stands_for_map:
  assumes "stands_for doc as"
  obtains cmap where "market_state_map doc = Inr cmap" and "named_rows cmap as"
proof -
  obtain rows where rows: "jget doc ''campaign_states'' = JList rows" and m: "market_rows rows as"
    using assms by (auto simp: stands_for_def)
  have "market_state_map doc = Inr (zip (map fst as) rows)"
    using m state_rows_named [of rows as "[]"] by (simp add: market_state_map_def rows market_rows_def)
  moreover have "named_rows (zip (map fst as) rows) as"
    using m by (auto simp: named_rows_def market_rows_def list_all2_conv_all_nth case_prod_unfold)
  ultimately show thesis by (rule that)
qed

lemma dict_set_present:
  "distinct (map fst d) \<Longrightarrow> k \<in> fst ` set d \<Longrightarrow> dict_set d k v = map (\<lambda>(l, w). (l, if l = k then v else w)) d"
proof (induction d)
  case (Cons p d)
  have "k \<notin> fst ` set d \<Longrightarrow> map (\<lambda>(l, w). (l, if l = k then v else w)) d = d"
    by (rule map_idI) force
  with Cons show ?case by (cases p) auto
qed simp

lemma advance_named_rows:
  assumes "list_all2 (\<lambda>(c, row) (cid, a). c = cid \<and> row_names row cid \<and> row_account row a \<and> account_ok a) cmap as"
  obtains rows where
    "advance_rows P cmap = Inr (rows, map fst (filter (\<lambda>(c, a). \<not> ac_disabled a \<and> ac_disabled (bankrupt P a)) as))"
    and "list_all2 (\<lambda>row (cid, a). row_names row cid \<and> row_account row a \<and> account_ok a) rows
      (map (\<lambda>(c, a). (c, bankrupt P a)) as)"
  using assms
proof (induction cmap as arbitrary: thesis rule: list_all2_induct)
  case (Cons x cmap y as)
  obtain c row a where xy: "x = (c, row)" "y = (c, a)" and row: "row_names row c" "row_account row a" "account_ok a"
    using Cons.hyps by (cases x; cases y) auto
  obtain row' where r: "advance_row P row = Inr (row', \<not> ac_disabled a \<and> ac_disabled (bankrupt P a))"
      "row_account row' (bankrupt P a)" "jget row' ''campaign_id'' = jget row ''campaign_id''"
    using advance_row_account [OF row(2,3)] .
  obtain rows where "advance_rows P cmap
      = Inr (rows, map fst (filter (\<lambda>(c, a). \<not> ac_disabled a \<and> ac_disabled (bankrupt P a)) as))"
    and "list_all2 (\<lambda>row (cid, a). row_names row cid \<and> row_account row a \<and> account_ok a) rows
      (map (\<lambda>(c, a). (c, bankrupt P a)) as)"
    using Cons.IH by blast
  with r row show ?case by (intro Cons.prems [of "row' # rows"]) (auto simp: xy row_names_def bankrupt_ok)
qed simp


subsection \<open>A whole settlement\<close>

definition verdict_of :: "settled_bid \<Rightarrow> int option \<Rightarrow> string option \<Rightarrow> verdict option" where
  "verdict_of b realized effect =
     (case (sb_campaign b, sb_bid b, realized) of
        (Some cid, Some bid, Some delta) \<Rightarrow>
          (case (q32_int (jget bid ''predicted_delta_J_q32''), q32_int (jget bid ''confidence_q32'')) of
             (Inr p, Inr f) \<Rightarrow> Some \<lparr>vd_campaign = cid, vd_predicted = max 0 p, vd_confidence = clamp_q32 f 0 q32_one,
               vd_realized = delta, vd_effect = strip (case effect of None \<Rightarrow> [] | Some e \<Rightarrow> e)\<rparr>
           | _ \<Rightarrow> None)
      | _ \<Rightarrow> None)"

lemma verdict_confidence:
  "verdict_of b realized effect = Some v \<Longrightarrow> 0 \<le> vd_confidence v \<and> vd_confidence v \<le> q32_one \<and> 0 \<le> vd_predicted v"
  by (auto simp: verdict_of_def clamp_q32_def split: option.split_asm sum.split_asm)

lemma named_rows_obj: "named_rows cmap as \<Longrightarrow> (c, row) \<in> set cmap \<Longrightarrow> is_obj row"
proof -
  have "list_all2 (\<lambda>(c, row) (cid, a). c = cid \<and> row_names row cid \<and> row_account row a \<and> account_ok a) cmap as
      \<Longrightarrow> (c, row) \<in> set cmap \<Longrightarrow> is_obj row"
    by (induction rule: list_all2_induct) (auto simp: row_account_def)
  then show "named_rows cmap as \<Longrightarrow> (c, row) \<in> set cmap \<Longrightarrow> is_obj row" by (simp add: named_rows_def)
qed

lemma named_rows_pay:
  assumes "named_rows cmap as" and "map_of cmap cid = Some row" and "vd_campaign v = cid" and "params_ok P"
    and "\<And>a. row_account row a \<Longrightarrow> account_ok a \<Longrightarrow> row_account row' (pay P (Some v) cid a)"
    and "jget row' ''campaign_id'' = jget row ''campaign_id''"
  shows "named_rows (dict_set cmap cid row') (map (\<lambda>(c, a). (c, pay P (Some v) c a)) as)"
proof -
  let ?R = "\<lambda>(c, row) (cid, a). c = cid \<and> row_names row cid \<and> row_account row a \<and> account_ok a"
  have dist: "distinct (map fst cmap)" using named_rows_keys [OF assms(1)] assms(1) by (simp add: named_rows_def)
  then have set: "dict_set cmap cid row' = map (\<lambda>(l, w). (l, if l = cid then row' else w)) cmap"
    using assms(2) by (intro dict_set_present) (auto dest!: map_of_SomeD intro: image_eqI [rotated])
  have uniq: "w = row" if "(cid, w) \<in> set cmap" for w using that assms(2) dist by simp
  have "list_all2 (\<lambda>x y. ?R ((\<lambda>(l, w). (l, if l = cid then row' else w)) x) ((\<lambda>(c, a). (c, pay P (Some v) c a)) y)) cmap as"
  proof (rule list.rel_mono_strong)
    show "list_all2 ?R cmap as" using assms(1) by (simp add: named_rows_def)
    fix x y assume xy: "x \<in> set cmap" "y \<in> set as" "?R x y"
    then show "?R ((\<lambda>(l, w). (l, if l = cid then row' else w)) x) ((\<lambda>(c, a). (c, pay P (Some v) c a)) y)"
      using assms(3-6) uniq by (auto simp: row_names_def pay_ok) (auto simp: pay_def)
  qed
  then show ?thesis using assms(1) by (simp add: named_rows_def set list_all2_map1 list_all2_map2 comp_def case_prod_unfold)
qed

lemma settle_winner_account:
  assumes "row_account row a" and "account_ok a"
    and "settle_winner P row bid delta e = Inr w" and "q32_int (jget bid ''predicted_delta_J_q32'') = Inr p"
    and "q32_int (jget bid ''confidence_q32'') = Inr f"
  shows "row_account (obj_set (obj_set row ''bankroll_q32'' (q32_obj (wc_bankroll_after w))) ''credibility_q32''
      (q32_obj (wc_credibility_after w)))
    (pay P (Some \<lparr>vd_campaign = cid, vd_predicted = max 0 p, vd_confidence = clamp_q32 f 0 q32_one, vd_realized = delta,
      vd_effect = e\<rparr>) cid a)"
  using assms by (auto simp: settle_winner_def row_account_def account_ok_def pay_def Let_def clamp_q32_def)

lemma update_winner_named:
  assumes "named_rows cmap as" and "params_ok P" and "update_winner P I b realized cmap = Inr (cmap', w)"
  shows "named_rows cmap' (map (\<lambda>(c, a). (c, pay P (verdict_of b realized (si_effect_class I)) c a)) as)"
proof (cases "(\<exists>cid bid delta. sb_campaign b = Some cid \<and> sb_bid b = Some bid \<and> realized = Some delta)")
  case True
  then obtain cid bid delta where b: "sb_campaign b = Some cid" "sb_bid b = Some bid" "realized = Some delta" by blast
  let ?e = "strip (case si_effect_class I of None \<Rightarrow> [] | Some e \<Rightarrow> e)"
  from assms(3) b obtain row where row: "map_of cmap cid = Some row"
    and w: "settle_winner P row bid delta ?e = Inr w"
    and c': "cmap' = dict_set cmap cid (obj_set (obj_set row ''bankroll_q32'' (q32_obj (wc_bankroll_after w)))
      ''credibility_q32'' (q32_obj (wc_credibility_after w)))"
    by (auto simp: update_winner_def omega_fail_def Let_def split: option.split_asm)
  from w obtain p f where pf: "q32_int (jget bid ''predicted_delta_J_q32'') = Inr p" "q32_int (jget bid ''confidence_q32'') = Inr f"
    by (auto simp: settle_winner_def)
  have obj: "is_obj row" using named_rows_obj [OF assms(1)] row by (blast dest: map_of_SomeD)
  let ?v = "\<lparr>vd_campaign = cid, vd_predicted = max 0 p, vd_confidence = clamp_q32 f 0 q32_one, vd_realized = delta,
    vd_effect = ?e\<rparr>"
  have "verdict_of b realized (si_effect_class I) = Some ?v" using b pf by (simp add: verdict_of_def)
  moreover have "named_rows cmap' (map (\<lambda>(c, a). (c, pay P (Some ?v) c a)) as)"
    unfolding c'
  proof (rule named_rows_pay [OF assms(1) row _ assms(2)])
    fix a assume "row_account row a" and "account_ok a"
    then show "row_account (obj_set (obj_set row ''bankroll_q32'' (q32_obj (wc_bankroll_after w)))
        ''credibility_q32'' (q32_obj (wc_credibility_after w))) (pay P (Some ?v) cid a)"
      by (rule settle_winner_account [OF _ _ w pf])
  qed (simp_all add: obj)
  ultimately show ?thesis by simp
next
  case False
  then have "verdict_of b realized (si_effect_class I) = None" "cmap' = cmap"
    using assms(3) by (auto simp: verdict_of_def update_winner_def split: option.split_asm)
  then show ?thesis using assms(1) by (simp add: pay_def case_prod_unfold)
qed


lemma market_state_doc_fields [simp]:
  "is_obj (market_state_doc E t p c r states)"
  "jget (market_state_doc E t p c r states) ''campaign_states'' = JList states"
  "jget (market_state_doc E t p c r states) ''tick_u64'' = JInt t"
  "jget (market_state_doc E t p c r states) ''prev_state_id'' = p"
  by (simp_all add: market_state_doc_def with_id_field_def)

theorem settle_refines:
  assumes "settle_and_advance E I = Inr (receipt, after)" and "state_before E I = Inr before" and "stands_for before as"
  obtains P b J_cur J_prev where "resolve_settlement_params (si_cfg I) = Inr P" and "params_ok P"
    and "previous_winner I = Inr b" and "J_from_observation (si_cur_observation I) (si_objectives I) = Inr J_cur"
    and "previous_objective I = Inr J_prev"
    and "stands_for after (market_step P (verdict_of b (map_option (\<lambda>J. J_cur - J) J_prev) (si_effect_class I)) as)"
proof -
  from assms(1,2) obtain P J_cur J_prev b cmap0 cmap w rows ids where
    P: "resolve_settlement_params (si_cfg I) = Inr P"
    and J: "J_from_observation (si_cur_observation I) (si_objectives I) = Inr J_cur" "previous_objective I = Inr J_prev"
    and b: "previous_winner I = Inr b" and m: "market_state_map before = Inr cmap0"
    and u: "update_winner P I b (map_option (\<lambda>J. J_cur - J) J_prev) cmap0 = Inr (cmap, w)"
    and r: "advance_rows P (sort_key fst cmap) = Inr (rows, ids)"
    and a: "after = market_state_doc E (si_tick I) (if si_prev_state I = None then JNull else jget before ''state_id'')
           (si_config_hash I) (si_registry_hash I) rows"
    by (auto simp: settle_and_advance_def Let_def split: prod.split_asm)
  let ?v = "verdict_of b (map_option (\<lambda>J. J_cur - J) J_prev) (si_effect_class I)"
  let ?as = "map (\<lambda>(c, a). (c, pay P ?v c a)) as"
  have ok: "params_ok P" using P by (rule resolve_params_ok)
  obtain cmap' where "market_state_map before = Inr cmap'" "named_rows cmap' as" using stands_for_map [OF assms(3)] .
  with m u ok have n: "named_rows cmap ?as" using update_winner_named by auto
  then have "sorted (map fst cmap)" using named_rows_keys [OF n] by (simp add: named_rows_def)
  then have sorted: "sort_key fst cmap = cmap" by (rule sort_key_id_if_sorted)
  obtain rows' where "advance_rows P cmap
      = Inr (rows', map fst (filter (\<lambda>(c, a). \<not> ac_disabled a \<and> ac_disabled (bankrupt P a)) ?as))"
    and l: "list_all2 (\<lambda>row (cid, a). row_names row cid \<and> row_account row a \<and> account_ok a) rows'
      (map (\<lambda>(c, a). (c, bankrupt P a)) ?as)"
    using advance_named_rows [OF conjunct1 [OF n [unfolded named_rows_def]], of P] .
  with r sorted have "rows' = rows" by simp
  with l n have "market_rows rows (market_step P ?v as)"
    by (simp add: market_rows_def market_step_def named_rows_def comp_def case_prod_unfold)
  then have "stands_for after (market_step P ?v as)" by (simp add: stands_for_def a)
  then show thesis by (rule that [OF P ok b J])
qed

subsection \<open>The first state\<close>

lemma dropWhile_prefix: "dropWhile p (xs @ ys) = xs @ ys \<Longrightarrow> dropWhile p xs = xs"
  unfolding dropWhile_eq_self_iff by (cases xs) auto

lemma strip_strip [simp]: "strip (strip s) = strip s"
proof -
  let ?d = "dropWhile py_space s"
  let ?t = "rev (dropWhile py_space (rev ?d))"
  have "?d = ?t @ rev (takeWhile py_space (rev ?d))"
    by (metis rev_append rev_rev_ident takeWhile_dropWhile_id)
  then have "dropWhile py_space ?t = ?t"
    using dropWhile_prefix [of py_space ?t] by (metis dropWhile_idem)
  then show ?thesis by (simp add: strip_def)
qed

definition initial_account :: "settlement_params \<Rightarrow> account" where
  "initial_account P = \<lparr>ac_bankroll = sp_initial_bankroll P, ac_credibility = sp_initial_credibility P,
     ac_streak = 0, ac_disabled = False\<rparr>"

lemma registry_ids_stripped: "registry_ids rows = Inr ids \<Longrightarrow> cid \<in> set ids \<Longrightarrow> strip cid = cid \<and> cid \<noteq> []"
  by (induction rows arbitrary: ids) (auto simp: str_field_def split: if_split_asm)

theorem bootstrap_stands_for:
  assumes "bootstrap_market_state E t c r registry cfg = Inr doc"
  obtains P ids where "resolve_settlement_params cfg = Inr P" and "campaign_ids_from_registry registry = Inr ids"
    and "stands_for doc (map (\<lambda>cid. (cid, initial_account P)) ids)"
proof -
  from assms obtain P ids where P: "resolve_settlement_params cfg = Inr P"
    and ids: "campaign_ids_from_registry registry = Inr ids"
    and doc: "doc = market_state_doc E t JNull c r (map (initial_campaign_state P) ids)"
    by (auto simp: bootstrap_market_state_def Let_def)
  from ids obtain xs where xs: "registry_ids (the_list (jget registry ''capabilities'')) = Inr xs" "ids = sort (remdups xs)"
    by (auto simp: campaign_ids_from_registry_def Let_def omega_fail_def split: if_split_asm)
  then have cid: "strip cid = cid \<and> cid \<noteq> []" if "cid \<in> set ids" for cid
    using that registry_ids_stripped [OF xs(1)] by simp
  have "sorted ids" "distinct ids" using xs(2) by simp_all
  moreover have "account_ok (initial_account P)"
    using resolve_params_ok [OF P] by (simp add: account_ok_def initial_account_def params_ok_def)
  ultimately have "market_rows (map (initial_campaign_state P) ids) (map (\<lambda>cid. (cid, initial_account P)) ids)"
    using cid by (auto simp: market_rows_def list_all2_map1 list_all2_map2 list_all2_same comp_def row_names_def
        row_account_def initial_campaign_state_def initial_account_def)
  then have "stands_for doc (map (\<lambda>cid. (cid, initial_account P)) ids)" by (simp add: stands_for_def doc)
  then show thesis by (rule that [OF P ids])
qed

end
