(* ===== verification/Omega_Select_Props.thy ===== *)
theory Omega_Select_Props
  imports Omega_Market_Props
begin

section \<open>What a selection guarantees\<close>

text \<open>
  The winner is the least eligible candidate in the order of rank, the candidates are the bids,
  and a disabled campaign is never eligible. The copy in cdel agrees with the orchestrator only when every
  confidence is one and no bidder is disabled.
\<close>

subsection \<open>The best candidate\<close>

lemma best_candidate_Some:
  assumes "best_candidate cs = Some c"
  shows "c \<in> set cs" and "mc_eligible c" and "c' \<in> set cs \<Longrightarrow> mc_eligible c' \<Longrightarrow> rank_key c \<le> rank_key c'"
proof -
  obtain rest where r: "sort_key rank_key (filter mc_eligible cs) = c # rest"
    using assms by (auto simp: best_candidate_def split: list.split_asm)
  have "set (sort_key rank_key (filter mc_eligible cs)) = {x \<in> set cs. mc_eligible x}" by simp
  then have s: "set (c # rest) = {x \<in> set cs. mc_eligible x}" by (simp only: r)
  then show "c \<in> set cs" and "mc_eligible c" by auto
  have "sorted (map rank_key (c # rest))" using sorted_sort_key [of rank_key "filter mc_eligible cs"] by (simp only: r)
  moreover assume "c' \<in> set cs" and "mc_eligible c'"
  then have "c' \<in> set (c # rest)" using s by auto
  ultimately show "rank_key c \<le> rank_key c'" by auto
qed

lemma best_candidate_None: "best_candidate cs = None \<longleftrightarrow> (\<forall>c \<in> set cs. \<not> mc_eligible c)"
proof -
  have "sort_key rank_key (filter mc_eligible cs) = [] \<longleftrightarrow> set (sort_key rank_key (filter mc_eligible cs)) = {}"
    by (simp only: set_empty)
  then show ?thesis by (auto simp: best_candidate_def filter_empty_conv split: list.split)
qed

lemma rank_key_inj: "rank_key c = rank_key c' \<Longrightarrow> mc_campaign c = mc_campaign c'"
  by (simp add: rank_key_def)

subsection \<open>The candidates are the bids\<close>

lemma market_candidates_iff:
  "market_candidates score skip E t cmap cd br bids = Inr cs \<longleftrightarrow>
     list_all2 (\<lambda>(cid, bid) c. market_candidate_of score skip E t cmap cd br cid bid = Inr c) bids cs"
proof (induction bids arbitrary: cs)
  case (Cons p bids)
  obtain cid bid where "p = (cid, bid)" by (cases p)
  with Cons show ?case by (auto simp: list_all2_Cons1)
qed auto

lemma candidate_campaign:
  "market_candidate_of score skip E t cmap cd br cid bid = Inr c \<Longrightarrow> mc_campaign c = cid"
  by (auto simp: market_candidate_of_def omega_fail_def Let_def split: option.split_asm)

lemma candidate_skip:
  assumes "market_candidate_of score skip E t cmap cd br cid bid = Inr c"
  obtains row n where "map_of cmap cid = Some row" and "skip row n t br (mc_cost c) = Inr (mc_skip c)"
    and "py_int (jget_default (jor (jget cd cid) (JObj [])) ''next_tick_allowed_u64'' (JInt 0)) = Inr n"
  using assms by (auto simp: market_candidate_of_def omega_fail_def Let_def split: option.split_asm)

lemma selection_candidates_campaigns:
  assumes "selection_candidates score skip E I = Inr cs"
  shows "map mc_campaign cs = map fst (sort_key fst (se_bids I))"
proof -
  from assms obtain cmap cd br where
    "market_candidates score skip E (se_tick I) cmap cd br (sort_key fst (se_bids I)) = Inr cs"
    by (auto simp: selection_candidates_def omega_fail_def Let_def split: if_split_asm)
  then have "list_all2 (\<lambda>p c. mc_campaign c = fst p) (sort_key fst (se_bids I)) cs"
    unfolding market_candidates_iff by (rule list_all2_mono) (auto dest: candidate_campaign)
  then show ?thesis by (induction rule: list_all2_induct) auto
qed

lemma receipt_fields [simp]:
  "jget (selection_receipt E I cs) ''winner'' = opt_json winner_doc (best_candidate cs)"
  "jget (selection_receipt E I cs) ''outcome'' = JStr (if best_candidate cs = None then ''NOOP'' else ''OK'')"
  "jget (selection_receipt E I cs) ''candidates'' = JList (map candidate_doc (sort_key rank_key cs))"
  "is_obj (selection_receipt E I cs)"
  by (simp_all add: selection_receipt_def with_id_field_def Let_def)

subsection \<open>Disabled campaigns\<close>

lemma eligible_not_disabled:
  assumes "selection_candidates score skip_reason E I = Inr cs" and "c \<in> set cs" and "mc_eligible c"
    and "stands_for (se_market_state I) as"
  obtains a where "map_of as (mc_campaign c) = Some a" and "\<not> ac_disabled a"
proof -
  from assms(1) obtain cmap cd br where m: "market_state_map (se_market_state I) = Inr cmap"
    and "market_candidates score skip_reason E (se_tick I) cmap cd br (sort_key fst (se_bids I)) = Inr cs"
    by (auto simp: selection_candidates_def omega_fail_def Let_def split: if_split_asm)
  then obtain cid bid where "market_candidate_of score skip_reason E (se_tick I) cmap cd br cid bid = Inr c"
    using assms(2) unfolding market_candidates_iff by (auto simp: list_all2_conv_all_nth in_set_conv_nth)
  then obtain row n where row: "map_of cmap (mc_campaign c) = Some row"
    and sk: "skip_reason row n (se_tick I) br (mc_cost c) = Inr (mc_skip c)"
    using candidate_campaign candidate_skip by metis
  have nd: "\<not> truthy (jget row ''disabled_b'')"
    using sk assms(3) by (auto simp: skip_reason_def mc_eligible_def)
  obtain cmap' where "market_state_map (se_market_state I) = Inr cmap'" and n: "named_rows cmap' as"
    using stands_for_map [OF assms(4)] .
  with m have n: "named_rows cmap as" by simp
  have l: "list_all2 (\<lambda>(c, row) (cid, a). c = cid \<and> row_names row cid \<and> row_account row a \<and> account_ok a) cmap as"
    using n by (simp add: named_rows_def)
  then have "map_of cmap k = Some row \<Longrightarrow> \<exists>a. map_of as k = Some a \<and> row_account row a" for k
    by (induction rule: list_all2_induct) (auto split: if_split_asm)
  with row obtain a where "map_of as (mc_campaign c) = Some a" "row_account row a" by blast
  with nd that show thesis by (auto simp: row_account_def)
qed


subsection \<open>The copy in cdel\<close>

lemma candidate_numbers:
  assumes "market_candidate_of score skip E t cmap cd br cid bid = Inr c"
    and "market_candidate_of score' skip' E t cmap cd br cid bid = Inr c'"
  shows "mc_score c = score (mc_roi c) (mc_credibility c) (mc_confidence c)"
    and "mc_roi c' = mc_roi c" and "mc_credibility c' = mc_credibility c" and "mc_confidence c' = mc_confidence c"
  using assms by (auto simp: market_candidate_of_def omega_fail_def Let_def split: option.split_asm)

lemma candidate_agrees:
  assumes "\<And>row. map_of cmap cid = Some row \<Longrightarrow> \<not> truthy (jget row ''disabled_b'')"
    and "q32_int (jget bid ''confidence_q32'') = Inr f" and "q32_one \<le> f"
  shows "market_candidate_of vendored_score vendored_skip_reason E t cmap cd br cid bid
    = market_candidate_of market_score skip_reason E t cmap cd br cid bid"
proof (cases "map_of cmap cid")
  case (Some row)
  with assms(1) have "\<not> truthy (jget row ''disabled_b'')" .
  then have skip: "vendored_skip_reason row = skip_reason row"
    by (intro ext) (simp add: vendored_skip_reason_def skip_reason_def)
  have "clamp_q32 f 0 q32_one = q32_one" using assms(3) by (simp add: clamp_q32_def)
  then show ?thesis by (simp add: market_candidate_of_def Some skip assms(2) market_score_def vendored_score_def)
qed (simp add: market_candidate_of_def)

lemma candidates_agree:
  assumes "\<And>cid bid. (cid, bid) \<in> set bids \<Longrightarrow>
      market_candidate_of score' skip' E t cmap cd br cid bid = market_candidate_of score skip E t cmap cd br cid bid"
  shows "market_candidates score' skip' E t cmap cd br bids = market_candidates score skip E t cmap cd br bids"
  using assms by (induction bids) (auto split: prod.split)

text \<open>The parity that the test suite checks on one example.\<close>

lemma select_parity:
  assumes "stands_for (se_market_state I) as" and "\<And>cid a. (cid, a) \<in> set as \<Longrightarrow> \<not> ac_disabled a"
    and "\<And>cid bid. (cid, bid) \<in> set (se_bids I) \<Longrightarrow> \<exists>f. q32_int (jget bid ''confidence_q32'') = Inr f \<and> q32_one \<le> f"
  shows "vendored_select_winner E I = select_winner E I"
proof -
  obtain cmap where m: "market_state_map (se_market_state I) = Inr cmap" and n: "named_rows cmap as"
    using stands_for_map [OF assms(1)] .
  have "list_all2 (\<lambda>(c, row) (cid, a). c = cid \<and> row_names row cid \<and> row_account row a \<and> account_ok a) cmap as
      \<Longrightarrow> (\<forall>(cid, a) \<in> set as. \<not> ac_disabled a) \<Longrightarrow> map_of cmap k = Some row \<Longrightarrow> \<not> truthy (jget row ''disabled_b'')" for k row
    by (induction rule: list_all2_induct) (auto simp: row_account_def split: if_split_asm)
  then have row: "map_of cmap k = Some row \<Longrightarrow> \<not> truthy (jget row ''disabled_b'')" for k row
    using n assms(2) by (auto simp: named_rows_def)
  have "market_candidates vendored_score vendored_skip_reason E t cmap cd br (sort_key fst (se_bids I))
      = market_candidates market_score skip_reason E t cmap cd br (sort_key fst (se_bids I))" for t cd br
  proof (rule candidates_agree)
    fix cid bid assume "(cid, bid) \<in> set (sort_key fst (se_bids I))"
    then obtain f where "q32_int (jget bid ''confidence_q32'') = Inr f" "q32_one \<le> f" using assms(3) by auto
    with row show "market_candidate_of vendored_score vendored_skip_reason E t cmap cd br cid bid
        = market_candidate_of market_score skip_reason E t cmap cd br cid bid" by (rule candidate_agrees)
  qed
  then show ?thesis
    by (simp add: vendored_select_winner_def select_winner_def select_with_def selection_candidates_def m Let_def)
qed

lemma confidence_lowers_score:
  assumes "0 < s" and "0 \<le> f" and "f < q32_one"
  shows "q32_mul s f < s"
proof -
  have "s * f < s * 2 ^ 32" using assms by (intro mult_strict_left_mono) (simp_all add: q32_one_def)
  then have "s * f div 2 ^ 32 < s" by (simp add: div_less_iff_less_mult flip: zle_diff1_eq) 
  then show ?thesis by (simp add: q32_mul_def)
qed

lemma select_divergence:
  assumes "select_winner E I = Inr r" and "vendored_select_winner E I = Inr r'" and "distinct (map fst (se_bids I))"
    and "selection_candidates market_score skip_reason E I = Inr cs" and "c \<in> set cs"
    and "mc_confidence c < q32_one" and "0 \<le> mc_confidence c" and "0 < q32_mul (mc_roi c) (mc_credibility c)"
  shows "r \<noteq> r'"
proof
  assume eq: "r = r'"
  from assms(2) obtain cs' where cs': "selection_candidates vendored_score vendored_skip_reason E I = Inr cs'"
    and r': "r' = selection_receipt E I cs'"
    by (auto simp: vendored_select_winner_def select_with_def Let_def)
  from assms(1,4) have r: "r = selection_receipt E I cs" by (auto simp: select_winner_def select_with_def Let_def)
  from assms(4) cs' obtain cmap cd br where
    m: "market_candidates market_score skip_reason E (se_tick I) cmap cd br (sort_key fst (se_bids I)) = Inr cs"
    and m': "market_candidates vendored_score vendored_skip_reason E (se_tick I) cmap cd br (sort_key fst (se_bids I)) = Inr cs'"
    by (auto simp: selection_candidates_def omega_fail_def Let_def split: if_split_asm)
  from m assms(5) obtain i where i: "i < length cs" "cs ! i = c" by (auto simp: in_set_conv_nth)
  from m m' have len: "length cs' = length cs"
    unfolding market_candidates_iff by (auto dest!: list_all2_lengthD)
  obtain cid bid where "market_candidate_of market_score skip_reason E (se_tick I) cmap cd br cid bid = Inr c"
    and "market_candidate_of vendored_score vendored_skip_reason E (se_tick I) cmap cd br cid bid = Inr (cs' ! i)"
    using m m' i len that [of "fst (sort_key fst (se_bids I) ! i)" "snd (sort_key fst (se_bids I) ! i)"]
    unfolding market_candidates_iff by (auto simp: list_all2_conv_all_nth case_prod_beta)
  note num = candidate_numbers [OF this] and num' = candidate_numbers(1) [OF this(2) this(1)]
    and camp = this [THEN candidate_campaign]
  have low: "mc_score c < mc_score (cs' ! i)"
    using confidence_lowers_score [OF assms(8,7,6)] by (simp add: num num' market_score_def vendored_score_def)
  have "candidate_doc c \<in> candidate_doc ` set cs" using assms(5) by simp
  also have "candidate_doc ` set cs = candidate_doc ` set cs'"
  proof -
    have "map candidate_doc (sort_key rank_key cs) = map candidate_doc (sort_key rank_key cs')"
      using arg_cong [OF eq, of "\<lambda>j. jget j ''candidates''"] by (simp add: r r')
    from arg_cong [OF this, of set] show ?thesis by simp
  qed
  finally obtain c2 where c2: "c2 \<in> set cs'" "candidate_doc c2 = candidate_doc c" by auto
  have "distinct (map mc_campaign cs')"
    using selection_candidates_campaigns [OF cs'] assms(3) by (simp add: distinct_map)
  moreover have "mc_campaign c2 = mc_campaign c" using c2(2) by (simp add: candidate_doc_def)
  ultimately have "c2 = cs' ! i"
    using c2(1) camp i len by (metis distinct_map inj_onD nth_mem)
  with c2(2) low show False by (simp add: candidate_doc_def q32_obj_def)
qed

end
