(* ===== verification/Omega_Tick.thy ===== *)
theory Omega_Tick
  imports Omega_Select_Props
begin

section \<open>A market tick and its replay\<close>

text \<open>
  The coordinator (orchestrator/omega_v18_0/coordinator_v1.py) settles the market, emits bids, selects and
  plans, and writes every document under its hash. The verifier (cdel/v18_0/verify_rsi_omega_daemon_v1.py)
  reads the documents that the snapshot names, computes all of them again and compares hashes.
  A directory is a map from hashes to documents.
\<close>

record tick_input =
  ti_tick :: int
  ti_cfg :: json
  ti_cfg_hash :: string
  ti_registry :: json
  ti_registry_hash :: string
  ti_objectives :: json
  ti_prev_market :: "json option"
  ti_prev_selection :: "json option"
  ti_prev_observation :: "json option"
  ti_observation :: json
  ti_observation_hash :: string
  ti_issue_hash :: string
  ti_policy_hash :: string
  ti_budgets_hash :: string
  ti_prev_state :: json

record tick_output =
  to_settlement :: json
  to_state :: json
  to_bids :: "(string \<times> json) list"
  to_bid_set :: json
  to_selection :: json
  to_plan :: json

definition doc_hash :: "omega_env \<Rightarrow> json option \<Rightarrow> string option" where
  "doc_hash E d = map_option (canon_hash_obj E) d"

definition settle_input_of :: "omega_env \<Rightarrow> tick_input \<Rightarrow> json option \<Rightarrow> string option \<Rightarrow> json option \<Rightarrow> string option
    \<Rightarrow> settle_input" where
  "settle_input_of E T prev_market prev_market_hash prev_selection prev_selection_hash =
     \<lparr>si_tick = ti_tick T, si_config_hash = ti_cfg_hash T, si_registry_hash = ti_registry_hash T, si_cfg = ti_cfg T,
      si_registry = ti_registry T, si_objectives = ti_objectives T, si_prev_state = prev_market,
      si_prev_state_hash = prev_market_hash, si_prev_selection = prev_selection,
      si_prev_selection_hash = prev_selection_hash, si_prev_observation = dict_of (ti_prev_observation T),
      si_prev_observation_hash = doc_hash E (dict_of (ti_prev_observation T)),
      si_cur_observation = ti_observation T, si_cur_observation_hash = ti_observation_hash T, si_effect_class = None\<rparr>"

definition validate_opt :: "omega_env \<Rightarrow> json option \<Rightarrow> string \<Rightarrow> unit res" where
  "validate_opt E d schema_name = (case d of None \<Rightarrow> Inr () | Some x \<Rightarrow> validate_doc E x schema_name)"

subsection \<open>Emitting bids\<close>

fun bidder_rows :: "json list \<Rightarrow> (string \<times> json) list \<Rightarrow> (string \<times> json) list res" where
  "bidder_rows [] out = Inr out"
| "bidder_rows (row # rows) out =
     (if \<not> is_obj row then bidder_rows rows out
      else bindr (str_field row ''campaign_id'') (\<lambda>cid.
           if cid = [] then bidder_rows rows out
           else bindr (str_of (jget row ''campaign_id'')) (\<lambda>k. bidder_rows rows (dict_set out k row))))"

definition sorted_capabilities :: "json list \<Rightarrow> json list res" where
  "sorted_capabilities caps =
     bindr (mapr (\<lambda>r. bindr (str_of (jget r ''campaign_id'')) (\<lambda>k. Inr (k, r))) (filter is_obj caps)) (\<lambda>ks.
       Inr (map snd (sort_key fst ks)))"

text \<open>The bid of one capability, if it makes one.\<close>

definition emit_bid :: "omega_env \<Rightarrow> tick_input \<Rightarrow> string \<Rightarrow> (string \<times> json) list \<Rightarrow> json \<Rightarrow> (string \<times> json) option res" where
  "emit_bid E T state_hash rows cap =
     bindr (str_field cap ''campaign_id'') (\<lambda>cid.
     if cid = [] \<or> \<not> truthy (jget cap ''enabled'') then Inr None
     else case map_of rows cid of
         None \<Rightarrow> Inr None
       | Some st \<Rightarrow>
           if truthy (jget st ''disabled_b'') then Inr None
           else
             bindr (resolve_bidder_params (ti_cfg T) cid) (\<lambda>(roi, conf, horizon).
             bindr (jgetr (jor (jget cap ''budget_cost_hint_q32'') (JObj [])) ''q'') (\<lambda>_.
             bindr (py_int (jget_default (jor (jget cap ''budget_cost_hint_q32'') (JObj [])) ''q'' (JInt 0))) (\<lambda>cost.
             bindr (str_field cap ''capability_id'') (\<lambda>capability_id.
             bindr (build_bid E (ti_tick T) cid capability_id (ti_observation_hash T) state_hash (ti_cfg_hash T)
                      (ti_registry_hash T) roi conf horizon (max 1 cost)) (\<lambda>bid.
               Inr (Some (cid, bid))))))))"

fun emit_bids_loop :: "omega_env \<Rightarrow> tick_input \<Rightarrow> string \<Rightarrow> (string \<times> json) list \<Rightarrow> json list \<Rightarrow> (string \<times> json) list
    \<Rightarrow> (string \<times> json) list res" where
  "emit_bids_loop E T state_hash rows [] out = Inr out"
| "emit_bids_loop E T state_hash rows (cap # caps) out =
     bindr (emit_bid E T state_hash rows cap) (\<lambda>b.
       emit_bids_loop E T state_hash rows caps (case b of None \<Rightarrow> out | Some (cid, bid) \<Rightarrow> dict_set out cid bid))"

definition emit_bids :: "omega_env \<Rightarrow> tick_input \<Rightarrow> string \<Rightarrow> json \<Rightarrow> (string \<times> json) list res" where
  "emit_bids E T state_hash state =
     bindr (iter_json (jor (jget state ''campaign_states'') (JList []))) (\<lambda>states.
     bindr (bidder_rows states []) (\<lambda>rows.
     if \<not> is_list (jget (ti_registry T) ''capabilities'') then omega_fail ''SCHEMA_FAIL''
     else bindr (sorted_capabilities (the_list (jget (ti_registry T) ''capabilities''))) (\<lambda>caps.
            emit_bids_loop E T state_hash rows caps [])))"

subsection \<open>The tick\<close>

definition select_input_of :: "tick_input \<Rightarrow> json \<Rightarrow> string \<Rightarrow> string \<Rightarrow> (string \<times> json) list \<Rightarrow> select_input" where
  "select_input_of T state state_hash bid_set_hash bids =
     \<lparr>se_tick = ti_tick T, se_observation_hash = ti_observation_hash T, se_market_state = state,
      se_market_state_hash = state_hash, se_config_hash = ti_cfg_hash T, se_registry_hash = ti_registry_hash T,
      se_bid_set_hash = bid_set_hash, se_bids = bids, se_prev_state = ti_prev_state T\<rparr>"

definition bid_set_of :: "omega_env \<Rightarrow> tick_input \<Rightarrow> string \<Rightarrow> (string \<times> json) list \<Rightarrow> json res" where
  "bid_set_of E T state_hash bids =
     build_bid_set E (ti_tick T) (ti_observation_hash T) state_hash (ti_cfg_hash T) (ti_registry_hash T)
       (map (\<lambda>(cid, bid). (cid, canon_hash_obj E bid)) bids)"

definition plan_of :: "omega_env \<Rightarrow> tick_input \<Rightarrow> json \<Rightarrow> json res" where
  "plan_of E T selection =
     build_decision_plan E (ti_tick T) (ti_observation_hash T) (ti_issue_hash T) (ti_policy_hash T)
       (ti_registry_hash T) (ti_budgets_hash T) (ti_registry T) selection"

definition market_tick :: "omega_env \<Rightarrow> tick_input \<Rightarrow> tick_output res" where
  "market_tick E T =
     bindr (validate_opt E (ti_prev_market T) ''bid_market_state_v1'') (\<lambda>_.
     bindr (validate_opt E (ti_prev_selection T) ''bid_selection_receipt_v1'') (\<lambda>_.
     bindr (settle_and_advance E (settle_input_of E T (ti_prev_market T) (doc_hash E (ti_prev_market T))
              (ti_prev_selection T) (doc_hash E (ti_prev_selection T)))) (\<lambda>(settlement, state).
     let state_hash = canon_hash_obj E state in
     if jget settlement ''market_state_after_hash'' \<noteq> JStr state_hash then omega_fail ''NONDETERMINISTIC''
     else
       bindr (emit_bids E T state_hash state) (\<lambda>bids.
       bindr (bid_set_of E T state_hash bids) (\<lambda>bid_set.
       bindr (select_winner E (select_input_of T state state_hash (canon_hash_obj E bid_set) bids)) (\<lambda>selection.
       bindr (plan_of E T selection) (\<lambda>plan.
         Inr \<lparr>to_settlement = settlement, to_state = state, to_bids = bids, to_bid_set = bid_set,
           to_selection = selection, to_plan = plan\<rparr>)))))))"

subsection \<open>The replay\<close>

record market_files =
  mf_state :: "string \<Rightarrow> json option"
  mf_settlement :: "string \<Rightarrow> json option"
  mf_bid_set :: "string \<Rightarrow> json option"
  mf_selection :: "string \<Rightarrow> json option"
  mf_bids :: "string \<Rightarrow> json option"

record market_snapshot =
  sn_state :: json
  sn_settlement :: json
  sn_bid_set :: json
  sn_selection :: json

text \<open>\<open>_verify_hash_binding(find_by_hash(...))\<close>.\<close>

definition load_bound :: "omega_env \<Rightarrow> (string \<Rightarrow> json option) \<Rightarrow> string \<Rightarrow> string \<Rightarrow> json res" where
  "load_bound E files digest schema_name =
     bindr (ensure_sha256 (JStr digest) ''SCHEMA_FAIL'') (\<lambda>_.
     case files digest of
       None \<Rightarrow> omega_fail ''MISSING_STATE_INPUT''
     | Some payload \<Rightarrow>
         bindr (validate_doc E payload schema_name) (\<lambda>_.
         if canon_hash_obj E payload \<noteq> digest then omega_fail ''HASH_MISMATCH'' else Inr payload))"

definition load_optional :: "omega_env \<Rightarrow> (string \<Rightarrow> json option) \<Rightarrow> json \<Rightarrow> string \<Rightarrow> (json \<times> string) option res" where
  "load_optional E files digest schema_name =
     (if digest = JNull then Inr None
      else bindr (str_of digest) (\<lambda>d. bindr (load_bound E files d schema_name) (\<lambda>doc. Inr (Some (doc, d)))))"

fun load_bids :: "omega_env \<Rightarrow> (string \<Rightarrow> json option) \<Rightarrow> json list \<Rightarrow> (string \<times> json) list \<Rightarrow> (string \<times> json) list res" where
  "load_bids E files [] out = Inr out"
| "load_bids E files (ref # refs) out =
     (if \<not> is_obj ref then omega_fail ''SCHEMA_FAIL''
      else
        bindr (str_field ref ''campaign_id'') (\<lambda>cid.
        bindr (str_field ref ''bid_hash'') (\<lambda>bh.
        if cid = [] \<or> bh = [] then omega_fail ''SCHEMA_FAIL''
        else bindr (load_bound E files bh ''bid_v1'') (\<lambda>bid. load_bids E files refs (dict_set out cid bid)))))"

definition hash_like :: "json \<Rightarrow> bool" where
  "hash_like v \<longleftrightarrow> is_str v \<and> starts ''sha256:'' (the_str v) \<and> length (drop 7 (the_str v)) = 64"

definition same_hash :: "omega_env \<Rightarrow> json \<Rightarrow> json \<Rightarrow> unit res" where
  "same_hash E expected payload =
     (if canon_hash_obj E expected \<noteq> canon_hash_obj E payload then omega_fail ''NONDETERMINISTIC'' else Inr ())"

fun check_bids :: "omega_env \<Rightarrow> (string \<times> json) list \<Rightarrow> (string \<times> json) list \<Rightarrow> unit res" where
  "check_bids E stored [] = Inr ()"
| "check_bids E stored ((cid, bid) # expected) =
     (case map_of stored cid of
        None \<Rightarrow> omega_fail ''NONDETERMINISTIC''
      | Some got \<Rightarrow> bindr (same_hash E bid got) (\<lambda>_. check_bids E stored expected))"

text \<open>What is recomputed once the documents are loaded; \<open>select\<close> is the copy of \<open>select_winner\<close> in use.\<close>

definition replay_tick :: "(select_input \<Rightarrow> json res) \<Rightarrow> omega_env \<Rightarrow> tick_input \<Rightarrow> json \<Rightarrow> json
    \<Rightarrow> (string \<times> json) list \<Rightarrow> json \<Rightarrow> json \<Rightarrow> json \<Rightarrow> (json \<times> string) option \<Rightarrow> (json \<times> string) option \<Rightarrow> unit res" where
  "replay_tick select E T settlement state bids bid_set selection decision prev_market prev_selection =
     bindr (settle_and_advance E (settle_input_of E T (map_option fst prev_market) (map_option snd prev_market)
              (map_option fst prev_selection) (map_option snd prev_selection))) (\<lambda>(settlement', state').
     bindr (same_hash E settlement' settlement) (\<lambda>_.
     bindr (same_hash E state' state) (\<lambda>_.
     bindr (emit_bids E T (canon_hash_obj E state) state) (\<lambda>bids'.
     bindr (bid_set_of E T (canon_hash_obj E state) bids') (\<lambda>bid_set'.
     bindr (same_hash E bid_set' bid_set) (\<lambda>_.
     bindr (check_bids E bids bids') (\<lambda>_.
     bindr (select (select_input_of T state (canon_hash_obj E state) (canon_hash_obj E bid_set) bids')) (\<lambda>selection'.
     bindr (same_hash E selection' selection) (\<lambda>_.
     bindr (plan_of E T selection) (\<lambda>decision'. same_hash E decision' decision))))))))))"

definition replay_market :: "(select_input \<Rightarrow> json res) \<Rightarrow> omega_env \<Rightarrow> market_files \<Rightarrow> market_snapshot \<Rightarrow> tick_input
    \<Rightarrow> json \<Rightarrow> unit res" where
  "replay_market select E F N T decision =
     (if \<not> hash_like (sn_state N) \<or> \<not> hash_like (sn_settlement N) \<or> \<not> hash_like (sn_bid_set N)
         \<or> \<not> hash_like (sn_selection N)
      then omega_fail ''MISSING_STATE_INPUT''
      else
        bindr (load_bound E (mf_state F) (the_str (sn_state N)) ''bid_market_state_v1'') (\<lambda>state.
        bindr (load_bound E (mf_settlement F) (the_str (sn_settlement N)) ''bid_settlement_receipt_v1'') (\<lambda>settlement.
        bindr (load_bound E (mf_bid_set F) (the_str (sn_bid_set N)) ''bid_set_v1'') (\<lambda>bid_set.
        bindr (load_bound E (mf_selection F) (the_str (sn_selection N)) ''bid_selection_receipt_v1'') (\<lambda>selection.
        if \<not> is_list (jget bid_set ''bids'') then omega_fail ''SCHEMA_FAIL''
        else
          bindr (load_bids E (mf_bids F) (the_list (jget bid_set ''bids'')) []) (\<lambda>bids.
          bindr (load_optional E (mf_state F) (jget settlement ''market_state_before_hash'') ''bid_market_state_v1'')
            (\<lambda>prev_market.
          bindr (load_optional E (mf_selection F) (jget settlement ''selection_receipt_hash'') ''bid_selection_receipt_v1'')
            (\<lambda>prev_selection.
            replay_tick select E T settlement state bids bid_set selection decision prev_market prev_selection))))))))"

end
