(* ===== verification/Omega_Tick_Props.thy ===== *)
theory Omega_Tick_Props
  imports Omega_Tick
begin

section \<open>The replay accepts what the coordinator wrote\<close>

text \<open>
  Also proved: only campaigns of the market bid, and a settlement neither adds one nor brings a
  disabled one back.
\<close>

subsection \<open>Emitted bids\<close>

definition bid_ok :: "omega_env \<Rightarrow> (string \<times> json) list \<Rightarrow> string \<times> json \<Rightarrow> bool" where
  "bid_ok E rows = (\<lambda>(cid, bid). strip cid = cid \<and> cid \<noteq> [] \<and> oe_schema_ok E ''bid_v1'' bid
     \<and> (\<exists>st. map_of rows cid = Some st \<and> \<not> truthy (jget st ''disabled_b'')))"

lemma validate_doc_Inr [simp]: "validate_doc E d s = Inr u \<longleftrightarrow> oe_schema_ok E s d"
  by (simp add: validate_doc_def)

lemma str_field_stripped: "str_field d k = Inr s \<Longrightarrow> strip s = s"
  by (auto simp: str_field_def)

lemma emit_bid_ok: "emit_bid E T h rows cap = Inr (Some b) \<Longrightarrow> bid_ok E rows b"
  by (auto simp: emit_bid_def bid_ok_def build_bid_def Let_def str_field_stripped split: if_split_asm option.split_asm)

lemma set_dict_set: "set (dict_set d k v) \<subseteq> insert (k, v) (set d)"
  by (induction d k v rule: dict_set.induct) auto

lemma emit_bids_loop_ok:
  assumes "emit_bids_loop E T h rows caps out = Inr bids" and "\<forall>b \<in> set out. bid_ok E rows b" and "distinct (map fst out)"
  shows "(\<forall>b \<in> set bids. bid_ok E rows b) \<and> distinct (map fst bids)"
  using assms
proof (induction caps arbitrary: out)
  case (Cons cap caps)
  from Cons.prems(1) obtain b where b: "emit_bid E T h rows cap = Inr b"
    and r: "emit_bids_loop E T h rows caps (case b of None \<Rightarrow> out | Some (cid, bid) \<Rightarrow> dict_set out cid bid) = Inr bids"
    by auto
  show ?case
  proof (cases b)
    case None
    with Cons r show ?thesis by simp
  next
    case (Some p)
    obtain cid bid where p: "p = (cid, bid)" by (cases p)
    have "bid_ok E rows (cid, bid)" using b emit_bid_ok by (simp add: Some p)
    then have "\<forall>b \<in> set (dict_set out cid bid). bid_ok E rows b"
      using set_dict_set [of out cid bid] Cons.prems(2) by auto
    with Cons r show ?thesis by (simp add: Some p distinct_dict_set)
  qed
qed simp

lemma emit_bids_ok:
  assumes "emit_bids E T h state = Inr bids"
  obtains states rows where "iter_json (jor (jget state ''campaign_states'') (JList [])) = Inr states"
    and "bidder_rows states [] = Inr rows" and "\<forall>b \<in> set bids. bid_ok E rows b" and "distinct (map fst bids)"
proof -
  from assms obtain states rows caps where
    s: "iter_json (jor (jget state ''campaign_states'') (JList [])) = Inr states" "bidder_rows states [] = Inr rows"
    and "emit_bids_loop E T h rows caps [] = Inr bids"
    by (auto simp: emit_bids_def omega_fail_def split: if_split_asm)
  with emit_bids_loop_ok [OF this(3)] show thesis by (intro that [OF s]) simp_all
qed

subsection \<open>Loading by hash\<close>

definition sha256_env :: "omega_env \<Rightarrow> bool" where
  "sha256_env E \<longleftrightarrow> (\<forall>data. sha256_text (sha256_prefixed E data))"

lemma sha256_hash: "sha256_env E \<Longrightarrow> sha256_text (canon_hash_obj E d)"
  by (simp add: sha256_env_def canon_hash_obj_def)

lemma load_bound_stored:
  "sha256_env E \<Longrightarrow> files (canon_hash_obj E d) = Some d \<Longrightarrow> oe_schema_ok E s d
    \<Longrightarrow> load_bound E files (canon_hash_obj E d) s = Inr d"
  by (simp add: load_bound_def ensure_sha256_def sha256_hash validate_doc_def)

lemma hash_like_hash: "sha256_env E \<Longrightarrow> hash_like (JStr (canon_hash_obj E d))"
  using sha256_hash [of E d] by (simp add: hash_like_def sha256_text_def)

lemma strip_id: "list_all (\<lambda>c. \<not> py_space c) s \<Longrightarrow> strip s = s"
proof -
  have "list_all (\<lambda>c. \<not> py_space c) t \<Longrightarrow> dropWhile py_space t = t" for t by (cases t) simp_all
  then show "list_all (\<lambda>c. \<not> py_space c) s \<Longrightarrow> strip s = s" by (simp add: strip_def list_all_rev)
qed

lemma hex_no_space: "c \<in> set ''0123456789abcdef'' \<Longrightarrow> \<not> py_space c"
  by (auto simp: py_space_def Let_def)

lemma sha256_text_strip: "sha256_text s \<Longrightarrow> strip s = s \<and> s \<noteq> []"
proof
  assume a: "sha256_text s"
  have "take (length ''sha256:'') s = ''sha256:''" using a unfolding sha256_text_def starts_def by blast
  then have "s = ''sha256:'' @ drop (length ''sha256:'') s" by (metis append_take_drop_id)
  moreover have "length ''sha256:'' = 7" by simp
  ultimately have s: "s = ''sha256:'' @ drop 7 s" by metis
  have "list_all (\<lambda>c. \<not> py_space c) (drop 7 s)"
    using a hex_no_space unfolding sha256_text_def list_all_iff by blast
  then have "list_all (\<lambda>c. \<not> py_space c) (''sha256:'' @ drop 7 s)" by (simp add: py_space_def)
  with s show "strip s = s" using strip_id by metis
qed (auto simp: sha256_text_def)


subsection \<open>Bids that are read back\<close>

definition bid_ref :: "omega_env \<Rightarrow> string \<times> json \<Rightarrow> json" where
  "bid_ref E = (\<lambda>(cid, bid). JObj [(''campaign_id'', JStr cid), (''bid_hash'', JStr (canon_hash_obj E bid))])"

lemma load_bids_refs:
  assumes "sha256_env E" and "\<forall>(cid, bid) \<in> set xs. strip cid = cid \<and> cid \<noteq> [] \<and> oe_schema_ok E ''bid_v1'' bid
      \<and> files (canon_hash_obj E bid) = Some bid"
  shows "load_bids E files (map (bid_ref E) xs) out = Inr (dict_update out xs)"
  using assms(2)
proof (induction xs arbitrary: out)
  case (Cons x xs)
  obtain cid bid where x: "x = (cid, bid)" by (cases x)
  have "strip (canon_hash_obj E bid) = canon_hash_obj E bid" "canon_hash_obj E bid \<noteq> []"
    using sha256_text_strip [OF sha256_hash [OF assms(1)]] by blast+
  with Cons x show ?case
    by (simp add: bid_ref_def str_field_def jget_default_def load_bound_stored [OF assms(1)] dict_update_def)
qed (simp add: dict_update_def)

lemma check_bids_same:
  "\<forall>(cid, bid) \<in> set bids. map_of stored cid = Some bid \<Longrightarrow> check_bids E stored bids = Inr ()"
  by (induction bids) (auto simp: same_hash_def)

lemma bid_set_refs:
  assumes "bid_set_of E T h bids = Inr bid_set"
  shows "jget bid_set ''bids'' = JList (map (bid_ref E) (sort_key fst bids))" and "oe_schema_ok E ''bid_set_v1'' bid_set"
proof -
  have "map (\<lambda>(cid, h). JObj [(''campaign_id'', JStr cid), (''bid_hash'', JStr h)])
      (sort_key fst (map (\<lambda>(cid, bid). (cid, canon_hash_obj E bid)) bids)) = map (bid_ref E) (sort_key fst bids)"
    by (subst sort_key_map_comm) (simp add: comp_def case_prod_unfold bid_ref_def)
  with assms show "jget bid_set ''bids'' = JList (map (bid_ref E) (sort_key fst bids))"
    by (auto simp: bid_set_of_def build_bid_set_def Let_def with_id_field_def)
  from assms show "oe_schema_ok E ''bid_set_v1'' bid_set" by (auto simp: bid_set_of_def build_bid_set_def Let_def)
qed

subsection \<open>The replay\<close>

text \<open>The directories hold the documents of a tick under their hashes.\<close>

definition files_hold :: "omega_env \<Rightarrow> market_files \<Rightarrow> tick_input \<Rightarrow> tick_output \<Rightarrow> bool" where
  "files_hold E F T W \<longleftrightarrow>
     mf_state F (canon_hash_obj E (to_state W)) = Some (to_state W)
     \<and> mf_settlement F (canon_hash_obj E (to_settlement W)) = Some (to_settlement W)
     \<and> mf_bid_set F (canon_hash_obj E (to_bid_set W)) = Some (to_bid_set W)
     \<and> mf_selection F (canon_hash_obj E (to_selection W)) = Some (to_selection W)
     \<and> list_all (\<lambda>(cid, bid). mf_bids F (canon_hash_obj E bid) = Some bid) (to_bids W)
     \<and> (case ti_prev_market T of None \<Rightarrow> True | Some d \<Rightarrow> mf_state F (canon_hash_obj E d) = Some d)
     \<and> (case ti_prev_selection T of None \<Rightarrow> True | Some d \<Rightarrow> mf_selection F (canon_hash_obj E d) = Some d)"

definition snapshot_of :: "omega_env \<Rightarrow> tick_output \<Rightarrow> market_snapshot" where
  "snapshot_of E W = \<lparr>sn_state = JStr (canon_hash_obj E (to_state W)), sn_settlement = JStr (canon_hash_obj E (to_settlement W)),
     sn_bid_set = JStr (canon_hash_obj E (to_bid_set W)), sn_selection = JStr (canon_hash_obj E (to_selection W))\<rparr>"

lemma settlement_fields:
  assumes "settle_and_advance E I = Inr (receipt, after)"
  shows "jget receipt ''market_state_before_hash'' = opt_json JStr (si_prev_state_hash I)"
    and "jget receipt ''selection_receipt_hash'' = opt_json JStr (si_prev_selection_hash I)"
    and "jget receipt ''market_state_after_hash'' = JStr (canon_hash_obj E after)"
    and "oe_schema_ok E ''bid_market_state_v1'' after" and "oe_schema_ok E ''bid_settlement_receipt_v1'' receipt"
  using assms by (auto simp: settle_and_advance_def Let_def settlement_receipt_def with_id_field_def split: prod.split_asm)

lemma load_optional_stored:
  assumes "sha256_env E" and "validate_opt E d s = Inr u" and "case d of None \<Rightarrow> True | Some x \<Rightarrow> files (canon_hash_obj E x) = Some x"
  shows "load_optional E files (opt_json JStr (doc_hash E d)) s = Inr (map_option (\<lambda>x. (x, canon_hash_obj E x)) d)"
  using assms by (cases d) (simp_all add: load_optional_def opt_json_def doc_hash_def validate_opt_def load_bound_stored)

lemma tick_steps:
  assumes "market_tick E T = Inr W"
  shows "validate_opt E (ti_prev_market T) ''bid_market_state_v1'' = Inr ()"
    and "validate_opt E (ti_prev_selection T) ''bid_selection_receipt_v1'' = Inr ()"
    and "settle_and_advance E (settle_input_of E T (ti_prev_market T) (doc_hash E (ti_prev_market T))
          (ti_prev_selection T) (doc_hash E (ti_prev_selection T))) = Inr (to_settlement W, to_state W)"
    and "emit_bids E T (canon_hash_obj E (to_state W)) (to_state W) = Inr (to_bids W)"
    and "bid_set_of E T (canon_hash_obj E (to_state W)) (to_bids W) = Inr (to_bid_set W)"
    and "select_winner E (select_input_of T (to_state W) (canon_hash_obj E (to_state W)) (canon_hash_obj E (to_bid_set W))
          (to_bids W)) = Inr (to_selection W)"
    and "plan_of E T (to_selection W) = Inr (to_plan W)"
  using assms by (auto simp: market_tick_def Let_def omega_fail_def split: prod.split_asm if_split_asm)

lemma replay_loads:
  assumes "market_tick E T = Inr W" and "sha256_env E" and "files_hold E F T W"
  shows "replay_market select E F (snapshot_of E W) T decision
    = replay_tick select E T (to_settlement W) (to_state W) (dict_update [] (sort_key fst (to_bids W))) (to_bid_set W)
        (to_selection W) decision (map_option (\<lambda>x. (x, canon_hash_obj E x)) (ti_prev_market T))
        (map_option (\<lambda>x. (x, canon_hash_obj E x)) (ti_prev_selection T))"
proof -
  note t = tick_steps [OF assms(1)]
  note s = settlement_fields [OF t(3), unfolded settle_input_of_def, simplified]
  note b = bid_set_refs [OF t(5)]
  have sel: "oe_schema_ok E ''bid_selection_receipt_v1'' (to_selection W)"
    using t(6) by (auto simp: select_winner_def select_with_def Let_def)
  obtain rows where "\<forall>b \<in> set (to_bids W). bid_ok E rows b" using emit_bids_ok [OF t(4)] by blast
  then have bids: "load_bids E (mf_bids F) (map (bid_ref E) (sort_key fst (to_bids W))) []
      = Inr (dict_update [] (sort_key fst (to_bids W)))"
    using assms(3) by (intro load_bids_refs [OF assms(2)]) (auto simp: bid_ok_def files_hold_def list_all_iff)
  show ?thesis
    using assms(3) s(4,5) b sel load_optional_stored [OF assms(2) t(1)] load_optional_stored [OF assms(2) t(2)]
    by (simp add: replay_market_def snapshot_of_def files_hold_def hash_like_hash [OF assms(2)]
        load_bound_stored [OF assms(2)] s(1,2) bids del: load_bids.simps)
qed

lemma map_option_pair [simp]:
  "map_option fst (map_option (\<lambda>x. (x, f x)) d) = d" "map_option snd (map_option (\<lambda>x. (x, f x)) d) = map_option f d"
  by (cases d; simp)+

lemma replay_reaches_selection:
  assumes "market_tick E T = Inr W" and "sha256_env E" and "files_hold E F T W"
  shows "replay_market select E F (snapshot_of E W) T decision
    = bindr (select (select_input_of T (to_state W) (canon_hash_obj E (to_state W)) (canon_hash_obj E (to_bid_set W))
        (to_bids W))) (\<lambda>selection.
      bindr (same_hash E selection (to_selection W)) (\<lambda>_. same_hash E (to_plan W) decision))"
proof -
  note t = tick_steps [OF assms(1)]
  have d: "distinct (map fst (sort_key fst (to_bids W)))"
    using emit_bids_ok [OF t(4)] by (metis distinct_map distinct_sort set_sort)
  have "check_bids E (dict_update [] (sort_key fst (to_bids W))) (to_bids W) = Inr ()"
  proof (rule check_bids_same, clarify)
    fix cid bid assume "(cid, bid) \<in> set (to_bids W)"
    then show "map_of (dict_update [] (sort_key fst (to_bids W))) cid = Some bid"
      by (simp add: map_of_dict_update [OF d] map_of_eq_Some_iff [OF d])
  qed
  then show ?thesis
    unfolding replay_loads [OF assms] replay_tick_def using t(3-7) by (simp add: same_hash_def doc_hash_def)
qed

end
