(* ===== verification/Omega_History.thy ===== *)
theory Omega_History
  imports Omega_Tick_Props
begin

section \<open>Histories of a market\<close>

text \<open>
  A market starts with a settlement that finds no state before it, and each further settlement
  takes the state of the last one. Over any number of settlements the campaigns stay the same and disabled
  ones stay disabled; who is not in the first state, or was disabled once, neither bids nor wins.
\<close>

definition market_next :: "omega_env \<Rightarrow> json \<Rightarrow> json \<Rightarrow> bool" where
  "market_next E s s' \<longleftrightarrow> (\<exists>I receipt. si_prev_state I = Some s \<and> settle_and_advance E I = Inr (receipt, s'))"

inductive market_reachable :: "omega_env \<Rightarrow> json \<Rightarrow> bool" for E where
  first: "dict_of (si_prev_state I) = None \<Longrightarrow> settle_and_advance E I = Inr (receipt, s) \<Longrightarrow> market_reachable E s"
| later: "market_reachable E s \<Longrightarrow> market_next E s s' \<Longrightarrow> market_reachable E s'"

inductive_cases market_reachableE: "market_reachable E s"

subsection \<open>Steps\<close>

lemma market_step_keys [simp]: "map fst (market_step P v as) = map fst as"
  by (simp add: market_step_def comp_def case_prod_unfold)

lemma market_step_map_of: "map_of (market_step P v as) cid = map_option (\<lambda>a. bankrupt P (pay P v cid a)) (map_of as cid)"
  by (induction as) (auto simp: market_step_def)

lemma pay_disabled [simp]: "ac_disabled (pay P v cid a) = ac_disabled a"
  by (simp add: pay_def Let_def split: option.split)

lemma bankrupt_disabled: "ac_disabled a \<Longrightarrow> bankrupt P a = a"
  by (simp add: bankrupt_def)

lemma market_next_step:
  assumes "market_next E s s'" and "stands_for s as"
  obtains P v where "params_ok P" and "stands_for s' (market_step P v as)"
proof -
  from assms(1) obtain I receipt where I: "si_prev_state I = Some s" and s: "settle_and_advance E I = Inr (receipt, s')"
    by (auto simp: market_next_def)
  have "state_before E I = Inr s" using I assms(2) by (simp add: state_before_def dict_of_def stands_for_def)
  from settle_refines [OF s this assms(2)] show thesis using that by metis
qed

text \<open>What a later state keeps of an earlier one.\<close>

definition keeps :: "(string \<times> account) list \<Rightarrow> (string \<times> account) list \<Rightarrow> bool" where
  "keeps as as' \<longleftrightarrow> map fst as' = map fst as
     \<and> (\<forall>cid a. map_of as cid = Some a \<longrightarrow> ac_disabled a \<longrightarrow> (\<exists>a'. map_of as' cid = Some a' \<and> ac_disabled a'))"

lemma keeps_refl: "keeps as as"
  by (simp add: keeps_def)

lemma keeps_trans: "keeps as bs \<Longrightarrow> keeps bs cs \<Longrightarrow> keeps as cs"
  by (auto simp: keeps_def) metis

lemma keeps_step: "keeps as (market_step P v as)"
  by (auto simp: keeps_def market_step_map_of bankrupt_disabled)

lemma market_history:
  assumes "(market_next E)\<^sup>*\<^sup>* s s'" and "stands_for s as"
  obtains as' where "stands_for s' as'" and "keeps as as'"
proof -
  from assms(1) have "\<exists>as'. stands_for s' as' \<and> keeps as as'"
  proof (induction rule: rtranclp_induct)
    case base
    then show ?case using assms(2) keeps_refl by blast
  next
    case (step y z)
    then obtain bs where bs: "stands_for y bs" "keeps as bs" by blast
    obtain P v where "stands_for z (market_step P v bs)" using market_next_step [OF step(2) bs(1)] .
    then show ?case using keeps_trans [OF bs(2) keeps_step] by blast
  qed
  with that show thesis by blast
qed

lemma reachable_stands_for: "market_reachable E s \<Longrightarrow> \<exists>as. stands_for s as"
proof (induction rule: market_reachable.induct)
  case (first I receipt s)
  then obtain before where b: "state_before E I = Inr before"
    by (auto simp: settle_and_advance_def)
  with first(1) have "bootstrap_market_state E (max 0 (si_tick I - 1)) (si_config_hash I) (si_registry_hash I)
      (si_registry I) (si_cfg I) = Inr before" by (simp add: state_before_def)
  then obtain as where as: "stands_for before as" by (rule bootstrap_stands_for) blast
  from settle_refines [OF first(2) b as] show ?case by blast
next
  case (later s s')
  then show ?case using market_next_step by blast
qed

subsection \<open>Who bids and who wins\<close>

lemma bidder_rows_named:
  assumes "list_all2 (\<lambda>row (cid, a). row_names row cid \<and> row_account row a \<and> account_ok a) rows as"
  shows "bidder_rows rows out = state_rows rows out"
  using assms
proof (induction rows as arbitrary: out rule: list_all2_induct)
  case (Cons row rows p as)
  obtain cid a where p: "p = (cid, a)" by (cases p)
  from Cons.hyps p have row: "is_obj row" "jget row ''campaign_id'' = JStr cid" "strip cid = cid" "cid \<noteq> []"
    by (auto simp: row_names_def row_account_def)
  then have "str_field row ''campaign_id'' = Inr cid" by (simp add: str_field_def)
  with row Cons.IH show ?case by simp
qed simp

lemma bidders_are_enabled:
  assumes "stands_for s as" and "emit_bids E T h s = Inr bids" and "(cid, bid) \<in> set bids"
  obtains a where "map_of as cid = Some a" and "\<not> ac_disabled a"
proof -
  obtain rows where rows: "jget s ''campaign_states'' = JList rows" and m: "market_rows rows as"
    using assms(1) by (auto simp: stands_for_def)
  obtain cmap where cm: "market_state_map s = Inr cmap" and n: "named_rows cmap as" using stands_for_map [OF assms(1)] .
  from emit_bids_ok [OF assms(2)] obtain states rows' where
    it: "iter_json (jor (jget s ''campaign_states'') (JList [])) = Inr states" "bidder_rows states [] = Inr rows'"
    and ok: "\<forall>b \<in> set bids. bid_ok E rows' b" by blast
  from it(1) rows have "states = rows" by (auto simp: jor_def split: if_split_asm)
  moreover have "bidder_rows rows [] = state_rows rows []"
    using m unfolding market_rows_def by (blast intro: bidder_rows_named)
  ultimately have "rows' = cmap" using it(2) cm by (simp add: market_state_map_def rows)
  with ok assms(3) obtain st where st: "map_of cmap cid = Some st" "\<not> truthy (jget st ''disabled_b'')"
    by (auto simp: bid_ok_def)
  have "list_all2 (\<lambda>(c, row) (cid, a). c = cid \<and> row_names row cid \<and> row_account row a \<and> account_ok a) cmap as"
    using n by (simp add: named_rows_def)
  then have "map_of cmap k = Some st \<Longrightarrow> \<exists>a. map_of as k = Some a \<and> row_account st a" for k
    by (induction rule: list_all2_induct) (auto split: if_split_asm)
  from this [OF st(1)] obtain a where "map_of as cid = Some a" "row_account st a" by blast
  with st(2) show thesis by (intro that [of a]) (auto simp: row_account_def)
qed

lemma winners_are_enabled:
  assumes "stands_for (se_market_state I) as" and "select_winner E I = Inr receipt"
    and "jget receipt ''winner'' = w" and "is_obj w"
  obtains cid a where "jget w ''campaign_id'' = JStr cid" and "map_of as cid = Some a" and "\<not> ac_disabled a"
proof -
  from assms(2) obtain cs where cs: "selection_candidates market_score skip_reason E I = Inr cs"
    and r: "receipt = selection_receipt E I cs"
    by (auto simp: select_winner_def select_with_def Let_def)
  from assms(3,4) r obtain c where c: "best_candidate cs = Some c" "w = winner_doc c"
    by (auto simp: opt_json_def split: option.split_asm)
  from eligible_not_disabled [OF cs best_candidate_Some(1,2) [OF c(1)] assms(1)]
  obtain a where "map_of as (mc_campaign c) = Some a" "\<not> ac_disabled a" .
  then show thesis by (intro that [of "mc_campaign c"]) (simp_all add: c(2) winner_doc_def)
qed

text \<open>A campaign is out of the market when it has no account or a disabled one.\<close>

definition is_out :: "(string \<times> account) list \<Rightarrow> string \<Rightarrow> bool" where
  "is_out as cid \<longleftrightarrow> (case map_of as cid of None \<Rightarrow> True | Some a \<Rightarrow> ac_disabled a)"

lemma out_stays_out: "keeps as as' \<Longrightarrow> is_out as cid \<Longrightarrow> is_out as' cid"
proof -
  assume k: "keeps as as'" and o: "is_out as cid"
  show "is_out as' cid"
  proof (cases "map_of as cid")
    case None
    with k have "cid \<notin> fst ` set as'" by (metis keeps_def list.set_map map_of_eq_None_iff)
    then show ?thesis by (simp add: is_out_def map_of_eq_None_iff [THEN iffD2])
  next
    case (Some a)
    with k o show ?thesis by (fastforce simp: keeps_def is_out_def)
  qed
qed

end
