(* ===== verification/Omega_Instance.thy ===== *)
theory Omega_Instance
  imports Omega_History
begin

section \<open>A small bid market\<close>


text \<open>
  The concrete inputs of this theory: one campaign, one metric, a constant hash and a schema
  validator that accepts everything.
\<close>

definition flat_env :: omega_env where
  "flat_env = \<lparr>oe_sha256 = (\<lambda>data. replicate 64 (CHR ''0'')), oe_schema_ok = (\<lambda>name doc. True)\<rparr>"

definition one_campaign :: json where
  "one_campaign = JObj [(''capabilities'', JList [JObj [(''campaign_id'', JStr ''c''), (''capability_id'', JStr ''cap''),
     (''campaign_pack_rel'', JStr ''p''), (''verifier_module'', JStr ''v''), (''enabled'', JBool True)]])]"

definition one_metric :: json where
  "one_metric = JObj [(''metrics'', JList [JObj [(''metric_id'', JStr ''m'')]])]"

definition metric_at :: "int \<Rightarrow> json" where
  "metric_at q = JObj [(''metrics'', JObj [(''m'', q32_obj q)])]"

definition rich_budget :: json where
  "rich_budget = JObj [(''budget_remaining'', JObj [(''cpu_cost_q32'', q32_obj 9), (''build_cost_q32'', q32_obj 9),
     (''verifier_cost_q32'', q32_obj 9)])]"

definition first_tick :: tick_input where
  "first_tick = \<lparr>ti_tick = 1, ti_cfg = JObj [], ti_cfg_hash = zero_hash, ti_registry = one_campaign,
     ti_registry_hash = zero_hash, ti_objectives = one_metric, ti_prev_market = None, ti_prev_selection = None,
     ti_prev_observation = None, ti_observation = metric_at 0, ti_observation_hash = zero_hash,
     ti_issue_hash = zero_hash, ti_policy_hash = zero_hash, ti_budgets_hash = zero_hash, ti_prev_state = rich_budget\<rparr>"

definition first_settlement :: settle_input where
  "first_settlement = settle_input_of flat_env first_tick None None None None"

lemma flat_hash [simp]: "canon_hash_obj flat_env d = zero_hash"
  by (simp add: canon_hash_obj_def sha256_prefixed_def flat_env_def zero_hash_def)

lemma flat_schema [simp]: "oe_schema_ok flat_env s d"
  by (simp add: flat_env_def)

lemma flat_validates [simp]: "validate_doc flat_env d s = Inr ()"
  by simp

lemma flat_sha256: "sha256_env flat_env"
  by (simp add: sha256_env_def sha256_prefixed_def flat_env_def sha256_text_def starts_def eval_nat_numeral)

lemmas first_tick_defs = first_tick_def one_campaign_def one_metric_def metric_at_def rich_budget_def

definition default_params :: settlement_params where
  "default_params = \<lparr>sp_initial_bankroll = q32_one, sp_initial_credibility = q32_one div 2, sp_credibility_lr = q32_one div 2,
     sp_min_credibility = 0, sp_error_cap = q32_one, sp_penalty_rate = q32_one div 2, sp_reward_rate = q32_one div 20,
     sp_disable_threshold = q32_one div 4, sp_disable_after = 3\<rparr>"

lemma default_params: "resolve_settlement_params (JObj []) = Inr default_params"
  by (simp add: resolve_settlement_params_def cfg_q32_def cfg_u64_def default_params_def q32_one_def)

text \<open>The account of the campaign, and the rows of a state with one campaign.\<close>

definition fresh_row :: json where
  "fresh_row = initial_campaign_state default_params ''c''"

lemma first_ids: "campaign_ids_from_registry one_campaign = Inr [''c'']"
  by (simp add: campaign_ids_from_registry_def one_campaign_def str_field_def jget_default_def strip_def py_space_def Let_def)

lemma first_state_before: "state_before flat_env first_settlement
    = Inr (market_state_doc flat_env 0 JNull zero_hash zero_hash [fresh_row])"
  by (simp add: state_before_def first_settlement_def settle_input_of_def first_tick_def dict_of_def
      bootstrap_market_state_def default_params first_ids Let_def fresh_row_def)

lemma first_objective: "J_from_observation (metric_at q) one_metric = Inr q"
  by (simp add: J_from_observation_def metric_at_def one_metric_def objective_metric_ids_def str_field_def
      jget_default_def strip_def py_space_def Let_def q32_obj_def)

lemma first_no_series: "J_prev_from_series (metric_at q) one_metric = Inr None"
  by (simp add: J_prev_from_series_def metric_at_def)

lemma first_rows: "state_rows [fresh_row] [] = Inr [(''c'', fresh_row)]"
  by (simp add: fresh_row_def initial_campaign_state_def str_field_def jget_default_def strip_def py_space_def)

lemma first_advance: "advance_rows default_params [(''c'', fresh_row)] = Inr ([fresh_row], [])"
  by (simp add: fresh_row_def initial_campaign_state_def advance_row_def apply_bankruptcy_rules_def default_params_def
      q32_one_def jget_default_def Let_def)

lemma first_settles: "\<exists>receipt. settle_and_advance flat_env first_settlement
    = Inr (receipt, market_state_doc flat_env 1 JNull zero_hash zero_hash [fresh_row])"
  using first_state_before first_objective [of 0]
  by (simp add: settle_and_advance_def first_settlement_def settle_input_of_def first_tick_def default_params
      previous_objective_def previous_winner_def dict_of_def doc_hash_def first_no_series
      market_state_map_def first_rows update_winner_def first_advance Let_def
      del: state_rows.simps advance_rows.simps)

text \<open>The state after the first settlement, and the bid of the campaign.\<close>

definition first_state :: json where
  "first_state = market_state_doc flat_env 1 JNull zero_hash zero_hash [fresh_row]"

definition first_accounts :: "(string \<times> account) list" where
  "first_accounts = [(''c'', initial_account default_params)]"

lemma first_stands_for:
  "stands_for (market_state_doc flat_env t p zero_hash zero_hash [fresh_row]) first_accounts"
  by (simp add: stands_for_def market_rows_def first_accounts_def fresh_row_def initial_campaign_state_def row_names_def
      row_account_def account_ok_def initial_account_def default_params_def q32_one_def strip_def py_space_def)

lemma first_bidder: "bidder_rows [fresh_row] [] = Inr [(''c'', fresh_row)]"
  by (simp add: fresh_row_def initial_campaign_state_def str_field_def jget_default_def strip_def py_space_def)

lemma first_bidder_params: "resolve_bidder_params (JObj []) cid = Inr (q32_one, q32_one div 2, 1)"
  by (simp add: resolve_bidder_params_def cfg_q32_def cfg_u64_def Let_def jor_def q32_one_def)

definition first_bid :: "string \<Rightarrow> json" where
  "first_bid h = projr (build_bid flat_env 1 ''c'' ''cap'' zero_hash h zero_hash zero_hash q32_one (q32_one div 2) 1 1)"

lemma first_bid: "build_bid flat_env 1 ''c'' ''cap'' zero_hash h zero_hash zero_hash q32_one (q32_one div 2) 1 1 = Inr (first_bid h)"
  by (simp add: first_bid_def build_bid_def Let_def)

lemma first_bid_fields [simp]:
  "q32_int (jget (first_bid h) ''confidence_q32'') = Inr (q32_one div 2)"
  "q32_int (jget (first_bid h) ''predicted_delta_J_q32'') = Inr 1"
  "q32_int (jget (first_bid h) ''predicted_cost_q32'') = Inr 1"
  "jget (first_bid h) ''horizon_ticks_u64'' = JInt 1" "jget (first_bid h) ''evidence_hash'' = JStr zero_hash"
  by (simp_all add: first_bid_def build_bid_def Let_def with_id_field_def clamp_q32_def q32_one_def q32_mul_def)

lemma first_emit: "emit_bid flat_env first_tick h [(''c'', fresh_row)]
    (JObj [(''campaign_id'', JStr ''c''), (''capability_id'', JStr ''cap''), (''campaign_pack_rel'', JStr ''p''),
      (''verifier_module'', JStr ''v''), (''enabled'', JBool True)]) = Inr (Some (''c'', first_bid h))"
  by (simp add: emit_bid_def str_field_def jget_default_def strip_def py_space_def first_tick_def first_bidder_params
      first_bid fresh_row_def initial_campaign_state_def jor_def)

lemma first_emits: "emit_bids flat_env first_tick h first_state = Inr [(''c'', first_bid h)]"
proof -
  have "jget (ti_registry first_tick) ''capabilities'' = JList [JObj [(''campaign_id'', JStr ''c''),
      (''capability_id'', JStr ''cap''), (''campaign_pack_rel'', JStr ''p''), (''verifier_module'', JStr ''v''),
      (''enabled'', JBool True)]]" by (simp add: first_tick_def one_campaign_def)
  then show ?thesis
    by (simp add: emit_bids_def first_state_def first_bidder sorted_capabilities_def first_emit jor_def
        del: bidder_rows.simps)
qed

definition first_candidate :: market_candidate where
  "first_candidate = \<lparr>mc_campaign = ''c'', mc_bid_hash = zero_hash, mc_skip = ''N/A'', mc_score = 2 ^ 30, mc_roi = q32_one,
     mc_credibility = q32_one div 2, mc_confidence = q32_one div 2, mc_delta = 1, mc_cost = 1, mc_horizon = 1,
     mc_evidence = zero_hash\<rparr>"

definition first_select :: "string \<Rightarrow> string \<Rightarrow> select_input" where
  "first_select h bh = select_input_of first_tick first_state h bh [(''c'', first_bid h)]"

lemma fresh_row_fields [simp]:
  "q32_int (jget fresh_row ''credibility_q32'') = Inr (q32_one div 2)" "jget fresh_row ''disabled_b'' = JBool False"
  by (simp_all add: fresh_row_def initial_campaign_state_def default_params_def)

lemma first_candidate_of: "market_candidate_of market_score skip_reason flat_env 1 [(''c'', fresh_row)] (JObj [])
    (jget rich_budget ''budget_remaining'') ''c'' (first_bid h) = Inr first_candidate"
  by (simp add: market_candidate_of_def clamp_q32_def skip_reason_def has_budget_def jor_def jget_default_def[of "JObj []"]
      rich_budget_def first_candidate_def market_score_def q32_mul_def q32_one_def Let_def)

lemma first_candidates: "selection_candidates market_score skip_reason flat_env (first_select h bh) = Inr [first_candidate]"
proof -
  have "jget rich_budget ''cooldowns'' = JNull" "is_obj (jget rich_budget ''budget_remaining'')"
    "truthy (jget rich_budget ''budget_remaining'')" by (simp_all add: rich_budget_def)
  then show ?thesis
    by (simp add: selection_candidates_def first_select_def select_input_of_def first_state_def market_state_map_def
        first_rows first_tick_def jor_def first_candidate_of Let_def del: state_rows.simps)
qed

lemma first_selects: "select_winner flat_env (first_select h bh) = Inr (selection_receipt flat_env (first_select h bh) [first_candidate])"
  by (simp add: select_winner_def select_with_def first_candidates Let_def)

lemma first_best: "best_candidate [first_candidate] = Some first_candidate"
  by (simp add: best_candidate_def mc_eligible_def first_candidate_def)

lemma first_plans: "\<exists>plan. plan_of flat_env first_tick (selection_receipt flat_env I [first_candidate]) = Inr plan"
proof -
  let ?r = "selection_receipt flat_env I [first_candidate]"
  obtain path where path: "jget ?r ''tie_break_path'' = JList path"
    by (simp add: selection_receipt_def Let_def with_id_field_def)
  have c: "str_field (winner_doc first_candidate) ''campaign_id'' = Inr ''c''"
    by (simp add: winner_doc_def first_candidate_def str_field_def strip_def py_space_def)
  have w: "jget ?r ''winner'' = winner_doc first_candidate" "is_obj (winner_doc first_candidate)"
    by (simp_all add: first_best opt_json_def winner_doc_def)
  have "jget_default ?r ''outcome'' (JStr []) = JStr ''OK''" by (simp add: first_best)
  with w c have "decision_fields flat_env one_campaign ?r = run_campaign_fields flat_env one_campaign ''c''"
    by (simp add: decision_fields_def Let_def)
  also obtain fields where "\<dots> = Inr fields" by (simp add: run_campaign_fields_def one_campaign_def)
  finally show ?thesis
    by (simp add: plan_of_def build_decision_plan_def path jor_def first_tick_def)
qed

lemma first_tick_runs:
  obtains W where "market_tick flat_env first_tick = Inr W" and "to_bids W = [(''c'', first_bid zero_hash)]"
proof -
  obtain receipt where s: "settle_and_advance flat_env (settle_input_of flat_env first_tick None None None None) = Inr (receipt, first_state)"
    using first_settles by (auto simp: first_settlement_def first_state_def)
  obtain bid_set where b: "bid_set_of flat_env first_tick zero_hash [(''c'', first_bid zero_hash)] = Inr bid_set"
    by (simp add: bid_set_of_def build_bid_set_def Let_def)
  let ?I = "first_select zero_hash zero_hash"
  obtain plan where p: "plan_of flat_env first_tick (selection_receipt flat_env ?I [first_candidate]) = Inr plan"
    using first_plans by blast
  have "ti_prev_market first_tick = None" "ti_prev_selection first_tick = None" by (simp_all add: first_tick_def)
  then have "market_tick flat_env first_tick = Inr \<lparr>to_settlement = receipt, to_state = first_state,
      to_bids = [(''c'', first_bid zero_hash)], to_bid_set = bid_set,
      to_selection = selection_receipt flat_env ?I [first_candidate], to_plan = plan\<rparr>"
    using settlement_fields(3) [OF s] s b p first_selects [of zero_hash zero_hash]
    by (simp add: market_tick_def validate_opt_def doc_hash_def first_emits first_select_def Let_def)
  then show thesis by (rule that) simp
qed

end
