(* ===== verification/Omega_Behaviour.thy ===== *)
theory Omega_Behaviour
  imports Omega_Instance
begin

section \<open>Properties of the bid market\<close>

subsection \<open>Settlement\<close>

text \<open>The verdict on the last winner that a settlement reads off its input.\<close>

definition settled_verdict :: "settle_input \<Rightarrow> verdict option res" where
  "settled_verdict I =
     bindr (J_from_observation (si_cur_observation I) (si_objectives I)) (\<lambda>J_cur.
     bindr (previous_objective I) (\<lambda>J_prev.
     bindr (previous_winner I) (\<lambda>b.
       Inr (verdict_of b (map_option (\<lambda>J. J_cur - J) J_prev) (si_effect_class I)))))"

text \<open>C29: A settlement implements the step on accounts: from a state that stands for the accounts of
  some campaigns it makes one that stands for them after the winner is paid and the
  bankruptcy rule has run, and the accounts stay within their bounds.\<close>

theorem market_settlement_refines:
  assumes "settle_and_advance E I = Inr (receipt, after)" and "state_before E I = Inr before" and "stands_for before as"
  shows "\<exists>P v. resolve_settlement_params (si_cfg I) = Inr P \<and> settled_verdict I = Inr v \<and> stands_for after (market_step P v as)"
proof -
  obtain P b J_cur J_prev where "resolve_settlement_params (si_cfg I) = Inr P" "previous_winner I = Inr b"
      "J_from_observation (si_cur_observation I) (si_objectives I) = Inr J_cur" "previous_objective I = Inr J_prev"
    and "stands_for after (market_step P (verdict_of b (map_option (\<lambda>J. J_cur - J) J_prev) (si_effect_class I)) as)"
    using settle_refines [OF assms] .
  then show ?thesis by (simp add: settled_verdict_def)
qed

theorem market_settlement_refines_witness:
  "\<exists>P v. resolve_settlement_params (si_cfg first_settlement) = Inr P \<and> settled_verdict first_settlement = Inr v
     \<and> stands_for first_state (market_step P v first_accounts)"
proof -
  obtain receipt where "settle_and_advance flat_env first_settlement = Inr (receipt, first_state)"
    using first_settles by (auto simp: first_state_def)
  from market_settlement_refines [OF this first_state_before first_stands_for] show ?thesis .
qed

text \<open>C30: What a settlement does to the winner: the bankroll stays at or above zero and grows at
  most by the reward rate, the credibility stays between zero and one, and a winner whose effect was rejected or
  heavy without utility gains neither.\<close>

theorem settlement_payment_bounds:
  assumes "settle_winner P cstate bid realized effect = Inr w" and "resolve_settlement_params cfg = Inr P"
  shows "0 \<le> wc_bankroll_after w \<and> wc_bankroll_after w \<le> q32_mul (wc_bankroll_before w) (q32_one + sp_reward_rate P)
    \<and> 0 \<le> wc_credibility_after w \<and> wc_credibility_after w \<le> q32_one
    \<and> (penalised effect \<longrightarrow> wc_bankroll_after w \<le> wc_bankroll_before w \<and> wc_credibility_after w \<le> wc_credibility_before w)"
proof -
  have P: "params_ok P" using assms(2) by (rule resolve_params_ok)
  from assms(1) obtain f p where w: "0 \<le> wc_bankroll_before w" "0 \<le> wc_credibility_before w"
      "wc_credibility_before w \<le> q32_one" "0 \<le> clamp_q32 f 0 q32_one" "clamp_q32 f 0 q32_one \<le> q32_one"
      "wc_bankroll_after w = settled_bankroll P (wc_bankroll_before w) (clamp_q32 f 0 q32_one) (error_norm P realized p) effect"
      "wc_credibility_after w = settled_credibility P (wc_credibility_before w) (error_norm P realized p) effect"
    by (auto simp: settle_winner_def Let_def clamp_q32_def)
  note e = error_norm_bounds [of P realized p]
  show ?thesis
    using reward_bounded [OF w(1) P w(4,5) e] penalised_bankroll [OF _ w(1) P w(4) e(1)] penalised_credibility
      settled_credibility_bounds [OF P w(2,3)] by (auto simp: w(6,7) settled_bankroll_nonneg)
qed

definition rejected_change :: winner_change where
  "rejected_change = projr (settle_winner default_params fresh_row (first_bid zero_hash) 0 ''EFFECT_REJECTED'')"

theorem settlement_payment_bounds_witness:
  "wc_bankroll_after rejected_change \<le> wc_bankroll_before rejected_change"
proof -
  have "jget fresh_row ''bankroll_q32'' = q32_obj q32_one"
    by (simp add: fresh_row_def initial_campaign_state_def default_params_def)
  then have "settle_winner default_params fresh_row (first_bid zero_hash) 0 ''EFFECT_REJECTED'' = Inr rejected_change"
    by (simp add: rejected_change_def settle_winner_def Let_def)
  from settlement_payment_bounds [OF this default_params] show ?thesis by (simp add: penalised_def)
qed

subsection \<open>Histories\<close>

text \<open>C31: Every state that settlements reach stands for a list of accounts: distinct campaigns in the
  order of their names, each with a bankroll and a streak that are not negative and a credibility between zero
  and one.\<close>

theorem reachable_markets_ok:
  assumes "market_reachable E s"
  shows "\<exists>as. stands_for s as"
  using assms by (rule reachable_stands_for)

theorem reachable_markets_ok_witness: "market_reachable flat_env first_state \<and> (\<exists>as. stands_for first_state as)"
proof -
  obtain receipt where "settle_and_advance flat_env first_settlement = Inr (receipt, first_state)"
    using first_settles by (auto simp: first_state_def)
  then have "market_reachable flat_env first_state"
    by (intro market_reachable.first [of first_settlement]) (simp_all add: first_settlement_def settle_input_of_def dict_of_def)
  with reachable_markets_ok [OF this] show ?thesis by simp
qed

text \<open>C32: A campaign that is disabled, or missing, in a state of the market neither bids nor wins in
  any later state, whatever the registry then says: bankruptcy is final, and a campaign
  added to the registry after the first settlement never takes part.\<close>

theorem out_of_market_never_acts:
  assumes "stands_for s as" and "is_out as cid" and "(market_next E)\<^sup>*\<^sup>* s s'"
    and "emit_bids E T h s' = Inr bids" and "select_winner E I = Inr receipt" and "se_market_state I = s'"
  shows "cid \<notin> fst ` set bids \<and> jget (jget receipt ''winner'') ''campaign_id'' \<noteq> JStr cid"
proof -
  obtain as' where s': "stands_for s' as'" and k: "keeps as as'" using market_history [OF assms(3,1)] .
  have out: "is_out as' cid" using out_stays_out [OF k assms(2)] .
  have "False" if b: "(cid, bid) \<in> set bids" for bid
  proof -
    obtain a where "map_of as' cid = Some a" "\<not> ac_disabled a" using bidders_are_enabled [OF s' assms(4) b] .
    with out show False by (simp add: is_out_def)
  qed
  moreover have "jget (jget receipt ''winner'') ''campaign_id'' \<noteq> JStr cid"
  proof
    assume w: "jget (jget receipt ''winner'') ''campaign_id'' = JStr cid"
    then have o: "is_obj (jget receipt ''winner'')" by (cases "jget receipt ''winner''") simp_all
    have "stands_for (se_market_state I) as'" using s' assms(6) by simp
    from winners_are_enabled [OF this assms(5) refl o] obtain cid' a where
      "jget (jget receipt ''winner'') ''campaign_id'' = JStr cid'" "map_of as' cid' = Some a" "\<not> ac_disabled a" .
    with w out show False by (simp add: is_out_def)
  qed
  ultimately show ?thesis by auto
qed

text \<open>A tick whose registry has a second campaign.\<close>

definition late_tick :: tick_input where
  "late_tick = first_tick\<lparr>ti_registry := JObj [(''capabilities'', JList [JObj [(''campaign_id'', JStr ''d''),
     (''enabled'', JBool True)]])]\<rparr>"

theorem out_of_market_never_acts_witness:
  "emit_bids flat_env late_tick zero_hash first_state = Inr [] \<and> ''d'' \<notin> fst ` set ([] :: (string \<times> json) list)
     \<and> jget (jget (selection_receipt flat_env (first_select zero_hash zero_hash) [first_candidate]) ''winner'') ''campaign_id''
       \<noteq> JStr ''d''"
proof -
  have "jget (ti_registry late_tick) ''capabilities'' = JList [JObj [(''campaign_id'', JStr ''d''), (''enabled'', JBool True)]]"
    by (simp add: late_tick_def)
  then have bids: "emit_bids flat_env late_tick zero_hash first_state = Inr []"
    by (simp add: emit_bids_def first_state_def first_bidder sorted_capabilities_def jor_def emit_bid_def str_field_def
        strip_def py_space_def del: bidder_rows.simps)
  have st: "stands_for first_state first_accounts" unfolding first_state_def by (rule first_stands_for)
  have out: "is_out first_accounts ''d''" by (simp add: is_out_def first_accounts_def)
  have "se_market_state (first_select zero_hash zero_hash) = first_state"
    by (simp add: first_select_def select_input_of_def)
  from out_of_market_never_acts [OF st out rtranclp.rtrancl_refl bids first_selects this] bids show ?thesis by simp
qed

subsection \<open>Selection and replay\<close>

text \<open>C33: The receipt of a selection names the best of the eligible bids, in the order of score, return,
  credibility, confidence and name, and says NOOP when no bid is eligible; there is one candidate for each
  bid.\<close>

theorem winner_is_best:
  assumes "select_winner E I = Inr receipt"
  shows "\<exists>cs. selection_candidates market_score skip_reason E I = Inr cs
    \<and> map mc_campaign cs = map fst (sort_key fst (se_bids I))
    \<and> (if filter mc_eligible cs = [] then jget receipt ''winner'' = JNull \<and> jget receipt ''outcome'' = JStr ''NOOP''
       else \<exists>c. c \<in> set (filter mc_eligible cs) \<and> jget receipt ''winner'' = winner_doc c \<and> jget receipt ''outcome'' = JStr ''OK''
         \<and> list_all (\<lambda>d. rank_key c \<le> rank_key d) (filter mc_eligible cs))"
proof -
  from assms obtain cs where cs: "selection_candidates market_score skip_reason E I = Inr cs"
    and r: "receipt = selection_receipt E I cs" by (auto simp: select_winner_def select_with_def Let_def)
  show ?thesis
  proof (cases "best_candidate cs")
    case None
    then have "filter mc_eligible cs = []" by (simp add: best_candidate_None filter_empty_conv)
    with cs r None selection_candidates_campaigns [OF cs] show ?thesis by (simp add: opt_json_def)
  next
    case (Some c)
    note c = best_candidate_Some [OF Some]
    then have "c \<in> set (filter mc_eligible cs)" and "list_all (\<lambda>d. rank_key c \<le> rank_key d) (filter mc_eligible cs)"
      by (simp_all add: list_all_iff)
    moreover from c(1,2) have "filter mc_eligible cs \<noteq> []" by (auto simp: filter_empty_conv)
    ultimately show ?thesis using cs r Some selection_candidates_campaigns [OF cs]
      by (intro exI [of _ cs]) (auto simp: opt_json_def)
  qed
qed

theorem winner_is_best_witness:
  "\<exists>cs. selection_candidates market_score skip_reason flat_env (first_select zero_hash zero_hash) = Inr cs
     \<and> map mc_campaign cs = [''c'']"
  using winner_is_best [OF first_selects [of zero_hash zero_hash]]
  by (auto simp: first_select_def select_input_of_def)


text \<open>C34: The verifier accepts what the coordinator does: when a market tick succeeds and its
  documents are stored under their hashes, the replay of the tick with the orchestrator's module passes.\<close>

theorem replay_accepts_tick:
  assumes "market_tick E T = Inr W" and "sha256_env E" and "files_hold E F T W"
  shows "replay_market (select_winner E) E F (snapshot_of E W) T (to_plan W) = Inr ()"
  using tick_steps(6) [OF assms(1)] by (simp add: replay_reaches_selection [OF assms] same_hash_def)

text \<open>The files of a tick with one bid.\<close>

definition tick_files :: "tick_output \<Rightarrow> market_files" where
  "tick_files W = \<lparr>mf_state = (\<lambda>h. Some (to_state W)), mf_settlement = (\<lambda>h. Some (to_settlement W)),
     mf_bid_set = (\<lambda>h. Some (to_bid_set W)), mf_selection = (\<lambda>h. Some (to_selection W)),
     mf_bids = (\<lambda>h. Some (snd (hd (to_bids W))))\<rparr>"

lemma first_files: "to_bids W = [(''c'', b)] \<Longrightarrow> files_hold flat_env (tick_files W) first_tick W"
  by (simp add: files_hold_def tick_files_def first_tick_def)

theorem replay_accepts_tick_witness:
  "\<exists>W. market_tick flat_env first_tick = Inr W \<and> to_bids W = [(''c'', first_bid zero_hash)]
     \<and> replay_market (select_winner flat_env) flat_env (tick_files W) (snapshot_of flat_env W) first_tick (to_plan W) = Inr ()"
proof -
  obtain W where W: "market_tick flat_env first_tick = Inr W" "to_bids W = [(''c'', first_bid zero_hash)]" using first_tick_runs .
  from replay_accepts_tick [OF W(1) flat_sha256 first_files [OF W(2)]] W show ?thesis by blast
qed

text \<open>C35: The copy of \<open>select_winner\<close> in cdel gives the same receipt when no campaign is disabled and
  every bid has full confidence, which is the case that the parity test tries.\<close>

theorem vendored_selection_agrees:
  assumes "stands_for (se_market_state I) as" and "list_all (\<lambda>(cid, a). \<not> ac_disabled a) as"
    and "list_all (\<lambda>(cid, bid). q32_int (jget bid ''confidence_q32'') = Inr q32_one) (se_bids I)"
  shows "vendored_select_winner E I = select_winner E I"
  using assms(2,3) by (intro select_parity [OF assms(1)]) (fastforce simp: list_all_iff)+

definition sure_bid :: json where
  "sure_bid = projr (build_bid flat_env 1 ''c'' ''cap'' zero_hash zero_hash zero_hash zero_hash q32_one q32_one 1 1)"

definition sure_select :: select_input where
  "sure_select = select_input_of first_tick first_state zero_hash zero_hash [(''c'', sure_bid)]"

theorem vendored_selection_agrees_witness: "vendored_select_winner flat_env sure_select = select_winner flat_env sure_select"
proof (rule vendored_selection_agrees)
  show "stands_for (se_market_state sure_select) first_accounts"
    by (simp add: sure_select_def select_input_of_def first_state_def first_stands_for)
  show "list_all (\<lambda>(cid, a). \<not> ac_disabled a) first_accounts" by (simp add: first_accounts_def initial_account_def)
  show "list_all (\<lambda>(cid, bid). q32_int (jget bid ''confidence_q32'') = Inr q32_one) (se_bids sure_select)"
    by (simp add: sure_select_def select_input_of_def sure_bid_def build_bid_def Let_def with_id_field_def clamp_q32_def)
qed



end
