(* ===== verification/Spec2Isabelle.thy ===== *)
theory Spec2Isabelle
  imports Kernel_Halting Kernel_Sound Kernel_Canon_Props Kernel_Spec_Props Ledger_Behaviour Ledger_Stats
    Ledger_History Adoption_Behaviour Gen_Behaviour Sealed_Behaviour Omega_Behaviour
begin

text \<open>
  CDEL (src/CDEL-v2/cdel) is an append-only library of programs. A module brings new function
  definitions in a small typed language, with specs about them; the kernel parses, types and runs
  them, the verifier decides whether a module may enter, and the ledger stores it under the hash
  of its canonical bytes. Everything else in the repository (daemons, orchestrator, tools) is
  built around this core.

  \<^bold>\<open>The kernel\<close> (cdel/kernel).
  Kernel_Types is types.py, Kernel_Ast is ast.py and cost.py, Kernel_Parse is parse.py,
  Kernel_Typecheck is typecheck.py, Kernel_Eval is eval.py, Kernel_Terminate is terminate.py,
  Kernel_Deps is deps.py, Kernel_Proof is proof.py, Kernel_Canon is canon.py and Kernel_Spec is
  spec.py. A Python class of terms, types or values is a constructor of \<open>kterm\<close>, \<open>ktype\<close> or
  \<open>val\<close>; documents are \<open>json\<close> (theory Json); json.dumps and json.loads are \<open>dumps\<close> and
  \<open>loads\<close> (theory Json_Text). The evaluator's step counter is passed as state.

  \<^bold>\<open>Sealed certificates\<close> (cdel/sealed).
  Sealed_Decimal computes as Python's decimal module does (a coefficient and an exponent, the
  context's precision and rounding); Sealed_Evalue is evalue.py, Sealed_Config is config.py,
  canon.py, protocol.py and the checking half of crypto.py, Sealed_Crypto the other half.
  Sealed_Harness is harnesses/base.py, __init__.py and toy_v1.py: the interface \<open>eval_harness\<close>
  is what a certificate relies on (as many paired outcomes as episodes were asked for, each -1, 0
  or 1), and the toy harness is an interpretation of it. Sealed_Worker is worker.py: it runs a
  harness on a request and signs the certificate that the kernel checks later.

  \<^bold>\<open>The ledger\<close> (cdel/ledger).
  Ledger_Store is storage.py and errors.py: the files are the record \<open>ledger_files\<close>.
  Ledger_Index is index.py: the SQLite file is the record \<open>index_db\<close>, a table is the list of its
  rows. Ledger_Closure is closure.py and alias.py, Ledger_Verifier is verifier.py, Ledger_Audit is
  audit.py and rebuild.py, Ledger_Stats is lint.py and stats.py. A state-changing operation takes
  the state (\<open>ledger\<close>: files and index) and returns it with the result.

  \<^bold>\<open>Adoptions\<close> (cdel/constraints.py, cdel/adoption).
  An adoption makes a symbol the current choice for a concept. Constraints is constraints.py,
  Adoption_Store is canon.py and storage.py of adoption, Adoption_Verifier is its verifier.py. The
  adoption log has files of its own (\<open>adoption_files\<close>) and shares the index with the ledger.
  \<open>content_store\<close> (Adoption_Store) is the interface of a content-addressed store that both
  implement; a commit is proved once inside it.

  \<^bold>\<open>The generator\<close> (cdel/gen/enum.py).
  Gen_Enum proposes definitions by enumerating terms of a type, size by size, and keeps one for
  each behaviour on a sample domain. It uses the parser and the evaluator of the kernel.

  \<^bold>\<open>The Omega bid market\<close> (orchestrator/omega_bid_market_v1.py, cdel/v18_0).
  The Omega daemon decides which campaign runs next, in one mode by a market. Omega_Common is
  cdel/v18_0/omega_common_v1.py and cdel/v1_7r/canon.py (fixed point numbers, canonical bytes, hashes).
  Omega_Market (settings and the first state), Omega_Settle (settlement) and Omega_Select (bids, budgets,
  selection, plan) are omega_bid_market_v1.py and omega_budgets_v1.py; definitions called \<open>vendored\<close>
  are the copy in cdel/v18_0 where it differs. Omega_Tick is the market branch of a tick in
  orchestrator/omega_v18_0/coordinator_v1.py and its replay in verify_rsi_omega_daemon_v1.py;
  a directory of documents is a map from hashes to documents.

  \<^bold>\<open>What the lemmas show.\<close>
  Kernel_Sound: type safety by one induction over evaluations. Kernel_Halting: programs that pass
  the termination and mutual recursion checks halt. Kernel_Eval_Props: the evaluator is total and
  monotone in its limit. Json_Roundtrip: reading back what is printed. Kernel_Canon_Props: canonical
  forms mean the same and are stable. Kernel_Spec_Props: a passed spec holds on its whole domain,
  a passed certificate is signed. Sealed_Roundtrip: what the worker prints as a
  decimal or an e-value reads back equal. Sealed_Worker_Props: what the worker issues is accepted
  in its round; Sealed_Refusal: but not with \<open>fun_symbols\<close>. Sealed_Demo and Sealed_Behaviour apply
  both to a worked example. Ledger_Commit_Props, Ledger_Index_Props, Ledger_Invariant and
  Ledger_Reach: each table after a commit, and the invariant of every reachable ledger.
  Ledger_Recursion: the depth-first search decides acyclicity. Ledger_Audit_Props: what an audit
  establishes. Ledger_Behaviour: what clients observe. Ledger_History: the files refine an
  append-only list, and the budget is conserved. Adoption_Props: the invariant of ledgers with
  adoptions; Adoption_Instance and Adoption_Behaviour apply it. Gen_Enum_Props
  and Gen_Behaviour: what the generator proposes parses, recurs on tails only and is well typed as
  long as it does not recur. The interface \<open>worklist\<close> (Ledger_Closure)
  is the contract of a work loop; both closure computations are interpretations of it.
  Omega_Market_Props: a settlement refines a step on accounts. Omega_Select_Props: the winner, and the
  two copies of the selection. Omega_Tick_Props: the replay loads what the tick wrote. Omega_History: who
  is out of the market stays out. Omega_Instance and Omega_Behaviour: a small market, and the properties.

  \<^bold>\<open>Bounds.\<close>
  The evaluator takes the configured step limit; \<open>evaluator_total\<close> shows that the limit is the only
  bound it needs, and \<open>run_eval_mono\<close> that a larger one changes no value. \<open>loads\<close> takes
  twice the length of its text plus one as fuel, and never runs out of it (\<open>loads_total\<close>). Other loops end by a measure.

  \<^bold>\<open>Assumptions.\<close>
  blake3 and Ed25519 are parameters (\<open>externals\<close>, \<open>signer\<close>), as are random.Random and blake2b
  (\<open>random_source\<close>) and, for the Omega daemon, SHA-256 and jsonschema (\<open>omega_env\<close>); where needed, the hash is assumed to be 64 hexadecimal digits and a signature
  to verify under the public key of its private key. Nothing is assumed about collisions.

  \<^bold>\<open>Not modelled.\<close>
  Floating point numbers and characters above 255 in documents; failures of file operations,
  locks and SQLite itself; Python's recursion limit. The order in which Python iterates over a set
  is the order of first insertion here, and where SQL leaves the order of rows open it is the
  order of insertion. The command line, the other generators, the harnesses that read suites from files or start
  subprocesses, and the rest of the daemons, the orchestrator and the tools are not modelled: they mostly
  drive processes, files and git.
\<close>

section \<open>The kernel language\<close>

subsection \<open>A program to apply the properties to\<close>

definition sum_def :: kdef where
  "sum_def = \<lparr>d_name = ''sum'', d_params = [list_in ''xs''], d_ret = IntType,
     d_body = MatchList (Var 0) (IntLit 0)
       (Prim (JStr ''add'') [Var 1, App (Sym ''sum'') [Var 0]]),
     d_term = \<lparr>t_kind = JStr ''structural'', t_decreases = JStr ''xs''\<rparr>\<rparr>"

definition sum_defs :: defs where
  "sum_defs = (\<lambda>n. if n = ''sum'' then Some sum_def else None)"

definition sum_types :: sym_types where
  "sum_types = (\<lambda>n. if n = ''sum'' then Some (FunType [ListType IntType] IntType) else None)"

definition two_list :: kterm where
  "two_list = ConsT (IntLit 4) (ConsT (IntLit 5) NilT)"

lemma sum_defs_ok: "defs_ok sum_types sum_defs"
  by (auto simp: defs_ok_def sum_types_def sum_defs_def sum_def_def def_type_def list_in_def
      typecheck_definition_def prim_sig_def py_index_def tc_ensure_def split: if_split_asm)

subsection \<open>Properties\<close>

text \<open>C1: a well typed term, run over well typed definitions in an environment of values
  of the expected types, returns a value of its type or stops with the step limit or a
  division by zero; no other error can occur.\<close>

theorem kernel_type_safety:
  assumes "defs_ok ST D" and "typecheck_term t \<Gamma> ST ex = Inr T"
    and "list_all2 (has_type ST) env \<Gamma>"
  shows "(\<exists>v. run_eval L D t env = Inr v \<and> has_type ST v T)
    \<or> run_eval L D t env \<in> {Inl (EvalError ''evaluation exceeded step limit''), Inl ZeroDivisionError}"
  using run_eval_sound [OF assms, of L] by (auto simp: sat_def split: sum.splits)

theorem kernel_type_safety_witness:
  "(\<exists>v. run_eval 30 sum_defs (App (Sym ''sum'') [Var 0]) [ListVal [IntVal 4, IntVal 5]] = Inr v
      \<and> has_type sum_types v IntType)
    \<or> run_eval 30 sum_defs (App (Sym ''sum'') [Var 0]) [ListVal [IntVal 4, IntVal 5]]
        \<in> {Inl (EvalError ''evaluation exceeded step limit''), Inl ZeroDivisionError}"
  by (rule kernel_type_safety [OF sum_defs_ok, of _ "[ListType IntType]" None])
    (simp_all add: sum_types_def py_index_def tc_ensure_def)

text \<open>C2: when every definition of a program is accepted by \<open>check_termination\<close>, calls only
  named functions, makes no self-call inside a \<open>match_list\<close> scrutinee, and the calls to other
  definitions are well founded, every first-order term has one outcome from some step limit
  on, and it is not the step limit.\<close>

theorem accepted_programs_halt:
  assumes "recursion_checked D" and "wf (calls D)" and "first_order t"
  shows "\<exists>L0 r. r \<noteq> Inl (EvalError ''evaluation exceeded step limit'')
    \<and> (\<forall>L \<ge> L0. run_eval L D t env = r)"
proof -
  have "halts D t env"
    using calls_halt [OF assms(3)] program_halts [OF assms(1,2)] by blast
  from halts_run_eval [OF this] show ?thesis by (auto simp: step_limit_error_def)
qed

theorem accepted_programs_halt_witness:
  "\<exists>L0 r. r \<noteq> Inl (EvalError ''evaluation exceeded step limit'')
    \<and> (\<forall>L \<ge> L0. run_eval L sum_defs (App (Sym ''sum'') [two_list]) [] = r)"
proof (rule accepted_programs_halt)
  show "recursion_checked sum_defs"
    by (simp add: recursion_checked_def sum_defs_def sum_def_def list_in_def check_termination_def
        Let_def check_self_call_def shift_def)
  have "calls sum_defs = {}" by (auto simp: calls_def sum_defs_def sum_def_def split: if_splits)
  then show "wf (calls sum_defs)" by simp
qed (simp add: two_list_def)

text \<open>C3: the side condition on the scrutinee is needed: the checker accepts
  \<open>f(xs) = match_list f(xs) with ...\<close>, and no step limit is enough to run it.\<close>

theorem accepted_but_never_halts:
  "check_termination loop_scrutinee = Inr () \<and>
   run_eval L (\<lambda>n. if n = ''f'' then Some loop_scrutinee else None) (App (Sym ''f'') [NilT]) []
     = Inl (EvalError ''evaluation exceeded step limit'')"
  using loop_scrutinee_accepted
    loop_scrutinee_loops [of "\<lambda>n. if n = ''f'' then Some loop_scrutinee else None" L]
  by (simp add: step_limit_error_def del: run_eval_def)

text \<open>A definition that calls itself through a computed function value is accepted too, and
  does not halt either.\<close>

theorem accepted_first_class_loop:
  "check_termination loop_first_class = Inr () \<and>
   run_eval L (\<lambda>n. if n = ''f'' then Some loop_first_class else None) (App (Sym ''f'') [NilT]) []
     = Inl (EvalError ''evaluation exceeded step limit'')"
  using loop_first_class_accepted
    loop_first_class_loops [of "\<lambda>n. if n = ''f'' then Some loop_first_class else None" L]
  by (simp add: step_limit_error_def del: run_eval_def)

text \<open>The evaluator always answers: the fuel given by the step limit is never used up.\<close>

theorem evaluator_total: "run_eval L D t env \<noteq> Inl OutOfFuel"
  by (rule run_eval_total)

text \<open>C4: a proof the checker accepts is of an equation whose sides evaluate to the same result
  under every step limit from the one it was checked with.\<close>

theorem accepted_proofs_sound:
  assumes "check_proof_spec spec D L = Inr w"
  shows "\<exists>lhs rhs. parse_term (jget (jget spec ''goal'') ''lhs'') [] = Inr lhs
    \<and> parse_term (jget (jget spec ''goal'') ''rhs'') [] = Inr rhs
    \<and> (\<forall>L' \<ge> L. run_eval L' D lhs [] = run_eval L' D rhs [])"
  using check_proof_sound [OF assms] by metis

definition sum_nil_spec :: json where
  "sum_nil_spec = JObj [(''kind'', JStr ''proof''),
     (''goal'', JObj [(''tag'', JStr ''eq''),
        (''lhs'', JObj [(''tag'', JStr ''app''), (''fn'', JObj [(''tag'', JStr ''sym''), (''name'', JStr ''sum'')]),
           (''args'', JList [JObj [(''tag'', JStr ''nil'')]])]),
        (''rhs'', JObj [(''tag'', JStr ''int''), (''value'', JInt 0)])]),
     (''proof'', JObj [(''tag'', JStr ''by_eval'')])]"

theorem accepted_proofs_sound_witness:
  "\<exists>lhs rhs. parse_term (jget (jget sum_nil_spec ''goal'') ''lhs'') [] = Inr lhs
    \<and> parse_term (jget (jget sum_nil_spec ''goal'') ''rhs'') [] = Inr rhs
    \<and> (\<forall>L' \<ge> 20. run_eval L' sum_defs lhs [] = run_eval L' sum_defs rhs [])"
proof (rule accepted_proofs_sound)
  show "check_proof_spec sum_nil_spec sum_defs 20 = Inr 5"
    by code_simp
qed

text \<open>C5: reading back a written document gives it with the keys of every object sorted.\<close>

theorem json_text_roundtrip:
  assumes "wf_json j"
  shows "loads (canonical_json_bytes j) = Inr (sort_keys j)"
  unfolding canonical_json_bytes_def using assms by (intro loads_dumps) (simp_all add: is_sep_def)

theorem json_text_roundtrip_witness:
  "loads (canonical_json_bytes sum_nil_spec) = Inr (sort_keys sum_nil_spec)"
  by (rule json_text_roundtrip) (simp add: sum_nil_spec_def)

text \<open>The JSON reader answers on every input: the fuel given by the length is enough.\<close>

theorem json_reader_total: "loads s \<noteq> Inl OutOfFuel"
  by (rule loads_total)

text \<open>C6: the dependencies the ledger records for a body are exactly the symbols of the term
  the parser builds from it.\<close>

theorem references_exact:
  assumes "parse_term body env = Inr t"
  shows "\<exists>rs. collect_sym_refs body = Inr rs \<and> distinct rs \<and> set rs = term_syms t"
  using assms by (rule collect_sym_refs_parsed)

theorem references_exact_witness:
  "\<exists>rs. collect_sym_refs (jget (jget sum_nil_spec ''goal'') ''lhs'') = Inr rs \<and> distinct rs
    \<and> set rs = term_syms (App (Sym ''sum'') [NilT])"
  by (rule references_exact [of _ "[]"])
    (simp add: sum_nil_spec_def parse_term.simps [of "JObj kvs" for kvs])

text \<open>The body of a parsed definition is closed over its parameters, whose names are
  distinct, and its return type is one the type syntax can express.\<close>

theorem parsed_definitions_wf:
  assumes "parse_definition j = Inr d"
  shows "distinct (map p_name (d_params d)) \<and> scoped (length (d_params d)) (d_body d)
    \<and> wf_type (d_ret d)"
  using assms by (rule parse_definition_wf)

definition id_json :: json where
  "id_json = JObj [(''name'', JStr ''id''),
     (''params'', JList [JObj [(''name'', JStr ''x''), (''type'', JObj [(''tag'', JStr ''int'')])]]),
     (''ret_type'', JObj [(''tag'', JStr ''int'')]),
     (''body'', JObj [(''tag'', JStr ''var''), (''name'', JStr ''x'')]),
     (''termination'', JObj [(''kind'', JStr ''structural''), (''decreases_param'', JNull)])]"

definition id_def :: kdef where
  "id_def = \<lparr>d_name = ''id'', d_params = [\<lparr>p_name = ''x'', p_typ = IntType\<rparr>], d_ret = IntType,
     d_body = Var 0, d_term = \<lparr>t_kind = JStr ''structural'', t_decreases = JNull\<rparr>\<rparr>"

lemma id_parses: "parse_definition id_json = Inr id_def"
  by code_simp

theorem parsed_definitions_wf_witness:
  "distinct (map p_name (d_params id_def)) \<and> scoped (length (d_params id_def)) (d_body id_def)
    \<and> wf_type (d_ret id_def)"
  by (rule parsed_definitions_wf [OF id_parses])

text \<open>C7: canonicalisation renames binders and nothing else: parsing the canonical form of a
  definition gives the parsed original with its parameters renamed by position, the same body
  and the same types.\<close>

theorem canonical_form_same_meaning:
  assumes "parse_definition j = Inr d" and "canonicalize_definition j = Inr c"
  shows "parse_definition c = Inr (canon_kdef d) \<and> d_body (canon_kdef d) = d_body d
    \<and> def_type (canon_kdef d) = def_type d"
  using canonicalize_definition_parse [OF assms] by (simp add: def_type_def)

definition id_canon :: json where
  "id_canon = JObj [(''name'', JStr ''id''),
     (''params'', JList [JObj [(''name'', JStr ''p0''), (''type'', JObj [(''tag'', JStr ''int'')])]]),
     (''ret_type'', JObj [(''tag'', JStr ''int'')]),
     (''body'', JObj [(''tag'', JStr ''var''), (''name'', JStr ''p0'')]),
     (''termination'', JObj [(''kind'', JStr ''structural''), (''decreases_param'', JNull)])]"

lemma id_canonicalizes: "canonicalize_definition id_json = Inr id_canon"
  by code_simp

theorem canonical_form_same_meaning_witness:
  "parse_definition id_canon = Inr (canon_kdef id_def) \<and> d_body (canon_kdef id_def) = d_body id_def
    \<and> def_type (canon_kdef id_def) = def_type id_def"
  by (rule canonical_form_same_meaning [OF id_parses id_canonicalizes])

text \<open>A type printed to JSON parses back to itself, for every type the parser can produce.\<close>

theorem type_json_roundtrip:
  assumes "type_from_json j = Inr t"
  shows "type_from_json (type_to_json t) = Inr t"
  using assms by (rule type_to_json_idem)

theorem type_json_roundtrip_witness:
  "type_from_json (type_to_json (FunType [IntType] BoolType)) = Inr (FunType [IntType] BoolType)"
proof (rule type_json_roundtrip)
  show "type_from_json (JObj [(''ret'', JObj [(''tag'', JStr ''bool'')]), (''tag'', JStr ''fun''),
    (''args'', JList [JObj [(''tag'', JStr ''int'')]])]) = Inr (FunType [IntType] BoolType)"
    by code_simp
qed

text \<open>The printed type that keys the type index determines the type, as long as no
  function type returns a function and none is without arguments.\<close>

theorem type_key_injective:
  assumes "flat_type t" and "flat_type u" and "type_norm t = type_norm u"
  shows "t = u"
  using assms by (rule type_norm_inj_on_flat)

theorem type_key_injective_witness:
  "PairType IntType (FunType [BoolType] IntType) = PairType IntType (FunType [BoolType] IntType)"
  by (rule type_key_injective) simp_all

text \<open>Without that restriction the key is ambiguous: a curried and an uncurried function
  type print alike.\<close>

theorem type_key_ambiguous:
  "type_norm (FunType [a] (FunType [b] c)) = type_norm (FunType [a, b] c)
    \<and> FunType [a] (FunType [b] c) \<noteq> FunType [a, b] c"
  by (simp add: type_norm_def)

text \<open>The type a definition is checked to have is not compared with the one it declares:
  an \<open>Int\<close> body passes the checker under every declared return type.\<close>

theorem return_type_not_compared:
  "typecheck_definition \<lparr>d_name = n, d_params = ps, d_ret = T, d_body = IntLit v, d_term = ti\<rparr> ST
    = Inr IntType"
  by (simp add: typecheck_definition_def)

section \<open>Specs\<close>

text \<open>C8: an accepted \<open>forall\<close> spec is true on every assignment of values within its bounds,
  and the work charged is the number of assignments.\<close>

theorem forall_specs_sound:
  assumes "check_forall spec D ST L work = Inr w"
  shows "\<exists>t types lo hi len fs domains. forall_parts spec t types lo hi len fs \<and> lo \<le> hi \<and> 0 \<le> len
    \<and> (\<forall>vs. list_all2 (in_domain lo hi len fs ST) vs types \<longrightarrow> run_eval L D t (rev vs) = Inr (BoolVal True))
    \<and> mapr (\<lambda>ty. domain_for_type ty lo hi len fs ST) types = Inr domains
    \<and> w = work + int (prod_list (map length domains))"
  using assms by (rule check_forall_sound)

definition id_spec :: json where
  "id_spec = JObj [(''kind'', JStr ''forall''),
     (''vars'', JList [JObj [(''name'', JStr ''x''), (''type'', JObj [(''tag'', JStr ''int'')])]]),
     (''domain'', JObj [(''int_min'', JInt (- 1)), (''int_max'', JInt 1), (''list_max_len'', JInt 0),
        (''fun_symbols'', JList [])]),
     (''assert'', JObj [(''tag'', JStr ''prim''), (''op'', JStr ''eq_int''), (''args'', JList
        [JObj [(''tag'', JStr ''app''), (''fn'', JObj [(''tag'', JStr ''sym''), (''name'', JStr ''id'')]),
           (''args'', JList [JObj [(''tag'', JStr ''var''), (''name'', JStr ''x'')]])],
         JObj [(''tag'', JStr ''var''), (''name'', JStr ''x'')]])])]"

theorem forall_specs_sound_witness:
  "\<exists>t types lo hi len fs domains. forall_parts id_spec t types lo hi len fs \<and> lo \<le> hi \<and> 0 \<le> len
    \<and> (\<forall>vs. list_all2 (in_domain lo hi len fs (\<lambda>_. None)) vs types
        \<longrightarrow> run_eval 20 (\<lambda>n. if n = ''id'' then Some id_def else None) t (rev vs) = Inr (BoolVal True))
    \<and> mapr (\<lambda>ty. domain_for_type ty lo hi len fs (\<lambda>_. None)) types = Inr domains
    \<and> 3 = 0 + int (prod_list (map length domains))"
proof (rule forall_specs_sound)
  show "check_forall id_spec (\<lambda>n. if n = ''id'' then Some id_def else None) (\<lambda>_. None) 20 0 = Inr 3"
    by code_simp
qed

text \<open>C9: no statistical certificate is accepted without a valid signature, by a key of the
  configuration, over the spec with the certificate's own signature field left out.\<close>

theorem unsigned_certificates_rejected:
  assumes "\<And>pk bytes. map_of (ctx_allowed_keys ctx) (the_str (jget (cert_of spec) ''key_id'')) = Some pk
      \<Longrightarrow> stat_cert_signing_bytes spec = Inr bytes
      \<Longrightarrow> \<not> x_ed25519_verifies X pk bytes (the_str (jget (cert_of spec) ''signature''))"
  shows "check_stat_cert_spec X spec D ctx k \<noteq> Inr n"
  using check_stat_cert_signed [of X spec D ctx k n] assms by blast

definition forged_spec :: json where
  "forged_spec = JObj [(''kind'', JStr ''stat_cert''), (''certificate'', JObj
     [(''key_id'', JStr ''k''), (''signature'', JStr ''s'')])]"

definition forged_context :: stat_cert_context where
  "forged_context = \<lparr>ctx_alpha_total = Fin False 1 (- 4),
     ctx_alpha_schedule = \<lparr>as_name = ''p_series'', as_exponent = 2, as_coefficient = Fin False 1 0\<rparr>,
     ctx_round_start = 1, ctx_allowed_keys = [(''k'', ''pk'')], ctx_eval_harness_id = ''h'',
     ctx_eval_harness_hash = ''hh'', ctx_eval_suite_hash = ''sh''\<rparr>"

theorem unsigned_certificates_rejected_witness:
  "check_stat_cert_spec \<lparr>x_blake3 = id, x_crypto_available = True,
     x_ed25519_verifies = (\<lambda>pk bytes s. s = pk @ bytes)\<rparr> forged_spec (\<lambda>_. None) forged_context 1 \<noteq> Inr 1"
proof (rule unsigned_certificates_rejected)
  fix pk bytes
  assume "stat_cert_signing_bytes forged_spec = Inr bytes"
  then have "bytes \<noteq> []"
    by (auto simp: forged_spec_def stat_cert_signing_bytes_def stat_cert_signing_payload_def canon_bytes_def utf8_def jor_def)
  moreover assume "map_of (ctx_allowed_keys forged_context) (the_str (jget (cert_of forged_spec) ''key_id'')) = Some pk"
  ultimately show "\<not> x_ed25519_verifies \<lparr>x_blake3 = id, x_crypto_available = True,
     x_ed25519_verifies = (\<lambda>pk bytes s. s = pk @ bytes)\<rparr> pk bytes (the_str (jget (cert_of forged_spec) ''signature''))"
    by (auto simp: forged_context_def forged_spec_def cert_of_def jor_def)
qed

section \<open>The ledger\<close>

subsection \<open>A ledger to apply the properties to\<close>

text \<open>A stand-in for the hash: 64 hexadecimal digits that depend on the length of the text.\<close>

definition demo_hash :: "string \<Rightarrow> string" where
  "demo_hash s = replicate 63 (CHR ''0'') @ [''0123456789abcdef'' ! (length s mod 16)]"

definition demo_externals :: externals where
  "demo_externals = \<lparr>x_blake3 = demo_hash, x_crypto_available = False, x_ed25519_verifies = (\<lambda>_ _ _. False)\<rparr>"

definition demo_data :: json where
  "demo_data = JObj [(''ledger'', JObj [(''budget'', JInt 100)]),
     (''evaluator'', JObj [(''step_limit'', JInt 20)]),
     (''cost'', JObj [(''alpha'', JInt 1), (''beta'', JInt 1), (''gamma'', JInt 1)])]"

definition demo_payload :: json where
  "demo_payload = JObj [(''new_symbols'', JList [JStr ''id'']), (''definitions'', JList [id_json]),
     (''declared_deps'', JList []), (''specs'', JList [id_spec])]"

definition demo_module :: json where
  "demo_module = JObj [(''schema_version'', JInt 1), (''dsl_version'', JInt 1),
     (''parent'', JStr ''GENESIS''), (''payload'', demo_payload)]"

definition demo_start :: ledger where
  "demo_start = \<lparr>l_files = init_storage empty_files, l_index = empty_db\<rparr>"

definition accepted_summary :: "verification_result res \<Rightarrow> (int \<times> int) option" where
  "accepted_summary r = (case r of Inr (Accepted m) \<Rightarrow> Some (am_cost m, am_stat_cert_count m) | _ \<Rightarrow> None)"

lemma demo_verifies:
  "accepted_summary (fst (verify_module demo_externals demo_data demo_start demo_module)) = Some (6, 0)"
  by code_simp

lemma demo_accepted:
  obtains m W where "verify_module demo_externals demo_data demo_start demo_module = (Inr (Accepted m), W)"
    "am_cost m = 6" "am_stat_cert_count m = 0"
  using demo_verifies
  by (cases "verify_module demo_externals demo_data demo_start demo_module")
    (auto simp: accepted_summary_def split: sum.split_asm verification_result.split_asm)

lemma demo_hex: "hex_hash (x_blake3 demo_externals)"
proof -
  have "''0123456789abcdef'' ! (length s mod 16) \<in> set ''0123456789abcdef''" for s :: string
    by (intro nth_mem) simp
  then show ?thesis by (auto simp: hex_hash_def demo_externals_def demo_hash_def)
qed

lemma demo_budget: "budget_ok demo_data"
  by (simp add: budget_ok_def demo_data_def config_int_def jitem_def)

lemma demo_files_ok: "files_ok X (l_files demo_start) []"
  by (simp add: demo_start_def files_ok_start)

subsection \<open>Commits\<close>

text \<open>C10: every ledger that commits can produce is consistent: its order log lists distinct
  hashes, each naming an object of canonical bytes with that hash, and the index has unique
  keys, no dangling reference and a budget that is not negative.\<close>

theorem committed_ledgers_ok:
  assumes "reachable X data W" and "hex_hash (x_blake3 X)" and "budget_ok data"
  shows "\<exists>hs. files_ok X (l_files W) hs \<and> index_ok (l_index W) hs"
  using reachable_ok [OF assms] by (simp add: ledger_ok_def)

theorem committed_ledgers_ok_witness:
  "\<exists>hs. files_ok demo_externals (l_files (snd (commit_module demo_externals demo_data 7 demo_start demo_module))) hs
    \<and> index_ok (l_index (snd (commit_module demo_externals demo_data 7 demo_start demo_module))) hs"
proof (rule committed_ledgers_ok [OF _ demo_hex demo_budget])
  show "reachable demo_externals demo_data (snd (commit_module demo_externals demo_data 7 demo_start demo_module))"
    by (rule reachable.commit [OF reachable.start, folded demo_start_def]) (rule prod.collapse [symmetric])
qed

text \<open>C11: the files of a ledger implement an append-only list of canonical payloads under their
  hashes: a commit leaves the list as it was or adds one entry under a hash that is not in it, and
  the head is the hash of the last entry.\<close>

theorem ledger_is_append_only:
  assumes "reachable X data W" and "hex_hash (x_blake3 X)" and "budget_ok data"
    and "commit_module X data now W module = (r, W')"
  shows "extends (x_blake3 X) (history (l_files W)) (history (l_files W'))
    \<and> read_head (l_files W') = history_head (history (l_files W'))"
proof -
  from reachable_ok [OF assms(1-3)] obtain hs where "files_ok X (l_files W) hs" by (auto simp: ledger_ok_def)
  then have step: "extends (x_blake3 X) (history (l_files W)) (history (l_files W'))"
    by (rule commit_extends [OF assms(4) _ assms(2)])
  from reachable_ok [OF reachable.commit [OF assms(1,4)] assms(2,3)] obtain hs'
    where "files_ok X (l_files W') hs'" by (auto simp: ledger_ok_def)
  with step history_head_ok [OF this] show ?thesis by blast
qed

theorem ledger_is_append_only_witness:
  "extends demo_hash (history (l_files demo_start))
      (history (l_files (snd (commit_module demo_externals demo_data 7 demo_start demo_module))))
    \<and> read_head (l_files (snd (commit_module demo_externals demo_data 7 demo_start demo_module)))
      = history_head (history (l_files (snd (commit_module demo_externals demo_data 7 demo_start demo_module))))"
proof -
  have "reachable demo_externals demo_data demo_start" unfolding demo_start_def by (rule reachable.start)
  moreover have "demo_hash = x_blake3 demo_externals" by (simp add: demo_externals_def)
  ultimately show ?thesis using ledger_is_append_only [OF _ demo_hex demo_budget prod.collapse [symmetric]] by simp
qed

text \<open>C12: committing an accepted module appends its hash to the order log and moves the head to
  it; its object holds the canonical bytes of the payload, and every other object stays as it was.\<close>

theorem commit_appends:
  assumes "verify_module X data W module = (Inr (Accepted m), W1)"
    and "files_ok X (l_files W) hs" and "hex_hash (x_blake3 X)"
  shows "iter_order_log (l_files (snd (commit_module X data now W module))) = hs @ [am_payload_hash m]
    \<and> read_head (l_files (snd (commit_module X data now W module))) = am_payload_hash m
    \<and> am_payload_hash m = x_blake3 X (canonical_json_bytes (am_payload m)) \<and> am_payload_hash m \<notin> set hs
    \<and> read_object (l_files (snd (commit_module X data now W module))) (am_payload_hash m)
        = Inr (canonical_json_bytes (am_payload m))
    \<and> (\<forall>h. h \<noteq> am_payload_hash m \<longrightarrow>
        read_object (l_files (snd (commit_module X data now W module))) h = read_object (l_files W) h)"
  using assms
proof (rule commit_accepted [where now = now])
  fix n db F
  assume "am_payload_hash m \<notin> set hs" and F: "files_ok X F (hs @ [am_payload_hash m])"
    and "lf_objects F = (lf_objects (l_files W))(object_path (am_payload_hash m) := Some (am_payload_bytes m))"
    and "am_payload_bytes m = canonical_json_bytes (am_payload m)" "am_payload_hash m = x_blake3 X (am_payload_bytes m)"
    and "commit_module X data now W module = (Inr (Accepted m), \<lparr>l_files = F, l_index =
       (case commit_index data (parent_of module) now m (def_hashes_of X m) n db of Inl e \<Rightarrow> db | Inr db' \<Rightarrow> db')\<rparr>)"
  with files_ok_order [OF F] files_ok_head [OF F] show ?thesis by (simp add: read_object_def object_path_inj)
qed

theorem commit_appends_witness:
  "\<exists>m :: accepted_module. iter_order_log (l_files (snd (commit_module demo_externals demo_data 7 demo_start demo_module)))
      = [] @ [am_payload_hash m]
    \<and> read_head (l_files (snd (commit_module demo_externals demo_data 7 demo_start demo_module))) = am_payload_hash m
    \<and> am_payload_hash m = x_blake3 demo_externals (canonical_json_bytes (am_payload m))"
proof (rule demo_accepted)
  fix m W
  assume "verify_module demo_externals demo_data demo_start demo_module = (Inr (Accepted m), W)"
  note facts = commit_appends [OF this demo_files_ok demo_hex, of 7]
  show ?thesis by (intro exI [of _ m] conjI) (rule facts [THEN conjunct1]
    facts [THEN conjunct2, THEN conjunct1] facts [THEN conjunct2, THEN conjunct2, THEN conjunct1])+
qed





text \<open>C15: in every ledger that commits can produce the budget that is left and the costs of the
  indexed modules add up to the configured budget, and what is left is not negative.\<close>

theorem budget_conserved:
  assumes "reachable X data W" and "hex_hash (x_blake3 X)" and "budget_ok data"
    and "ix_budget (l_index W) = Some n"
  shows "config_int data ''ledger'' ''budget'' = Inr (n + total_cost (l_index W)) \<and> 0 \<le> n \<and> n < 2 ^ 63"
  using reachable_accounted [OF assms(1-3)] reachable_budget_bounds [OF assms] assms(4)
  by (simp add: budget_accounted_def)

theorem budget_conserved_witness:
  "config_int demo_data ''ledger'' ''budget'' = Inr (94 + total_cost (l_index (snd (commit_module
      demo_externals demo_data 7 demo_start demo_module)))) \<and> (0 :: int) \<le> 94 \<and> (94 :: int) < 2 ^ 63"
proof (rule budget_conserved [OF _ demo_hex demo_budget])
  show "reachable demo_externals demo_data (snd (commit_module demo_externals demo_data 7 demo_start demo_module))"
    by (rule reachable.commit [OF reachable.start, folded demo_start_def]) (rule prod.collapse [symmetric])
  show "ix_budget (l_index (snd (commit_module demo_externals demo_data 7 demo_start demo_module))) = Some 94"
    by code_simp
qed

text \<open>C16: a module is accepted at most once: after its commit the head has moved past its parent,
  and verifying it again is refused with \<open>PARENT_MISMATCH\<close>.\<close>

theorem commit_once:
  assumes "commit_module X data now W module = (Inr (Accepted m), W')"
    and "files_ok X (l_files W) hs" and "hex_hash (x_blake3 X)"
  shows "verify_module X data W' module = (Inr (reject_because PARENT_MISMATCH ''parent does not match head''
    (Some (''expected '' @ am_payload_hash m))), W')"
  using assms by (rule commit_twice)

theorem commit_once_witness:
  "\<exists>m W'. commit_module demo_externals demo_data 7 demo_start demo_module = (Inr (Accepted m), W')
    \<and> verify_module demo_externals demo_data W' demo_module = (Inr (reject_because PARENT_MISMATCH
      ''parent does not match head'' (Some (''expected '' @ am_payload_hash m))), W')"
proof (rule demo_accepted)
  fix m W
  assume "verify_module demo_externals demo_data demo_start demo_module = (Inr (Accepted m), W)"
  then obtain W' where c: "commit_module demo_externals demo_data 7 demo_start demo_module = (Inr (Accepted m), W')"
    using demo_files_ok demo_hex by (rule commit_accepted [where now = 7])
  from commit_once [OF c demo_files_ok demo_hex] c show ?thesis by blast
qed

subsection \<open>Recursion\<close>

text \<open>C17: the mutual recursion check is exact: it passes just when the calls among the new
  definitions, each to another one of them, form no cycle.\<close>

theorem mutual_recursion_check_exact:
  "check_no_mutual_recursion defs = Inr () \<longleftrightarrow> acyclic {(f, g). \<exists>d. map_of defs f = Some d
     \<and> g \<in> set (collect_calls (d_body d)) \<and> g \<in> fst ` set defs \<and> g \<noteq> f}"
  using check_no_mutual_recursion_iff [of defs] by (simp add: new_calls_def)

subsection \<open>Audits\<close>

definition demo_bytes :: string where
  "demo_bytes = (case canonicalize_payload (JObj [(''new_symbols'', JList [JStr ''id'']),
     (''definitions'', JList [id_json])]) of Inr p \<Rightarrow> canonical_json_bytes p | Inl e \<Rightarrow> [])"

definition demo_files :: ledger_files where
  "demo_files = snd (append_order_log (demo_hash demo_bytes)
     (write_object (demo_hash demo_bytes) demo_bytes (init_storage empty_files)))"

definition audited :: "audit_state res \<Rightarrow> (string \<times> bool) list" where
  "audited r = (case r of Inl e \<Rightarrow> []
     | Inr S \<Rightarrow> map (\<lambda>(f, d). (f, first_order (d_body d) \<and> guarded f (d_body d))) (au_defs S))"

lemma demo_audits:
  "audited (audit_modules demo_externals demo_data demo_files True (iter_order_log demo_files) audit_start)
    = [(''id'', True)]"
  by code_simp

lemma demo_audited:
  obtains S where
    "audit_modules demo_externals demo_data demo_files True (iter_order_log demo_files) audit_start = Inr S"
    "\<forall>f d. map_of (au_defs S) f = Some d \<longrightarrow> first_order (d_body d) \<and> guarded f (d_body d)"
proof -
  obtain S where S: "audit_modules demo_externals demo_data demo_files True (iter_order_log demo_files) audit_start = Inr S"
    using demo_audits
    by (cases "audit_modules demo_externals demo_data demo_files True (iter_order_log demo_files) audit_start")
      (simp_all add: audited_def)
  have "\<forall>x \<in> set (audited (Inr S)). snd x" using demo_audits by (simp add: S)
  then have "\<forall>(f, d) \<in> set (au_defs S). first_order (d_body d) \<and> guarded f (d_body d)"
    by (auto simp: audited_def)
  then have "\<forall>f d. map_of (au_defs S) f = Some d \<longrightarrow> first_order (d_body d) \<and> guarded f (d_body d)"
    by (auto dest: map_of_SomeD)
  with S that show thesis by blast
qed

text \<open>C18: after a full audit, the program of the ledger halts: if its definitions are first order and
  guarded, every first-order term over them has an outcome other than the step limit.
  No well-foundedness is assumed: the audit establishes it.\<close>

theorem audited_programs_halt:
  assumes "audit_modules X data F True (iter_order_log F) audit_start = Inr S"
    and "\<forall>f d. map_of (au_defs S) f = Some d \<longrightarrow> first_order (d_body d) \<and> guarded f (d_body d)"
    and "first_order t"
  shows "\<exists>L0 r. r \<noteq> Inl (EvalError ''evaluation exceeded step limit'')
    \<and> (\<forall>L \<ge> L0. run_eval L (map_of (au_defs S)) t env = r)"
proof -
  have ok: "program_ok (map_of (au_defs S))"
    using audit_modules_inv [OF assms(1) audit_start_inv] by (simp add: audit_inv_def)
  then have "recursion_checked (map_of (au_defs S))" "wf (calls (map_of (au_defs S)))"
    using assms(2) unfolding recursion_checked_def program_ok_def by blast+
  then have "halts (map_of (au_defs S)) t env"
    using calls_halt [OF assms(3)] program_halts by blast
  from halts_run_eval [OF this] show ?thesis by (auto simp: step_limit_error_def)
qed

theorem audited_programs_halt_witness:
  "\<exists>S. audit_modules demo_externals demo_data demo_files True (iter_order_log demo_files) audit_start = Inr S
    \<and> (\<exists>L0 r. r \<noteq> Inl (EvalError ''evaluation exceeded step limit'')
      \<and> (\<forall>L \<ge> L0. run_eval L (map_of (au_defs S)) (App (Sym ''id'') [IntLit 3]) [] = r))"
proof (rule demo_audited)
  fix S
  assume S: "audit_modules demo_externals demo_data demo_files True (iter_order_log demo_files) audit_start = Inr S"
    and "\<forall>f d. map_of (au_defs S) f = Some d \<longrightarrow> first_order (d_body d) \<and> guarded f (d_body d)"
  from audited_programs_halt [OF this, of "App (Sym ''id'') [IntLit 3]" "[]"] S show ?thesis by auto
qed

text \<open>C19: the audit, fast or full, detects tampering: it succeeds only if every hash of the order log names
  an object that is the canonical form of a payload and has that hash.\<close>

theorem audit_detects_tampering:
  assumes "audit_modules X data F full (iter_order_log F) audit_start = Inr S" and "h \<in> set (iter_order_log F)"
  shows "\<exists>p b. read_object F h = Inr b \<and> canonical_json_bytes p = b \<and> x_blake3 X b = h
    \<and> (\<exists>raw. canonicalize_payload raw = Inr p)"
  using assms by (rule audit_modules_objects)

theorem audit_detects_tampering_witness:
  "\<exists>p b. read_object demo_files (demo_hash demo_bytes) = Inr b \<and> canonical_json_bytes p = b
    \<and> x_blake3 demo_externals b = demo_hash demo_bytes \<and> (\<exists>raw. canonicalize_payload raw = Inr p)"
proof (rule demo_audited)
  fix S
  assume S: "audit_modules demo_externals demo_data demo_files True (iter_order_log demo_files) audit_start = Inr S"
  have clean: "clean (demo_hash s)" "demo_hash s \<noteq> []" for s
    using hex_hash_clean(1) [OF demo_hex, of s] by (simp_all add: demo_externals_def demo_hash_def)
  have "lf_order_log (write_object h b (init_storage empty_files)) = Some (log_text [])" for h b
    by (simp add: write_object_def init_storage_def empty_files_def log_text_def Let_def)
  from append_order_log_text [OF this, of "demo_hash demo_bytes"] clean(2) have
    "lf_order_log demo_files = Some (log_text [demo_hash demo_bytes])"
    by (simp add: demo_files_def)
  then have "iter_order_log demo_files = [demo_hash demo_bytes]"
    using clean(1) by (intro iter_order_log_text) simp_all
  then have "demo_hash demo_bytes \<in> set (iter_order_log demo_files)" by simp
  from audit_detects_tampering [OF S this] show ?thesis .
qed

subsection \<open>Dependency closures\<close>

text \<open>C20: the closure that evaluation loads is exactly what the recorded dependencies reach from the
  requested symbols, and each of its symbols is looked up once.\<close>

theorem closure_is_reachability:
  assumes "distinct symbols"
  shows "set (compute_closure db symbols) = (set (ix_sym_deps db))\<^sup>* `` set symbols
    \<and> distinct (compute_closure db symbols)
    \<and> snd (compute_closure_with_stats db symbols) = int (length (compute_closure db symbols))"
  using compute_closure_reach [of db symbols] closure_lookups [OF assms, of db] by (simp add: dep_edges_def)

definition chain_db :: index_db where
  "chain_db = empty_db\<lparr>ix_sym_deps := [(''f'', ''g''), (''g'', ''h''), (''k'', ''f'')]\<rparr>"

theorem closure_is_reachability_witness:
  "(set (ix_sym_deps chain_db))\<^sup>* `` {''f''} = {''f'', ''g'', ''h''}
    \<and> snd (compute_closure_with_stats chain_db [''f'']) = 3"
proof -
  have "compute_closure chain_db [''f''] = [''f'', ''g'', ''h'']" by code_simp
  with closure_is_reachability [of "[''f'']" chain_db] show ?thesis by simp
qed




subsection \<open>The index\<close>

text \<open>C22: a successful rebuild leaves the index without the state of the certificate rounds: the alpha
  already spent is forgotten.\<close>

theorem rebuild_forgets_certificates:
  assumes "rebuild_index X data now W = (Inr (), W')"
  shows "get_stat_cert_state (l_index W') = None"
  using rebuild_index_stat [OF assms] by (simp add: get_stat_cert_state_def)

definition spent_ledger :: ledger where
  "spent_ledger = \<lparr>l_files = init_storage empty_files,
     l_index = empty_db\<lparr>ix_stat_cert_state := Some (5, ''0.00009'')\<rparr>\<rparr>"

theorem rebuild_forgets_certificates_witness:
  "get_stat_cert_state (l_index (snd (rebuild_index demo_externals demo_data 7 spent_ledger))) = None"
proof (rule rebuild_forgets_certificates)
  have "fst (rebuild_index demo_externals demo_data 7 spent_ledger) = Inr ()" by code_simp
  then show "rebuild_index demo_externals demo_data 7 spent_ledger
      = (Inr (), snd (rebuild_index demo_externals demo_data 7 spent_ledger))"
    by (simp add: prod_eq_iff)
qed

text \<open>For a prefix without the wildcards of SQL, the prefix search returns exactly the symbols that
  start with it, up to the case of letters, in ascending order.\<close>

theorem prefix_search_exact:
  assumes "plain prefix" and "limit < 0"
  shows "set (search_symbols_by_prefix db prefix limit)
      = {s \<in> sr_symbol ` set (ix_symbols db). map fold_case (take (length prefix) s) = map fold_case prefix}
    \<and> sorted (search_symbols_by_prefix db prefix limit)"
  using assms by (auto simp: search_symbols_by_prefix_def sql_limit_def like_plain)

definition two_symbols :: index_db where
  "two_symbols = empty_db\<lparr>ix_symbols :=
     [\<lparr>sr_symbol = ''a_b1'', sr_module_hash = ''h'', sr_type_norm = ''Int'', sr_def_hash = None\<rparr>,
      \<lparr>sr_symbol = ''axb2'', sr_module_hash = ''h'', sr_type_norm = ''Int'', sr_def_hash = None\<rparr>]\<rparr>"

theorem prefix_search_exact_witness:
  "set (search_symbols_by_prefix two_symbols ''ax'' (- 1))
      = {s \<in> {''a_b1'', ''axb2''}. map fold_case (take (length ''ax'') s) = map fold_case ''ax''}"
  using prefix_search_exact [of "''ax''" "- 1" two_symbols] by (simp add: plain_def two_symbols_def del: length_Cons list.size)

text \<open>An underscore in the prefix is a wildcard: searching for \<open>a_b\<close> also returns \<open>axb2\<close>.\<close>

theorem prefix_search_wildcard:
  "search_symbols_by_prefix two_symbols ''a_b'' 10 = [''a_b1'', ''axb2'']"
  by code_simp

text \<open>\<open>alias_target\<close> finds exactly the definitions that pass their parameters on, unchanged and
  in order, to a named function.\<close>

theorem alias_passes_parameters:
  "alias_target d = Some g \<longleftrightarrow> (\<exists>args. d_body d = App (Sym g) args \<and> length args = length (d_params d)
     \<and> (\<forall>vs. length vs = length (d_params d)
        \<longrightarrow> map (var_value (push_front_all vs)) args = map Some vs))"
  using alias_target_iff [of d g] by (simp add: passes_params_def)

definition alias_def :: kdef where
  "alias_def = \<lparr>d_name = ''alias'', d_params = [\<lparr>p_name = ''a'', p_typ = IntType\<rparr>, \<lparr>p_name = ''b'', p_typ = IntType\<rparr>],
     d_ret = IntType, d_body = App (Sym ''plus'') [Var 1, Var 0],
     d_term = \<lparr>t_kind = JStr ''structural'', t_decreases = JNull\<rparr>\<rparr>"

theorem alias_passes_parameters_witness:
  "\<exists>args. d_body alias_def = App (Sym ''plus'') args
     \<and> map (var_value (push_front_all [IntVal 3, IntVal 4])) args = [Some (IntVal 3), Some (IntVal 4)]"
proof -
  have "alias_target alias_def = Some ''plus''" by code_simp
  then obtain args where "d_body alias_def = App (Sym ''plus'') args" and length: "length args = 2"
    and passes: "\<forall>vs. length vs = 2 \<longrightarrow> map (var_value (push_front_all vs)) args = map Some vs"
    unfolding alias_passes_parameters by (auto simp: alias_def_def)
  moreover have "map (var_value (push_front_all [IntVal 3, IntVal 4])) args = map Some [IntVal 3, IntVal 4]"
    by (rule passes [rule_format]) simp
  ultimately show ?thesis by auto
qed



end
